(* ===== verification/Pbs_Prelude.thy ===== *)
theory Pbs_Prelude
  imports Main "HOL-Library.Word" "HOL-Library.Sublist" "HOL-Library.Char_ord"
    "HOL-Library.List_Lexorder"
begin

text \<open>
  The shared vocabulary of the development.  Bytes and wider machine integers are words of
  HOL-Library.Word, C++ strings are lists of 8-bit characters, and an access that is
  undefined behaviour in C++ (an unchecked \<open>operator[]\<close> past the end) is the value
  \<open>None\<close> of an option.  The theory also holds the model of the C++ standard library
  routines several components call (stream formatting in hexadecimal and decimal,
  \<open>std::stoi\<close>, \<open>std::atoi\<close>) and the theorem collections.
\<close>

unbundle bit_operations_syntax

type_synonym byte = "8 word"
type_synonym u16 = "16 word"
type_synonym u32 = "32 word"
type_synonym u64 = "64 word"

named_theorems pbs_simps \<open>characteristic equations used by the component proofs\<close>
named_theorems queue_simps \<open>effects of operations on the command queues\<close>
named_theorems frame_simps \<open>shape of wire frames\<close>

text \<open>A property of both branches of a conditional, as an introduction rule for long chains of
  guards.\<close>

lemma prop_if: "Q a \<Longrightarrow> Q b \<Longrightarrow> Q (if c then a else b)"
  by simp

section \<open>Checked indexing\<close>

text \<open>\<open>nth_opt xs i\<close> is \<open>xs[i]\<close> of an unchecked C++ vector: \<open>None\<close> where the access is
  undefined behaviour.\<close>

fun nth_opt :: "'a list \<Rightarrow> nat \<Rightarrow> 'a option" where
  "nth_opt [] i = None"
| "nth_opt (x # xs) 0 = Some x"
| "nth_opt (x # xs) (Suc i) = nth_opt xs i"

lemma nth_opt_conv: "nth_opt xs i = (if i < length xs then Some (xs ! i) else None)"
  by (induction xs i rule: nth_opt.induct) auto

lemma nth_opt_append:
  "nth_opt (xs @ ys) i = (if i < length xs then nth_opt xs i else nth_opt ys (i - length xs))"
  by (auto simp: nth_opt_conv nth_append)

lemma nth_opt_Some: "nth_opt xs i = Some x \<longleftrightarrow> i < length xs \<and> x = xs ! i"
  by (auto simp: nth_opt_conv)

lemma nth_opt_None [simp]: "nth_opt xs i = None \<longleftrightarrow> length xs \<le> i"
  by (auto simp: nth_opt_conv)

text \<open>The sub-range \<open>[first, first + n)\<close> of a vector, undefined when it leaves the vector.\<close>

definition slice_opt :: "'a list \<Rightarrow> nat \<Rightarrow> nat \<Rightarrow> 'a list option" where
  "slice_opt xs first n =
     (if first + n \<le> length xs then Some (take n (drop first xs)) else None)"

lemma slice_opt_length: "slice_opt xs i n = Some ys \<Longrightarrow> length ys = n"
  by (auto simp: slice_opt_def split: if_splits)

lemma slice_opt_append3:
  "length xs = i \<Longrightarrow> length ys = n \<Longrightarrow> slice_opt (xs @ ys @ zs) i n = Some ys"
  by (simp add: slice_opt_def)

section \<open>Stream formatting\<close>

text \<open>\<open>std::setw(w) << std::setfill(c)\<close> applied to an already formatted item: pad on the
  left up to the width, never truncate.\<close>

definition setw_fill :: "nat \<Rightarrow> char \<Rightarrow> string \<Rightarrow> string" where
  "setw_fill w c s = replicate (w - length s) c @ s"

lemma length_setw_fill [simp]: "length (setw_fill w c s) = max w (length s)"
  by (simp add: setw_fill_def)

lemma setw_fill_wide [simp]: "w \<le> length s \<Longrightarrow> setw_fill w c s = s"
  by (simp add: setw_fill_def)

fun hex_digit :: "nat \<Rightarrow> char" where
  "hex_digit n = ''0123456789abcdef'' ! (n mod 16)"

fun hex_nat :: "nat \<Rightarrow> string" where
  "hex_nat n = (if n < 16 then [hex_digit n] else hex_nat (n div 16) @ [hex_digit (n mod 16)])"

fun dec_nat :: "nat \<Rightarrow> string" where
  "dec_nat n =
     (if n < 10 then [char_of (48 + n)] else dec_nat (n div 10) @ [char_of (48 + n mod 10)])"

declare hex_digit.simps [simp del] hex_nat.simps [simp del] dec_nat.simps [simp del]

definition dec_int :: "int \<Rightarrow> string" where
  "dec_int i = (if i < 0 then CHR ''-'' # dec_nat (nat (- i)) else dec_nat (nat i))"

lemma hex_digit_mod [simp]: "hex_digit (n mod 16) = hex_digit n"
  by (simp add: hex_digit.simps)

lemma hex_nat_nonempty [simp]: "hex_nat n \<noteq> []"
  by (subst hex_nat.simps) simp

lemma dec_nat_nonempty [simp]: "dec_nat n \<noteq> []"
  by (subst dec_nat.simps) simp

text \<open>Signed and unsigned readings of a byte.\<close>

lemma unat_lt_numeral: "unat (b :: 'a :: len word) < numeral k \<longleftrightarrow> uint b < numeral k"
proof -
  have "uint b < numeral k \<longleftrightarrow> int (unat b) < int (numeral k)" by simp
  also have "\<dots> \<longleftrightarrow> unat b < numeral k" by (rule of_nat_less_iff)
  finally show ?thesis by (rule sym)
qed

lemma sint_byte: "sint (b :: byte) = (if uint b < 128 then uint b else uint b - 256)"
proof -
  have lt: "uint b < 256" and ge: "0 \<le> uint b" using uint_lt2p [of b] by simp_all
  have s: "sint b = (uint b + 128) mod 256 - 128"
    by (simp add: sint_uint signed_take_bit_eq_take_bit_shift take_bit_eq_mod)
  show ?thesis
  proof (cases "uint b < 128")
    case True
    with s ge show ?thesis by simp
  next
    case False
    have "(uint b - 128 + 256) mod 256 = (uint b - 128) mod 256" by (rule mod_add_self2)
    moreover have "uint b - 128 + 256 = uint b + 128" by simp
    ultimately have "(uint b + 128) mod 256 = uint b - 128" using False lt by simp
    then show ?thesis using s False by simp
  qed
qed

lemma scast_small: "uint (b :: byte) < 128 \<Longrightarrow> (scast b :: u32) = ucast b"
  by (simp only: scast_eq sint_byte if_True ucast_eq)

lemma uint_scast_byte: "128 \<le> uint (b :: byte) \<Longrightarrow> uint (scast b :: u32) = 4294967040 + uint b"
proof -
  assume b: "128 \<le> uint b"
  have lt: "uint b < 256" using uint_lt2p [of b] by simp
  have "uint (scast b :: u32) = (uint b - 256) mod 2 ^ 32"
    using b by (simp only: scast_eq sint_byte if_False uint_word_of_int not_less) simp
  also have "(uint b - 256) mod 2 ^ 32 = (uint b - 256 + 2 ^ 32) mod 2 ^ 32"
    by (rule mod_add_self2 [symmetric])
  also have "\<dots> = 4294967040 + uint b" using b lt by simp
  finally show ?thesis .
qed

text \<open>Two hexadecimal digits of a byte: what \<open>setw(2) << setfill('0') << hex\<close> prints for a
  value below 256.\<close>

definition hex2 :: "byte \<Rightarrow> string" where
  "hex2 b = setw_fill 2 (CHR ''0'') (hex_nat (unat b))"

lemma unat_byte_bound [simp]: "unat (b :: byte) < 256"
proof -
  have "unat b < 2 ^ LENGTH(8)" by (rule unsigned_less)
  then show ?thesis by simp
qed

lemma hex2_digits: "hex2 b = [hex_digit (unat b div 16), hex_digit (unat b)]"
proof (cases "unat b < 16")
  case True
  then show ?thesis
    by (simp add: hex2_def setw_fill_def hex_nat.simps [of "unat b"] hex_digit.simps [of 0])
next
  case False
  have "unat b div 16 < 16" using unat_byte_bound [of b] by (simp add: div_less_iff_less_mult)
  with False show ?thesis
    by (simp add: hex2_def setw_fill_def hex_nat.simps [of "unat b"]
        hex_nat.simps [of "unat b div 16"])
qed

lemma length_hex2 [simp]: "length (hex2 b) = 2"
  by (simp add: hex2_digits)

lemma hex_digit_div [simp]: "hex_digit (n div 16 mod 16) = hex_digit (n div 16)"
  by (simp add: hex_digit.simps)

section \<open>Number parsing\<close>

text \<open>
  \<open>std::stoi\<close>, \<open>std::stoul\<close> and \<open>std::atoi\<close> share the grammar of \<open>strtol\<close>: leading
  white space, an optional sign, for base 16 an optional \<open>0x\<close>, then the longest run of
  digits of the base; what follows is ignored.  \<open>strtol_opt\<close> is \<open>None\<close> where no digit is
  found (\<open>stoi\<close> throws \<open>invalid_argument\<close>, \<open>atoi\<close> returns 0).
\<close>

definition is_space :: "char \<Rightarrow> bool" where
  "is_space c \<longleftrightarrow> of_char c \<in> {9, 10, 11, 12, 13, 32 :: nat}"

definition digit_val :: "char \<Rightarrow> nat" where
  "digit_val c =
     (let n = of_char c in
      if 48 \<le> n \<and> n \<le> 57 then n - 48
      else if 97 \<le> n \<and> n \<le> 122 then n - 87
      else if 65 \<le> n \<and> n \<le> 90 then n - 55
      else 36)"

definition digits_value :: "nat \<Rightarrow> string \<Rightarrow> nat" where
  "digits_value base ds = foldl (\<lambda>acc c. acc * base + digit_val c) 0 ds"

definition strip_0x :: "nat \<Rightarrow> string \<Rightarrow> string" where
  "strip_0x base s =
     (case s of
        c0 # c1 # c2 # cs \<Rightarrow>
          (if base = 16 \<and> c0 = CHR ''0'' \<and> (c1 = CHR ''x'' \<or> c1 = CHR ''X'') \<and> digit_val c2 < 16
           then c2 # cs else s)
      | _ \<Rightarrow> s)"

definition strtol_opt :: "nat \<Rightarrow> string \<Rightarrow> int option" where
  "strtol_opt base s =
     (let s1 = dropWhile is_space s;
          neg = (case s1 of c # _ \<Rightarrow> c = CHR ''-'' | [] \<Rightarrow> False);
          s2 = (case s1 of c # cs \<Rightarrow> (if c = CHR ''-'' \<or> c = CHR ''+'' then cs else s1) | [] \<Rightarrow> []);
          ds = takeWhile (\<lambda>c. digit_val c < base) (strip_0x base s2)
      in if ds = [] then None
         else Some (if neg then - int (digits_value base ds) else int (digits_value base ds)))"

text \<open>\<open>std::stoi(s, nullptr, base)\<close>: \<open>None\<close> for a thrown exception, either
  \<open>invalid_argument\<close> or \<open>out_of_range\<close> for a value that does not fit a 32-bit int.\<close>

definition stoi_opt :: "nat \<Rightarrow> string \<Rightarrow> int option" where
  "stoi_opt base s =
     (case strtol_opt base s of
        None \<Rightarrow> None
      | Some v \<Rightarrow> if - (2 ^ 31) \<le> v \<and> v < 2 ^ 31 then Some v else None)"

text \<open>\<open>std::atoi\<close>: 0 where there is no number.\<close>

definition atoi :: "string \<Rightarrow> int" where
  "atoi s = (case strtol_opt 10 s of None \<Rightarrow> 0 | Some v \<Rightarrow> v)"

lemma nibble_cases: "(n :: nat) mod 16 \<in> {0,1,2,3,4,5,6,7,8,9,10,11,12,13,14,15}"
proof -
  have upt16: "[0..<16] = [0,1,2,3,4,5,6,7,8,9,10,11,12,13,14,15 :: nat]"
    by (simp add: upt_rec)
  have "n mod 16 \<in> set [0..<16]" by simp
  then show ?thesis by (simp only: upt16 list.set)
qed

lemma digit_val_hex_digit [simp]: "digit_val (hex_digit n) = n mod 16"
  using nibble_cases [of n]
  by (simp only: hex_digit.simps insert_iff empty_iff) (elim disjE; simp add: digit_val_def)

lemma hex_digit_not_space [simp]: "\<not> is_space (hex_digit n)"
  and hex_digit_not_sign [simp]: "hex_digit n \<noteq> CHR ''-''" "hex_digit n \<noteq> CHR ''+''"
  and hex_digit_not_comma [simp]: "hex_digit n \<noteq> CHR '',''"
proof -
  from nibble_cases [of n] show "\<not> is_space (hex_digit n)" "hex_digit n \<noteq> CHR ''-''" "hex_digit n \<noteq> CHR ''+''"
    "hex_digit n \<noteq> CHR '',''"
    by (simp_all only: hex_digit.simps insert_iff empty_iff; elim disjE; simp add: is_space_def)+
qed

text \<open>A pair of hexadecimal digits parses back to its value.\<close>

lemma strtol_hex_pair: "strtol_opt 16 [hex_digit a, hex_digit b] = Some (int (16 * (a mod 16) + b mod 16))"
  by (simp add: strtol_opt_def strip_0x_def digits_value_def)

lemma stoi_hex2: "stoi_opt 16 (hex2 b) = Some (int (unat b))"
proof -
  have "unat b div 16 < 16" using unat_byte_bound [of b] by (simp add: div_less_iff_less_mult)
  then have "strtol_opt 16 (hex2 b) = Some (int (unat b))"
    by (simp add: hex2_digits strtol_hex_pair)
  moreover have "int (unat b) < 256"
    using unat_byte_bound [of b] by (metis of_nat_less_iff of_nat_numeral)
  moreover have "- (2 ^ 31) \<le> int (unat b)"
    by (rule order_trans [of _ 0]) simp_all
  ultimately show ?thesis by (simp add: stoi_opt_def)
qed

section \<open>Decimal strings in string order\<close>

text \<open>\<open>std::string\<close> comparison is lexicographic on unsigned characters; on decimal strings of
  one length it is the numeric order.\<close>

lemma snoc_less_iff:
  "length xs = length ys \<Longrightarrow> (xs @ [x :: char] < ys @ [y]) \<longleftrightarrow> xs < ys \<or> (xs = ys \<and> x < y)"
  by (induction xs ys rule: list_induct2) (auto simp: less_char_def)

lemma char_of_digit_less:
  "a < 10 \<Longrightarrow> b < 10 \<Longrightarrow> (char_of (48 + a) < (char_of (48 + b) :: char)) \<longleftrightarrow> a < (b :: nat)"
  by (simp add: less_char_def)

lemma dec_nat_snoc: "10 \<le> n \<Longrightarrow> dec_nat n = dec_nat (n div 10) @ [char_of (48 + n mod 10)]"
  by (subst dec_nat.simps) simp

lemma less_div_mod:
  "(a div 10 < b div 10 \<or> (a div 10 = b div 10 \<and> a mod 10 < b mod 10)) \<longleftrightarrow> a < (b :: nat)"
proof -
  obtain q r where a: "a = 10 * q + r" "r < 10" by (metis mod_less_divisor mult_div_mod_eq zero_less_numeral)
  obtain q' r' where b: "b = 10 * q' + r'" "r' < 10" by (metis mod_less_divisor mult_div_mod_eq zero_less_numeral)
  show ?thesis using a(2) b(2) unfolding a(1) b(1) by auto
qed

lemma dec_nat_less_iff:
  "length (dec_nat a) = length (dec_nat b) \<Longrightarrow> (dec_nat a < dec_nat b) \<longleftrightarrow> a < b"
proof (induction a arbitrary: b rule: less_induct)
  case (less a)
  consider "a < 10" "b < 10" | "a < 10" "10 \<le> b" | "10 \<le> a" "b < 10" | "10 \<le> a" "10 \<le> b" by linarith
  then show ?case
  proof cases
    case 1
    then show ?thesis by (simp add: dec_nat.simps [of a] dec_nat.simps [of b] char_of_digit_less)
  next
    case 2
    then show ?thesis using less.prems by (simp add: dec_nat.simps [of a] dec_nat_snoc [of b])
  next
    case 3
    then show ?thesis using less.prems by (simp add: dec_nat.simps [of b] dec_nat_snoc [of a])
  next
    case 4
    then have l: "length (dec_nat (a div 10)) = length (dec_nat (b div 10))"
      using less.prems by (simp add: dec_nat_snoc)
    have lt: "a div 10 < a" using 4 by simp
    have eq: "dec_nat (a div 10) = dec_nat (b div 10) \<longleftrightarrow> a div 10 = b div 10"
    proof
      assume e: "dec_nat (a div 10) = dec_nat (b div 10)"
      show "a div 10 = b div 10"
      proof (rule ccontr)
        assume "a div 10 \<noteq> b div 10"
        then consider "a div 10 < b div 10" | "b div 10 < a div 10" by linarith
        then show False
        proof cases
          case 1
          then show ?thesis using less.IH [OF lt l] e by simp
        next
          case 2
          then have "b div 10 < a" using lt by linarith
          from less.IH [OF this l [symmetric]] 2 e show ?thesis by simp
        qed
      qed
    qed simp
    have "dec_nat a < dec_nat b \<longleftrightarrow>
        dec_nat (a div 10) < dec_nat (b div 10) \<or>
        (dec_nat (a div 10) = dec_nat (b div 10) \<and> a mod 10 < b mod 10)"
      using 4 l by (simp add: dec_nat_snoc snoc_less_iff char_of_digit_less)
    also have "\<dots> \<longleftrightarrow> a div 10 < b div 10 \<or> (a div 10 = b div 10 \<and> a mod 10 < b mod 10)"
      using less.IH [OF lt l] eq by simp
    also have "\<dots> \<longleftrightarrow> a < b" by (rule less_div_mod)
    finally show ?thesis .
  qed
qed

lemma dec_nat_le_iff:
  "length (dec_nat a) = length (dec_nat b) \<Longrightarrow> (dec_nat a \<le> dec_nat b) \<longleftrightarrow> a \<le> b"
  using dec_nat_less_iff [of b a] by (metis not_less)

lemma length_dec_nat: "10 ^ k \<le> n \<Longrightarrow> n < 10 ^ Suc k \<Longrightarrow> length (dec_nat n) = Suc k"
proof (induction k arbitrary: n)
  case 0
  then show ?case by (simp add: dec_nat.simps [of n])
next
  case (Suc k)
  have "(10 :: nat) \<le> 10 ^ Suc k" by simp
  then have n: "10 \<le> n" using Suc.prems(1) by linarith
  have "10 ^ k \<le> n div 10" using Suc.prems(1) by (simp add: less_eq_div_iff_mult_less_eq mult.commute)
  moreover have "n div 10 < 10 ^ Suc k" using Suc.prems(2) by (simp add: div_less_iff_less_mult mult.commute)
  ultimately show ?case using Suc.IH n by (simp add: dec_nat_snoc)
qed

end
