(* ===== verification/Pbs_Interfaces.thy ===== *)
theory Pbs_Interfaces
  imports Pbs_Prelude
begin

text \<open>
  The interfaces between components, as locales: what a device driver relies on from its
  command queue, what a protocol layer relies on from a byte receiver, and what is relied on from
  a driver whose every action keeps an invariant.  Every locale is interpreted on the models of
  the components that provide it.
\<close>

section \<open>Command queues\<close>

text \<open>Taking commands until the queue is empty or the fuel is spent.\<close>

fun drain :: "('s \<Rightarrow> ('c \<times> 's) option) \<Rightarrow> nat \<Rightarrow> 's \<Rightarrow> 'c list" where
  "drain deq 0 s = []"
| "drain deq (Suc n) s = (case deq s of None \<Rightarrow> [] | Some (c, s') \<Rightarrow> c # drain deq n s')"

text \<open>
  A queue whose insertion may refuse a command (\<open>admits\<close>) but otherwise appends it, and whose
  removal takes the oldest command.  \<open>inert s s'\<close> says that a step of the client between two
  queue operations leaves the pending commands alone.
\<close>

locale command_queue =
  fixes pending :: "'s \<Rightarrow> 'c list"
    and enq :: "'c \<Rightarrow> 's \<Rightarrow> 's"
    and deq :: "'s \<Rightarrow> ('c \<times> 's) option"
    and admits :: "'c \<Rightarrow> 's \<Rightarrow> bool"
  assumes enq_admitted: "admits c s \<Longrightarrow> pending (enq c s) = pending s @ [c]"
    and enq_refused: "\<not> admits c s \<Longrightarrow> pending (enq c s) = pending s"
    and deq_empty: "pending s = [] \<Longrightarrow> deq s = None"
    and deq_front: "pending s = c # cs \<Longrightarrow> \<exists>s'. deq s = Some (c, s') \<and> pending s' = cs"
begin

lemma enq_prefix: "prefix (pending s) (pending (enq c s))"
  by (cases "admits c s") (simp_all add: enq_admitted enq_refused)

lemma enq_all_prefix: "prefix (pending s) (pending (fold enq cs s))"
proof (induction cs arbitrary: s)
  case (Cons c cs)
  have "prefix (pending s) (pending (enq c s))" by (rule enq_prefix)
  also have "prefix \<dots> (pending (fold enq cs (enq c s)))" by (rule Cons.IH)
  finally show ?case by simp
qed simp

lemma enq_all_subseq: "\<exists>as. pending (fold enq cs s) = pending s @ as \<and> subseq as cs"
proof (induction cs arbitrary: s)
  case (Cons c cs)
  obtain as where "pending (fold enq cs (enq c s)) = pending (enq c s) @ as" "subseq as cs"
    using Cons.IH by blast
  then show ?case
    by (cases "admits c s") (auto simp: enq_admitted enq_refused)
qed simp

lemma drain_all: "length (pending s) \<le> n \<Longrightarrow> drain deq n s = pending s"
proof (induction n arbitrary: s)
  case (Suc n)
  show ?case
  proof (cases "pending s")
    case Nil
    then show ?thesis by (simp add: deq_empty)
  next
    case (Cons c cs)
    then obtain s' where "deq s = Some (c, s')" "pending s' = cs" using deq_front by blast
    with Cons Suc show ?thesis by simp
  qed
qed simp

text \<open>Commands leave in the order in which they were accepted, behind what was pending.\<close>

lemma fifo:
  "\<exists>as. subseq as cs \<and>
     drain deq (length (pending s) + length cs) (fold enq cs s) = pending s @ as"
proof -
  obtain as where as: "pending (fold enq cs s) = pending s @ as" "subseq as cs"
    using enq_all_subseq by blast
  moreover have "length as \<le> length cs" using as(2) by (rule list_emb_length)
  ultimately show ?thesis using drain_all [of "fold enq cs s"] by auto
qed

lemma deq_Some_pending: "deq s = Some (c, s') \<Longrightarrow> pending s = c # pending s'"
  by (cases "pending s") (auto simp: deq_empty dest: deq_front)

end

section \<open>Framed byte receivers\<close>

text \<open>
  A receiver consumes one byte at a time and sometimes delivers an outcome.  \<open>feed\<close> runs it
  over a byte sequence and collects the outcomes.
\<close>

fun feed :: "('r \<Rightarrow> byte \<Rightarrow> 'r \<times> 'o option) \<Rightarrow> 'r \<Rightarrow> byte list \<Rightarrow> 'r \<times> 'o list" where
  "feed recv r [] = (r, [])"
| "feed recv r (b # bs) =
     (case recv r b of (r', out) \<Rightarrow>
        (case feed recv r' bs of (r'', outs) \<Rightarrow>
           (r'', (case out of None \<Rightarrow> outs | Some x \<Rightarrow> x # outs))))"

lemma feed_append:
  "feed recv r (xs @ ys) =
     (case feed recv r xs of (r', os) \<Rightarrow> (case feed recv r' ys of (r'', os') \<Rightarrow> (r'', os @ os')))"
  by (induction xs arbitrary: r) (auto split: prod.splits option.splits)

text \<open>What a sender may put on the line: noise between frames, and frames.\<close>

datatype 'm line_item = Noise byte | Frame 'm

fun line_bytes :: "('m \<Rightarrow> byte list) \<Rightarrow> 'm line_item list \<Rightarrow> byte list" where
  "line_bytes enc [] = []"
| "line_bytes enc (Noise b # xs) = b # line_bytes enc xs"
| "line_bytes enc (Frame m # xs) = enc m @ line_bytes enc xs"

fun line_frames :: "'m line_item list \<Rightarrow> 'm list" where
  "line_frames [] = []"
| "line_frames (Noise b # xs) = line_frames xs"
| "line_frames (Frame m # xs) = m # line_frames xs"

fun line_ok :: "('m \<Rightarrow> bool) \<Rightarrow> (byte \<Rightarrow> bool) \<Rightarrow> 'm line_item list \<Rightarrow> bool" where
  "line_ok good idle [] = True"
| "line_ok good idle (Noise b # xs) = (idle b \<and> line_ok good idle xs)"
| "line_ok good idle (Frame m # xs) = (good m \<and> line_ok good idle xs)"

locale framed_receiver =
  fixes recv :: "'r \<Rightarrow> byte \<Rightarrow> 'r \<times> 'o option"
    and ready :: "'r \<Rightarrow> bool"
    and encode :: "'m \<Rightarrow> byte list"
    and good :: "'m \<Rightarrow> bool"
    and idle :: "byte \<Rightarrow> bool"
    and outcome :: "'m \<Rightarrow> 'o"
  assumes frame_received:
      "ready r \<Longrightarrow> good m \<Longrightarrow> \<exists>r'. feed recv r (encode m) = (r', [outcome m]) \<and> ready r'"
    and noise_skipped: "ready r \<Longrightarrow> idle b \<Longrightarrow> \<exists>r'. recv r b = (r', None) \<and> ready r'"
begin

text \<open>A well-formed line delivers its frames, all of them, in order, and nothing else.\<close>

lemma line_received:
  "ready r \<Longrightarrow> line_ok good idle xs \<Longrightarrow>
   \<exists>r'. feed recv r (line_bytes encode xs) = (r', map outcome (line_frames xs)) \<and> ready r'"
proof (induction xs arbitrary: r rule: line_frames.induct)
  case (2 b xs)
  then obtain r1 where "recv r b = (r1, None)" "ready r1"
    using noise_skipped by (metis line_ok.simps(2))
  with 2 show ?case by fastforce
next
  case (3 m xs)
  then obtain r1 where r1: "feed recv r (encode m) = (r1, [outcome m])" "ready r1"
    using frame_received by (metis line_ok.simps(3))
  with 3 obtain r2 where "feed recv r1 (line_bytes encode xs) = (r2, map outcome (line_frames xs))"
    "ready r2" by fastforce
  with r1 show ?case by (simp add: feed_append)
qed simp

end

section \<open>Actions that keep an invariant\<close>

text \<open>A run of actions, stopped by one that is not possible.\<close>

fun run_actions :: "('a \<Rightarrow> 's \<Rightarrow> 's option) \<Rightarrow> 'a list \<Rightarrow> 's \<Rightarrow> 's option" where
  "run_actions act [] s = Some s"
| "run_actions act (a # as) s = (case act a s of None \<Rightarrow> None | Some t \<Rightarrow> run_actions act as t)"

lemma run_actions_append:
  "run_actions act (as @ bs) s =
     (case run_actions act as s of None \<Rightarrow> None | Some t \<Rightarrow> run_actions act bs t)"
  by (induction as arbitrary: s) (auto split: option.splits)

locale kept_invariant =
  fixes act :: "'a \<Rightarrow> 's \<Rightarrow> 's option"
    and inv :: "'s \<Rightarrow> bool"
  assumes kept: "inv s \<Longrightarrow> act a s = Some t \<Longrightarrow> inv t"
begin

lemma run_kept: "inv s \<Longrightarrow> run_actions act as s = Some t \<Longrightarrow> inv t"
  by (induction as arbitrary: s) (auto split: option.splits dest: kept)

text \<open>Every state a run passes through has the invariant.\<close>

lemma run_kept_prefix:
  "inv s \<Longrightarrow> run_actions act (as @ bs) s = Some t \<Longrightarrow> \<exists>u. run_actions act as s = Some u \<and> inv u"
  using run_kept by (auto simp: run_actions_append split: option.splits)

end

end
