(* ===== verification/Byte_Codec.thy ===== *)
theory Byte_Codec
  imports Pbs_Prelude
begin

text \<open>
  The byte and string conversions of \<open>Common\<close> (src/common.cpp) that the device protocols
  rest on: hexadecimal text of byte vectors, little- and big-endian integer fields, field
  splitting.  The conversions catch their own exceptions, log them and return a default; the
  models return that default.  \<open>FnConvertToUint16\<close> and its kin copy raw memory, which is
  the little-endian reading on the x86 and ARM targets of this program.
\<close>

section \<open>Hexadecimal text\<close>

text \<open>
  \<open>FnGetVectorCharToHexString\<close> over \<open>std::vector<char>\<close> converts each \<open>char\<close> to \<open>int\<close>
  first.  Whether \<open>char\<close> is signed is a property of the target (signed on x86, unsigned on
  ARM), so it is a parameter; a negative value prints as the eight digits of its 32-bit
  two's complement.
\<close>

definition char_to_int_hex :: "bool \<Rightarrow> byte \<Rightarrow> string" where
  "char_to_int_hex char_signed b =
     setw_fill 2 (CHR ''0'')
       (hex_nat (unat (if char_signed then (scast b :: u32) else (ucast b :: u32))))"

definition FnGetVectorCharToHexString :: "bool \<Rightarrow> byte list \<Rightarrow> string" where
  "FnGetVectorCharToHexString char_signed data = concat (map (char_to_int_hex char_signed) data)"

definition FnGetVectorCharToHexString_range :: "byte list \<Rightarrow> nat \<Rightarrow> nat \<Rightarrow> string" where
  "FnGetVectorCharToHexString_range data startPos len =
     (if startPos \<ge> length data then []
      else if len = 0 then []
      else if startPos + len > length data then []
      else concat (map hex2 (take len (drop startPos data))))"

definition FnConvertVectorUint8ToHexString :: "byte list \<Rightarrow> bool \<Rightarrow> string" where
  "FnConvertVectorUint8ToHexString data little_endian =
     (let tmpData = (if little_endian then rev data else data) in concat (map hex2 tmpData))"

definition upper_hex_char :: "nat \<Rightarrow> char" where
  "upper_hex_char n = ''0123456789ABCDEF'' ! n"

definition FnConvertVectorUint8ToUpperCaseHexString :: "byte list \<Rightarrow> string" where
  "FnConvertVectorUint8ToUpperCaseHexString data =
     (if data = [] then []
      else concat (map (\<lambda>b. [upper_hex_char (unat ((drop_bit 4 b) AND 0x0F)),
                              upper_hex_char (unat (b AND 0x0F))]) data))"

definition FnConvertVectorUint8ToBcdString :: "byte list \<Rightarrow> string" where
  "FnConvertVectorUint8ToBcdString data =
     concat (map (\<lambda>b. dec_nat (unat ((drop_bit 4 b) AND 0x0F)) @ dec_nat (unat (b AND 0x0F))) data)"

text \<open>
  The parsing loops push bytes until \<open>std::stoi\<close> throws; the bytes pushed so far are then
  returned.  \<open>hex_pairs\<close> is the forward loop of \<open>FnConvertHexStringToUint8Vector\<close>.
\<close>

fun hex_pairs :: "string \<Rightarrow> byte list" where
  "hex_pairs (a # b # s) =
     (case stoi_opt 16 [a, b] of
        None \<Rightarrow> []
      | Some v \<Rightarrow> word_of_int v # hex_pairs s)"
| "hex_pairs _ = []"

definition FnConvertHexStringToUint8Vector :: "string \<Rightarrow> byte list" where
  "FnConvertHexStringToUint8Vector hexStr =
     (if hexStr = [] then [] else if odd (length hexStr) then [] else hex_pairs hexStr)"

fun split_pairs :: "string \<Rightarrow> string list" where
  "split_pairs (a # b # s) = [a, b] # split_pairs s"
| "split_pairs _ = []"

fun push_hex :: "string list \<Rightarrow> byte list" where
  "push_hex [] = []"
| "push_hex (p # ps) =
     (case strtol_opt 16 p of None \<Rightarrow> [] | Some v \<Rightarrow> word_of_int v # push_hex ps)"

definition FnLittleEndianHexStringToVector :: "string \<Rightarrow> byte list" where
  "FnLittleEndianHexStringToVector hexStr =
     (if hexStr = [] then [] else if odd (length hexStr) then []
      else push_hex (rev (split_pairs hexStr)))"

definition FnReverseByPair :: "string \<Rightarrow> string" where
  "FnReverseByPair hexStr =
     (if hexStr = [] then [] else if odd (length hexStr) then []
      else concat (rev (split_pairs hexStr)))"

text \<open>
  \<open>FnGetLittelEndianUCharArrayToHexString\<close> counts an unsigned index down with the test
  \<open>i >= pos\<close>.  The loop is given fuel; for \<open>pos = 0\<close> the test always holds and the index
  wraps around below zero, so the read leaves the array: \<open>None\<close>.
\<close>

fun le_hex_loop :: "nat \<Rightarrow> byte list \<Rightarrow> nat \<Rightarrow> u64 \<Rightarrow> string option" where
  "le_hex_loop 0 array pos i = None"
| "le_hex_loop (Suc fuel) array pos i =
     (if unat i \<ge> pos
      then (case nth_opt array (unat i) of
              None \<Rightarrow> None
            | Some b \<Rightarrow> map_option (\<lambda>s. hex2 b @ s) (le_hex_loop fuel array pos (i - 1)))
      else Some [])"

definition FnGetLittelEndianUCharArrayToHexString :: "nat \<Rightarrow> byte list \<Rightarrow> nat \<Rightarrow> nat \<Rightarrow> string option" where
  "FnGetLittelEndianUCharArrayToHexString fuel array pos sz =
     (if sz = 0 then Some [] else le_hex_loop fuel array pos (of_nat (pos + sz - 1)))"

section \<open>Integer fields\<close>

definition FnAppendUint16LE :: "byte list \<Rightarrow> u16 \<Rightarrow> byte list" where
  "FnAppendUint16LE buffer value =
     buffer @ [ucast (value AND 0xFF), ucast ((drop_bit 8 value) AND 0xFF)]"

definition FnAppendUint32LE :: "byte list \<Rightarrow> u32 \<Rightarrow> byte list" where
  "FnAppendUint32LE buffer value =
     buffer @ [ucast (value AND 0xFF), ucast ((drop_bit 8 value) AND 0xFF),
               ucast ((drop_bit 16 value) AND 0xFF), ucast ((drop_bit 24 value) AND 0xFF)]"

definition FnConvertUint32ToVector :: "u32 \<Rightarrow> byte list" where
  "FnConvertUint32ToVector value =
     [ucast ((drop_bit 24 value) AND 0xFF), ucast ((drop_bit 16 value) AND 0xFF),
      ucast ((drop_bit 8 value) AND 0xFF), ucast (value AND 0xFF)]"

definition FnReadUint16LE :: "byte list \<Rightarrow> nat \<Rightarrow> u16 option" where
  "FnReadUint16LE buffer offset =
     (case (nth_opt buffer offset, nth_opt buffer (offset + 1)) of
        (Some b0, Some b1) \<Rightarrow> Some (ucast b0 OR push_bit 8 (ucast b1))
      | _ \<Rightarrow> None)"

definition FnReadUint32LE :: "byte list \<Rightarrow> nat \<Rightarrow> u32 option" where
  "FnReadUint32LE buffer offset =
     (case (nth_opt buffer offset, nth_opt buffer (offset + 1),
            nth_opt buffer (offset + 2), nth_opt buffer (offset + 3)) of
        (Some b0, Some b1, Some b2, Some b3) \<Rightarrow>
          Some (ucast b0 OR push_bit 8 (ucast b1) OR push_bit 16 (ucast b2) OR push_bit 24 (ucast b3))
      | _ \<Rightarrow> None)"

definition FnReadUint32BE :: "byte list \<Rightarrow> nat \<Rightarrow> u32 option" where
  "FnReadUint32BE buffer offset =
     (case (nth_opt buffer offset, nth_opt buffer (offset + 1),
            nth_opt buffer (offset + 2), nth_opt buffer (offset + 3)) of
        (Some b0, Some b1, Some b2, Some b3) \<Rightarrow>
          Some (push_bit 24 (ucast b0) OR push_bit 16 (ucast b1) OR push_bit 8 (ucast b2) OR ucast b3)
      | _ \<Rightarrow> None)"

text \<open>The \<open>memcpy\<close> readers check the range and answer 0 outside it.\<close>

definition FnConvertToUint8 :: "byte list \<Rightarrow> nat \<Rightarrow> byte" where
  "FnConvertToUint8 vec offset = (case nth_opt vec offset of Some b \<Rightarrow> b | None \<Rightarrow> 0)"

definition FnConvertToUint16 :: "byte list \<Rightarrow> nat \<Rightarrow> u16" where
  "FnConvertToUint16 vec offset =
     (if offset + 2 > length vec then 0 else (case FnReadUint16LE vec offset of Some v \<Rightarrow> v | None \<Rightarrow> 0))"

definition FnConvertToUint32 :: "byte list \<Rightarrow> nat \<Rightarrow> u32" where
  "FnConvertToUint32 vec offset =
     (if offset + 4 > length vec then 0
      else (case FnReadUint32LE vec offset of Some v \<Rightarrow> v | None \<Rightarrow> 0))"

definition FnExtractSubVector :: "byte list \<Rightarrow> nat \<Rightarrow> nat \<Rightarrow> byte list" where
  "FnExtractSubVector source offset len =
     (if offset \<ge> length source then [] else take len (drop offset source))"

definition FnConvertToLittleEndian :: "byte list \<Rightarrow> byte list" where
  "FnConvertToLittleEndian bigEndianVec = rev bigEndianVec"

section \<open>Field splitting\<close>

text \<open>\<open>FnBiteString\<close> returns the text before the separator and leaves the text after it in
  its reference argument: the pair of both.\<close>

definition FnBiteString :: "string \<Rightarrow> char \<Rightarrow> string \<times> string" where
  "FnBiteString str c =
     (if c \<in> set str then (takeWhile (\<lambda>x. x \<noteq> c) str, tl (dropWhile (\<lambda>x. x \<noteq> c) str))
      else (str, []))"

lemma FnBiteString_shorter:
  "FnBiteString str c = (a, r) \<Longrightarrow> str \<noteq> [] \<Longrightarrow> length r < length str"
proof -
  assume bite: "FnBiteString str c = (a, r)" and ne: "str \<noteq> []"
  show ?thesis
  proof (cases "c \<in> set str")
    case True
    let ?d = "dropWhile (\<lambda>x. x \<noteq> c) str"
    from True have "?d \<noteq> []" by (auto simp: dropWhile_eq_Nil_conv)
    then have "length (tl ?d) < length ?d" by simp
    also have "\<dots> \<le> length str" by (rule length_dropWhile_le)
    finally have "length (tl ?d) < length str" .
    moreover have "r = tl ?d" using bite True by (simp add: FnBiteString_def)
    ultimately show ?thesis by (simp only:)
  next
    case False
    with bite ne show ?thesis by (simp add: FnBiteString_def)
  qed
qed

function FnParseString :: "string \<Rightarrow> char \<Rightarrow> string list" where
  "FnParseString str c =
     (if str \<noteq> [] then fst (FnBiteString str c) # FnParseString (snd (FnBiteString str c)) c else [])"
  by pat_completeness auto
termination
  by (relation "measure (\<lambda>(str, c). length str)")
    (auto intro: FnBiteString_shorter [OF prod.collapse [symmetric]])

declare FnParseString.simps [simp del]

section \<open>Round trips of the hexadecimal text\<close>

lemma stoi_hex2_pair:
  "stoi_opt 16 [hex_digit (unat b div 16), hex_digit (unat b)] = Some (int (unat b))" for b :: byte
  using stoi_hex2 [of b] by (simp add: hex2_digits)

lemma strtol_hex2: "strtol_opt 16 (hex2 b) = Some (int (unat b))"
  using stoi_hex2 [of b] by (auto simp: stoi_opt_def split: option.splits if_splits)

lemma hex_pairs_append: "hex_pairs (hex2 b @ s) = b # hex_pairs s"
  by (simp add: hex2_digits stoi_hex2_pair)

lemma hex_pairs_concat: "hex_pairs (concat (map hex2 bs)) = bs"
  by (induction bs) (simp_all add: hex_pairs_append)

lemma split_pairs_append: "split_pairs (hex2 b @ s) = hex2 b # split_pairs s"
  by (simp add: hex2_digits)

lemma split_pairs_concat: "split_pairs (concat (map hex2 bs)) = map hex2 bs"
  by (induction bs) (simp_all add: split_pairs_append)

lemma push_hex_map: "push_hex (map hex2 bs) = bs"
  by (induction bs) (simp_all add: strtol_hex2)

lemma length_concat_hex2: "length (concat (map hex2 bs)) = 2 * length bs"
  by (induction bs) simp_all

lemma concat_hex2_Nil: "concat (map hex2 bs) = [] \<longleftrightarrow> bs = []"
proof
  assume "concat (map hex2 bs) = []"
  then have "length (concat (map hex2 bs)) = 0" by (simp only: list.size)
  then have "2 * length bs = 0" by (simp only: length_concat_hex2)
  then show "bs = []" by simp
qed simp

lemma hex_vector_roundtrip:
  "FnConvertHexStringToUint8Vector (FnConvertVectorUint8ToHexString bs le) =
     (if le then rev bs else bs)"
  by (simp add: FnConvertHexStringToUint8Vector_def FnConvertVectorUint8ToHexString_def
      hex_pairs_concat length_concat_hex2 concat_hex2_Nil del: concat_eq_Nil_conv)

lemma little_endian_hex_roundtrip:
  "FnLittleEndianHexStringToVector (FnConvertVectorUint8ToHexString bs False) = rev bs"
  by (simp add: FnLittleEndianHexStringToVector_def FnConvertVectorUint8ToHexString_def
      split_pairs_concat rev_map push_hex_map length_concat_hex2 concat_hex2_Nil
      del: concat_eq_Nil_conv)

lemma reverse_by_pair_hex:
  "FnReverseByPair (FnConvertVectorUint8ToHexString bs False) = FnConvertVectorUint8ToHexString bs True"
  by (simp add: FnReverseByPair_def FnConvertVectorUint8ToHexString_def split_pairs_concat rev_map
      length_concat_hex2 concat_hex2_Nil del: concat_eq_Nil_conv)

lemma hex_range_eq:
  "0 < n \<Longrightarrow> i + n \<le> length bs \<Longrightarrow>
   FnGetVectorCharToHexString_range bs i n = FnConvertVectorUint8ToHexString (FnExtractSubVector bs i n) False"
  by (simp add: FnGetVectorCharToHexString_range_def FnConvertVectorUint8ToHexString_def
      FnExtractSubVector_def)

section \<open>Signed characters in the hexadecimal text\<close>

lemma char_to_int_hex_unsigned: "char_to_int_hex False b = hex2 b"
proof -
  have "unat b < 2 ^ 32" by (rule less_trans [OF unat_byte_bound]) simp
  then have "unat (ucast b :: u32) = unat b"
    by (simp add: unsigned_ucast_eq take_bit_nat_eq_self)
  then show ?thesis by (simp add: char_to_int_hex_def hex2_def)
qed

lemma char_to_int_hex_ascii: "uint b < 128 \<Longrightarrow> char_to_int_hex True b = hex2 b"
  using char_to_int_hex_unsigned [of b] by (simp add: char_to_int_hex_def scast_small)

lemma hex_nat_length_ge: "16 ^ k \<le> n \<Longrightarrow> k < length (hex_nat n)"
proof (induction k arbitrary: n)
  case 0
  then show ?case by simp
next
  case (Suc k)
  have "16 ^ k \<le> n div 16"
    using Suc.prems by (simp add: less_eq_div_iff_mult_less_eq mult.commute)
  with Suc.IH have "k < length (hex_nat (n div 16))" by blast
  moreover have "(16 :: nat) \<le> 16 ^ Suc k" by simp
  then have "16 \<le> n" using Suc.prems by (rule le_trans)
  ultimately show ?case by (subst hex_nat.simps) simp
qed

lemma char_to_int_hex_negative: "128 \<le> uint b \<Longrightarrow> 8 \<le> length (char_to_int_hex True b)"
proof -
  assume b: "128 \<le> uint b"
  have "int (unat (scast b :: u32)) = 4294967040 + uint b"
    using uint_scast_byte [OF b] by simp
  moreover have "int (16 ^ 7) = 268435456" by simp
  ultimately have "int (16 ^ 7) \<le> int (unat (scast b :: u32))" using b by linarith
  then have "16 ^ 7 \<le> unat (scast b :: u32)" by (simp only: of_nat_le_iff)
  then have "7 < length (hex_nat (unat (scast b :: u32)))" by (rule hex_nat_length_ge)
  then show ?thesis by (simp add: char_to_int_hex_def)
qed

lemma char_to_int_hex_length: "2 \<le> length (char_to_int_hex cs b)"
  by (simp add: char_to_int_hex_def)

lemma hex_text_length_ge: "2 * length bs \<le> length (FnGetVectorCharToHexString cs bs)"
proof (induction bs)
  case (Cons b bs)
  with char_to_int_hex_length [of cs b] show ?case by (simp add: FnGetVectorCharToHexString_def)
qed simp

lemma hex_text_signed_length:
  "\<exists>b \<in> set bs. 128 \<le> uint b \<Longrightarrow> 2 * length bs < length (FnGetVectorCharToHexString True bs)"
proof (induction bs)
  case (Cons b bs)
  show ?case
  proof (cases "128 \<le> uint b")
    case True
    with char_to_int_hex_negative [OF True] hex_text_length_ge [of bs True] show ?thesis
      by (simp add: FnGetVectorCharToHexString_def)
  next
    case False
    with Cons char_to_int_hex_length [of True b] show ?thesis
      by (simp add: FnGetVectorCharToHexString_def)
  qed
qed simp

lemma hex_text_signed_eq_iff:
  "FnGetVectorCharToHexString True bs = FnConvertVectorUint8ToHexString bs False
     \<longleftrightarrow> (\<forall>b \<in> set bs. uint b < 128)"
proof
  assume eq: "FnGetVectorCharToHexString True bs = FnConvertVectorUint8ToHexString bs False"
  have "length (FnConvertVectorUint8ToHexString bs False) = 2 * length bs"
    by (simp only: FnConvertVectorUint8ToHexString_def Let_def if_False length_concat_hex2)
  with eq hex_text_signed_length [of bs] show "\<forall>b \<in> set bs. uint b < 128"
    by (metis linorder_not_less less_irrefl)
next
  assume "\<forall>b \<in> set bs. uint b < 128"
  then have "map (char_to_int_hex True) bs = map hex2 bs"
    by (auto simp: char_to_int_hex_ascii)
  then show "FnGetVectorCharToHexString True bs = FnConvertVectorUint8ToHexString bs False"
    by (simp only: FnGetVectorCharToHexString_def FnConvertVectorUint8ToHexString_def Let_def if_False)
qed

section \<open>Integer fields\<close>

lemma nth_opt_appended: "nth_opt (buf @ xs) (length buf + k) = nth_opt xs k"
  by (simp add: nth_opt_append)

lemma u16_bytes:
  "(ucast (ucast (v AND 0xFF) :: byte) :: u16) OR
   push_bit 8 (ucast (ucast (drop_bit 8 v AND 0xFF) :: byte)) = v"
  for v :: u16
proof -
  have m: "(0xFF :: u16) = mask 8" by (simp add: mask_eq_exp_minus_1)
  show ?thesis unfolding m by (rule bit_word_eqI) (auto simp: bit_simps)
qed

text \<open>The bytes of a 32-bit value, read by position.\<close>

lemma u32_byte_cases:
  fixes n :: nat
  assumes "n < 32"
  obtains "n < 8" | "8 \<le> n" "n < 16" | "16 \<le> n" "n < 24" | "24 \<le> n" "n < 32"
  using assms by fastforce

lemma u32_bytes:
  "(ucast (ucast (v AND 0xFF) :: byte) :: u32) OR
   push_bit 8 (ucast (ucast (drop_bit 8 v AND 0xFF) :: byte)) OR
   push_bit 16 (ucast (ucast (drop_bit 16 v AND 0xFF) :: byte)) OR
   push_bit 24 (ucast (ucast (drop_bit 24 v AND 0xFF) :: byte)) = v" (is "?l = v")
  for v :: u32
proof (rule bit_word_eqI)
  fix n :: nat
  assume "n < LENGTH(32)"
  then have "n < 32" by simp
  moreover have m: "(0xFF :: u32) = mask 8" by (simp add: mask_eq_exp_minus_1)
  ultimately show "bit ?l n = bit v n"
    unfolding m by (cases rule: u32_byte_cases) (auto simp: bit_simps)
qed

lemma read_append_u16: "FnReadUint16LE (FnAppendUint16LE buf v) (length buf) = Some v"
  using nth_opt_appended [of buf _ 0] nth_opt_appended [of buf _ 1] u16_bytes [of v]
  by (simp add: FnReadUint16LE_def FnAppendUint16LE_def nth_opt_conv nth_append)

lemma read_append_u32: "FnReadUint32LE (FnAppendUint32LE buf v) (length buf) = Some v"
  using u32_bytes [of v]
  by (simp add: FnReadUint32LE_def FnAppendUint32LE_def nth_opt_conv nth_append)

lemma read_be_vector: "FnReadUint32BE (FnConvertUint32ToVector v) 0 = Some v"
  using u32_bytes [of v]
  by (simp add: FnReadUint32BE_def FnConvertUint32ToVector_def nth_opt_conv numeral_3_eq_3
      numeral_2_eq_2 or.assoc or.commute or.left_commute)

section \<open>Splitting joined fields\<close>

text \<open>The text of a list of fields with a separator between neighbours.\<close>

fun join_fields :: "char \<Rightarrow> string list \<Rightarrow> string" where
  "join_fields c [] = []"
| "join_fields c [f] = f"
| "join_fields c (f # g # fs) = f @ c # join_fields c (g # fs)"

lemma FnBiteString_field:
  "c \<notin> set f \<Longrightarrow> FnBiteString (f @ c # s) c = (f, s)"
  by (auto simp: FnBiteString_def takeWhile_append dropWhile_append)

lemma FnBiteString_last: "c \<notin> set f \<Longrightarrow> FnBiteString f c = (f, [])"
  by (simp add: FnBiteString_def)

lemma FnParseString_Nil [simp]: "FnParseString [] c = []"
  by (subst FnParseString.simps) simp

lemma parse_join_fields:
  "\<forall>f \<in> set fs. c \<notin> set f \<Longrightarrow> fs = [] \<or> last fs \<noteq> [] \<Longrightarrow> FnParseString (join_fields c fs) c = fs"
proof (induction c fs rule: join_fields.induct)
  case (2 c f)
  then show ?case by (subst FnParseString.simps) (simp add: FnBiteString_last)
next
  case (3 c f g fs)
  then have "FnBiteString (join_fields c (f # g # fs)) c = (f, join_fields c (g # fs))"
    by (simp add: FnBiteString_field)
  with 3 show ?case by (subst FnParseString.simps) simp
qed simp

text \<open>Splitting loses no text but one trailing separator.\<close>

lemma join_FnBiteString:
  "FnBiteString s c = (a, r) \<Longrightarrow> c \<notin> set a \<and> (s = a @ c # r \<or> (s = a \<and> r = []))"
proof (cases "c \<in> set s")
  case True
  assume bite: "FnBiteString s c = (a, r)"
  let ?d = "dropWhile (\<lambda>x. x \<noteq> c) s"
  have a: "a = takeWhile (\<lambda>x. x \<noteq> c) s" and r: "r = tl ?d"
    using bite True by (simp_all add: FnBiteString_def)
  have ne: "?d \<noteq> []" using True by (auto simp: dropWhile_eq_Nil_conv)
  have "hd ?d = c" using hd_dropWhile [OF ne] by simp
  then have "?d = c # r" using ne r by (metis list.collapse)
  then have "s = a @ c # r" using a takeWhile_dropWhile_id [of "\<lambda>x. x \<noteq> c" s] by simp
  moreover have "c \<notin> set a" using a by (auto dest: set_takeWhileD)
  ultimately show ?thesis by blast
qed (simp add: FnBiteString_def)

lemma FnParseString_fields: "f \<in> set (FnParseString s c) \<Longrightarrow> c \<notin> set f"
proof (induction s c arbitrary: f rule: FnParseString.induct)
  case (1 s c)
  obtain a r where b: "FnBiteString s c = (a, r)" by fastforce
  show ?case
  proof (cases "s = []")
    case False
    with 1 b join_FnBiteString [OF b] show ?thesis
      by (subst (asm) (2) FnParseString.simps) auto
  qed (use 1 in simp)
qed

section \<open>The array conversion with a descending unsigned index\<close>

lemma le_hex_loop_zero: "le_hex_loop fuel array 0 i = None"
proof (induction fuel arbitrary: i)
  case (Suc fuel)
  then show ?case by (simp split: option.split)
qed simp

section \<open>Properties\<close>

text \<open>Hexadecimal text of a byte vector parses back: the plain and the reversed rendering
  give the vector and its reverse, the little-endian parser undoes the byte order, and reversing
  the text by pairs is the same as rendering in the other byte order.\<close>

theorem codec_hex_roundtrip:
  "FnConvertHexStringToUint8Vector (FnConvertVectorUint8ToHexString bs le) =
     (if le then rev bs else bs) \<and>
   FnLittleEndianHexStringToVector (FnConvertVectorUint8ToHexString bs True) = bs \<and>
   FnReverseByPair (FnConvertVectorUint8ToHexString bs False) =
     FnConvertVectorUint8ToHexString bs True"
proof -
  have "FnConvertVectorUint8ToHexString bs True = FnConvertVectorUint8ToHexString (rev bs) False"
    by (simp add: FnConvertVectorUint8ToHexString_def)
  then have "FnLittleEndianHexStringToVector (FnConvertVectorUint8ToHexString bs True) = bs"
    using little_endian_hex_roundtrip [of "rev bs"] by simp
  then show ?thesis by (simp only: hex_vector_roundtrip reverse_by_pair_hex simp_thms)
qed

text \<open>Integer fields.  What the append functions write at the end of a buffer is read back
  by the little-endian readers at the old end, and the big-endian reader inverts the big-endian
  vector.\<close>

theorem codec_integer_roundtrip:
  "FnReadUint16LE (FnAppendUint16LE buf v) (length buf) = Some v \<and>
   FnReadUint32LE (FnAppendUint32LE buf w) (length buf) = Some w \<and>
   FnReadUint32BE (FnConvertUint32ToVector w) 0 = Some w"
  by (simp only: read_append_u16 read_append_u32 read_be_vector simp_thms)

text \<open>The hexadecimal rendering of a \<open>vector<char>\<close> on a target with signed characters is
  the two-digit rendering of its bytes exactly when every byte is below 0x80.\<close>

theorem codec_signed_char_text:
  "FnGetVectorCharToHexString True bs = FnConvertVectorUint8ToHexString bs False
     \<longleftrightarrow> (\<forall>b \<in> set bs. uint b < 128)"
  by (rule hex_text_signed_eq_iff)

theorem codec_signed_char_text_witness:
  "FnGetVectorCharToHexString True [0x80] \<noteq> FnConvertVectorUint8ToHexString [0x80] False"
  using codec_signed_char_text [of "[0x80]"] by simp

text \<open>Splitting a comma-style text.  Fields without the separator, joined by it with a
  non-empty last field, come back as they were.\<close>

theorem codec_parse_fields:
  assumes "\<forall>f \<in> set fs. c \<notin> set f" "fs = [] \<or> last fs \<noteq> []"
  shows "FnParseString (join_fields c fs) c = fs"
  using assms by (rule parse_join_fields)

theorem codec_parse_fields_witness:
  "FnParseString (join_fields (CHR '','') [''12'', [], ''ab'']) (CHR '','') = [''12'', [], ''ab'']"
  by (rule codec_parse_fields) simp_all

text \<open>The array conversion counts an unsigned index down to its start position; with start
  position 0 and a non-zero length the exit test never fails, so no number of steps gives a
  result.\<close>

theorem codec_le_array_start_zero:
  assumes "0 < sz"
  shows "FnGetLittelEndianUCharArrayToHexString fuel array 0 sz = None"
  using assms by (simp add: FnGetLittelEndianUCharArrayToHexString_def le_hex_loop_zero)

theorem codec_le_array_start_zero_witness:
  "FnGetLittelEndianUCharArrayToHexString 1000 [1, 2, 3, 4] 0 4 = None"
  by (rule codec_le_array_start_zero) simp

end
