(* ===== verification/Ksm_Reader.thy ===== *)
theory Ksm_Reader
  imports Pbs_Interfaces Byte_Codec "HOL-Library.Signed_Division"
begin

text \<open>
  The KSM magnetic/IC card reader driver (src/ksm_reader.h, src/ksm_reader.cpp).  One
  coroutine, the command loop, takes commands from a queue and runs each as an exchange with
  the device (command frame, ACK, ENQ, response frame); the public functions post handlers
  that run on the same thread between two suspension points of the loop.  The record
  \<open>ksm\<close> holds the fields owned by that thread together with the card data the getters read
  and the list of events handed to the event manager.  Log output is left out.
\<close>

section \<open>Types and state\<close>

datatype ksm_cmd =
    INIT_CMD | CARD_PROHIBITED_CMD | CARD_ALLOWED_CMD | CARD_ON_IC_CMD | IC_POWER_ON_CMD
  | WARM_RESET_CMD | SELECT_FILE1_CMD | SELECT_FILE2_CMD | READ_CARD_INFO_CMD
  | READ_CARD_BALANCE_CMD | IC_POWER_OFF_CMD | EJECT_TO_FRONT_CMD | GET_STATUS_CMD

datatype ksm_ret =
    KSMReaderComm_Error | KSMReaderSend_Failed | KSMReaderRecv_CmdNotFound
  | KSMReaderRecv_NoResp | KSMReaderRecv_NAK | KSMReaderRecv_ACK | KSMReaderRecv_CRCErr

fun ksm_ret_code :: "ksm_ret \<Rightarrow> int" where
  "ksm_ret_code KSMReaderComm_Error = -4"
| "ksm_ret_code KSMReaderSend_Failed = -3"
| "ksm_ret_code KSMReaderRecv_CmdNotFound = -2"
| "ksm_ret_code KSMReaderRecv_NoResp = -1"
| "ksm_ret_code KSMReaderRecv_NAK = 0"
| "ksm_ret_code KSMReaderRecv_ACK = 1"
| "ksm_ret_code KSMReaderRecv_CRCErr = 2"

record card_data =
  cardNum :: string
  expiryYearMonth :: int
  expired :: bool
  balance :: int

text \<open>A handler posted to the reader's thread, and the point at which the command loop is
  suspended.\<close>

datatype ksm_handler =
    PostedCommand ksm_cmd | PostedEnable bool | PostedStartGetStatus | PostedStop

datatype ksm_loop = LoopTurn | LoopExec ksm_cmd | LoopEnded

record ksm =
  running :: bool
  stopping :: bool
  stopRequested :: bool
  portOpen :: bool
  ioThread :: bool
  posted :: "ksm_handler list"
  loop :: ksm_loop
  commandQueue :: "ksm_cmd list"
  currentCmd :: ksm_cmd
  cardPresented :: bool
  continueReadCard :: bool
  cardData :: card_data
  events :: "(string \<times> bool) list"

text \<open>The target-dependent inputs: whether \<open>char\<close> is signed, and the current month in the
  format \<open>yyyymm\<close>.\<close>

record ksm_env =
  char_signed :: bool
  now_yyyymm :: string

definition STX :: byte where "STX = 0x02"
definition ETX :: byte where "ETX = 0x03"
definition ACK :: byte where "ACK = 0x06"
definition NAK :: byte where "NAK = 0x15"
definition ENQ :: byte where "ENQ = 0x05"
definition RX_FRAME_MAX_SIZE :: nat where "RX_FRAME_MAX_SIZE = 128"

lemmas ksm_bytes = STX_def ETX_def ACK_def NAK_def ENQ_def

definition FnEnqueueEvent :: "string \<Rightarrow> bool \<Rightarrow> ksm \<Rightarrow> ksm" where
  "FnEnqueueEvent name v s = s\<lparr>events := events s @ [(name, v)]\<rparr>"

section \<open>The command queue\<close>

definition hasQueuedCommand :: "ksm \<Rightarrow> ksm_cmd \<Rightarrow> bool" where
  "hasQueuedCommand s cmd \<longleftrightarrow> cmd \<in> set (commandQueue s)"

definition removeQueuedGetStatusCommands :: "ksm \<Rightarrow> ksm" where
  "removeQueuedGetStatusCommands s =
     s\<lparr>commandQueue := filter (\<lambda>c. c \<noteq> GET_STATUS_CMD) (commandQueue s)\<rparr>"

definition enqueueCommandOnIoThread :: "ksm_cmd \<Rightarrow> ksm \<Rightarrow> ksm" where
  "enqueueCommandOnIoThread cmd s =
     (if stopRequested s \<or> \<not> portOpen s then s
      else if cmd = GET_STATUS_CMD \<and> hasQueuedCommand s cmd then s
      else s\<lparr>commandQueue := commandQueue s @ [cmd]\<rparr>)"

text \<open>The commands an insertion accepts, and the removal at the front of the loop.\<close>

definition ksm_admits :: "ksm_cmd \<Rightarrow> ksm \<Rightarrow> bool" where
  "ksm_admits cmd s \<longleftrightarrow>
     \<not> stopRequested s \<and> portOpen s \<and> \<not> (cmd = GET_STATUS_CMD \<and> hasQueuedCommand s cmd)"

definition takeCommand :: "ksm \<Rightarrow> (ksm_cmd \<times> ksm) option" where
  "takeCommand s =
     (case commandQueue s of
        [] \<Rightarrow> None
      | c # cs \<Rightarrow> Some (c, s\<lparr>currentCmd := c, commandQueue := cs\<rparr>))"

interpretation ksmq: command_queue commandQueue enqueueCommandOnIoThread takeCommand ksm_admits
  by unfold_locales
    (auto simp: ksm_admits_def enqueueCommandOnIoThread_def takeCommand_def)

section \<open>The public functions and the handlers they post\<close>

text \<open>The public functions run on any thread: they look at the two atomic flags and post a
  handler to the reader's own thread, which runs later (\<open>runHandler\<close>).\<close>

definition post :: "ksm_handler \<Rightarrow> ksm \<Rightarrow> ksm" where
  "post h s = s\<lparr>posted := posted s @ [h]\<rparr>"

definition postCommand :: "ksm_cmd \<Rightarrow> ksm \<Rightarrow> ksm" where
  "postCommand cmd s =
     (if \<not> running s \<or> stopping s then s else post (PostedCommand cmd) s)"

definition FnKSMReaderEnable :: "bool \<Rightarrow> ksm \<Rightarrow> ksm" where
  "FnKSMReaderEnable enable s =
     (if \<not> running s \<or> stopping s then s else post (PostedEnable enable) s)"

definition onEnable :: "bool \<Rightarrow> ksm \<Rightarrow> ksm" where
  "onEnable enable s =
     (if stopRequested s then s
      else if enable then
        enqueueCommandOnIoThread GET_STATUS_CMD
          (enqueueCommandOnIoThread CARD_ALLOWED_CMD (s\<lparr>continueReadCard := True\<rparr>))
      else
        enqueueCommandOnIoThread CARD_PROHIBITED_CMD
          (removeQueuedGetStatusCommands (s\<lparr>continueReadCard := False\<rparr>)))"

definition FnKSMReaderReadCardInfo :: "ksm \<Rightarrow> ksm" where
  "FnKSMReaderReadCardInfo s = postCommand CARD_ON_IC_CMD s"

definition FnKSMReaderSendInit :: "ksm \<Rightarrow> ksm" where
  "FnKSMReaderSendInit s = postCommand INIT_CMD s"

definition FnKSMReaderSendGetStatus :: "ksm \<Rightarrow> ksm" where
  "FnKSMReaderSendGetStatus s = postCommand GET_STATUS_CMD s"

definition FnKSMReaderSendEjectToFront :: "ksm \<Rightarrow> ksm" where
  "FnKSMReaderSendEjectToFront s = postCommand EJECT_TO_FRONT_CMD s"

definition FnKSMReaderStartGetStatus :: "ksm \<Rightarrow> ksm" where
  "FnKSMReaderStartGetStatus s =
     (if \<not> running s \<or> stopping s then s else post PostedStartGetStatus s)"

definition onStartGetStatus :: "ksm \<Rightarrow> ksm" where
  "onStartGetStatus s =
     (if stopRequested s then s
      else enqueueCommandOnIoThread GET_STATUS_CMD (s\<lparr>continueReadCard := True\<rparr>))"

definition requestStopOnIoThread :: "ksm \<Rightarrow> ksm" where
  "requestStopOnIoThread s =
     s\<lparr>stopRequested := True, continueReadCard := False, commandQueue := [], portOpen := False\<rparr>"

definition runHandler :: "ksm_handler \<Rightarrow> ksm \<Rightarrow> ksm" where
  "runHandler h s =
     (case h of
        PostedCommand cmd \<Rightarrow> enqueueCommandOnIoThread cmd s
      | PostedEnable enable \<Rightarrow> onEnable enable s
      | PostedStartGetStatus \<Rightarrow> onStartGetStatus s
      | PostedStop \<Rightarrow> requestStopOnIoThread s)"

text \<open>\<open>open_ok\<close> is whether opening and configuring the serial port throws no exception.  The
  caller is not the reader's own thread.\<close>

definition FnKSMReaderInit :: "bool \<Rightarrow> ksm \<Rightarrow> int \<times> ksm" where
  "FnKSMReaderInit open_ok s =
     (if running s then (1, s)
      else
        let s1 = s\<lparr>running := True, stopping := False, stopRequested := False, commandQueue := [],
                   continueReadCard := False, cardPresented := False, currentCmd := INIT_CMD\<rparr>
        in if open_ok then
             (1, postCommand INIT_CMD (s1\<lparr>portOpen := True, ioThread := True, loop := LoopTurn\<rparr>))
           else
             (ksm_ret_code KSMReaderComm_Error,
              s1\<lparr>running := False, stopping := False, portOpen := False, ioThread := False\<rparr>))"

text \<open>\<open>FnKSMReaderClose\<close> up to the join of the thread, and after it.\<close>

definition FnKSMReaderClose :: "ksm \<Rightarrow> ksm" where
  "FnKSMReaderClose s =
     (let s1 = s\<lparr>running := False, stopping := True\<rparr>
      in if running s \<or> ioThread s then post PostedStop s1 else s1\<lparr>stopping := False\<rparr>)"

definition afterJoin :: "ksm \<Rightarrow> ksm" where
  "afterJoin s = s\<lparr>stopping := False, ioThread := False\<rparr>"

section \<open>Command frames\<close>

fun buildCommandPayload :: "ksm_cmd \<Rightarrow> byte list" where
  "buildCommandPayload INIT_CMD = [0x00, 0x02, 0x30, 0x31]"
| "buildCommandPayload CARD_PROHIBITED_CMD = [0x00, 0x03, 0x2F, 0x31, 0x31]"
| "buildCommandPayload CARD_ALLOWED_CMD = [0x00, 0x03, 0x2F, 0x33, 0x30]"
| "buildCommandPayload CARD_ON_IC_CMD = [0x00, 0x02, 0x32, 0x2F]"
| "buildCommandPayload IC_POWER_ON_CMD = [0x00, 0x02, 0x33, 0x30]"
| "buildCommandPayload WARM_RESET_CMD = [0x00, 0x02, 0x37, 0x2F]"
| "buildCommandPayload SELECT_FILE1_CMD =
     [0x00, 0x0B, 0x37, 0x31, 0x00, 0x07, 0x00, 0xA4, 0x01, 0x00, 0x02, 0x01, 0x18]"
| "buildCommandPayload SELECT_FILE2_CMD =
     [0x00, 0x0B, 0x37, 0x31, 0x00, 0x07, 0x00, 0xA4, 0x02, 0x00, 0x02, 0x00, 0x01]"
| "buildCommandPayload READ_CARD_INFO_CMD =
     [0x00, 0x09, 0x37, 0x31, 0x00, 0x05, 0x00, 0xB0, 0x00, 0x00, 0x10]"
| "buildCommandPayload READ_CARD_BALANCE_CMD =
     [0x00, 0x0D, 0x37, 0x31, 0x00, 0x09, 0x80, 0x32, 0x00, 0x03, 0x04, 0x00, 0x00, 0x00, 0x00]"
| "buildCommandPayload IC_POWER_OFF_CMD = [0x00, 0x02, 0x33, 0x31]"
| "buildCommandPayload EJECT_TO_FRONT_CMD = [0x00, 0x02, 0x32, 0x31]"
| "buildCommandPayload GET_STATUS_CMD = [0x00, 0x02, 0x31, 0x30]"

text \<open>The frame around a payload: STX, payload, ETX and the exclusive-or of all of them.\<close>

definition frame_of_payload :: "byte list \<Rightarrow> byte list" where
  "frame_of_payload payload =
     (if payload = [] then []
      else STX # payload @ [ETX, foldl (XOR) STX payload XOR ETX])"

definition buildCommandFrame :: "ksm_cmd \<Rightarrow> byte list" where
  "buildCommandFrame cmd = frame_of_payload (buildCommandPayload cmd)"

section \<open>Reading from the device\<close>

text \<open>What a read of one byte can end with: a byte, the expiry of the overall timer, an abort
  because the port was cancelled while stopping, or another error.  A script of events is
  consumed by the reads of one exchange in order; \<open>None\<close> where the script ends first.\<close>

datatype rx_event = Rx byte | RxTimedOut | RxAborted | RxError

fun waitForAck :: "rx_event list \<Rightarrow> (ksm_ret \<times> rx_event list) option" where
  "waitForAck [] = None"
| "waitForAck (Rx b # es) =
     (if b = ACK then Some (KSMReaderRecv_ACK, es)
      else if b = NAK then Some (KSMReaderRecv_NAK, es)
      else waitForAck es)"
| "waitForAck (RxTimedOut # es) = Some (KSMReaderRecv_NAK, es)"
| "waitForAck (RxAborted # es) = Some (KSMReaderComm_Error, es)"
| "waitForAck (RxError # es) = Some (KSMReaderComm_Error, es)"

record rx_state =
  receivingFrame :: bool
  waitingForBcc :: bool
  calculatedBcc :: byte
  rx_frame :: "byte list"

definition rx_start :: rx_state where
  "rx_start = \<lparr>receivingFrame = False, waitingForBcc = False, calculatedBcc = 0, rx_frame = []\<rparr>"

text \<open>One byte of \<open>readResponseFrame\<close>; the reader starts afresh after a result.\<close>

definition rx_byte :: "rx_state \<Rightarrow> byte \<Rightarrow> rx_state \<times> (ksm_ret \<times> byte list) option" where
  "rx_byte r b =
     (if \<not> receivingFrame r then
        (if b \<noteq> STX then (r, None)
         else (r\<lparr>receivingFrame := True, calculatedBcc := STX, rx_frame := [b]\<rparr>, None))
      else if waitingForBcc r then
        (if b \<noteq> calculatedBcc r then (rx_start, Some (KSMReaderRecv_CRCErr, rx_frame r))
         else (rx_start, Some (KSMReaderRecv_ACK, rx_frame r)))
      else if RX_FRAME_MAX_SIZE \<le> length (rx_frame r) then
        (rx_start, Some (KSMReaderRecv_CRCErr, rx_frame r))
      else
        (r\<lparr>rx_frame := rx_frame r @ [b], calculatedBcc := calculatedBcc r XOR b,
           waitingForBcc := (b = ETX)\<rparr>, None))"

fun readResponseFrame :: "rx_state \<Rightarrow> rx_event list \<Rightarrow> (ksm_ret \<times> byte list) option" where
  "readResponseFrame r [] = None"
| "readResponseFrame r (Rx b # es) =
     (case rx_byte r b of (r', None) \<Rightarrow> readResponseFrame r' es | (r', Some out) \<Rightarrow> Some out)"
| "readResponseFrame r (RxTimedOut # es) = Some (KSMReaderRecv_NoResp, rx_frame r)"
| "readResponseFrame r (RxAborted # es) = Some (KSMReaderComm_Error, rx_frame r)"
| "readResponseFrame r (RxError # es) = Some (KSMReaderComm_Error, rx_frame r)"

section \<open>Writing to the device and the exchange\<close>

text \<open>How one write went: whether the port was usable before and after the write gap, and
  how the write ended.\<close>

record tx_result =
  ready_before :: bool
  ready_after_gap :: bool
  tx_timedOut :: bool
  tx_error :: bool
  bytesTransferred :: nat

definition writeBytes :: "tx_result \<Rightarrow> byte list \<Rightarrow> bool" where
  "writeBytes w data \<longleftrightarrow>
     (if \<not> ready_before w then False
      else if \<not> ready_after_gap w then False
      else if tx_timedOut w then False
      else if tx_error w then False
      else bytesTransferred w = length data)"

text \<open>The inputs of one exchange: the two writes, whether the port is usable when each read
  starts, and the bytes.\<close>

record exchange_io =
  tx_command :: tx_result
  ack_ready :: bool
  tx_enq :: tx_result
  resp_ready :: bool
  rx :: "rx_event list"

datatype exchange_out = Failed ksm_ret | Response "byte list"

text \<open>\<open>executeCommand\<close> up to the call of \<open>handleCommandResponse\<close>.\<close>

definition exchange :: "exchange_io \<Rightarrow> ksm_cmd \<Rightarrow> exchange_out option" where
  "exchange io cmd =
     (let commandFrame = buildCommandFrame cmd in
      if commandFrame = [] then Some (Failed KSMReaderRecv_CmdNotFound)
      else if \<not> writeBytes (tx_command io) commandFrame then Some (Failed KSMReaderSend_Failed)
      else if \<not> ack_ready io then Some (Failed KSMReaderComm_Error)
      else
        (case waitForAck (rx io) of
           None \<Rightarrow> None
         | Some (ackResult, es) \<Rightarrow>
             if ackResult \<noteq> KSMReaderRecv_ACK then Some (Failed ackResult)
             else if \<not> writeBytes (tx_enq io) [ENQ] then Some (Failed KSMReaderSend_Failed)
             else if \<not> resp_ready io then Some (Failed KSMReaderComm_Error)
             else
               (case readResponseFrame rx_start es of
                  None \<Rightarrow> None
                | Some (ret, frame) \<Rightarrow>
                    if ret \<noteq> KSMReaderRecv_ACK then Some (Failed ret)
                    else Some (Response frame))))"

section \<open>Responses\<close>

definition updateCardInfo :: "string \<Rightarrow> int \<Rightarrow> bool \<Rightarrow> ksm \<Rightarrow> ksm" where
  "updateCardInfo num ym exp s =
     s\<lparr>cardData := (cardData s)\<lparr>cardNum := num, expiryYearMonth := ym, expired := exp\<rparr>\<rparr>"

definition updateCardBalance :: "int \<Rightarrow> ksm \<Rightarrow> ksm" where
  "updateCardBalance bal s = s\<lparr>cardData := (cardData s)\<lparr>balance := bal\<rparr>\<rparr>"

text \<open>The expiry computed from the six hexadecimal characters of the expiry field.\<close>

definition card_expiry :: "string \<Rightarrow> int" where
  "card_expiry str =
     (let year2 = atoi (take 2 str);
          month = atoi (take 2 (drop 2 str));
          expiryMonths = atoi (take 2 (drop 4 str)) + month;
          fullYear = (if year2 > 90 then 1900 + year2 else 2000 + year2);
          expiryYear = fullYear + expiryMonths sdiv 12;
          expiryMonth = expiryMonths smod 12
      in expiryYear * 100 + expiryMonth)"

definition getStatusResponse :: "byte list \<Rightarrow> ksm \<Rightarrow> ksm_ret \<times> ksm" where
  "getStatusResponse recvCmd s =
     (if length recvCmd < 5 then (KSMReaderRecv_CmdNotFound, s)
      else
        let status = recvCmd ! 4 in
        if status = 0x4A \<or> status = 0x4B then
          (KSMReaderRecv_ACK,
           if \<not> cardPresented s then
             FnEnqueueEvent ''Evt_handleKSMReaderCardIn'' True
               (removeQueuedGetStatusCommands
                 (s\<lparr>cardPresented := True, continueReadCard := False\<rparr>))
           else s)
        else if status = 0x4E then
          (KSMReaderRecv_ACK,
           if cardPresented s then
             FnEnqueueEvent ''Evt_handleKSMReaderCardTakeAway'' True (s\<lparr>cardPresented := False\<rparr>)
           else if continueReadCard s then enqueueCommandOnIoThread GET_STATUS_CMD s
           else s)
        else
          (KSMReaderRecv_ACK,
           if continueReadCard s then enqueueCommandOnIoThread GET_STATUS_CMD s else s))"

definition readCardInfoResponse :: "ksm_env \<Rightarrow> byte list \<Rightarrow> ksm \<Rightarrow> ksm_ret \<times> ksm" where
  "readCardInfoResponse env recvCmd s =
     (if length recvCmd < 22 then (KSMReaderRecv_CmdNotFound, s)
      else
        let num = FnGetVectorCharToHexString (char_signed env) (take 8 (drop 8 recvCmd));
            expireDateStr =
              FnGetVectorCharToHexString (char_signed env) (take 3 (drop 19 recvCmd))
        in if length expireDateStr < 6 then (KSMReaderRecv_CmdNotFound, s)
           else
             let ym = card_expiry expireDateStr;
                 exp = (dec_int ym \<le> now_yyyymm env)
             in (KSMReaderRecv_ACK,
                 enqueueCommandOnIoThread READ_CARD_BALANCE_CMD
                   (FnEnqueueEvent ''Evt_handleKSMReaderReadCardInfo'' True
                     (updateCardInfo num ym exp s))))"

definition readCardBalanceResponse :: "ksm_env \<Rightarrow> byte list \<Rightarrow> ksm \<Rightarrow> ksm_ret \<times> ksm" where
  "readCardBalanceResponse env recvCmd s =
     (if length recvCmd < 11 then (KSMReaderRecv_CmdNotFound, s)
      else
        let b = atoi (FnGetVectorCharToHexString (char_signed env) (take 3 (drop 8 recvCmd)));
            bal = (if b < 0 then 65536 + b else b)
        in (KSMReaderRecv_ACK,
            enqueueCommandOnIoThread IC_POWER_OFF_CMD
              (FnEnqueueEvent ''Evt_handleKSMReaderCardInfo'' True
                (FnEnqueueEvent ''Evt_handleKSMReaderReadCardBalance'' True
                  (updateCardBalance bal s)))))"

text \<open>The responses that carry only an acknowledgement: their event, and the next command.\<close>

definition acknowledge :: "string \<Rightarrow> ksm_cmd \<Rightarrow> ksm \<Rightarrow> ksm_ret \<times> ksm" where
  "acknowledge event nxt s =
     (KSMReaderRecv_ACK, enqueueCommandOnIoThread nxt (FnEnqueueEvent event True s))"

definition handleCommandResponse ::
  "ksm_env \<Rightarrow> ksm_cmd \<Rightarrow> byte list \<Rightarrow> ksm \<Rightarrow> ksm_ret \<times> ksm" where
  "handleCommandResponse env cmd dataBuff s =
     (if length dataBuff < 6 then (KSMReaderRecv_CmdNotFound, s)
      else if hd dataBuff \<noteq> STX then (KSMReaderRecv_CRCErr, s)
      else if last dataBuff \<noteq> ETX then (KSMReaderRecv_CRCErr, s)
      else
        let recvCmd = butlast (tl dataBuff) in
        if length recvCmd < 4 then (KSMReaderRecv_CmdNotFound, s)
        else
          let msb = recvCmd ! 2; lsb = recvCmd ! 3 in
          if msb = 0x2F then
            (if lsb = 0x31 then
               (KSMReaderRecv_ACK, FnEnqueueEvent ''Evt_handleKSMReaderCardProhibited'' True s)
             else if lsb = 0x33 then
               (KSMReaderRecv_ACK, FnEnqueueEvent ''Evt_handleKSMReaderCardAllowed'' True s)
             else (KSMReaderRecv_CmdNotFound, s))
          else if msb = 0x30 then
            (if lsb = 0x31 then
               (KSMReaderRecv_ACK, FnEnqueueEvent ''Evt_handleKSMReaderInit'' True s)
             else (KSMReaderRecv_NAK, s))
          else if msb = 0x31 \<and> lsb = 0x30 then getStatusResponse recvCmd s
          else if msb = 0x32 then
            (if lsb = 0x2F then acknowledge ''Evt_handleKSMReaderCardOnIc'' IC_POWER_ON_CMD s
             else if lsb = 0x31 then
               (KSMReaderRecv_ACK,
                FnEnqueueEvent ''Evt_handleKSMReaderCardOut'' True
                  (FnEnqueueEvent ''Evt_handleKSMReaderEjectToFront'' True s))
             else (KSMReaderRecv_CmdNotFound, s))
          else if msb = 0x33 then
            (if lsb = 0x30 then acknowledge ''Evt_handleKSMReaderIcPowerOn'' WARM_RESET_CMD s
             else if lsb = 0x31 then
               acknowledge ''Evt_handleKSMReaderIcPowerOff'' EJECT_TO_FRONT_CMD s
             else (KSMReaderRecv_CmdNotFound, s))
          else if msb = 0x37 then
            (if lsb = 0x2F then acknowledge ''Evt_handleKSMReaderWarmReset'' SELECT_FILE1_CMD s
             else if lsb = 0x31 then
               (if length recvCmd < 5 then (KSMReaderRecv_CmdNotFound, s)
                else if recvCmd ! 4 = 0x4E then (KSMReaderRecv_NoResp, s)
                else if cmd = SELECT_FILE1_CMD then
                  acknowledge ''Evt_handleKSMReaderSelectFile1'' SELECT_FILE2_CMD s
                else if cmd = SELECT_FILE2_CMD then
                  acknowledge ''Evt_handleKSMReaderSelectFile2'' READ_CARD_INFO_CMD s
                else if cmd = READ_CARD_INFO_CMD then readCardInfoResponse env recvCmd s
                else if cmd = READ_CARD_BALANCE_CMD then readCardBalanceResponse env recvCmd s
                else (KSMReaderRecv_CmdNotFound, s))
             else (KSMReaderRecv_CmdNotFound, s))
          else (KSMReaderRecv_CmdNotFound, s))"

fun failureEventName :: "ksm_cmd \<Rightarrow> string" where
  "failureEventName INIT_CMD = ''Evt_handleKSMReaderInit''"
| "failureEventName CARD_PROHIBITED_CMD = ''Evt_handleKSMReaderCardProhibited''"
| "failureEventName CARD_ALLOWED_CMD = ''Evt_handleKSMReaderCardAllowed''"
| "failureEventName CARD_ON_IC_CMD = ''Evt_handleKSMReaderCardOnIc''"
| "failureEventName IC_POWER_ON_CMD = ''Evt_handleKSMReaderIcPowerOn''"
| "failureEventName WARM_RESET_CMD = ''Evt_handleKSMReaderWarmReset''"
| "failureEventName SELECT_FILE1_CMD = ''Evt_handleKSMReaderSelectFile1''"
| "failureEventName SELECT_FILE2_CMD = ''Evt_handleKSMReaderSelectFile2''"
| "failureEventName READ_CARD_INFO_CMD = ''Evt_handleKSMReaderReadCardInfo''"
| "failureEventName READ_CARD_BALANCE_CMD = ''Evt_handleKSMReaderReadCardBalance''"
| "failureEventName IC_POWER_OFF_CMD = ''Evt_handleKSMReaderIcPowerOff''"
| "failureEventName EJECT_TO_FRONT_CMD = ''Evt_handleKSMReaderEjectToFront''"
| "failureEventName GET_STATUS_CMD = ''Evt_handleKSMReaderGetStatus''"

definition handleCommandFailure :: "ksm_cmd \<Rightarrow> ksm_ret \<Rightarrow> ksm \<Rightarrow> ksm" where
  "handleCommandFailure cmd retCode s =
     (let s1 = FnEnqueueEvent (failureEventName cmd) False s
      in if cmd = GET_STATUS_CMD \<and> continueReadCard s1
         then enqueueCommandOnIoThread GET_STATUS_CMD s1 else s1)"

section \<open>The command loop\<close>

text \<open>The loop from its head to the start of an exchange; with an empty queue it stays at the
  head, waiting for the wake timer.\<close>

definition loopTurn :: "ksm \<Rightarrow> ksm" where
  "loopTurn s =
     (if stopRequested s then s\<lparr>loop := LoopEnded\<rparr>
      else
        (case takeCommand s of
           None \<Rightarrow> s
         | Some (cmd, s') \<Rightarrow> s'\<lparr>loop := LoopExec cmd\<rparr>))"

definition loopResult :: "ksm_cmd \<Rightarrow> ksm_ret \<Rightarrow> ksm \<Rightarrow> ksm" where
  "loopResult cmd result s =
     (if stopRequested s then s\<lparr>loop := LoopEnded\<rparr>
      else
        (if result \<noteq> KSMReaderRecv_ACK then handleCommandFailure cmd result s else s)
          \<lparr>loop := LoopTurn\<rparr>)"

text \<open>The end of an exchange: the rest of \<open>executeCommand\<close> and of the loop body.\<close>

definition finishCommand :: "ksm_env \<Rightarrow> ksm_cmd \<Rightarrow> exchange_out \<Rightarrow> ksm \<Rightarrow> ksm" where
  "finishCommand env cmd out s =
     (case out of
        Failed ret \<Rightarrow> loopResult cmd ret s
      | Response frame \<Rightarrow>
          (case handleCommandResponse env cmd frame s of (ret, s') \<Rightarrow> loopResult cmd ret s'))"

text \<open>The actions of the whole component, and their effect; \<open>None\<close> where the action cannot
  happen in the state.\<close>

datatype ksm_action =
    Api_Init bool | Api_Close | Joined | Api_Enable bool | Api_ReadCardInfo | Api_SendInit
  | Api_SendGetStatus | Api_StartGetStatus | Api_SendEjectToFront
  | RunHandler | Turn | Finish exchange_out

definition ksm_act :: "ksm_env \<Rightarrow> ksm_action \<Rightarrow> ksm \<Rightarrow> ksm option" where
  "ksm_act env a s =
     (case a of
        Api_Init ok \<Rightarrow>
          if running s \<or> \<not> ioThread s \<or> (loop s = LoopEnded \<and> posted s = [])
          then Some (snd (FnKSMReaderInit ok s)) else None
      | Api_Close \<Rightarrow> Some (FnKSMReaderClose s)
      | Joined \<Rightarrow> if loop s = LoopEnded \<and> posted s = [] then Some (afterJoin s) else None
      | Api_Enable en \<Rightarrow> Some (FnKSMReaderEnable en s)
      | Api_ReadCardInfo \<Rightarrow> Some (FnKSMReaderReadCardInfo s)
      | Api_SendInit \<Rightarrow> Some (FnKSMReaderSendInit s)
      | Api_SendGetStatus \<Rightarrow> Some (FnKSMReaderSendGetStatus s)
      | Api_StartGetStatus \<Rightarrow> Some (FnKSMReaderStartGetStatus s)
      | Api_SendEjectToFront \<Rightarrow> Some (FnKSMReaderSendEjectToFront s)
      | RunHandler \<Rightarrow>
          (case posted s of
             [] \<Rightarrow> None
           | h # hs \<Rightarrow> Some (runHandler h (s\<lparr>posted := hs\<rparr>)))
      | Turn \<Rightarrow> if loop s = LoopTurn then Some (loopTurn s) else None
      | Finish out \<Rightarrow>
          (case loop s of
             LoopExec cmd \<Rightarrow> Some (finishCommand env cmd out s)
           | _ \<Rightarrow> None))"

inductive ksm_reach :: "ksm_env \<Rightarrow> ksm \<Rightarrow> ksm_action list \<Rightarrow> ksm \<Rightarrow> bool" for env where
  reach_start: "ksm_reach env s [] s"
| reach_step: "ksm_reach env s as s' \<Longrightarrow> ksm_act env a s' = Some s'' \<Longrightarrow> ksm_reach env s (as @ [a]) s''"

text \<open>The state after construction of the singleton.\<close>

definition ksm_initial :: ksm where
  "ksm_initial =
     \<lparr>running = False, stopping = False, stopRequested = False, portOpen = False,
      ioThread = False, posted = [], loop = LoopEnded, commandQueue = [],
      currentCmd = INIT_CMD, cardPresented = False, continueReadCard = False,
      cardData = \<lparr>cardNum = [], expiryYearMonth = 0, expired = False, balance = 0\<rparr>,
      events = []\<rparr>"

section \<open>Field effects\<close>

lemma enqueue_frame [simp]:
  "running (enqueueCommandOnIoThread c s) = running s"
  "stopping (enqueueCommandOnIoThread c s) = stopping s"
  "stopRequested (enqueueCommandOnIoThread c s) = stopRequested s"
  "portOpen (enqueueCommandOnIoThread c s) = portOpen s"
  "ioThread (enqueueCommandOnIoThread c s) = ioThread s"
  "posted (enqueueCommandOnIoThread c s) = posted s"
  "loop (enqueueCommandOnIoThread c s) = loop s"
  "currentCmd (enqueueCommandOnIoThread c s) = currentCmd s"
  "cardPresented (enqueueCommandOnIoThread c s) = cardPresented s"
  "continueReadCard (enqueueCommandOnIoThread c s) = continueReadCard s"
  "cardData (enqueueCommandOnIoThread c s) = cardData s"
  "events (enqueueCommandOnIoThread c s) = events s"
  by (simp_all add: enqueueCommandOnIoThread_def)

lemma enqueue_queue [queue_simps]:
  "commandQueue (enqueueCommandOnIoThread c s) =
     (if ksm_admits c s then commandQueue s @ [c] else commandQueue s)"
  by (auto simp: enqueueCommandOnIoThread_def ksm_admits_def)

lemma FnEnqueueEvent_frame [simp]:
  "running (FnEnqueueEvent n v s) = running s"
  "stopping (FnEnqueueEvent n v s) = stopping s"
  "stopRequested (FnEnqueueEvent n v s) = stopRequested s"
  "portOpen (FnEnqueueEvent n v s) = portOpen s"
  "ioThread (FnEnqueueEvent n v s) = ioThread s"
  "posted (FnEnqueueEvent n v s) = posted s"
  "loop (FnEnqueueEvent n v s) = loop s"
  "currentCmd (FnEnqueueEvent n v s) = currentCmd s"
  "commandQueue (FnEnqueueEvent n v s) = commandQueue s"
  "cardPresented (FnEnqueueEvent n v s) = cardPresented s"
  "continueReadCard (FnEnqueueEvent n v s) = continueReadCard s"
  "cardData (FnEnqueueEvent n v s) = cardData s"
  "events (FnEnqueueEvent n v s) = events s @ [(n, v)]"
  by (simp_all add: FnEnqueueEvent_def)

lemma update_card_frame [simp]:
  "stopRequested (updateCardInfo n y e s) = stopRequested s"
  "portOpen (updateCardInfo n y e s) = portOpen s"
  "commandQueue (updateCardInfo n y e s) = commandQueue s"
  "cardPresented (updateCardInfo n y e s) = cardPresented s"
  "continueReadCard (updateCardInfo n y e s) = continueReadCard s"
  "events (updateCardInfo n y e s) = events s"
  "stopRequested (updateCardBalance b s) = stopRequested s"
  "portOpen (updateCardBalance b s) = portOpen s"
  "commandQueue (updateCardBalance b s) = commandQueue s"
  "cardPresented (updateCardBalance b s) = cardPresented s"
  "continueReadCard (updateCardBalance b s) = continueReadCard s"
  "events (updateCardBalance b s) = events s"
  by (simp_all add: updateCardInfo_def updateCardBalance_def)

lemma removeQueued_frame [simp]:
  "stopRequested (removeQueuedGetStatusCommands s) = stopRequested s"
  "portOpen (removeQueuedGetStatusCommands s) = portOpen s"
  "cardPresented (removeQueuedGetStatusCommands s) = cardPresented s"
  "continueReadCard (removeQueuedGetStatusCommands s) = continueReadCard s"
  "events (removeQueuedGetStatusCommands s) = events s"
  "commandQueue (removeQueuedGetStatusCommands s) =
     filter (\<lambda>c. c \<noteq> GET_STATUS_CMD) (commandQueue s)"
  by (simp_all add: removeQueuedGetStatusCommands_def)

lemma prop_snd_if: "P (snd a) \<Longrightarrow> P (snd b) \<Longrightarrow> P (snd (if c then a else b))"
  by simp

text \<open>An assertion kept by the primitive updates is kept by the whole response handler.\<close>

lemma handleCommandResponse_preserves:
  assumes "P s"
    and ev: "\<And>n v s. P s \<Longrightarrow>
      n \<notin> {''Evt_handleKSMReaderCardIn'', ''Evt_handleKSMReaderCardTakeAway''} \<Longrightarrow>
      P (FnEnqueueEvent n v s)"
    and enq: "\<And>c s. P s \<Longrightarrow> P (enqueueCommandOnIoThread c s)"
    and info: "\<And>n y e s. P s \<Longrightarrow> P (updateCardInfo n y e s)"
    and bal: "\<And>b s. P s \<Longrightarrow> P (updateCardBalance b s)"
    and st: "\<And>r s. P s \<Longrightarrow> P (snd (getStatusResponse r s))"
  shows "P (snd (handleCommandResponse env cmd d s))"
  unfolding handleCommandResponse_def acknowledge_def readCardInfoResponse_def
    readCardBalanceResponse_def Let_def
  by (intro prop_snd_if [of P] assms(1) st; simp only: snd_conv; intro enq ev info bal assms(1); simp)

section \<open>The queue invariant\<close>

definition ksm_inv :: "ksm \<Rightarrow> bool" where
  "ksm_inv s \<longleftrightarrow>
     count_list (commandQueue s) GET_STATUS_CMD \<le> 1 \<and>
     (stopRequested s \<longrightarrow> commandQueue s = [] \<and> \<not> portOpen s)"

lemma count_list_0: "count_list xs x = 0 \<longleftrightarrow> x \<notin> set xs"
  by (induction xs) auto

lemma count_filter_neq [simp]: "count_list (filter (\<lambda>c. c \<noteq> x) xs) x = 0"
  by (simp add: count_list_0)

lemma inv_enqueue: "ksm_inv s \<Longrightarrow> ksm_inv (enqueueCommandOnIoThread c s)"
  by (auto simp: ksm_inv_def enqueue_queue ksm_admits_def hasQueuedCommand_def
      count_list_0 [symmetric])

lemma inv_event: "ksm_inv s \<Longrightarrow> ksm_inv (FnEnqueueEvent n v s)"
  by (simp add: ksm_inv_def)

lemma inv_update_card:
  "ksm_inv s \<Longrightarrow> ksm_inv (updateCardInfo n y e s)"
  "ksm_inv s \<Longrightarrow> ksm_inv (updateCardBalance b s)"
  by (simp_all add: ksm_inv_def)

lemma inv_card_in: "ksm_inv s \<Longrightarrow>
  ksm_inv (removeQueuedGetStatusCommands (s\<lparr>cardPresented := p, continueReadCard := c\<rparr>))"
  by (simp add: ksm_inv_def)

lemma inv_presented: "ksm_inv (s\<lparr>cardPresented := p\<rparr>) \<longleftrightarrow> ksm_inv s"
  "ksm_inv (s\<lparr>continueReadCard := p\<rparr>) \<longleftrightarrow> ksm_inv s"
  by (simp_all add: ksm_inv_def)

lemma inv_status: "ksm_inv s \<Longrightarrow> ksm_inv (snd (getStatusResponse r s))"
  by (simp add: getStatusResponse_def Let_def inv_enqueue inv_event inv_card_in inv_presented)

lemma inv_response: "ksm_inv s \<Longrightarrow> ksm_inv (snd (handleCommandResponse env cmd d s))"
  by (rule handleCommandResponse_preserves)
    (simp_all add: inv_enqueue inv_status inv_event inv_update_card)

lemma inv_failure: "ksm_inv s \<Longrightarrow> ksm_inv (handleCommandFailure cmd r s)"
  by (simp add: handleCommandFailure_def Let_def inv_enqueue inv_event)

lemma inv_loop_upd: "ksm_inv (s\<lparr>loop := l\<rparr>) \<longleftrightarrow> ksm_inv s"
  by (simp add: ksm_inv_def)

lemma inv_loopResult: "ksm_inv s \<Longrightarrow> ksm_inv (loopResult cmd r s)"
  by (simp add: loopResult_def inv_loop_upd inv_failure)

lemma inv_finish: "ksm_inv s \<Longrightarrow> ksm_inv (finishCommand env cmd out s)"
  using inv_response [of s env cmd]
  by (auto simp: finishCommand_def inv_loopResult split: exchange_out.splits prod.splits)
    (metis inv_loopResult snd_conv)

lemma inv_turn: "ksm_inv s \<Longrightarrow> ksm_inv (loopTurn s)"
  by (auto simp: loopTurn_def takeCommand_def ksm_inv_def split: list.splits if_splits)

lemma inv_post: "ksm_inv s \<Longrightarrow> ksm_inv (post h s)"
  by (simp add: post_def ksm_inv_def)

lemma inv_handler: "ksm_inv s \<Longrightarrow> ksm_inv (runHandler h s)"
  by (auto simp: runHandler_def onEnable_def onStartGetStatus_def requestStopOnIoThread_def
      split: ksm_handler.splits intro!: inv_enqueue)
    (auto simp: ksm_inv_def)

lemmas ksm_api_defs = FnKSMReaderEnable_def FnKSMReaderReadCardInfo_def FnKSMReaderSendInit_def
  FnKSMReaderSendGetStatus_def FnKSMReaderStartGetStatus_def FnKSMReaderSendEjectToFront_def
  postCommand_def

lemma inv_init: "ksm_inv s \<Longrightarrow> ksm_inv (snd (FnKSMReaderInit ok s))"
  by (auto simp: FnKSMReaderInit_def Let_def postCommand_def post_def ksm_inv_def)

lemma inv_act: "ksm_inv s \<Longrightarrow> ksm_act env a s = Some s' \<Longrightarrow> ksm_inv s'"
  by (auto simp: ksm_act_def ksm_api_defs inv_post inv_turn inv_finish inv_init
      FnKSMReaderClose_def afterJoin_def Let_def
      split: ksm_action.splits if_splits list.splits ksm_loop.splits
      intro!: inv_handler inv_post)
    (auto simp: ksm_inv_def)

lemma inv_reach: "ksm_reach env s as s' \<Longrightarrow> ksm_inv s \<Longrightarrow> ksm_inv s'"
  by (induction rule: ksm_reach.induct) (auto intro: inv_act)

end
