(* ===== verification/Ksm_Correct.thy ===== *)
theory Ksm_Correct
  imports Ksm_Reader
begin

text \<open>
  Correctness of the KSM reader driver: card presence events, growth of the queue, the chain of
  commands that reads a card, and the byte level of the exchange with the device.
\<close>

section \<open>Card presence\<close>

text \<open>Replaying the presence events over a presence flag: \<open>None\<close> where a card enters twice, or
  leaves without having entered.\<close>

fun presence :: "bool \<Rightarrow> (string \<times> bool) list \<Rightarrow> bool option" where
  "presence p [] = Some p"
| "presence p ((n, v) # es) =
     (if n = ''Evt_handleKSMReaderCardIn'' then (if p then None else presence True es)
      else if n = ''Evt_handleKSMReaderCardTakeAway'' then (if p then presence False es else None)
      else presence p es)"

lemma presence_append:
  "presence p (es @ fs) = (case presence p es of None \<Rightarrow> None | Some q \<Rightarrow> presence q fs)"
  by (induction p es rule: presence.induct) auto

definition tracks :: "ksm \<Rightarrow> ksm \<Rightarrow> bool" where
  "tracks s0 s \<longleftrightarrow>
     (\<exists>es. events s = events s0 @ es \<and> presence (cardPresented s0) es = Some (cardPresented s))"

lemma tracks_refl [simp]: "tracks s s"
  by (simp add: tracks_def)

lemma tracks_trans: "tracks s0 s1 \<Longrightarrow> tracks s1 s2 \<Longrightarrow> tracks s0 s2"
  by (auto simp: tracks_def presence_append)

lemma tracks_same:
  "tracks s0 s \<Longrightarrow> events s' = events s \<Longrightarrow> cardPresented s' = cardPresented s \<Longrightarrow> tracks s0 s'"
  by (simp add: tracks_def)

lemma tracks_event:
  "tracks s0 s \<Longrightarrow> n \<notin> {''Evt_handleKSMReaderCardIn'', ''Evt_handleKSMReaderCardTakeAway''} \<Longrightarrow>
   tracks s0 (FnEnqueueEvent n v s)"
  by (auto simp: tracks_def presence_append)

lemma tracks_status: "tracks s0 s \<Longrightarrow> tracks s0 (snd (getStatusResponse r s))"
  by (auto simp: tracks_def getStatusResponse_def Let_def presence_append)

lemma tracks_response: "tracks s0 s \<Longrightarrow> tracks s0 (snd (handleCommandResponse env cmd d s))"
  by (rule handleCommandResponse_preserves)
    (simp_all add: tracks_event tracks_status, simp_all add: tracks_def)

lemma failureEventName_other:
  "failureEventName c \<notin> {''Evt_handleKSMReaderCardIn'', ''Evt_handleKSMReaderCardTakeAway''}"
  by (cases c) simp_all

lemma tracks_failure: "tracks s0 s \<Longrightarrow> tracks s0 (handleCommandFailure cmd r s)"
  using tracks_event [OF _ failureEventName_other, of s0 s cmd False]
  by (auto simp: handleCommandFailure_def Let_def elim: tracks_same)

lemma tracks_loopResult: "tracks s0 s \<Longrightarrow> tracks s0 (loopResult cmd r s)"
  using tracks_failure [of s0 s cmd r] by (auto simp: loopResult_def elim: tracks_same)

lemma tracks_finish: "tracks s0 s \<Longrightarrow> tracks s0 (finishCommand env cmd out s)"
  using tracks_response [of s0 s env cmd]
  by (cases out)
    (auto simp: finishCommand_def case_prod_beta intro: tracks_loopResult)

lemma tracks_handler: "tracks s0 s \<Longrightarrow> tracks s0 (runHandler h s)"
  by (cases h)
    (auto simp: runHandler_def onEnable_def onStartGetStatus_def requestStopOnIoThread_def
      elim!: tracks_same)

lemma tracks_turn: "tracks s0 s \<Longrightarrow> tracks s0 (loopTurn s)"
  by (auto simp: loopTurn_def takeCommand_def split: list.split elim!: tracks_same)

lemma tracks_post: "tracks s0 s \<Longrightarrow> tracks s0 (post h s)"
  by (auto simp: post_def elim!: tracks_same)

lemma tracks_posted: "tracks s0 (s\<lparr>posted := hs\<rparr>) \<longleftrightarrow> tracks s0 s"
  by (simp add: tracks_def)

lemma tracks_close: "tracks s0 s \<Longrightarrow> tracks s0 (FnKSMReaderClose s)"
  "tracks s0 s \<Longrightarrow> tracks s0 (afterJoin s)"
  by (auto simp: FnKSMReaderClose_def afterJoin_def post_def Let_def elim!: tracks_same)

definition no_init :: "ksm_action list \<Rightarrow> bool" where
  "no_init as \<longleftrightarrow> list_all (\<lambda>a. case a of Api_Init ok \<Rightarrow> False | _ \<Rightarrow> True) as"

lemma no_init_snoc:
  "no_init (as @ [a]) \<longleftrightarrow> no_init as \<and> (case a of Api_Init ok \<Rightarrow> False | _ \<Rightarrow> True)"
  by (simp add: no_init_def)

lemma tracks_act:
  assumes "tracks s0 s" and "ksm_act env a s = Some s'" "case a of Api_Init ok \<Rightarrow> False | _ \<Rightarrow> True"
  shows "tracks s0 s'"
  using assms
  by (cases a)
    (auto simp: ksm_act_def ksm_api_defs tracks_posted
      split: if_splits list.splits ksm_loop.splits
      intro: tracks_handler tracks_post tracks_turn tracks_finish tracks_close)

lemma tracks_reach: "ksm_reach env s as s' \<Longrightarrow> no_init as \<Longrightarrow> tracks s s'"
  by (induction rule: ksm_reach.induct) (auto simp: no_init_snoc intro: tracks_act)

section \<open>Growth of the queue\<close>

lemma rejected_response:
  "fst (handleCommandResponse env cmd d s) \<noteq> KSMReaderRecv_ACK \<Longrightarrow>
   snd (handleCommandResponse env cmd d s) = s"
proof -
  define Q where "Q p \<longleftrightarrow> (fst p \<noteq> KSMReaderRecv_ACK \<longrightarrow> snd p = s)" for p :: "ksm_ret \<times> ksm"
  have "Q (handleCommandResponse env cmd d s)"
    unfolding handleCommandResponse_def getStatusResponse_def acknowledge_def
      readCardInfoResponse_def readCardBalanceResponse_def Let_def
    by (intro prop_if [of Q]) (simp_all add: Q_def)
  then show "fst (handleCommandResponse env cmd d s) \<noteq> KSMReaderRecv_ACK \<Longrightarrow> ?thesis"
    by (simp add: Q_def)
qed

lemma length_enqueue: "length (commandQueue (enqueueCommandOnIoThread c s)) \<le> Suc (length (commandQueue s))"
  by (simp add: enqueue_queue)

lemma length_status:
  "length (commandQueue (snd (getStatusResponse r s))) \<le> Suc (length (commandQueue s))"
  using length_filter_le [of "\<lambda>c. c \<noteq> GET_STATUS_CMD" "commandQueue s"]
  by (auto simp: getStatusResponse_def Let_def enqueue_queue intro: le_SucI)

lemma length_response:
  "length (commandQueue (snd (handleCommandResponse env cmd d s))) \<le> Suc (length (commandQueue s))"
  unfolding handleCommandResponse_def acknowledge_def
    readCardInfoResponse_def readCardBalanceResponse_def Let_def
  by (intro prop_snd_if [of "\<lambda>t. length (commandQueue t) \<le> Suc (length (commandQueue s))"]
      length_status)
    (simp_all add: enqueue_queue)

lemma length_failure:
  "length (commandQueue (handleCommandFailure cmd r s)) \<le> Suc (length (commandQueue s))"
  by (simp add: handleCommandFailure_def Let_def enqueue_queue)

lemma length_finish:
  "length (commandQueue (finishCommand env cmd out s)) \<le> Suc (length (commandQueue s))"
proof (cases out)
  case (Failed r)
  then show ?thesis
    using length_failure [of cmd r s] by (simp add: finishCommand_def loopResult_def)
next
  case (Response d)
  obtain ret s' where r: "handleCommandResponse env cmd d s = (ret, s')" by fastforce
  have "ret \<noteq> KSMReaderRecv_ACK \<Longrightarrow> s' = s" using rejected_response [of env cmd d s] r by simp
  with r Response length_response [of env cmd d s] length_failure [of cmd ret s] show ?thesis
    by (auto simp: finishCommand_def loopResult_def)
qed

text \<open>One turn of the loop with the end of its exchange.\<close>

definition ksm_cycle :: "ksm_env \<Rightarrow> exchange_out \<Rightarrow> ksm \<Rightarrow> ksm" where
  "ksm_cycle env out s =
     (let s1 = loopTurn s in
      case loop s1 of LoopExec cmd \<Rightarrow> finishCommand env cmd out s1 | _ \<Rightarrow> s1)"

lemma cycle_cmd:
  "\<not> stopRequested s \<Longrightarrow> commandQueue s = cmd # cs \<Longrightarrow>
   ksm_cycle env out s =
     finishCommand env cmd out (s\<lparr>currentCmd := cmd, commandQueue := cs, loop := LoopExec cmd\<rparr>)"
  by (simp add: ksm_cycle_def loopTurn_def takeCommand_def)

section \<open>Reading a card\<close>

text \<open>What the device must answer for a command to succeed: the abstract protocol.\<close>

fun response_code :: "ksm_cmd \<Rightarrow> byte \<times> byte" where
  "response_code INIT_CMD = (0x30, 0x31)"
| "response_code CARD_PROHIBITED_CMD = (0x2F, 0x31)"
| "response_code CARD_ALLOWED_CMD = (0x2F, 0x33)"
| "response_code CARD_ON_IC_CMD = (0x32, 0x2F)"
| "response_code IC_POWER_ON_CMD = (0x33, 0x30)"
| "response_code WARM_RESET_CMD = (0x37, 0x2F)"
| "response_code SELECT_FILE1_CMD = (0x37, 0x31)"
| "response_code SELECT_FILE2_CMD = (0x37, 0x31)"
| "response_code READ_CARD_INFO_CMD = (0x37, 0x31)"
| "response_code READ_CARD_BALANCE_CMD = (0x37, 0x31)"
| "response_code IC_POWER_OFF_CMD = (0x33, 0x31)"
| "response_code EJECT_TO_FRONT_CMD = (0x32, 0x31)"
| "response_code GET_STATUS_CMD = (0x31, 0x30)"

definition good_payload :: "ksm_cmd \<Rightarrow> byte list \<Rightarrow> bool" where
  "good_payload cmd p \<longleftrightarrow>
     4 \<le> length p \<and> (p ! 2, p ! 3) = response_code cmd \<and>
     (response_code cmd = (0x37, 0x31) \<longrightarrow> 5 \<le> length p \<and> p ! 4 \<noteq> 0x4E) \<and>
     (cmd = READ_CARD_INFO_CMD \<longrightarrow> 22 \<le> length p) \<and>
     (cmd = READ_CARD_BALANCE_CMD \<longrightarrow> 11 \<le> length p)"

fun next_command :: "ksm_cmd \<Rightarrow> ksm_cmd option" where
  "next_command CARD_ON_IC_CMD = Some IC_POWER_ON_CMD"
| "next_command IC_POWER_ON_CMD = Some WARM_RESET_CMD"
| "next_command WARM_RESET_CMD = Some SELECT_FILE1_CMD"
| "next_command SELECT_FILE1_CMD = Some SELECT_FILE2_CMD"
| "next_command SELECT_FILE2_CMD = Some READ_CARD_INFO_CMD"
| "next_command READ_CARD_INFO_CMD = Some READ_CARD_BALANCE_CMD"
| "next_command READ_CARD_BALANCE_CMD = Some IC_POWER_OFF_CMD"
| "next_command IC_POWER_OFF_CMD = Some EJECT_TO_FRONT_CMD"
| "next_command _ = None"

fun success_events :: "ksm_cmd \<Rightarrow> string list" where
  "success_events READ_CARD_BALANCE_CMD =
     [''Evt_handleKSMReaderReadCardBalance'', ''Evt_handleKSMReaderCardInfo'']"
| "success_events EJECT_TO_FRONT_CMD =
     [''Evt_handleKSMReaderEjectToFront'', ''Evt_handleKSMReaderCardOut'']"
| "success_events c = [failureEventName c]"

definition card_after :: "ksm_env \<Rightarrow> ksm_cmd \<Rightarrow> byte list \<Rightarrow> card_data \<Rightarrow> card_data" where
  "card_after env cmd p d =
     (if cmd = READ_CARD_INFO_CMD then
        let ym = card_expiry (FnGetVectorCharToHexString (char_signed env) (take 3 (drop 19 p)))
        in d\<lparr>cardNum := FnGetVectorCharToHexString (char_signed env) (take 8 (drop 8 p)),
             expiryYearMonth := ym, expired := (dec_int ym \<le> now_yyyymm env)\<rparr>
      else if cmd = READ_CARD_BALANCE_CMD then
        let b = atoi (FnGetVectorCharToHexString (char_signed env) (take 3 (drop 8 p)))
        in d\<lparr>balance := (if b < 0 then 65536 + b else b)\<rparr>
      else d)"

definition response_frame :: "byte list \<Rightarrow> byte list" where
  "response_frame p = STX # p @ [ETX]"

lemma response_frame_parts [simp]:
  "length (response_frame p) = length p + 2" "hd (response_frame p) = STX"
  "last (response_frame p) = ETX" "butlast (tl (response_frame p)) = p"
  by (simp_all add: response_frame_def butlast_append)

lemma hex_len3: "6 \<le> length (FnGetVectorCharToHexString cs (take 3 (drop 19 p)))" if "22 \<le> length p"
  using hex_text_length_ge [of "take 3 (drop 19 p)" cs] that by simp

text \<open>An accepted response of every command but the status poll: the events of that command,
  the next command of the chain behind the queue, the card data of that response.\<close>

lemma good_response:
  assumes "good_payload cmd p" "cmd \<noteq> GET_STATUS_CMD"
  shows "handleCommandResponse env cmd (response_frame p) s =
    (KSMReaderRecv_ACK,
     (let s1 = s\<lparr>cardData := card_after env cmd p (cardData s),
                 events := events s @ map (\<lambda>n. (n, True)) (success_events cmd)\<rparr>
      in case next_command cmd of None \<Rightarrow> s1 | Some c \<Rightarrow> enqueueCommandOnIoThread c s1))"
  using assms hex_len3 [of p "char_signed env"]
  by (cases cmd)
    (simp_all add: handleCommandResponse_def good_payload_def Let_def acknowledge_def
      readCardInfoResponse_def readCardBalanceResponse_def card_after_def
      updateCardInfo_def updateCardBalance_def FnEnqueueEvent_def)

lemma cycle_good:
  assumes "\<not> stopRequested s" "portOpen s" "commandQueue s = cmd # cs" "cmd \<noteq> GET_STATUS_CMD"
    "next_command cmd = Some c" "good_payload cmd p"
  shows "ksm_cycle env (Response (response_frame p)) s =
    s\<lparr>currentCmd := cmd, loop := LoopTurn, commandQueue := cs @ [c],
      cardData := card_after env cmd p (cardData s),
      events := events s @ map (\<lambda>n. (n, True)) (success_events cmd)\<rparr>"
proof -
  have "c \<noteq> GET_STATUS_CMD" using assms(5) by (cases cmd) auto
  then show ?thesis
    using assms
    by (simp add: cycle_cmd finishCommand_def good_response loopResult_def
        enqueueCommandOnIoThread_def)
qed

lemma cycle_good_last:
  assumes "\<not> stopRequested s" "portOpen s" "commandQueue s = cmd # cs" "cmd \<noteq> GET_STATUS_CMD"
    "next_command cmd = None" "good_payload cmd p"
  shows "ksm_cycle env (Response (response_frame p)) s =
    s\<lparr>currentCmd := cmd, loop := LoopTurn, commandQueue := cs,
      cardData := card_after env cmd p (cardData s),
      events := events s @ map (\<lambda>n. (n, True)) (success_events cmd)\<rparr>"
  using assms
  by (simp add: cycle_cmd finishCommand_def good_response loopResult_def)

fun is_chain :: "ksm_cmd list \<Rightarrow> bool" where
  "is_chain [] = False"
| "is_chain [c] = (next_command c = None \<and> c \<noteq> GET_STATUS_CMD)"
| "is_chain (c # d # cs) = (next_command c = Some d \<and> is_chain (d # cs))"

definition run_cycles :: "ksm_env \<Rightarrow> byte list list \<Rightarrow> ksm \<Rightarrow> ksm" where
  "run_cycles env ps s = fold (\<lambda>p. ksm_cycle env (Response (response_frame p))) ps s"

lemma run_cycles_simps [simp]:
  "run_cycles env [] s = s"
  "run_cycles env (p # ps) s = run_cycles env ps (ksm_cycle env (Response (response_frame p)) s)"
  by (simp_all add: run_cycles_def)

definition card_after_all :: "ksm_env \<Rightarrow> (ksm_cmd \<times> byte list) list \<Rightarrow> card_data \<Rightarrow> card_data" where
  "card_after_all env cps d = fold (\<lambda>(c, p). card_after env c p) cps d"

text \<open>The whole chain, started by its first command, ends with an empty queue after one
  exchange per command.\<close>

lemma run_chain:
  assumes "is_chain cs" "list_all2 good_payload cs ps"
    "\<not> stopRequested s" "portOpen s" "commandQueue s = [hd cs]"
  shows "commandQueue (run_cycles env ps s) = [] \<and>
    events (run_cycles env ps s) =
      events s @ map (\<lambda>n. (n, True)) (concat (map success_events cs)) \<and>
    cardData (run_cycles env ps s) = card_after_all env (zip cs ps) (cardData s)"
  using assms
proof (induction cs arbitrary: ps s rule: is_chain.induct)
  case (2 c)
  then obtain p where "ps = [p]" "good_payload c p"
    by (auto simp: list_all2_Cons1)
  with 2 show ?case by (simp add: cycle_good_last card_after_all_def)
next
  case (3 c d cs)
  then obtain p qs where ps: "ps = p # qs" "good_payload c p" "list_all2 good_payload (d # cs) qs"
    by (auto simp: list_all2_Cons1)
  have ch: "is_chain (d # cs)" and n: "next_command c = Some d" using 3(2) by simp_all
  then have "c \<noteq> GET_STATUS_CMD" by auto
  then have step: "ksm_cycle env (Response (response_frame p)) s =
    s\<lparr>currentCmd := c, loop := LoopTurn, commandQueue := [d],
      cardData := card_after env c p (cardData s),
      events := events s @ map (\<lambda>n. (n, True)) (success_events c)\<rparr>"
    using 3 ps n cycle_good [of s c "[]" d p env] by simp
  show ?case
    unfolding ps(1) run_cycles_simps step
    using 3(1) [OF ch ps(3), of "s\<lparr>currentCmd := c, loop := LoopTurn, commandQueue := [d],
      cardData := card_after env c p (cardData s),
      events := events s @ map (\<lambda>n. (n, True)) (success_events c)\<rparr>"] 3(4,5)
    by (simp add: card_after_all_def)
qed simp

definition read_chain :: "ksm_cmd list" where
  "read_chain =
     [CARD_ON_IC_CMD, IC_POWER_ON_CMD, WARM_RESET_CMD, SELECT_FILE1_CMD, SELECT_FILE2_CMD,
      READ_CARD_INFO_CMD, READ_CARD_BALANCE_CMD, IC_POWER_OFF_CMD, EJECT_TO_FRONT_CMD]"

lemma read_chain_is_chain: "is_chain read_chain"
  by (simp add: read_chain_def)

section \<open>Frames on the wire\<close>

lemma feed_body:
  assumes "ETX \<notin> set xs" "receivingFrame r" "\<not> waitingForBcc r"
    "length (rx_frame r) + length xs \<le> RX_FRAME_MAX_SIZE"
  shows "feed rx_byte r xs =
    (r\<lparr>rx_frame := rx_frame r @ xs, calculatedBcc := foldl (XOR) (calculatedBcc r) xs\<rparr>, [])"
  using assms
proof (induction xs arbitrary: r)
  case (Cons x xs)
  then show ?case by (auto simp: rx_byte_def)
qed simp

definition rx_collecting :: "byte list \<Rightarrow> byte \<Rightarrow> bool \<Rightarrow> rx_state" where
  "rx_collecting f bcc w =
     \<lparr>receivingFrame = True, waitingForBcc = w, calculatedBcc = bcc, rx_frame = f\<rparr>"

lemma feed_to_etx:
  assumes "ETX \<notin> set xs" "length xs \<le> 126"
  shows "feed rx_byte rx_start (STX # xs @ [ETX]) =
    (rx_collecting (STX # xs @ [ETX]) (foldl (XOR) STX xs XOR ETX) True, [])"
proof -
  have s: "rx_byte rx_start STX = (rx_collecting [STX] STX False, None)"
    by (simp add: rx_byte_def rx_start_def rx_collecting_def)
  have b: "feed rx_byte (rx_collecting [STX] STX False) xs =
    (rx_collecting (STX # xs) (foldl (XOR) STX xs) False, [])"
    using assms by (subst feed_body) (simp_all add: rx_collecting_def RX_FRAME_MAX_SIZE_def)
  have e: "rx_byte (rx_collecting (STX # xs) (foldl (XOR) STX xs) False) ETX =
    (rx_collecting (STX # xs @ [ETX]) (foldl (XOR) STX xs XOR ETX) True, None)"
    using assms by (simp add: rx_byte_def rx_collecting_def RX_FRAME_MAX_SIZE_def)
  show ?thesis by (simp add: s feed_append b e)
qed

lemma rx_bcc:
  "rx_byte (rx_collecting f bcc True) b =
     (rx_start, Some (if b = bcc then KSMReaderRecv_ACK else KSMReaderRecv_CRCErr, f))"
  by (simp add: rx_byte_def rx_collecting_def)

definition ksm_payload_ok :: "byte list \<Rightarrow> bool" where
  "ksm_payload_ok p \<longleftrightarrow> p \<noteq> [] \<and> length p \<le> 126 \<and> ETX \<notin> set p"

lemma feed_frame:
  "ksm_payload_ok p \<Longrightarrow>
   feed rx_byte rx_start (frame_of_payload p) = (rx_start, [(KSMReaderRecv_ACK, response_frame p)])"
  using feed_to_etx [of p]
    feed_append [of rx_byte rx_start "STX # p @ [ETX]" "[foldl (XOR) STX p XOR ETX]"]
  by (simp add: ksm_payload_ok_def frame_of_payload_def rx_bcc response_frame_def)

lemma rx_noise: "b \<noteq> STX \<Longrightarrow> rx_byte rx_start b = (rx_start, None)"
  by (simp add: rx_byte_def rx_start_def)

interpretation ksmrx: framed_receiver rx_byte "\<lambda>r. r = rx_start" frame_of_payload ksm_payload_ok
  "\<lambda>b. b \<noteq> STX" "\<lambda>p. (KSMReaderRecv_ACK, response_frame p)"
  by unfold_locales (auto simp: feed_frame rx_noise)

section \<open>The exchange\<close>

lemma ack_noise:
  "\<forall>b \<in> set ns. b \<noteq> ACK \<and> b \<noteq> NAK \<Longrightarrow> waitForAck (map Rx ns @ es) = waitForAck es"
  by (induction ns) auto

lemma read_feed_none:
  "feed rx_byte r bs = (r', []) \<Longrightarrow> readResponseFrame r (map Rx bs @ es) = readResponseFrame r' es"
proof (induction bs arbitrary: r)
  case (Cons b bs)
  obtain r1 out where "rx_byte r b = (r1, out)" by fastforce
  with Cons show ?case by (auto split: prod.splits option.splits)
qed simp

lemma read_feed_first:
  "feed rx_byte r bs = (r', out # outs) \<Longrightarrow> readResponseFrame r (map Rx bs @ es) = Some out"
proof (induction bs arbitrary: r outs)
  case (Cons b bs)
  obtain r1 out where "rx_byte r b = (r1, out)" by fastforce
  with Cons show ?case by (auto split: prod.splits option.splits)
qed simp

lemma feed_noise: "\<forall>b \<in> set ns. b \<noteq> STX \<Longrightarrow> feed rx_byte rx_start ns = (rx_start, [])"
  by (induction ns) (auto simp: rx_noise)

lemma read_noise_frame:
  assumes "\<forall>b \<in> set ns. b \<noteq> STX" "ksm_payload_ok p"
  shows "readResponseFrame rx_start (map Rx (ns @ frame_of_payload p) @ es) =
    Some (KSMReaderRecv_ACK, response_frame p)"
  by (rule read_feed_first [of _ _ rx_start _ "[]"])
    (simp add: feed_append feed_noise assms feed_frame)

definition ends :: "rx_event \<Rightarrow> bool" where
  "ends e \<longleftrightarrow> (case e of Rx b \<Rightarrow> False | _ \<Rightarrow> True)"

lemma ends_simps [simp]: "\<not> ends (Rx b)" "ends RxTimedOut" "ends RxAborted" "ends RxError"
  by (simp_all add: ends_def)

lemma waitForAck_ends:
  "\<exists>e \<in> set es. ends e \<Longrightarrow>
   \<exists>r rest. waitForAck es = Some (r, rest) \<and> (r = KSMReaderRecv_ACK \<longrightarrow> (\<exists>e \<in> set rest. ends e))"
  by (induction es rule: waitForAck.induct) auto

lemma readResponse_ends: "\<exists>e \<in> set es. ends e \<Longrightarrow> readResponseFrame r es \<noteq> None"
proof (induction es arbitrary: r)
  case (Cons e es)
  show ?case
  proof (cases e)
    case (Rx b)
    obtain r1 out where "rx_byte r b = (r1, out)" by fastforce
    with Rx Cons show ?thesis by (auto split: option.splits)
  qed simp_all
qed simp

lemma buildCommandFrame_nonempty [simp]: "buildCommandFrame cmd \<noteq> []"
  by (cases cmd) (simp_all add: buildCommandFrame_def frame_of_payload_def)

lemma exchange_ends: "\<exists>e \<in> set (rx io). ends e \<Longrightarrow> exchange io cmd \<noteq> None"
proof -
  assume "\<exists>e \<in> set (rx io). ends e"
  then obtain r rest where w: "waitForAck (rx io) = Some (r, rest)"
    and e: "r = KSMReaderRecv_ACK \<longrightarrow> readResponseFrame rx_start rest \<noteq> None"
    using waitForAck_ends [of "rx io"] readResponse_ends by blast
  then show ?thesis
    by (auto simp: exchange_def Let_def split: prod.splits option.splits)
qed

lemma xor_foldl: "foldl (XOR) a xs = a XOR foldl (XOR) 0 xs" for xs :: "byte list"
proof (induction xs arbitrary: a)
  case (Cons x xs)
  have "foldl (XOR) a (x # xs) = (a XOR x) XOR foldl (XOR) 0 xs"
    using Cons.IH [of "a XOR x"] by simp
  also have "\<dots> = a XOR foldl (XOR) 0 (x # xs)"
    using Cons.IH [of x] by (simp add: xor.assoc)
  finally show ?case .
qed simp

lemma frame_xor: "p \<noteq> [] \<Longrightarrow> foldl (XOR) 0 (frame_of_payload p) = 0"
  by (simp add: frame_of_payload_def)

section \<open>Card expiry\<close>

definition hex_text :: "string \<Rightarrow> bool" where
  "hex_text s \<longleftrightarrow> (\<forall>c \<in> set s. \<exists>n. c = hex_digit n)"

lemma hex_text_hex_nat: "hex_text (hex_nat n)"
proof (induction n rule: hex_nat.induct)
  case (1 n)
  then show ?case
    by (subst hex_nat.simps) (auto simp: hex_text_def)
qed

lemma zero_hex_digit: "CHR ''0'' = hex_digit 0"
  by (simp add: hex_digit.simps)

lemma hex_text_vector: "hex_text (FnGetVectorCharToHexString cs bs)"
proof -
  have "hex_text (char_to_int_hex cs b)" for b
    using hex_text_hex_nat
    by (auto simp: char_to_int_hex_def setw_fill_def hex_text_def zero_hex_digit)
  then show ?thesis by (auto simp: FnGetVectorCharToHexString_def hex_text_def)
qed

lemma atoi_hex_nonneg:
  assumes "hex_text s"
  shows "0 \<le> atoi s"
proof (cases s)
  case Nil
  then show ?thesis by (simp add: atoi_def strtol_opt_def strip_0x_def)
next
  case (Cons c cs)
  with assms obtain n where "c = hex_digit n" by (auto simp: hex_text_def)
  then show ?thesis using Cons by (auto simp: atoi_def strtol_opt_def Let_def split: option.splits)
qed

lemma hex_text_sub: "hex_text s \<Longrightarrow> hex_text (take k (drop j s))"
  using set_take_subset [of k "drop j s"] set_drop_subset [of j s]
  by (auto simp: hex_text_def)

definition expiry_full_year :: "string \<Rightarrow> int" where
  "expiry_full_year str =
     (if atoi (take 2 str) > 90 then 1900 + atoi (take 2 str) else 2000 + atoi (take 2 str))"

lemma card_expiry_total:
  assumes "hex_text str"
  shows "card_expiry str div 100 * 12 + card_expiry str mod 100 =
      expiry_full_year str * 12 + atoi (take 2 (drop 2 str)) + atoi (take 2 (drop 4 str))"
    and "card_expiry str mod 100 < 12"
proof -
  define m where "m = atoi (take 2 (drop 4 str)) + atoi (take 2 (drop 2 str))"
  have "0 \<le> m"
    using assms by (simp add: m_def atoi_hex_nonneg hex_text_sub)
  then have e: "card_expiry str = m mod 12 + (expiry_full_year str + m div 12) * 100"
    by (simp add: card_expiry_def Let_def m_def expiry_full_year_def signed_divide_int_def
        signed_modulo_int_def sgn_if)
  have r: "0 \<le> m mod 12" "m mod 12 < 12" by simp_all
  have k: "card_expiry str mod 100 = m mod 12"
    using r unfolding e mod_mult_self1 by simp
  have d: "card_expiry str div 100 = expiry_full_year str + m div 12"
    using r unfolding e by (subst div_mult_self1) simp_all
  show "card_expiry str mod 100 < 12" using k r by simp
  have "m div 12 * 12 + m mod 12 = m" by simp
  then show "card_expiry str div 100 * 12 + card_expiry str mod 100 =
      expiry_full_year str * 12 + atoi (take 2 (drop 2 str)) + atoi (take 2 (drop 4 str))"
    unfolding d k m_def by (simp add: algebra_simps)
qed

lemma expired_numeric:
  assumes "200000 \<le> card_expiry str" "card_expiry str < 1000000" "100000 \<le> now" "now < 1000000"
  shows "dec_int (card_expiry str) \<le> dec_nat now \<longleftrightarrow> card_expiry str \<le> int now"
proof -
  define e where "e = nat (card_expiry str)"
  have "length (dec_nat e) = 6" "length (dec_nat now) = 6"
    using assms length_dec_nat [of 5] by (simp_all add: e_def nat_less_iff le_nat_iff)
  then have "dec_nat e \<le> dec_nat now \<longleftrightarrow> e \<le> now" by (simp add: dec_nat_le_iff)
  then show ?thesis using assms(1) by (simp add: dec_int_def e_def nat_le_iff)
qed

section \<open>Running the component on concrete actions\<close>

fun ksm_run :: "ksm_env \<Rightarrow> ksm_action list \<Rightarrow> ksm \<Rightarrow> ksm option" where
  "ksm_run env [] s = Some s"
| "ksm_run env (a # as) s = (case ksm_act env a s of None \<Rightarrow> None | Some s' \<Rightarrow> ksm_run env as s')"

lemma reach_trans: "ksm_reach env s as s' \<Longrightarrow> ksm_reach env s' bs s'' \<Longrightarrow> ksm_reach env s (as @ bs) s''"
proof (rotate_tac 1, induction rule: ksm_reach.induct)
  case (reach_step t bs u a v)
  then show ?case using ksm_reach.reach_step [of env s "as @ bs" u a v] by simp
qed simp

lemma run_reach: "ksm_run env as s = Some s' \<Longrightarrow> ksm_reach env s as s'"
proof (induction as arbitrary: s)
  case Nil
  then show ?case by (simp add: ksm_reach.reach_start)
next
  case (Cons a as)
  then obtain t where t: "ksm_act env a s = Some t" "ksm_run env as t = Some s'"
    by (auto split: option.splits)
  have "ksm_reach env s ([] @ [a]) t" by (rule ksm_reach.reach_step [OF ksm_reach.reach_start t(1)])
  then show ?case using reach_trans [OF _ Cons.IH [OF t(2)], of s "[a]"] by simp
qed

definition unsigned_env :: ksm_env where
  "unsigned_env = \<lparr>char_signed = False, now_yyyymm = ''202501''\<rparr>"

section \<open>Properties\<close>

text \<open>C24: In every state the reader driver can reach from its construction, by any interleaving
  of the public functions, the posted handlers and the command loop with any device behaviour, at
  most one GET_STATUS command is queued, and once a stop has been requested the queue is empty
  and the port closed.\<close>

theorem ksm_queue_invariant:
  assumes "ksm_reach env ksm_initial as s"
  shows "count_list (commandQueue s) GET_STATUS_CMD \<le> 1 \<and>
    (stopRequested s \<longrightarrow> commandQueue s = [] \<and> \<not> portOpen s)"
proof -
  have "ksm_inv ksm_initial" by (simp add: ksm_inv_def ksm_initial_def)
  then show ?thesis using inv_reach [OF assms] by (simp add: ksm_inv_def)
qed

definition demo_polling :: ksm where
  "demo_polling =
     the (ksm_run unsigned_env
       [Api_Init True, Api_StartGetStatus, RunHandler, RunHandler, Api_SendGetStatus, RunHandler]
       ksm_initial)"

lemmas ksm_eval = ksm_act_def FnKSMReaderInit_def postCommand_def post_def ksm_initial_def
  FnKSMReaderStartGetStatus_def FnKSMReaderSendGetStatus_def runHandler_def onStartGetStatus_def
  enqueueCommandOnIoThread_def hasQueuedCommand_def FnKSMReaderClose_def requestStopOnIoThread_def
  loopTurn_def takeCommand_def finishCommand_def handleCommandResponse_def getStatusResponse_def
  loopResult_def FnEnqueueEvent_def removeQueuedGetStatusCommands_def ksm_bytes Let_def

lemma demo_polling_run:
  "ksm_run unsigned_env
     [Api_Init True, Api_StartGetStatus, RunHandler, RunHandler, Api_SendGetStatus, RunHandler]
     ksm_initial = Some demo_polling"
  by (simp add: demo_polling_def ksm_eval)

theorem ksm_queue_invariant_witness:
  "count_list (commandQueue demo_polling) GET_STATUS_CMD \<le> 1 \<and>
   commandQueue demo_polling = [INIT_CMD, GET_STATUS_CMD]"
  using ksm_queue_invariant [OF run_reach [OF demo_polling_run]]
  by (simp add: demo_polling_def ksm_eval)

text \<open>C30: Over any run of the driver without a restart, the card-in and card-take-away events
  alternate, starting from the presence flag at the beginning of the run, and the presence flag
  at its end is what the events say.\<close>

theorem ksm_presence_alternates:
  assumes "ksm_reach env s as s'" "no_init as"
  shows "\<exists>es. events s' = events s @ es \<and> presence (cardPresented s) es = Some (cardPresented s')"
  using tracks_reach [OF assms] by (simp add: tracks_def)

definition demo_card_in :: "ksm_action list" where
  "demo_card_in = [Turn, Finish (Response [2, 0, 3, 0x30, 0x31, 3]), Turn,
     Finish (Response [2, 0, 3, 0x31, 0x30, 0x4A, 3]),
     Api_StartGetStatus, RunHandler, Turn, Finish (Response [2, 0, 3, 0x31, 0x30, 0x4E, 3])]"

theorem ksm_presence_alternates_witness:
  "\<exists>s' es. ksm_run unsigned_env demo_card_in demo_polling = Some s' \<and>
     events s' = events demo_polling @ es \<and>
     presence (cardPresented demo_polling) es = Some (cardPresented s')"
proof -
  have "no_init demo_card_in" by (simp add: no_init_def demo_card_in_def)
  moreover have "\<exists>s'. ksm_run unsigned_env demo_card_in demo_polling = Some s'"
    by (simp add: demo_card_in_def demo_polling_def ksm_eval)
  then obtain s' where r: "ksm_run unsigned_env demo_card_in demo_polling = Some s'" ..
  ultimately show ?thesis using ksm_presence_alternates [OF run_reach [OF r]] by blast
qed

text \<open>Reading a card.  When the queue holds only CARD_ON_IC and the device answers each
  command of the chain with a well-formed response, nine turns of the loop empty the queue, report
  the events of every stage in order, and leave the card number, the expiry, the expired flag and
  the balance of those responses in the card data.\<close>

theorem ksm_reads_card:
  assumes "list_all2 good_payload read_chain ps"
    "\<not> stopRequested s" "portOpen s" "commandQueue s = [CARD_ON_IC_CMD]"
  shows "commandQueue (run_cycles env ps s) = [] \<and>
    events (run_cycles env ps s) =
      events s @ map (\<lambda>n. (n, True)) (concat (map success_events read_chain)) \<and>
    cardData (run_cycles env ps s) =
      card_after env READ_CARD_BALANCE_CMD (ps ! 6)
        (card_after env READ_CARD_INFO_CMD (ps ! 5) (cardData s))"
proof -
  have len: "length ps = 9" using list_all2_lengthD [OF assms(1)] by (simp add: read_chain_def)
  then have ps: "ps = [ps ! 0, ps ! 1, ps ! 2, ps ! 3, ps ! 4, ps ! 5, ps ! 6, ps ! 7, ps ! 8]"
    by (simp add: list_eq_iff_nth_eq nth_Cons numeral_eq_Suc split: nat.split)
  have "card_after_all env (zip read_chain ps) d =
    card_after env READ_CARD_BALANCE_CMD (ps ! 6) (card_after env READ_CARD_INFO_CMD (ps ! 5) d)"
    for d by (subst ps) (simp add: card_after_all_def read_chain_def card_after_def)
  then show ?thesis
    using run_chain [OF read_chain_is_chain assms(1-3), of env] assms(4)
    by (simp add: read_chain_def)
qed

definition demo_payloads :: "byte list list" where
  "demo_payloads =
     [[0, 2, 0x32, 0x2F], [0, 2, 0x33, 0x30], [0, 2, 0x37, 0x2F], [0, 4, 0x37, 0x31, 0x59],
      [0, 4, 0x37, 0x31, 0x59],
      [0, 20, 0x37, 0x31, 0x59, 0, 0, 0, 0x11, 0x22, 0x33, 0x44, 0x55, 0x66, 0x77, 0x08,
       0, 0, 0, 0x24, 0x05, 0x12],
      [0, 12, 0x37, 0x31, 0x59, 0, 0, 0, 0, 0x12, 0x50],
      [0, 2, 0x33, 0x31], [0, 2, 0x32, 0x31]]"

definition demo_inserted :: ksm where
  "demo_inserted = ksm_initial\<lparr>portOpen := True, running := True, loop := LoopTurn,
     commandQueue := [CARD_ON_IC_CMD]\<rparr>"

theorem ksm_reads_card_witness:
  "commandQueue (run_cycles unsigned_env demo_payloads demo_inserted) = [] \<and>
   cardData (run_cycles unsigned_env demo_payloads demo_inserted) =
     card_after unsigned_env READ_CARD_BALANCE_CMD (demo_payloads ! 6)
       (card_after unsigned_env READ_CARD_INFO_CMD (demo_payloads ! 5) (cardData demo_inserted))"
proof -
  have "list_all2 good_payload read_chain demo_payloads"
    by (simp add: demo_payloads_def read_chain_def good_payload_def)
  from ksm_reads_card [OF this, of demo_inserted unsigned_env] show ?thesis
    by (simp add: demo_inserted_def ksm_initial_def)
qed

text \<open>A response frame and the noise before it.  A line that carries noise without STX and
  frames whose payload has at most 126 bytes and no ETX byte delivers exactly the payloads of the
  frames, each acknowledged, in order.\<close>

theorem ksm_line_received:
  assumes "line_ok ksm_payload_ok (\<lambda>b. b \<noteq> STX) xs"
  shows "feed rx_byte rx_start (line_bytes frame_of_payload xs) =
    (rx_start, map (\<lambda>p. (KSMReaderRecv_ACK, response_frame p)) (line_frames xs))"
  using ksmrx.line_received [OF refl assms] by simp

theorem ksm_line_received_witness:
  "snd (feed rx_byte rx_start
     (line_bytes frame_of_payload [Noise 0, Frame [0, 4, 0x30, 0x31], Noise 7, Frame [9]])) =
   [(KSMReaderRecv_ACK, response_frame [0, 4, 0x30, 0x31]),
    (KSMReaderRecv_ACK, response_frame [9])]"
  by (subst ksm_line_received) (simp_all add: ksm_payload_ok_def ksm_bytes)

text \<open>A frame whose payload contains an ETX byte.  Reception ends at that byte, and the next
  byte is taken for the checksum: the caller sees either a checksum error or a frame cut short,
  never the payload sent.\<close>

theorem ksm_embedded_etx:
  assumes "ETX \<notin> set xs" "length xs \<le> 126"
  shows "readResponseFrame rx_start (map Rx (frame_of_payload (xs @ ETX # y # ys)) @ es) =
    Some (if y = foldl (XOR) STX xs XOR ETX then KSMReaderRecv_ACK else KSMReaderRecv_CRCErr,
          response_frame xs)"
proof -
  obtain rest where f: "frame_of_payload (xs @ ETX # y # ys) = (STX # xs @ [ETX]) @ y # rest"
    by (simp add: frame_of_payload_def)
  have "readResponseFrame rx_start (map Rx ((STX # xs @ [ETX]) @ y # rest) @ es) =
    readResponseFrame (rx_collecting (STX # xs @ [ETX]) (foldl (XOR) STX xs XOR ETX) True)
      (map Rx (y # rest) @ es)"
    using read_feed_none [OF feed_to_etx [OF assms], of "map Rx (y # rest) @ es"]
    by simp
  then show ?thesis unfolding f by (simp add: rx_bcc response_frame_def)
qed

theorem ksm_embedded_etx_witness:
  "readResponseFrame rx_start (map Rx (frame_of_payload [0, 3, 0x31, 0x30, 0x4A])) =
     Some (KSMReaderRecv_CRCErr, [2, 0, 3])"
  using ksm_embedded_etx [where xs = "[0]" and y = "0x31" and ys = "[0x30, 0x4A]" and es = "[]"]
  by (simp add: ksm_bytes response_frame_def)

text \<open>C25: The exchange.  When both writes succeed and the device sends, after any bytes other
  than ACK and NAK, an ACK, and then, after any bytes other than STX, a frame whose payload has at
  most 126 bytes and no ETX, the exchange ends with the response frame around that payload.\<close>

theorem ksm_exchange_delivers:
  assumes "writeBytes (tx_command io) (buildCommandFrame cmd)" "ack_ready io"
    "writeBytes (tx_enq io) [ENQ]" "resp_ready io"
    "\<forall>b \<in> set ns. b \<noteq> ACK \<and> b \<noteq> NAK" "\<forall>b \<in> set ms. b \<noteq> STX" "ksm_payload_ok p"
    "rx io = map Rx (ns @ ACK # ms @ frame_of_payload p) @ es"
  shows "exchange io cmd = Some (Response (response_frame p))"
proof -
  have "waitForAck (rx io) =
    Some (KSMReaderRecv_ACK, map Rx (ms @ frame_of_payload p) @ es)"
    using ack_noise [OF assms(5), of "Rx ACK # map Rx (ms @ frame_of_payload p) @ es"]
    by (simp add: assms(8))
  moreover have "readResponseFrame rx_start (map Rx (ms @ frame_of_payload p) @ es) =
    Some (KSMReaderRecv_ACK, response_frame p)"
    using assms(6,7) by (rule read_noise_frame)
  ultimately show ?thesis using assms(1-4) by (simp add: exchange_def Let_def)
qed

definition demo_tx :: "nat \<Rightarrow> tx_result" where
  "demo_tx n = \<lparr>ready_before = True, ready_after_gap = True, tx_timedOut = False,
     tx_error = False, bytesTransferred = n\<rparr>"

definition demo_io :: exchange_io where
  "demo_io = \<lparr>tx_command = demo_tx 7, ack_ready = True, tx_enq = demo_tx 1, resp_ready = True,
     rx = map Rx ([0x41] @ ACK # [0x42] @ frame_of_payload [0, 2, 0x30, 0x31])\<rparr>"

theorem ksm_exchange_delivers_witness:
  "exchange demo_io INIT_CMD = Some (Response [2, 0, 2, 0x30, 0x31, 3])"
proof -
  have "exchange demo_io INIT_CMD = Some (Response (response_frame [0, 2, 0x30, 0x31]))"
    by (rule ksm_exchange_delivers [where ns = "[0x41]" and ms = "[0x42]" and es = "[]"])
      (simp_all add: demo_io_def demo_tx_def writeBytes_def buildCommandFrame_def
        frame_of_payload_def ksm_payload_ok_def ksm_bytes)
  then show ?thesis by (simp add: response_frame_def ksm_bytes)
qed

text \<open>The exchange returns.  If among the read results there is the expiry of a timer, an
  abort or an error, the exchange ends with a result, whatever bytes came before it and after
  it.\<close>

theorem ksm_exchange_returns:
  assumes "e \<in> set (rx io)" "ends e"
  shows "\<exists>out. exchange io cmd = Some out"
  using exchange_ends [of io cmd] assms by blast

theorem ksm_exchange_returns_witness:
  "\<exists>out. exchange (demo_io\<lparr>rx := [Rx 0x30, RxTimedOut]\<rparr>) INIT_CMD = Some out"
  by (rule ksm_exchange_returns [of RxTimedOut]) simp_all

text \<open>The loop never grows the queue.  A turn that takes a command, with any outcome of its
  exchange, leaves at most as many commands pending as it found, even though responses and
  failures enqueue follow-up commands.\<close>

theorem ksm_cycle_no_growth:
  assumes "loop s = LoopTurn"
  shows "length (commandQueue (ksm_cycle env out s)) \<le> length (commandQueue s)"
proof (cases "stopRequested s \<or> commandQueue s = []")
  case True
  then show ?thesis
    using assms by (auto simp: ksm_cycle_def loopTurn_def takeCommand_def Let_def)
next
  case False
  then obtain c cs where "commandQueue s = c # cs" by (cases "commandQueue s") auto
  then show ?thesis
    using False
      length_finish [of env c out "s\<lparr>currentCmd := c, commandQueue := cs, loop := LoopExec c\<rparr>"]
    by (simp add: cycle_cmd)
qed

theorem ksm_cycle_no_growth_witness:
  "length (commandQueue (ksm_cycle unsigned_env (Failed KSMReaderRecv_NAK) demo_inserted)) \<le> 1"
  using ksm_cycle_no_growth [of demo_inserted unsigned_env "Failed KSMReaderRecv_NAK"]
  by (simp add: demo_inserted_def)

text \<open>Card expiry.  The year and month the driver computes from the expiry field of a
  response denote, as a count of months, the start month of the card plus its validity; the month
  part is between 0 and 11, so a card that expires in a December is stored as month 0 of the next
  year.\<close>

theorem ksm_expiry_months:
  "let str = FnGetVectorCharToHexString cs bs; e = card_expiry str in
   e div 100 * 12 + e mod 100 =
     expiry_full_year str * 12 + atoi (take 2 (drop 2 str)) + atoi (take 2 (drop 4 str)) \<and>
   0 \<le> e mod 100 \<and> e mod 100 < 12"
  using card_expiry_total [OF hex_text_vector, of cs bs] by (simp add: Let_def)

text \<open>An accepted response is not matched against the command that was sent.  Outside the
  shared code 0x37 0x31, the result and the new state do not depend on the command.\<close>

theorem ksm_response_unmatched:
  assumes "\<not> (d ! 3 = 0x37 \<and> d ! 4 = 0x31)"
  shows "handleCommandResponse env cmd d s = handleCommandResponse env cmd' d s"
proof (cases "length d < 6")
  case False
  then have "butlast (tl d) ! 2 = d ! 3" "butlast (tl d) ! 3 = d ! 4"
    by (simp_all add: nth_butlast nth_tl)
  then show ?thesis using assms by (simp add: handleCommandResponse_def Let_def)
qed (simp add: handleCommandResponse_def)

theorem ksm_response_unmatched_witness:
  "handleCommandResponse unsigned_env INIT_CMD [2, 0, 2, 0x2F, 0x33, 3] ksm_initial =
   handleCommandResponse unsigned_env EJECT_TO_FRONT_CMD [2, 0, 2, 0x2F, 0x33, 3] ksm_initial"
  by (rule ksm_response_unmatched) simp

text \<open>Commands are executed in the order in which they were accepted: whatever is
  requested, the loop takes first what was pending and then a subsequence of the requests.\<close>

theorem ksm_commands_fifo:
  "\<exists>as. subseq as cs \<and>
     drain takeCommand (length (commandQueue s) + length cs) (fold enqueueCommandOnIoThread cs s) =
       commandQueue s @ as"
  by (rule ksmq.fifo)

text \<open>The exclusive-or over every byte of a command frame is zero, and the frame is the
  payload between STX and ETX followed by that check byte.\<close>

theorem ksm_command_frame:
  "\<exists>bcc. buildCommandFrame cmd = STX # buildCommandPayload cmd @ [ETX, bcc] \<and>
     foldl (XOR) 0 (buildCommandFrame cmd) = 0"
proof -
  have "buildCommandPayload cmd \<noteq> []" by (cases cmd) simp_all
  then show ?thesis
    using frame_xor [of "buildCommandPayload cmd"]
    by (simp add: buildCommandFrame_def frame_of_payload_def)
qed

end
