(* ===== verification/Dio.thy ===== *)
theory Dio
  imports Pbs_Prelude
begin

text \<open>
  The digital inputs and outputs of the station (src/dio.h, src/dio.cpp) over the GPIO pins
  (src/gpio.h).  A poll reads every input pin, compares the values with those of the previous
  poll and reports edges: to the event manager, to the monitor and to the process state
  (\<open>FnSetLoopAPresent\<close>).  The reports are the list of effects of the poll, in the code's order.
  A pin reads LOW or HIGH, or -1 where the read fails; values are the code's ints.  Times are
  the nanoseconds of the steady clock.
\<close>

section \<open>Types and state\<close>

definition GPIO_HIGH :: int where "GPIO_HIGH = 1"
definition GPIO_LOW :: int where "GPIO_LOW = 0"

lemmas gpio_levels = GPIO_HIGH_def GPIO_LOW_def

datatype dio_event =
    LOOP_A_ON_EVENT | LOOP_A_OFF_EVENT | LOOP_B_ON_EVENT | LOOP_B_OFF_EVENT
  | LOOP_C_ON_EVENT | LOOP_C_OFF_EVENT | INTERCOM_ON_EVENT | INTERCOM_OFF_EVENT
  | STATION_DOOR_OPEN_EVENT | STATION_DOOR_CLOSE_EVENT
  | BARRIER_DOOR_OPEN_EVENT | BARRIER_DOOR_CLOSE_EVENT
  | BARRIER_STATUS_ON_EVENT | BARRIER_STATUS_OFF_EVENT
  | MANUAL_OPEN_BARRIED_ON_EVENT | MANUAL_OPEN_BARRIED_OFF_EVENT
  | LORRY_SENSOR_ON_EVENT | LORRY_SENSOR_OFF_EVENT
  | ARM_BROKEN_ON_EVENT | ARM_BROKEN_OFF_EVENT
  | PRINT_RECEIPT_ON_EVENT | PRINT_RECEIPT_OFF_EVENT
  | BARRIER_OPEN_TOO_LONG_ON_EVENT | BARRIER_OPEN_TOO_LONG_OFF_EVENT

datatype dio_effect =
    SetLoopAPresent bool | EnqueueDIOEvent dio_event | SendDIOInputStatusToMonitor int int

record snapshot =
  loopA :: int
  loopB :: int
  loopC :: int
  intercom :: int
  stationDoorOpen :: int
  barrierDoorOpen :: int
  barrierStatus :: int
  manualOpenBarrier :: int
  lorrySensor :: int
  armBroken :: int
  printReceipt :: int

definition all_low :: snapshot where
  "all_low =
     \<lparr>loopA = GPIO_LOW, loopB = GPIO_LOW, loopC = GPIO_LOW, intercom = GPIO_LOW,
      stationDoorOpen = GPIO_LOW, barrierDoorOpen = GPIO_LOW, barrierStatus = GPIO_LOW,
      manualOpenBarrier = GPIO_LOW, lorrySensor = GPIO_LOW, armBroken = GPIO_LOW,
      printReceipt = GPIO_LOW\<rparr>"

text \<open>The numbers of the inputs and outputs in the configuration file; the same fields hold the
  GPIO pins they stand for.\<close>

record dio_pins =
  pLoopA :: int
  pLoopB :: int
  pLoopC :: int
  pIntercom :: int
  pStationDoor :: int
  pBarrierDoor :: int
  pBarrierStatus :: int
  pManualOpen :: int
  pLorry :: int
  pArmBroken :: int
  pPrintReceipt :: int
  pOpenBarrier :: int
  pLCDBacklight :: int
  pCloseBarrier :: int

record dio =
  pins :: dio_pins
  last_val :: snapshot
  manual_open_barrier_status_flag :: int
  iBarrierOpenTooLongTime :: int
  bIsBarrierOpenTooLongTime :: bool
  barrierOpenSince :: "int option"

section \<open>Pins\<close>

definition getInputPinNum :: "int \<Rightarrow> int" where
  "getInputPinNum pinNum =
     (if pinNum = 1 then 373 else if pinNum = 2 then 376 else if pinNum = 3 then 377
      else if pinNum = 4 then 357 else if pinNum = 5 then 358 else if pinNum = 6 then 372
      else if pinNum = 7 then 343 else if pinNum = 8 then 344 else if pinNum = 9 then 345
      else if pinNum = 10 then 340 else if pinNum = 11 then 341 else if pinNum = 12 then 342
      else 0)"

definition getOutputPinNum :: "int \<Rightarrow> int" where
  "getOutputPinNum pinNum =
     (if pinNum = 1 then 413 else if pinNum = 2 then 412 else if pinNum = 3 then 378
      else if pinNum = 4 then 367 else if pinNum = 5 then 366 else if pinNum = 6 then 365
      else if pinNum = 7 then 415 else if pinNum = 8 then 416 else if pinNum = 9 then 417
      else 0)"

text \<open>The GPIO manager as seen by a read: the value of each pin it has a GPIO for.\<close>

type_synonym gpio_values = "int \<Rightarrow> int option"

definition readGPIOValue :: "gpio_values \<Rightarrow> int \<Rightarrow> int" where
  "readGPIOValue gpio pinNumber =
     (if pinNumber = 0 then GPIO_LOW
      else (case gpio pinNumber of None \<Rightarrow> GPIO_LOW | Some v \<Rightarrow> v))"

text \<open>A write: the values afterwards, and whether it succeeded.  \<open>ok\<close> is the result of
  \<open>FnSetValue\<close> on that pin.\<close>

definition writeGPIOValue :: "(int \<Rightarrow> bool) \<Rightarrow> int \<Rightarrow> int \<Rightarrow> gpio_values \<Rightarrow> bool \<times> gpio_values" where
  "writeGPIOValue ok pinNumber v gpio =
     (if pinNumber = 0 then (False, gpio)
      else if gpio pinNumber = None then (False, gpio)
      else if ok pinNumber then (True, gpio(pinNumber \<mapsto> v)) else (False, gpio))"

definition FnSetOpenBarrier :: "(int \<Rightarrow> bool) \<Rightarrow> dio \<Rightarrow> int \<Rightarrow> gpio_values \<Rightarrow> gpio_values" where
  "FnSetOpenBarrier ok d v gpio = snd (writeGPIOValue ok (pOpenBarrier (pins d)) v gpio)"

definition FnSetCloseBarrier :: "(int \<Rightarrow> bool) \<Rightarrow> dio \<Rightarrow> int \<Rightarrow> gpio_values \<Rightarrow> gpio_values" where
  "FnSetCloseBarrier ok d v gpio = snd (writeGPIOValue ok (pCloseBarrier (pins d)) v gpio)"

definition FnSetLCDBacklight :: "(int \<Rightarrow> bool) \<Rightarrow> dio \<Rightarrow> int \<Rightarrow> gpio_values \<Rightarrow> gpio_values" where
  "FnSetLCDBacklight ok d v gpio = snd (writeGPIOValue ok (pLCDBacklight (pins d)) v gpio)"

definition readInputSnapshot :: "gpio_values \<Rightarrow> dio \<Rightarrow> snapshot" where
  "readInputSnapshot gpio d =
     \<lparr>loopA = readGPIOValue gpio (pLoopA (pins d)),
      loopB = readGPIOValue gpio (pLoopB (pins d)),
      loopC = readGPIOValue gpio (pLoopC (pins d)),
      intercom = readGPIOValue gpio (pIntercom (pins d)),
      stationDoorOpen = readGPIOValue gpio (pStationDoor (pins d)),
      barrierDoorOpen = readGPIOValue gpio (pBarrierDoor (pins d)),
      barrierStatus = readGPIOValue gpio (pBarrierStatus (pins d)),
      manualOpenBarrier = readGPIOValue gpio (pManualOpen (pins d)),
      lorrySensor = readGPIOValue gpio (pLorry (pins d)),
      armBroken = readGPIOValue gpio (pArmBroken (pins d)),
      printReceipt = readGPIOValue gpio (pPrintReceipt (pins d))\<rparr>"

text \<open>Initialisation from the configured numbers, once the GPIO manager is up.\<close>

definition FnDIOInit :: "dio_pins \<Rightarrow> int \<Rightarrow> dio" where
  "FnDIOInit ini barrierOpenTooLongTime =
     \<lparr>pins =
        \<lparr>pLoopA = getInputPinNum (pLoopA ini), pLoopB = getInputPinNum (pLoopB ini),
         pLoopC = getInputPinNum (pLoopC ini), pIntercom = getInputPinNum (pIntercom ini),
         pStationDoor = getInputPinNum (pStationDoor ini),
         pBarrierDoor = getInputPinNum (pBarrierDoor ini),
         pBarrierStatus = getInputPinNum (pBarrierStatus ini),
         pManualOpen = getInputPinNum (pManualOpen ini), pLorry = getInputPinNum (pLorry ini),
         pArmBroken = getInputPinNum (pArmBroken ini),
         pPrintReceipt = getInputPinNum (pPrintReceipt ini),
         pOpenBarrier = getOutputPinNum (pOpenBarrier ini),
         pLCDBacklight = getOutputPinNum (pLCDBacklight ini),
         pCloseBarrier = getOutputPinNum (pCloseBarrier ini)\<rparr>,
      last_val = all_low, manual_open_barrier_status_flag = 0,
      iBarrierOpenTooLongTime = barrierOpenTooLongTime,
      bIsBarrierOpenTooLongTime = False, barrierOpenSince = None\<rparr>"

section \<open>Edges\<close>

definition rising :: "int \<Rightarrow> int \<Rightarrow> bool" where
  "rising old cur \<longleftrightarrow> cur = GPIO_HIGH \<and> old = GPIO_LOW"

definition falling :: "int \<Rightarrow> int \<Rightarrow> bool" where
  "falling old cur \<longleftrightarrow> cur = GPIO_LOW \<and> old = GPIO_HIGH"

definition stays_low :: "int \<Rightarrow> int \<Rightarrow> bool" where
  "stays_low old cur \<longleftrightarrow> cur = GPIO_LOW \<and> old = GPIO_LOW"

lemmas edge_defs = rising_def falling_def stays_low_def gpio_levels

definition loop_a_on :: "dio_effect list" where
  "loop_a_on = [SetLoopAPresent True, EnqueueDIOEvent LOOP_A_ON_EVENT]"

definition loop_a_off :: "dio_effect list" where
  "loop_a_off = [SetLoopAPresent False, EnqueueDIOEvent LOOP_A_OFF_EVENT]"

text \<open>The two detector loops under the vehicle, as one presence signal.\<close>

definition loop_ab_effects :: "snapshot \<Rightarrow> snapshot \<Rightarrow> dio_effect list" where
  "loop_ab_effects l c =
     (if rising (loopA l) (loopA c) \<and> stays_low (loopB l) (loopB c) then loop_a_on
      else if rising (loopB l) (loopB c) \<and> stays_low (loopA l) (loopA c) then loop_a_on
      else if rising (loopA l) (loopA c) \<and> rising (loopB l) (loopB c) then loop_a_on
      else []) @
     (if falling (loopA l) (loopA c) \<and> stays_low (loopB l) (loopB c) then loop_a_off
      else if falling (loopB l) (loopB c) \<and> stays_low (loopA l) (loopA c) then loop_a_off
      else if falling (loopA l) (loopA c) \<and> falling (loopB l) (loopB c) then loop_a_off
      else [])"

text \<open>An input that is only reported to the monitor, and one with its own pair of events.\<close>

definition monitor_effects :: "int \<Rightarrow> int \<Rightarrow> int \<Rightarrow> dio_effect list" where
  "monitor_effects pin old cur =
     (if rising old cur then [SendDIOInputStatusToMonitor pin 1]
      else if falling old cur then [SendDIOInputStatusToMonitor pin 0]
      else [])"

definition input_effects ::
  "dio_event \<Rightarrow> dio_event \<Rightarrow> int \<Rightarrow> int \<Rightarrow> int \<Rightarrow> dio_effect list" where
  "input_effects on_event off_event pin old cur =
     (if rising old cur then [EnqueueDIOEvent on_event, SendDIOInputStatusToMonitor pin 1]
      else if falling old cur then [EnqueueDIOEvent off_event, SendDIOInputStatusToMonitor pin 0]
      else [])"

text \<open>The barrier position input: it also starts and clears the open-too-long supervision.\<close>

definition barrier_status_step :: "int \<Rightarrow> int \<Rightarrow> int \<Rightarrow> int \<Rightarrow> dio \<Rightarrow> dio \<times> dio_effect list" where
  "barrier_status_step now pin old cur d =
     (if rising old cur then
        (d\<lparr>barrierOpenSince := Some now\<rparr>,
         input_effects BARRIER_STATUS_ON_EVENT BARRIER_STATUS_OFF_EVENT pin old cur)
      else if falling old cur then
        (d\<lparr>barrierOpenSince := None, bIsBarrierOpenTooLongTime := False\<rparr>,
         input_effects BARRIER_STATUS_ON_EVENT BARRIER_STATUS_OFF_EVENT pin old cur @
           (if bIsBarrierOpenTooLongTime d
            then [EnqueueDIOEvent BARRIER_OPEN_TOO_LONG_OFF_EVENT] else []))
      else (d, []))"

definition open_too_long_step :: "int \<Rightarrow> dio \<Rightarrow> dio \<times> dio_effect list" where
  "open_too_long_step now d =
     (case barrierOpenSince d of
        None \<Rightarrow> (d, [])
      | Some since \<Rightarrow>
          if iBarrierOpenTooLongTime d > 0 \<and>
             (now - since) div 1000000000 > iBarrierOpenTooLongTime d
          then (d\<lparr>bIsBarrierOpenTooLongTime := True, barrierOpenSince := None\<rparr>,
                [EnqueueDIOEvent BARRIER_OPEN_TOO_LONG_ON_EVENT])
          else (d, []))"

text \<open>\<open>ini\<close> are the configured input numbers sent to the monitor; \<open>now\<close> is read where the
  barrier opens, \<open>now'\<close> at the supervision.\<close>

definition processDIOChanges ::
  "dio_pins \<Rightarrow> int \<Rightarrow> int \<Rightarrow> snapshot \<Rightarrow> dio \<Rightarrow> dio \<times> dio_effect list" where
  "processDIOChanges ini now now' c d =
     (let l = last_val d;
          e_ab = loop_ab_effects l c
            @ monitor_effects (pLoopA ini) (loopA l) (loopA c)
            @ monitor_effects (pLoopB ini) (loopB l) (loopB c);
          e_in = input_effects LOOP_C_ON_EVENT LOOP_C_OFF_EVENT (pLoopC ini) (loopC l) (loopC c)
            @ input_effects INTERCOM_ON_EVENT INTERCOM_OFF_EVENT (pIntercom ini)
                (intercom l) (intercom c)
            @ input_effects STATION_DOOR_OPEN_EVENT STATION_DOOR_CLOSE_EVENT (pStationDoor ini)
                (stationDoorOpen l) (stationDoorOpen c)
            @ input_effects BARRIER_DOOR_OPEN_EVENT BARRIER_DOOR_CLOSE_EVENT (pBarrierDoor ini)
                (barrierDoorOpen l) (barrierDoorOpen c);
          (d1, e_bar) = barrier_status_step now (pBarrierStatus ini)
                          (barrierStatus l) (barrierStatus c) d;
          d2 = (if rising (manualOpenBarrier l) (manualOpenBarrier c)
                then d1\<lparr>manual_open_barrier_status_flag := 1\<rparr> else d1);
          e_rest = input_effects MANUAL_OPEN_BARRIED_ON_EVENT MANUAL_OPEN_BARRIED_OFF_EVENT
                (pManualOpen ini) (manualOpenBarrier l) (manualOpenBarrier c)
            @ input_effects LORRY_SENSOR_ON_EVENT LORRY_SENSOR_OFF_EVENT (pLorry ini)
                (lorrySensor l) (lorrySensor c)
            @ input_effects ARM_BROKEN_ON_EVENT ARM_BROKEN_OFF_EVENT (pArmBroken ini)
                (armBroken l) (armBroken c)
            @ input_effects PRINT_RECEIPT_ON_EVENT PRINT_RECEIPT_OFF_EVENT (pPrintReceipt ini)
                (printReceipt l) (printReceipt c);
          (d3, e_long) = open_too_long_step now' d2
      in (d3, e_ab @ e_in @ e_bar @ e_rest @ e_long))"

definition updateLastSnapshot :: "snapshot \<Rightarrow> dio \<Rightarrow> dio" where
  "updateLastSnapshot c d = d\<lparr>last_val := c\<rparr>"

text \<open>One poll of the monitoring loop.\<close>

definition poll :: "dio_pins \<Rightarrow> int \<Rightarrow> int \<Rightarrow> snapshot \<Rightarrow> dio \<Rightarrow> dio \<times> dio_effect list" where
  "poll ini now now' c d =
     (case processDIOChanges ini now now' c d of (d', es) \<Rightarrow> (updateLastSnapshot c d', es))"

fun polls :: "dio_pins \<Rightarrow> (int \<times> int \<times> snapshot) list \<Rightarrow> dio \<Rightarrow> dio \<times> dio_effect list" where
  "polls ini [] d = (d, [])"
| "polls ini ((now, now', c) # cs) d =
     (case poll ini now now' c d of (d', es) \<Rightarrow>
        (case polls ini cs d' of (d'', es') \<Rightarrow> (d'', es @ es')))"

section \<open>The monitoring coroutine\<close>

text \<open>The flags of the monitoring loop and the coroutines that run it.  \<open>Polling\<close> is a
  coroutine about to poll, \<open>Waiting\<close> one suspended on the poll timer.\<close>

datatype coroutine = Polling | Waiting

record monitor =
  stopping :: bool
  monitoringEnabled :: bool
  monitoringCoroutineActive :: bool
  coroutines :: "coroutine list"

definition startMonitoringOnIOThread :: "monitor \<Rightarrow> monitor" where
  "startMonitoringOnIOThread m =
     (if stopping m then m
      else
        let m1 = m\<lparr>monitoringEnabled := True\<rparr> in
        if monitoringCoroutineActive m1 then m1
        else m1\<lparr>monitoringCoroutineActive := True, coroutines := coroutines m1 @ [Polling]\<rparr>)"

definition stopMonitoringOnIOThread :: "monitor \<Rightarrow> monitor" where
  "stopMonitoringOnIOThread m =
     (if \<not> monitoringEnabled m then m else m\<lparr>monitoringEnabled := False\<rparr>)"

text \<open>The first coroutine runs until it is suspended again or ends; \<open>timer_error\<close> is whether its
  wait ended with an error other than the cancellation.\<close>

definition resume :: "bool \<Rightarrow> monitor \<Rightarrow> monitor" where
  "resume timer_error m =
     (case coroutines m of
        [] \<Rightarrow> m
      | co # cos \<Rightarrow>
          if monitoringEnabled m \<and> \<not> stopping m \<and> \<not> (co = Waiting \<and> timer_error)
          then m\<lparr>coroutines := Waiting # cos\<rparr>
          else m\<lparr>coroutines := cos, monitoringCoroutineActive := False\<rparr>)"

datatype monitor_action = Start | Stop | Resume bool | RequestShutdown

fun monitor_act :: "monitor_action \<Rightarrow> monitor \<Rightarrow> monitor" where
  "monitor_act Start m = startMonitoringOnIOThread m"
| "monitor_act Stop m = stopMonitoringOnIOThread m"
| "monitor_act (Resume e) m = resume e m"
| "monitor_act RequestShutdown m = m\<lparr>stopping := True\<rparr>"

definition monitor_start :: monitor where
  "monitor_start = \<lparr>stopping = False, monitoringEnabled = False,
     monitoringCoroutineActive = False, coroutines = []\<rparr>"

section \<open>Single edges\<close>

definition digital_value :: "int \<Rightarrow> bool" where
  "digital_value v \<longleftrightarrow> v = GPIO_LOW \<or> v = GPIO_HIGH"

definition vehicle_on_loops :: "snapshot \<Rightarrow> bool" where
  "vehicle_on_loops s \<longleftrightarrow> loopA s = GPIO_HIGH \<or> loopB s = GPIO_HIGH"

text \<open>The three-case comparison of the two loops is an edge of their disjunction.\<close>

lemma loop_ab_disjunction:
  assumes "digital_value (loopA l)" "digital_value (loopB l)"
    "digital_value (loopA c)" "digital_value (loopB c)"
  shows "loop_ab_effects l c =
    (if vehicle_on_loops c \<and> \<not> vehicle_on_loops l then loop_a_on
     else if \<not> vehicle_on_loops c \<and> vehicle_on_loops l then loop_a_off else [])"
  using assms
  by (auto simp: loop_ab_effects_def vehicle_on_loops_def digital_value_def edge_defs)

lemma no_edge [simp]: "\<not> rising v v" "\<not> falling v v"
  by (simp_all add: edge_defs)

lemma input_effects_same [simp]: "input_effects e f p v v = []" "monitor_effects p v v = []"
  by (simp_all add: input_effects_def monitor_effects_def edge_defs)

text \<open>The effects of a poll that concern the presence of a vehicle.\<close>

fun loop_a_effect :: "dio_effect \<Rightarrow> bool" where
  "loop_a_effect (SetLoopAPresent b) = True"
| "loop_a_effect (EnqueueDIOEvent e) = (e = LOOP_A_ON_EVENT \<or> e = LOOP_A_OFF_EVENT)"
| "loop_a_effect (SendDIOInputStatusToMonitor p v) = False"

fun too_long_effect :: "dio_effect \<Rightarrow> bool" where
  "too_long_effect (EnqueueDIOEvent e) =
     (e = BARRIER_OPEN_TOO_LONG_ON_EVENT \<or> e = BARRIER_OPEN_TOO_LONG_OFF_EVENT)"
| "too_long_effect _ = False"

lemma filter_monitor [simp]:
  "filter loop_a_effect (monitor_effects p old v) = []"
  "filter too_long_effect (monitor_effects p old v) = []"
  by (simp_all add: monitor_effects_def)

lemma filter_input:
  "\<not> loop_a_effect (EnqueueDIOEvent e) \<Longrightarrow> \<not> loop_a_effect (EnqueueDIOEvent f) \<Longrightarrow>
   filter loop_a_effect (input_effects e f p old v) = []"
  "\<not> too_long_effect (EnqueueDIOEvent e) \<Longrightarrow> \<not> too_long_effect (EnqueueDIOEvent f) \<Longrightarrow>
   filter too_long_effect (input_effects e f p old v) = []"
  by (simp_all add: input_effects_def)

lemma filter_loop_ab [simp]:
  "filter loop_a_effect (loop_ab_effects l c) = loop_ab_effects l c"
  "filter too_long_effect (loop_ab_effects l c) = []"
  by (simp_all add: loop_ab_effects_def loop_a_on_def loop_a_off_def)

lemma filter_barrier [simp]:
  "filter loop_a_effect (snd (barrier_status_step t p old v d)) = []"
  "filter too_long_effect (snd (barrier_status_step t p old v d)) =
     (if falling old v \<and> bIsBarrierOpenTooLongTime d
      then [EnqueueDIOEvent BARRIER_OPEN_TOO_LONG_OFF_EVENT] else [])"
  by (auto simp: barrier_status_step_def filter_input edge_defs)

lemma filter_open_too_long [simp]:
  "filter loop_a_effect (snd (open_too_long_step t d)) = []"
  "filter too_long_effect (snd (open_too_long_step t d)) = snd (open_too_long_step t d)"
  by (simp_all add: open_too_long_step_def split: option.split)

lemma poll_loop_a:
  "filter loop_a_effect (snd (poll ini t t' c d)) = loop_ab_effects (last_val d) c"
  by (simp add: poll_def processDIOChanges_def Let_def case_prod_beta filter_input)

lemma poll_last [simp]: "last_val (fst (poll ini t t' c d)) = c"
  by (simp add: poll_def case_prod_beta updateLastSnapshot_def)

section \<open>Vehicle presence over a run\<close>

text \<open>Replaying the loop effects over a presence flag; \<open>None\<close> where an event repeats or does not
  follow its own flag update.\<close>

fun loop_replay :: "bool \<Rightarrow> dio_effect list \<Rightarrow> bool option" where
  "loop_replay p [] = Some p"
| "loop_replay p (SetLoopAPresent b # EnqueueDIOEvent e # es) =
     (if b \<noteq> p \<and> e = (if b then LOOP_A_ON_EVENT else LOOP_A_OFF_EVENT) then loop_replay b es
      else None)"
| "loop_replay p (e # es) = None"

definition loops_digital :: "snapshot \<Rightarrow> bool" where
  "loops_digital s \<longleftrightarrow> digital_value (loopA s) \<and> digital_value (loopB s)"

definition run_end :: "snapshot \<Rightarrow> (int \<times> int \<times> snapshot) list \<Rightarrow> snapshot" where
  "run_end s cs = (if cs = [] then s else snd (snd (last cs)))"

lemma run_end_simps [simp]: "run_end s [] = s" "run_end s ((t, t', c) # cs) = run_end c cs"
  by (simp_all add: run_end_def)

lemma polls_loop_a:
  "loops_digital (last_val d) \<Longrightarrow> \<forall>(t, t', c) \<in> set cs. loops_digital c \<Longrightarrow>
   loop_replay (vehicle_on_loops (last_val d)) (filter loop_a_effect (snd (polls ini cs d))) =
     Some (vehicle_on_loops (run_end (last_val d) cs))"
proof (induction cs arbitrary: d)
  case (Cons x cs)
  obtain t t' c where x: "x = (t, t', c)" by (metis prod_cases3)
  obtain d' es where p: "poll ini t t' c d = (d', es)" by fastforce
  have last: "last_val d' = c" and f: "filter loop_a_effect es = loop_ab_effects (last_val d) c"
    using poll_last [of ini t t' c d] poll_loop_a [of ini t t' c d] p by simp_all
  have dig: "loops_digital c" using Cons.prems x by simp
  have IH: "loop_replay (vehicle_on_loops c) (filter loop_a_effect (snd (polls ini cs d'))) =
      Some (vehicle_on_loops (run_end c cs))"
    using Cons.IH [of d'] Cons.prems last dig by simp
  have "loop_ab_effects (last_val d) c =
    (if vehicle_on_loops c \<and> \<not> vehicle_on_loops (last_val d) then loop_a_on
     else if \<not> vehicle_on_loops c \<and> vehicle_on_loops (last_val d) then loop_a_off else [])"
    using Cons.prems dig by (simp add: loop_ab_disjunction loops_digital_def)
  then show ?case
    using IH f by (auto simp: x p case_prod_beta loop_a_on_def loop_a_off_def)
qed simp

section \<open>Barrier supervision\<close>

text \<open>What one poll does to the supervision state.\<close>

lemma barrier_step_fields [simp]:
  "last_val (fst (barrier_status_step t p old v d)) = last_val d"
  "iBarrierOpenTooLongTime (fst (barrier_status_step t p old v d)) = iBarrierOpenTooLongTime d"
  "barrierOpenSince (fst (barrier_status_step t p old v d)) =
     (if rising old v then Some t else if falling old v then None else barrierOpenSince d)"
  "bIsBarrierOpenTooLongTime (fst (barrier_status_step t p old v d)) =
     (bIsBarrierOpenTooLongTime d \<and> \<not> falling old v)"
  by (auto simp: barrier_status_step_def edge_defs)

definition overdue :: "int \<Rightarrow> int \<Rightarrow> int option \<Rightarrow> bool" where
  "overdue limit now since =
     (case since of None \<Rightarrow> False | Some t \<Rightarrow> limit > 0 \<and> (now - t) div 1000000000 > limit)"

lemma open_too_long_alt:
  "open_too_long_step now d =
     (if overdue (iBarrierOpenTooLongTime d) now (barrierOpenSince d)
      then (d\<lparr>bIsBarrierOpenTooLongTime := True, barrierOpenSince := None\<rparr>,
            [EnqueueDIOEvent BARRIER_OPEN_TOO_LONG_ON_EVENT])
      else (d, []))"
  by (simp add: open_too_long_step_def overdue_def split: option.split)

definition since_after :: "int \<Rightarrow> int \<Rightarrow> int \<Rightarrow> int option \<Rightarrow> int option" where
  "since_after t old v since =
     (if rising old v then Some t else if falling old v then None else since)"

lemma poll_supervision:
  fixes d t t' c
  defines "since \<equiv> since_after t (barrierStatus (last_val d)) (barrierStatus c) (barrierOpenSince d)"
    and "fell \<equiv> falling (barrierStatus (last_val d)) (barrierStatus c)"
  defines "late \<equiv> overdue (iBarrierOpenTooLongTime d) t' since"
  shows "barrierOpenSince (fst (poll ini t t' c d)) = (if late then None else since)"
    and "bIsBarrierOpenTooLongTime (fst (poll ini t t' c d)) =
      (late \<or> (bIsBarrierOpenTooLongTime d \<and> \<not> fell))"
    and "iBarrierOpenTooLongTime (fst (poll ini t t' c d)) = iBarrierOpenTooLongTime d"
    and "filter too_long_effect (snd (poll ini t t' c d)) =
      (if fell \<and> bIsBarrierOpenTooLongTime d
       then [EnqueueDIOEvent BARRIER_OPEN_TOO_LONG_OFF_EVENT] else []) @
      (if late then [EnqueueDIOEvent BARRIER_OPEN_TOO_LONG_ON_EVENT] else [])"
  unfolding assms
  by (simp_all add: poll_def processDIOChanges_def Let_def case_prod_beta filter_input
      updateLastSnapshot_def open_too_long_alt since_after_def)

fun alarm_replay :: "bool \<Rightarrow> dio_effect list \<Rightarrow> bool option" where
  "alarm_replay on [] = Some on"
| "alarm_replay on (e # es) =
     (if e = EnqueueDIOEvent BARRIER_OPEN_TOO_LONG_ON_EVENT then
        (if on then None else alarm_replay True es)
      else if e = EnqueueDIOEvent BARRIER_OPEN_TOO_LONG_OFF_EVENT then
        (if on then alarm_replay False es else None)
      else alarm_replay on es)"

lemma alarm_replay_append:
  "alarm_replay on (es @ fs) =
     (case alarm_replay on es of None \<Rightarrow> None | Some q \<Rightarrow> alarm_replay q fs)"
  by (induction on es rule: alarm_replay.induct) auto

lemma too_long_effect_iff:
  "too_long_effect e \<longleftrightarrow> e = EnqueueDIOEvent BARRIER_OPEN_TOO_LONG_ON_EVENT \<or>
     e = EnqueueDIOEvent BARRIER_OPEN_TOO_LONG_OFF_EVENT"
  by (cases e) auto

lemma alarm_replay_filter: "alarm_replay on es = alarm_replay on (filter too_long_effect es)"
  by (induction on es rule: alarm_replay.induct) (simp_all add: too_long_effect_iff)

definition barrier_inv :: "dio \<Rightarrow> bool" where
  "barrier_inv d \<longleftrightarrow>
     digital_value (barrierStatus (last_val d)) \<and>
     (barrierOpenSince d \<noteq> None \<longrightarrow>
        barrierStatus (last_val d) = GPIO_HIGH \<and> \<not> bIsBarrierOpenTooLongTime d) \<and>
     (bIsBarrierOpenTooLongTime d \<longrightarrow> barrierStatus (last_val d) = GPIO_HIGH)"

lemma poll_alarm:
  assumes "barrier_inv d" "digital_value (barrierStatus c)"
  shows "barrier_inv (fst (poll ini t t' c d))"
    and "alarm_replay (bIsBarrierOpenTooLongTime d) (snd (poll ini t t' c d)) =
      Some (bIsBarrierOpenTooLongTime (fst (poll ini t t' c d)))"
proof -
  note sup = poll_supervision [of ini t t' c d]
  show "barrier_inv (fst (poll ini t t' c d))"
    using assms
    by (auto simp: barrier_inv_def sup since_after_def digital_value_def edge_defs overdue_def
        split: if_splits)
  show "alarm_replay (bIsBarrierOpenTooLongTime d) (snd (poll ini t t' c d)) =
      Some (bIsBarrierOpenTooLongTime (fst (poll ini t t' c d)))"
    unfolding alarm_replay_filter [of _ "snd (poll ini t t' c d)"]
    using assms
    by (auto simp: barrier_inv_def sup since_after_def digital_value_def edge_defs overdue_def)
qed

lemma polls_alarm:
  "barrier_inv d \<Longrightarrow> \<forall>(t, t', c) \<in> set cs. digital_value (barrierStatus c) \<Longrightarrow>
   alarm_replay (bIsBarrierOpenTooLongTime d) (snd (polls ini cs d)) =
     Some (bIsBarrierOpenTooLongTime (fst (polls ini cs d)))"
proof (induction cs arbitrary: d)
  case (Cons x cs)
  obtain t t' c where x: "x = (t, t', c)" by (metis prod_cases3)
  have "digital_value (barrierStatus c)" using Cons.prems x by simp
  with Cons poll_alarm [of d c ini t t'] show ?case
    by (simp add: x case_prod_beta alarm_replay_append)
qed simp

text \<open>One opening, seen by polls that all find the barrier open.\<close>

lemma polls_open_quiet:
  "barrierOpenSince d = None \<Longrightarrow> barrierStatus (last_val d) = GPIO_HIGH \<Longrightarrow>
   \<forall>(t, t', c) \<in> set cs. barrierStatus c = GPIO_HIGH \<Longrightarrow>
   filter too_long_effect (snd (polls ini cs d)) = []"
proof (induction cs arbitrary: d)
  case (Cons x cs)
  obtain t t' c where x: "x = (t, t', c)" by (metis prod_cases3)
  with Cons show ?case
    by (simp add: case_prod_beta poll_supervision since_after_def edge_defs overdue_def)
qed simp

lemma polls_open_once:
  "barrierOpenSince d = Some s \<Longrightarrow> barrierStatus (last_val d) = GPIO_HIGH \<Longrightarrow>
   \<forall>(t, t', c) \<in> set cs. barrierStatus c = GPIO_HIGH \<Longrightarrow>
   filter too_long_effect (snd (polls ini cs d)) =
     (if \<exists>(t, t', c) \<in> set cs. overdue (iBarrierOpenTooLongTime d) t' (Some s)
      then [EnqueueDIOEvent BARRIER_OPEN_TOO_LONG_ON_EVENT] else [])"
proof (induction cs arbitrary: d)
  case (Cons x cs)
  obtain t t' c where x: "x = (t, t', c)" by (metis prod_cases3)
  note sup = poll_supervision [of ini t t' c d]
  let ?d' = "fst (poll ini t t' c d)"
  have c: "barrierStatus c = GPIO_HIGH" using Cons.prems x by simp
  have since: "since_after t (barrierStatus (last_val d)) (barrierStatus c) (barrierOpenSince d) = Some s"
    using Cons.prems c by (simp add: since_after_def edge_defs)
  have fell: "\<not> falling (barrierStatus (last_val d)) (barrierStatus c)"
    using c by (simp add: edge_defs)
  show ?case
  proof (cases "overdue (iBarrierOpenTooLongTime d) t' (Some s)")
    case True
    then have "filter too_long_effect (snd (polls ini cs ?d')) = []"
      using Cons.prems c x sup since by (intro polls_open_quiet) auto
    then show ?thesis
      using True sup since fell by (simp add: x case_prod_beta)
  next
    case False
    then show ?thesis
      using Cons.IH [of ?d'] Cons.prems c x sup since fell by (simp add: case_prod_beta)
  qed
qed simp

section \<open>The monitoring coroutine is unique\<close>

definition monitor_inv :: "monitor \<Rightarrow> bool" where
  "monitor_inv m \<longleftrightarrow>
     (if monitoringCoroutineActive m then length (coroutines m) = 1 else coroutines m = [])"

lemma monitor_act_inv: "monitor_inv m \<Longrightarrow> monitor_inv (monitor_act a m)"
  by (cases a)
    (auto simp: monitor_inv_def startMonitoringOnIOThread_def stopMonitoringOnIOThread_def
      resume_def Let_def split: list.splits if_splits)

lemma monitor_run_inv: "monitor_inv m \<Longrightarrow> monitor_inv (fold monitor_act as m)"
  by (induction as arbitrary: m) (simp_all add: monitor_act_inv)

section \<open>Properties\<close>

text \<open>C26: Over any sequence of polls in which the two vehicle loops read LOW or HIGH, the presence
  flag is set and cleared together with LOOP_A_ON and LOOP_A_OFF, strictly in turn, starting from
  the state of the last poll, and after the run the flag tells whether one of the two loops is
  HIGH.\<close>

theorem dio_vehicle_presence:
  assumes "loops_digital (last_val d)" "\<forall>(t, t', c) \<in> set cs. loops_digital c"
  shows "loop_replay (vehicle_on_loops (last_val d)) (filter loop_a_effect (snd (polls ini cs d))) =
    Some (vehicle_on_loops (run_end (last_val d) cs))"
  using assms by (rule polls_loop_a)

definition demo_ini :: dio_pins where
  "demo_ini = \<lparr>pLoopA = 1, pLoopB = 2, pLoopC = 3, pIntercom = 4, pStationDoor = 5,
     pBarrierDoor = 6, pBarrierStatus = 7, pManualOpen = 8, pLorry = 9, pArmBroken = 10,
     pPrintReceipt = 11, pOpenBarrier = 1, pLCDBacklight = 2, pCloseBarrier = 3\<rparr>"

definition demo_dio :: dio where
  "demo_dio = FnDIOInit demo_ini 10"

lemma demo_dio_fields [simp]:
  "last_val demo_dio = all_low" "barrierOpenSince demo_dio = None"
  "bIsBarrierOpenTooLongTime demo_dio = False" "iBarrierOpenTooLongTime demo_dio = 10"
  by (simp_all add: demo_dio_def FnDIOInit_def)

theorem dio_vehicle_presence_witness:
  "loop_replay False
     (filter loop_a_effect
       (snd (polls demo_ini
         [(0, 0, all_low\<lparr>loopA := 1\<rparr>), (1, 1, all_low\<lparr>loopA := 1, loopB := 1\<rparr>),
          (2, 2, all_low\<lparr>loopB := 1\<rparr>), (3, 3, all_low), (4, 4, all_low\<lparr>loopB := 1\<rparr>)] demo_dio))) =
   Some True"
  using dio_vehicle_presence [of demo_dio
    "[(0, 0, all_low\<lparr>loopA := 1\<rparr>), (1, 1, all_low\<lparr>loopA := 1, loopB := 1\<rparr>),
      (2, 2, all_low\<lparr>loopB := 1\<rparr>), (3, 3, all_low), (4, 4, all_low\<lparr>loopB := 1\<rparr>)]" demo_ini]
  by (simp add: loops_digital_def digital_value_def vehicle_on_loops_def all_low_def gpio_levels)

text \<open>Over any sequence of polls in which the barrier input reads LOW or HIGH, the alarms
  BARRIER_OPEN_TOO_LONG on and off alternate, and the alarm flag is what they say.\<close>

theorem dio_barrier_alarm_alternates:
  assumes "barrier_inv d" "\<forall>(t, t', c) \<in> set cs. digital_value (barrierStatus c)"
  shows "alarm_replay (bIsBarrierOpenTooLongTime d) (snd (polls ini cs d)) =
    Some (bIsBarrierOpenTooLongTime (fst (polls ini cs d)))"
  using assms by (rule polls_alarm)

definition demo_open :: snapshot where
  "demo_open = all_low\<lparr>barrierStatus := 1\<rparr>"

theorem dio_barrier_alarm_alternates_witness:
  "alarm_replay False
     (snd (polls demo_ini [(0, 0, demo_open), (5, 20000000000, demo_open), (6, 6, all_low)] demo_dio)) =
   Some (bIsBarrierOpenTooLongTime
     (fst (polls demo_ini [(0, 0, demo_open), (5, 20000000000, demo_open), (6, 6, all_low)] demo_dio)))"
  using dio_barrier_alarm_alternates [of demo_dio
    "[(0, 0, demo_open), (5, 20000000000, demo_open), (6, 6, all_low)]" demo_ini]
  by (simp add: barrier_inv_def digital_value_def demo_open_def all_low_def gpio_levels)

text \<open>One opening of the barrier.  If the barrier input rises at a poll and stays HIGH, the
  open-too-long alarm is raised exactly once when some later supervision finds more whole seconds
  elapsed than the limit, which must be positive, and not at all otherwise.\<close>

theorem dio_barrier_alarm_once:
  assumes "barrierOpenSince d = None" "\<not> bIsBarrierOpenTooLongTime d"
    "barrierStatus (last_val d) = GPIO_LOW" "barrierStatus c = GPIO_HIGH"
    "\<forall>(t, t', c) \<in> set cs. barrierStatus c = GPIO_HIGH" "(t' - t) div 1000000000 \<le> 0"
  shows "filter too_long_effect (snd (polls ini ((t, t', c) # cs) d)) =
    (if \<exists>(u, u', c) \<in> set cs. iBarrierOpenTooLongTime d > 0 \<and>
          (u' - t) div 1000000000 > iBarrierOpenTooLongTime d
     then [EnqueueDIOEvent BARRIER_OPEN_TOO_LONG_ON_EVENT] else [])"
proof -
  note sup = poll_supervision [of ini t t' c d]
  have since: "since_after t (barrierStatus (last_val d)) (barrierStatus c) (barrierOpenSince d) = Some t"
    using assms by (simp add: since_after_def edge_defs)
  have late: "\<not> overdue (iBarrierOpenTooLongTime d) t' (Some t)"
    using assms(6) by (simp add: overdue_def)
  have "filter too_long_effect (snd (polls ini cs (fst (poll ini t t' c d)))) =
    (if \<exists>(u, u', c) \<in> set cs. overdue (iBarrierOpenTooLongTime d) u' (Some t)
     then [EnqueueDIOEvent BARRIER_OPEN_TOO_LONG_ON_EVENT] else [])"
    using polls_open_once [of "fst (poll ini t t' c d)" t cs ini] assms sup since late by simp
  then show ?thesis
    using sup since late assms by (simp add: case_prod_beta overdue_def edge_defs)
qed

theorem dio_barrier_alarm_once_witness:
  "filter too_long_effect
     (snd (polls demo_ini [(0, 0, demo_open), (5, 11000000000, demo_open), (6, 30000000000, demo_open)]
       demo_dio)) =
   [EnqueueDIOEvent BARRIER_OPEN_TOO_LONG_ON_EVENT]"
  using dio_barrier_alarm_once [of demo_dio demo_open
    "[(5, 11000000000, demo_open), (6, 30000000000, demo_open)]" 0 0 demo_ini]
  by (simp add: demo_open_def all_low_def gpio_levels)

text \<open>Polls that see no change and no overdue barrier report nothing and change nothing.\<close>

theorem dio_no_change_quiet:
  assumes "\<not> overdue (iBarrierOpenTooLongTime d) t' (barrierOpenSince d)"
  shows "poll ini t t' (last_val d) d = (d, [])"
  using assms
  by (simp add: poll_def processDIOChanges_def barrier_status_step_def open_too_long_alt
      loop_ab_effects_def updateLastSnapshot_def)

theorem dio_no_change_quiet_witness: "poll demo_ini 3 4 all_low demo_dio = (demo_dio, [])"
  using dio_no_change_quiet [of demo_dio 4 demo_ini 3] by (simp add: overdue_def)

text \<open>A failed read hides an edge.  When loop A reads neither LOW nor HIGH at a poll while
  loop B is LOW, neither that poll nor the next one reports a vehicle, although the next one may
  find loop A HIGH.\<close>

theorem dio_failed_read_hides_edge:
  assumes "\<not> digital_value (loopA c1)" "loopB c1 = GPIO_LOW" "loopB c2 = GPIO_LOW"
    "loopB (last_val d) = GPIO_LOW"
  shows "filter loop_a_effect (snd (polls ini [(t1, t1', c1), (t2, t2', c2)] d)) = []"
  using assms
  by (simp add: case_prod_beta poll_loop_a loop_ab_effects_def digital_value_def edge_defs)

theorem dio_failed_read_hides_edge_witness:
  "filter loop_a_effect
     (snd (polls demo_ini [(0, 0, all_low\<lparr>loopA := -1\<rparr>), (1, 1, all_low\<lparr>loopA := 1\<rparr>)] demo_dio)) = []"
  by (rule dio_failed_read_hides_edge)
    (simp_all add: digital_value_def all_low_def gpio_levels)

text \<open>However starts, stops, resumptions of the loop, timer errors and a shutdown request
  interleave, at most one monitoring coroutine exists, and the active flag tells whether it
  does.\<close>

theorem dio_single_coroutine:
  "coroutines (fold monitor_act as monitor_start) =
     (if monitoringCoroutineActive (fold monitor_act as monitor_start)
      then [hd (coroutines (fold monitor_act as monitor_start))] else [])"
proof -
  have "monitor_inv (fold monitor_act as monitor_start)"
    by (rule monitor_run_inv) (simp add: monitor_inv_def monitor_start_def)
  then show ?thesis by (auto simp: monitor_inv_def length_Suc_conv)
qed

end
