(* ===== verification/Lcsc_Packet.thy ===== *)
theory Lcsc_Packet
  imports Pbs_Interfaces
begin

text \<open>
  The packets of the LCSC contactless card reader (src/lcsc.h, src/lcsc.cpp): the packet layout,
  its checksum, the commands the driver prepares, the byte-wise reception of a response frame
  into the receive buffer, and the validation of a received frame up to the parser of its
  payload.  The AES encryption of the login challenge is a parameter: OpenSSL is not part of the
  repository.
\<close>

section \<open>Packets\<close>

record csc_packet =
  attn :: byte
  code :: bool
  ptype :: byte
  plen :: u16
  payload :: "byte list"
  pcrc :: u16

definition csc_packet_clear :: csc_packet where
  "csc_packet_clear = \<lparr>attn = 0, code = False, ptype = 0, plen = 0, payload = [], pcrc = 0\<rparr>"

definition serializeWithoutCRC :: "csc_packet \<Rightarrow> byte list" where
  "serializeWithoutCRC p =
     [attn p, (if code p then 0x80 else 0) OR (ptype p AND 0x7F),
      ucast (drop_bit 8 (plen p)), ucast (plen p AND 0xFF)] @ payload p"

definition serialize :: "csc_packet \<Rightarrow> byte list" where
  "serialize p =
     [attn p, (if code p then 0x80 else 0) OR (ptype p AND 0x7F),
      ucast (drop_bit 8 (plen p)), ucast (plen p AND 0xFF)] @ payload p @
     [ucast (drop_bit 8 (pcrc p)), ucast (pcrc p AND 0xFF)]"

text \<open>A big-endian pair of bytes.\<close>

definition be16 :: "byte \<Rightarrow> byte \<Rightarrow> u16" where
  "be16 hi lo = push_bit 8 (ucast hi) OR ucast lo"

text \<open>Reading through the iterator is undefined past the end of the data, and so is the payload
  range for a length below 6, whose subtraction wraps: \<open>None\<close> in both cases.\<close>

definition deserialize :: "byte list \<Rightarrow> csc_packet option" where
  "deserialize data =
     (case data of
        a # c # l1 # l0 # rest \<Rightarrow>
          let len = unat (be16 l1 l0) in
          if len < 6 \<or> length rest < len - 4 then None
          else Some
            \<lparr>attn = a, code = (c AND 0x80 \<noteq> 0), ptype = c AND 0x7F, plen = be16 l1 l0,
             payload = take (len - 6) rest,
             pcrc = be16 (rest ! (len - 6)) (rest ! (len - 5))\<rparr>
      | _ \<Rightarrow> None)"

section \<open>The checksum\<close>

text \<open>The routine keeps the 16-bit register in two bytes.  \<open>crc_bit_step\<close> is the body of the
  inner loop.\<close>

definition crc_bit_step :: "byte \<times> byte \<Rightarrow> byte \<times> byte" where
  "crc_bit_step = (\<lambda>(Ch, CL).
     let HB1 = Ch AND 0x80; LB1 = CL AND 0x80;
         Ch1 = (Ch AND 0x7F) * 2; CL1 = (CL AND 0x7F) * 2;
         Ch2 = (if LB1 = 0x80 then Ch1 OR 0x01 else Ch1)
     in if HB1 = 0x80 then (Ch2 XOR 0x10, CL1 XOR 0x21) else (Ch2, CL1))"

definition crc_byte_step :: "byte \<Rightarrow> byte \<times> byte \<Rightarrow> byte \<times> byte" where
  "crc_byte_step b s = (crc_bit_step ^^ 8) (fst s XOR b, snd s)"

definition CRC16_CCITT :: "byte list \<Rightarrow> u16" where
  "CRC16_CCITT inStr =
     (case fold crc_byte_step inStr (0xFF, 0xFF) of (Ch, CL) \<Rightarrow> be16 Ch CL)"

definition crc16_bit :: "u16 \<Rightarrow> u16" where
  "crc16_bit x = (if bit x 15 then push_bit 1 x XOR 0x1021 else push_bit 1 x)"


text \<open>The reference: a 16-bit register, shifted left bit by bit with the polynomial 0x1021, the
  byte entering at the top, from 0xFFFF.\<close>

definition crc16_byte :: "byte \<Rightarrow> u16 \<Rightarrow> u16" where
  "crc16_byte b x = (crc16_bit ^^ 8) (x XOR push_bit 8 (ucast b))"

definition crc16_ref :: "byte list \<Rightarrow> u16" where
  "crc16_ref bs = fold crc16_byte bs 0xFFFF"

section \<open>The checksum routine is the reference\<close>

lemma byte_bit_bound: "bit (x :: byte) n \<Longrightarrow> n < 8"
  using bit_imp_le_length [of x n] by simp

definition shl1 :: "'a :: len word \<Rightarrow> 'a word" where
  "shl1 x = push_bit 1 x"

lemma bit_shl1: "bit (shl1 x) n \<longleftrightarrow> 0 < n \<and> n < LENGTH('a) \<and> bit x (n - 1)"
  for x :: "'a :: len word"
  unfolding shl1_def by (subst bit_push_bit_iff) auto

lemma bit_128: "bit (128 :: int) n \<longleftrightarrow> n = 7"
proof -
  have "(128 :: int) = push_bit 7 1" by simp
  then show ?thesis by (simp only: bit_push_bit_iff bit_1_iff) auto
qed

lemma and_0x80: "(x AND 0x80 = 0x80) \<longleftrightarrow> bit x 7" for x :: byte
proof
  assume "x AND 0x80 = 0x80"
  then have "bit (x AND 0x80) 7 = bit (0x80 :: byte) 7" by simp
  then show "bit x 7" by (simp add: bit_and_iff)
next
  assume "bit x 7"
  then show "x AND 0x80 = 0x80"
    by (intro bit_word_eqI) (auto simp: bit_and_iff bit_128)
qed

lemma shl_byte: "(x AND 0x7F) * 2 = shl1 x" for x :: byte
proof -
  have m: "(0x7F :: byte) = mask 7" by (simp add: mask_eq_exp_minus_1)
  have "(x AND 0x7F) * 2 = shl1 (x AND mask 7)" by (simp add: shl1_def push_bit_eq_mult m)
  also have "\<dots> = shl1 x"
    by (rule bit_word_eqI) (auto simp: bit_shl1 bit_and_iff bit_mask_iff)
  finally show ?thesis .
qed

lemma less16: "n < 16 \<Longrightarrow> n \<in> {0,1,2,3,4,5,6,7,8,9,10,11,12,13,14,15 :: nat}"
  by (simp only: insert_iff empty_iff) presburger

lemma crc16_bit_alt: "crc16_bit x = (if bit x 15 then shl1 x XOR 0x1021 else shl1 x)"
  by (simp add: crc16_bit_def shl1_def)

lemma bit_join: "bit (be16 Ch CL) n \<longleftrightarrow> (if n < 8 then bit CL n else n < 16 \<and> bit Ch (n - 8))"
  using byte_bit_bound [of CL n] by (auto simp: be16_def bit_simps)

lemma crc_bit_step_join:
  "crc_bit_step (Ch, CL) = (Ch', CL') \<Longrightarrow> be16 Ch' CL' = crc16_bit (be16 Ch CL)"
proof -
  assume s: "crc_bit_step (Ch, CL) = (Ch', CL')"
  show ?thesis
  proof (rule bit_word_eqI)
    fix n assume "n < LENGTH(16)"
    then have n: "n \<in> {0,1,2,3,4,5,6,7,8,9,10,11,12,13,14,15}" using less16 by simp
    have Ch': "Ch' = (let c = if bit CL 7 then shl1 Ch OR 1 else shl1 Ch
                      in if bit Ch 7 then c XOR 0x10 else c)"
      and CL': "CL' = (if bit Ch 7 then shl1 CL XOR 0x21 else shl1 CL)"
      using s by (auto simp: crc_bit_step_def Let_def and_0x80 shl_byte split: if_splits)
    have j: "bit (crc16_bit (be16 Ch CL)) n =
        ((bit Ch 7 \<and> bit (0x1021 :: u16) n) \<noteq> bit (shl1 (be16 Ch CL)) n)"
      using \<open>n < LENGTH(16)\<close> by (cases "bit Ch 7") (auto simp: crc16_bit_alt bit_join bit_xor_iff)
    show "bit (be16 Ch' CL') n = bit (crc16_bit (be16 Ch CL)) n"
      unfolding j Ch' CL' Let_def using n
      by (simp only: insert_iff empty_iff)
        (elim disjE; simp add: bit_join bit_shl1 bit_xor_iff bit_or_iff)
  qed
qed

lemma xor_cancel: "a XOR k = b XOR k \<Longrightarrow> a = b" for a b k :: "'a :: len word"
  by (metis xor.assoc xor_self_eq xor.right_neutral)

lemma crc16_bit_inj: "inj crc16_bit"
proof (rule injI)
  fix x y assume e: "crc16_bit x = crc16_bit y"
  have z: "bit (0x1021 :: u16) 0" by simp
  have top: "bit x 15 = bit y 15"
    using arg_cong [OF e, of "\<lambda>w. bit w 0"] z
    by (auto simp: crc16_bit_alt bit_xor_iff bit_shl1 split: if_splits)
  have "shl1 x XOR k = shl1 y XOR k \<Longrightarrow> shl1 x = shl1 y" for k
    by (rule xor_cancel)
  then have "shl1 x = shl1 y" using e top by (simp add: crc16_bit_alt split: if_splits)
  then have b: "bit (shl1 x) (Suc n) = bit (shl1 y) (Suc n)" for n by simp
  have low: "n < 15 \<Longrightarrow> bit x n = bit y n" for n using b [of n] by (simp add: bit_shl1)
  show "x = y"
  proof (rule bit_word_eqI)
    fix n assume "n < LENGTH(16)"
    then show "bit x n = bit y n" using low top by (cases "n = 15") auto
  qed
qed

definition joined :: "byte \<times> byte \<Rightarrow> u16" where
  "joined s = be16 (fst s) (snd s)"

lemma joined_bit_step: "joined (crc_bit_step s) = crc16_bit (joined s)"
  using crc_bit_step_join [of "fst s" "snd s"]
  by (cases "crc_bit_step s") (simp add: joined_def)

lemma joined_bit_steps: "joined ((crc_bit_step ^^ n) s) = (crc16_bit ^^ n) (joined s)"
  by (induction n) (simp_all add: joined_bit_step)

lemma be16_xor: "be16 (h XOR b) l = be16 h l XOR push_bit 8 (ucast b)"
  by (rule bit_word_eqI) (auto simp: bit_join bit_simps)

lemma joined_byte_step: "joined (crc_byte_step b s) = crc16_byte b (joined s)"
  by (simp add: crc_byte_step_def joined_bit_steps crc16_byte_def)
    (simp add: joined_def be16_xor)

lemma joined_fold: "joined (fold crc_byte_step bs s) = fold crc16_byte bs (joined s)"
  by (induction bs arbitrary: s) (simp_all add: joined_byte_step)

lemma be16_ff: "be16 0xFF 0xFF = 0xFFFF"
  by (simp add: be16_def)

lemma CRC16_CCITT_ref: "CRC16_CCITT bs = crc16_ref bs"
  using joined_fold [of bs "(0xFF, 0xFF)"]
  by (simp add: CRC16_CCITT_def crc16_ref_def joined_def be16_ff case_prod_beta)

text \<open>The register update is injective in the register and in the byte, so one changed byte
  always changes the checksum.\<close>

lemma crc16_bits_inj: "inj (crc16_bit ^^ n)"
proof (induction n)
  case (Suc n)
  then show ?case using inj_compose [OF crc16_bit_inj Suc] by (simp add: comp_def)
qed simp

lemma crc16_byte_inj_reg: "crc16_byte b x = crc16_byte b y \<Longrightarrow> x = y"
  unfolding crc16_byte_def using crc16_bits_inj [of 8] by (metis injD xor_cancel)

lemma crc16_byte_inj_byte: "crc16_byte b x = crc16_byte c x \<Longrightarrow> b = c"
proof -
  assume "crc16_byte b x = crc16_byte c x"
  then have "x XOR push_bit 8 (ucast b) = x XOR push_bit 8 (ucast c)"
    unfolding crc16_byte_def using crc16_bits_inj [of 8] by (metis injD)
  then have e: "push_bit 8 (ucast b :: u16) = push_bit 8 (ucast c)"
    using xor_cancel by (metis xor.commute)
  show "b = c"
  proof (rule bit_word_eqI)
    fix n assume "n < LENGTH(8)"
    then show "bit b n = bit c n"
      using arg_cong [OF e, of "\<lambda>w. bit w (n + 8)"] by (simp add: bit_simps)
  qed
qed

lemma crc16_fold_inj: "fold crc16_byte bs x = fold crc16_byte bs y \<Longrightarrow> x = y"
  by (induction bs arbitrary: x y) (auto dest: crc16_byte_inj_reg)

lemma crc_one_byte:
  "b \<noteq> c \<Longrightarrow> CRC16_CCITT (xs @ b # ys) \<noteq> CRC16_CCITT (xs @ c # ys)"
  unfolding CRC16_CCITT_ref crc16_ref_def
  by (auto dest: crc16_fold_inj crc16_byte_inj_byte)

section \<open>Commands\<close>

datatype lcsc_cmd =
    GET_STATUS_CMD | LOGIN_1 | LOGIN_2 | LOGOUT | GET_CARD_ID | CARD_BALANCE | CARD_DEDUCT
  | CARD_RECORD | CARD_FLUSH | GET_TIME | SET_TIME | UPLOAD_CFG_FILE | UPLOAD_CIL_FILE
  | UPLOAD_BL_FILE

fun cmd_type :: "lcsc_cmd \<Rightarrow> byte" where
  "cmd_type GET_STATUS_CMD = 0x00"
| "cmd_type LOGIN_1 = 0x10"
| "cmd_type LOGIN_2 = 0x11"
| "cmd_type LOGOUT = 0x12"
| "cmd_type GET_CARD_ID = 0x20"
| "cmd_type CARD_BALANCE = 0x21"
| "cmd_type CARD_DEDUCT = 0x22"
| "cmd_type CARD_RECORD = 0x23"
| "cmd_type CARD_FLUSH = 0x24"
| "cmd_type GET_TIME = 0x42"
| "cmd_type SET_TIME = 0x41"
| "cmd_type UPLOAD_CFG_FILE = 0x32"
| "cmd_type UPLOAD_CIL_FILE = 0x31"
| "cmd_type UPLOAD_BL_FILE = 0x30"

text \<open>What the untyped data pointer of a queued command points to.\<close>

datatype cmd_data = NullData | BytesData "byte list" | AmountData u32 | ChunksData "byte list list"

text \<open>The inputs of \<open>prepareCmd\<close> besides the command: the encryption with the installed key, and
  the time since the epoch.\<close>

record lcsc_env =
  aes :: "byte list \<Rightarrow> byte list"
  epoch :: u64

definition be32_of_u32 :: "u32 \<Rightarrow> byte list" where
  "be32_of_u32 v =
     [ucast (drop_bit 24 v AND 0xFF), ucast (drop_bit 16 v AND 0xFF),
      ucast (drop_bit 8 v AND 0xFF), ucast (v AND 0xFF)]"

definition be32_of_epoch :: "u64 \<Rightarrow> byte list" where
  "be32_of_epoch v =
     [ucast (drop_bit 24 v AND 0xFF), ucast (drop_bit 16 v AND 0xFF),
      ucast (drop_bit 8 v AND 0xFF), ucast (v AND 0xFF)]"

definition set_body :: "u16 \<Rightarrow> byte list \<Rightarrow> csc_packet \<Rightarrow> csc_packet" where
  "set_body len body p = p\<lparr>plen := len, payload := body\<rparr>"

definition upload_body :: "cmd_data \<Rightarrow> csc_packet \<Rightarrow> csc_packet option" where
  "upload_body data p =
     (case data of
        NullData \<Rightarrow> Some p
      | BytesData bs \<Rightarrow> Some (set_body (of_nat (length bs + 6)) bs p)
      | _ \<Rightarrow> None)"

text \<open>The packet of a command before its checksum.  A null data pointer where data is needed
  throws, and the handler leaves the payload empty; a pointer to another type is undefined:
  \<open>None\<close>.\<close>

definition command_packet :: "lcsc_env \<Rightarrow> lcsc_cmd \<Rightarrow> cmd_data \<Rightarrow> csc_packet option" where
  "command_packet env cmd data =
     (let p = csc_packet_clear\<lparr>attn := 0xA5, code := False, ptype := cmd_type cmd\<rparr> in
      case cmd of
        GET_STATUS_CMD \<Rightarrow> Some (set_body 0x0006 [] p)
      | LOGIN_1 \<Rightarrow> Some (set_body 0x0017 (0x01 # map of_nat [0..<16]) p)
      | LOGIN_2 \<Rightarrow>
          (case data of
             NullData \<Rightarrow> Some (set_body 0x0016 [] p)
           | BytesData ch \<Rightarrow> Some (set_body 0x0016 (aes env ch) p)
           | _ \<Rightarrow> None)
      | LOGOUT \<Rightarrow> Some (set_body 0x0006 [] p)
      | GET_CARD_ID \<Rightarrow> Some (set_body 0x0007 [0x01] p)
      | CARD_BALANCE \<Rightarrow> Some (set_body 0x0007 [0x01] p)
      | CARD_DEDUCT \<Rightarrow>
          (case data of
             NullData \<Rightarrow> Some (set_body 0x0012 [] p)
           | AmountData amount \<Rightarrow>
               Some (set_body 0x0012
                 (0x04 # be32_of_u32 amount @ be32_of_epoch (epoch env) @ [0x00, 0x00, 0x02]) p)
           | _ \<Rightarrow> None)
      | CARD_RECORD \<Rightarrow> Some (set_body 0x0006 [] p)
      | CARD_FLUSH \<Rightarrow>
          (case data of
             NullData \<Rightarrow> Some (set_body 0x000A [] p)
           | AmountData seed \<Rightarrow> Some (set_body 0x000A (be32_of_u32 seed) p)
           | _ \<Rightarrow> None)
      | GET_TIME \<Rightarrow> Some (set_body 0x0006 [] p)
      | SET_TIME \<Rightarrow> Some (set_body 0x000A (be32_of_epoch (epoch env)) p)
      | UPLOAD_CFG_FILE \<Rightarrow> upload_body data p
      | UPLOAD_CIL_FILE \<Rightarrow> upload_body data p
      | UPLOAD_BL_FILE \<Rightarrow> upload_body data p)"

definition seal :: "csc_packet \<Rightarrow> byte list" where
  "seal p = serialize (p\<lparr>pcrc := CRC16_CCITT (serializeWithoutCRC p)\<rparr>)"

definition prepareCmd :: "lcsc_env \<Rightarrow> lcsc_cmd \<Rightarrow> cmd_data \<Rightarrow> byte list option" where
  "prepareCmd env cmd data = map_option seal (command_packet env cmd data)"

section \<open>Reception\<close>

definition RX_BUFFER_SIZE :: nat where "RX_BUFFER_SIZE = 1024"

text \<open>The reception state and the filled part of the receive buffer.\<close>

record lcsc_rx =
  rx_receiving :: bool
  rxBuffer :: "byte list"

definition resetRxBuffer :: "lcsc_rx \<Rightarrow> lcsc_rx" where
  "resetRxBuffer r = r\<lparr>rxBuffer := []\<rparr>"

definition rx_restart :: "lcsc_rx \<Rightarrow> lcsc_rx" where
  "rx_restart r = (resetRxBuffer r)\<lparr>rx_receiving := False\<rparr>"

text \<open>One byte; the flag tells whether a frame is complete in the buffer.\<close>

definition rx_data :: "byte \<Rightarrow> lcsc_rx \<Rightarrow> lcsc_rx \<times> bool" where
  "rx_data b r =
     (if \<not> rx_receiving r then
        (if b = 0xA5 then (r\<lparr>rxBuffer := [b], rx_receiving := True\<rparr>, False) else (r, False))
      else if length (rxBuffer r) \<ge> RX_BUFFER_SIZE then
        (if b = 0xA5 then (r\<lparr>rxBuffer := [b], rx_receiving := True\<rparr>, False)
         else (rx_restart r, False))
      else
        let buf = rxBuffer r @ [b]; r1 = r\<lparr>rxBuffer := buf\<rparr> in
        if length buf < 4 then (r1, False)
        else
          let dataLen = unat (be16 (buf ! 2) (buf ! 3)) in
          if dataLen < 6 \<or> dataLen > RX_BUFFER_SIZE then (rx_restart r1, False)
          else if length buf = dataLen then (r1\<lparr>rx_receiving := False\<rparr>, True)
          else if length buf > dataLen then (rx_restart r1, False)
          else (r1, False))"

text \<open>The loop over the bytes of one read stops at the first complete frame and drops the
  rest.\<close>

fun isRxResponseComplete :: "byte list \<Rightarrow> lcsc_rx \<Rightarrow> lcsc_rx \<times> bool" where
  "isRxResponseComplete [] r = (r, False)"
| "isRxResponseComplete (b # bs) r =
     (case rx_data b r of
        (r', True) \<Rightarrow> (r', True)
      | (r', False) \<Rightarrow> isRxResponseComplete bs r')"

section \<open>Validation of a received frame\<close>

definition isCurrentCmdResponse :: "lcsc_cmd \<Rightarrow> byte \<Rightarrow> bool" where
  "isCurrentCmdResponse currCmd respType \<longleftrightarrow>
     currCmd = GET_STATUS_CMD \<and> respType = 0x00 \<or>
     currCmd = LOGIN_1 \<and> respType = 0x10 \<or>
     currCmd = LOGIN_2 \<and> respType = 0x11 \<or>
     currCmd = LOGOUT \<and> respType = 0x12 \<or>
     currCmd = GET_CARD_ID \<and> respType = 0x20 \<or>
     currCmd = CARD_BALANCE \<and> respType = 0x21 \<or>
     currCmd = CARD_DEDUCT \<and> respType = 0x22 \<or>
     currCmd = CARD_RECORD \<and> respType = 0x23 \<or>
     currCmd = CARD_FLUSH \<and> respType = 0x24 \<or>
     currCmd = GET_TIME \<and> respType = 0x42 \<or>
     currCmd = SET_TIME \<and> respType = 0x41 \<or>
     currCmd = UPLOAD_CFG_FILE \<and> respType = 0x32 \<or>
     currCmd = UPLOAD_CIL_FILE \<and> respType = 0x31 \<or>
     currCmd = UPLOAD_BL_FILE \<and> respType = 0x30"

datatype mCSCEvents =
    sGetStatusOK | sLoginSuccess | sLogoutSuccess | sGetIDSuccess | sGetBlcSuccess
  | sGetTimeSuccess | sGetDeductSuccess | sGetCardRecord | sCardFlushed | sSetTimeSuccess
  | sLogin1Success | sBLUploadSuccess | sCILUploadSuccess | sCFGUploadSuccess
  | sCorruptedCmd | sIncompleteCmd | sUnknown | rCorruptedCmd | sUnsupportedCmd
  | sUnsupportedMode | sLoginAuthFail | sNoCard | sCardError | sRFError | sMultiCard
  | sCardnotinlist | sCardAuthError | sLockedCard | sInadequatePurse | sCryptoError
  | sExpiredCard | sCardParaError | sChangedCard | sBlackCard | sRecordNotFlush
  | sNoLastTrans | sNoNeedFlush | sWrongSeed | sLoginAlready | sIncorrectIndex
  | sBLUploadCorrupt | sCILUploadCorrupt | sCFGUploadCorrupt | sTimeout | sSendcmdfail
  | rCRCError | rNotRespCmd

fun event_code :: "mCSCEvents \<Rightarrow> int" where
  "event_code sGetStatusOK = 0" | "event_code sLoginSuccess = 1"
| "event_code sLogoutSuccess = 2" | "event_code sGetIDSuccess = 3"
| "event_code sGetBlcSuccess = 4" | "event_code sGetTimeSuccess = 5"
| "event_code sGetDeductSuccess = 6" | "event_code sGetCardRecord = 7"
| "event_code sCardFlushed = 8" | "event_code sSetTimeSuccess = 9"
| "event_code sLogin1Success = 10" | "event_code sBLUploadSuccess = 11"
| "event_code sCILUploadSuccess = 12" | "event_code sCFGUploadSuccess = 13"
| "event_code sCorruptedCmd = -2" | "event_code sIncompleteCmd = -3"
| "event_code sUnknown = -4" | "event_code rCorruptedCmd = -5"
| "event_code sUnsupportedCmd = -6" | "event_code sUnsupportedMode = -7"
| "event_code sLoginAuthFail = -8" | "event_code sNoCard = -9"
| "event_code sCardError = -10" | "event_code sRFError = -11"
| "event_code sMultiCard = -12" | "event_code sCardnotinlist = -13"
| "event_code sCardAuthError = -14" | "event_code sLockedCard = -15"
| "event_code sInadequatePurse = -16" | "event_code sCryptoError = -17"
| "event_code sExpiredCard = -18" | "event_code sCardParaError = -19"
| "event_code sChangedCard = -20" | "event_code sBlackCard = -21"
| "event_code sRecordNotFlush = -22" | "event_code sNoLastTrans = -23"
| "event_code sNoNeedFlush = -24" | "event_code sWrongSeed = -25"
| "event_code sLoginAlready = -28" | "event_code sIncorrectIndex = -30"
| "event_code sBLUploadCorrupt = -31" | "event_code sCILUploadCorrupt = -32"
| "event_code sCFGUploadCorrupt = -33" | "event_code sTimeout = -100"
| "event_code sSendcmdfail = -103" | "event_code rCRCError = -104"
| "event_code rNotRespCmd = -105"

datatype verdict = Rejected mCSCEvents | Parsed csc_packet

text \<open>\<open>handleReceivedCmd\<close> up to the payload parser; \<open>None\<close> where the parser of the packet would
  read past the data.\<close>

definition validate_frame :: "lcsc_cmd \<Rightarrow> byte list \<Rightarrow> verdict option" where
  "validate_frame currCmd msg =
     (if length msg < 6 then Some (Rejected rCorruptedCmd)
      else if msg ! 0 \<noteq> 0xA5 then Some (Rejected rCorruptedCmd)
      else if unat (be16 (msg ! 2) (msg ! 3)) \<noteq> length msg then Some (Rejected rCorruptedCmd)
      else
        (case deserialize msg of
           None \<Rightarrow> None
         | Some p \<Rightarrow>
             if CRC16_CCITT (take (length msg - 2) msg) \<noteq> pcrc p then Some (Rejected rCRCError)
             else if \<not> code p then Some (Rejected rNotRespCmd)
             else if \<not> isCurrentCmdResponse currCmd (ptype p) then Some (Rejected rNotRespCmd)
             else if payload p = [] then Some (Rejected rCorruptedCmd)
             else Some (Parsed p)))"

end
