(* ===== verification/Lcsc_Reader.thy ===== *)
theory Lcsc_Reader
  imports Lcsc_Packet Byte_Codec
begin

text \<open>
  The LCSC reader driver (src/lcsc.cpp): its command queues, the write path, the parser of the
  responses and the table-driven state machine that takes one command at a time from the queue
  to its response.  Everything runs on one I/O thread; handlers that the code posts are kept in
  the list \<open>posted\<close> and run in that order.  A timer is armed or not; when it expires its handler
  joins \<open>posted\<close>, and cancelling it afterwards no longer removes the handler.  Steps return
  \<open>None\<close> where the C++ is undefined (a payload read past its end, a data pointer of another
  type).  Events for other components are kept in \<open>lcsc_events\<close>, the calls of the upload
  workflow in \<open>uploads\<close>, the settlement records in \<open>transactions\<close>.
\<close>

section \<open>State\<close>

datatype lcsc_state =
    IDLE | SENDING_REQUEST_ASYNC | WAITING_FOR_RESPONSE | SENDING_CHUNK_COMMAND_REQUEST_ASYNC
  | WAITING_FOR_CHUNK_COMMAND_RESPONSE

datatype lcsc_event =
    COMMAND_ENQUEUED | CHUNK_COMMAND_ENQUEUED | WRITE_COMPLETED | WRITE_FAILED
  | RESPONSE_TIMEOUT | RESPONSE_RECEIVED | RESPONSE_HANDLED | RESPONSE_REJECTED
  | SEND_NEXT_CHUNK_COMMAND | ALL_CHUNK_COMMAND_COMPLETED | CHUNK_COMMAND_ERROR
  | WRITE_TIMEOUT

datatype upload_event =
    CDFILE_UPLOADED | CDFILE_UPLOAD_FAILED | GET_LCSC_DEVICE_STATUS_OK
  | GET_LCSC_DEVICE_STATUS_FAILED

datatype posted_handler =
    ProcessEvent lcsc_event | CheckCommandQueue | SerialWriteTimeout | CmdResponseTimeout
  | DelayElapsed

record lcsc =
  stopping :: bool
  acceptingWork :: bool
  portOpen :: bool
  commandQueue :: "(lcsc_cmd \<times> cmd_data) list"
  chunkCommandQueue :: "(lcsc_cmd \<times> cmd_data) list"
  currentCmd :: lcsc_cmd
  currentState :: lcsc_state
  posted :: "posted_handler list"
  writeQueue :: "byte list list"
  writeInProgress :: bool
  writeTimedOut :: bool
  serialWriteTimer :: bool
  rspTimer :: bool
  serialWriteDelayTimer :: bool
  rxs :: lcsc_rx
  continueReadFlag :: bool
  generatingCDAck :: bool
  LCSCCard_In :: int
  lcsc_events :: "(string \<times> string) list"
  uploads :: "(upload_event \<times> string) list"
  transactions :: "byte list list"

definition post :: "posted_handler \<Rightarrow> lcsc \<Rightarrow> lcsc" where
  "post h s = s\<lparr>posted := posted s @ [h]\<rparr>"

definition processEvent :: "lcsc_event \<Rightarrow> lcsc \<Rightarrow> lcsc" where
  "processEvent e s = post (ProcessEvent e) s"

definition processUploadLcscFilesEvent :: "upload_event \<Rightarrow> string \<Rightarrow> lcsc \<Rightarrow> lcsc" where
  "processUploadLcscFilesEvent e str s =
     (if \<not> acceptingWork s then s else s\<lparr>uploads := uploads s @ [(e, str)]\<rparr>)"

definition EnqueueEvent :: "string \<Rightarrow> string \<Rightarrow> lcsc \<Rightarrow> lcsc" where
  "EnqueueEvent name body s = s\<lparr>lcsc_events := lcsc_events s @ [(name, body)]\<rparr>"

section \<open>The command queues\<close>

definition isChunkedCommand :: "lcsc_cmd \<Rightarrow> bool" where
  "isChunkedCommand cmd \<longleftrightarrow>
     cmd = UPLOAD_CFG_FILE \<or> cmd = UPLOAD_CIL_FILE \<or> cmd = UPLOAD_BL_FILE"

definition isChunkedCommandType :: "byte \<Rightarrow> bool" where
  "isChunkedCommandType t \<longleftrightarrow> t = 0x30 \<or> t = 0x31 \<or> t = 0x32"

definition checkCommandQueue :: "lcsc \<Rightarrow> lcsc" where
  "checkCommandQueue s =
     (if stopping s \<or> currentState s \<noteq> IDLE \<or> commandQueue s = [] then s
      else if isChunkedCommand (fst (hd (commandQueue s)))
        then processEvent CHUNK_COMMAND_ENQUEUED s
        else processEvent COMMAND_ENQUEUED s)"

definition enqueueCommandOnIoThread :: "lcsc_cmd \<Rightarrow> cmd_data \<Rightarrow> lcsc \<Rightarrow> lcsc" where
  "enqueueCommandOnIoThread cmd data s =
     (if stopping s \<or> \<not> portOpen s then s
      else
        let s1 = s\<lparr>commandQueue := commandQueue s @ [(cmd, data)]\<rparr> in
        if currentState s1 = IDLE then checkCommandQueue s1 else s1)"

definition enqueueCommandToFrontOnIoThread :: "lcsc_cmd \<Rightarrow> cmd_data \<Rightarrow> lcsc \<Rightarrow> lcsc" where
  "enqueueCommandToFrontOnIoThread cmd data s =
     (if stopping s \<or> \<not> portOpen s then s
      else if commandQueue s \<noteq> [] \<and> fst (hd (commandQueue s)) = cmd then s
      else
        let s1 = s\<lparr>commandQueue := (cmd, data) # commandQueue s\<rparr> in
        if currentState s1 = IDLE then checkCommandQueue s1 else s1)"

definition enqueueChunkCommandOnIoThread :: "lcsc_cmd \<Rightarrow> cmd_data \<Rightarrow> lcsc \<Rightarrow> lcsc" where
  "enqueueChunkCommandOnIoThread cmd data s =
     (if stopping s \<or> \<not> portOpen s then s
      else s\<lparr>chunkCommandQueue := chunkCommandQueue s @ [(cmd, data)]\<rparr>)"

text \<open>The public functions run their body on the I/O thread, at once when called there.\<close>

definition enqueueCommand :: "lcsc_cmd \<Rightarrow> cmd_data \<Rightarrow> lcsc \<Rightarrow> lcsc" where
  "enqueueCommand cmd data s =
     (if \<not> acceptingWork s then s else enqueueCommandOnIoThread cmd data s)"

definition enqueueCommandToFront :: "lcsc_cmd \<Rightarrow> cmd_data \<Rightarrow> lcsc \<Rightarrow> lcsc" where
  "enqueueCommandToFront cmd data s =
     (if \<not> acceptingWork s then s else enqueueCommandToFrontOnIoThread cmd data s)"

definition clearChunkCommandQueue :: "lcsc \<Rightarrow> lcsc" where
  "clearChunkCommandQueue s = s\<lparr>chunkCommandQueue := []\<rparr>"

definition FnSendGetStatusCmd :: "lcsc \<Rightarrow> lcsc" where
  "FnSendGetStatusCmd s = enqueueCommand GET_STATUS_CMD NullData s"

definition FnSendGetLoginCmd :: "lcsc \<Rightarrow> lcsc" where
  "FnSendGetLoginCmd s = enqueueCommand LOGIN_1 NullData s"

definition FnSendGetLogoutCmd :: "lcsc \<Rightarrow> lcsc" where
  "FnSendGetLogoutCmd s = enqueueCommand LOGOUT NullData s"

definition FnSendGetCardIDCmd :: "lcsc \<Rightarrow> lcsc" where
  "FnSendGetCardIDCmd s = enqueueCommand GET_CARD_ID NullData (s\<lparr>continueReadFlag := True\<rparr>)"

definition FnSendGetCardBalance :: "lcsc \<Rightarrow> lcsc" where
  "FnSendGetCardBalance s = enqueueCommand CARD_BALANCE NullData (s\<lparr>continueReadFlag := True\<rparr>)"

definition FnSendCardDeduct :: "u32 \<Rightarrow> lcsc \<Rightarrow> lcsc" where
  "FnSendCardDeduct amount s = enqueueCommand CARD_DEDUCT (AmountData amount) s"

definition FnSendCardRecord :: "lcsc \<Rightarrow> lcsc" where
  "FnSendCardRecord s = enqueueCommand CARD_RECORD NullData s"

definition FnSendCardFlush :: "u32 \<Rightarrow> lcsc \<Rightarrow> lcsc" where
  "FnSendCardFlush seed s = enqueueCommand CARD_FLUSH (AmountData seed) s"

definition FnSendGetTime :: "lcsc \<Rightarrow> lcsc" where
  "FnSendGetTime s = enqueueCommand GET_TIME NullData s"

definition FnSendSetTime :: "lcsc \<Rightarrow> lcsc" where
  "FnSendSetTime s = enqueueCommand SET_TIME NullData s"

definition FnLCSCReaderStopRead :: "lcsc \<Rightarrow> lcsc" where
  "FnLCSCReaderStopRead s = s\<lparr>continueReadFlag := False\<rparr>"

text \<open>Cutting a file into blocks; a block size of 0 never advances, which \<open>fuel\<close> shows.\<close>

fun chunkData :: "nat \<Rightarrow> byte list \<Rightarrow> nat \<Rightarrow> byte list list option" where
  "chunkData 0 data chunkSize = None"
| "chunkData (Suc fuel) data chunkSize =
     (if data = [] then Some []
      else map_option (\<lambda>cs. take chunkSize data # cs) (chunkData fuel (drop chunkSize data) chunkSize))"

section \<open>The write path\<close>

text \<open>\<open>gap\<close> is whether the minimum gap after the last received byte has not yet elapsed.\<close>

definition startWrite :: "bool \<Rightarrow> lcsc \<Rightarrow> lcsc" where
  "startWrite gap s =
     (if stopping s then s
      else if writeQueue s = [] then s\<lparr>writeInProgress := False\<rparr>
      else if \<not> portOpen s then processEvent WRITE_FAILED (s\<lparr>writeInProgress := False\<rparr>)
      else if gap then s\<lparr>serialWriteDelayTimer := True\<rparr>
      else s\<lparr>writeInProgress := True, writeTimedOut := False\<rparr>)"

definition enqueueWrite :: "bool \<Rightarrow> byte list \<Rightarrow> lcsc \<Rightarrow> lcsc" where
  "enqueueWrite gap data s =
     (if stopping s then s
      else
        let wasWriting = writeInProgress s; s1 = s\<lparr>writeQueue := writeQueue s @ [data]\<rparr> in
        if \<not> wasWriting then startWrite gap s1 else s1)"

datatype write_result = WriteOk | WriteAborted | WriteError

definition writeEnd :: "write_result \<Rightarrow> lcsc \<Rightarrow> lcsc" where
  "writeEnd r s =
     (let s1 = s\<lparr>serialWriteTimer := False, writeQueue := tl (writeQueue s),
                 writeInProgress := False\<rparr> in
      if stopping s1 then s1\<lparr>writeTimedOut := False\<rparr>
      else if writeTimedOut s1 then processEvent WRITE_TIMEOUT (s1\<lparr>writeTimedOut := False\<rparr>)
      else
        (case r of
           WriteOk \<Rightarrow> processEvent WRITE_COMPLETED s1
         | WriteAborted \<Rightarrow> s1
         | WriteError \<Rightarrow> processEvent WRITE_FAILED s1))"

definition startSerialWriteTimer :: "lcsc \<Rightarrow> lcsc" where
  "startSerialWriteTimer s = (if stopping s then s else s\<lparr>serialWriteTimer := True\<rparr>)"

definition startResponseTimer :: "lcsc \<Rightarrow> lcsc" where
  "startResponseTimer s = (if stopping s then s else s\<lparr>rspTimer := True\<rparr>)"

definition handleSerialWriteTimeout :: "lcsc \<Rightarrow> lcsc" where
  "handleSerialWriteTimeout s =
     (if stopping s then s
      else if \<not> writeInProgress s then processEvent WRITE_TIMEOUT s
      else s\<lparr>writeTimedOut := True\<rparr>)"

definition handleCmdResponseTimeout :: "lcsc \<Rightarrow> lcsc" where
  "handleCmdResponseTimeout s = (if stopping s then s else processEvent RESPONSE_TIMEOUT s)"

definition popCommand :: "lcsc \<Rightarrow> ((lcsc_cmd \<times> cmd_data) \<times> lcsc) option" where
  "popCommand s =
     (case commandQueue s of
        [] \<Rightarrow> None
      | c # cs \<Rightarrow> Some (c, s\<lparr>commandQueue := cs, currentCmd := fst c\<rparr>))"

definition popFromCommandQueueAndEnqueueWrite :: "lcsc_env \<Rightarrow> bool \<Rightarrow> lcsc \<Rightarrow> lcsc option" where
  "popFromCommandQueueAndEnqueueWrite env gap s =
     (case popCommand s of
        None \<Rightarrow> Some s
      | Some ((cmd, data), s1) \<Rightarrow>
          (case prepareCmd env cmd data of
             None \<Rightarrow> None
           | Some frame \<Rightarrow> Some (enqueueWrite gap frame s1)))"

definition sendNextChunkCommandData :: "lcsc_env \<Rightarrow> bool \<Rightarrow> lcsc \<Rightarrow> lcsc option" where
  "sendNextChunkCommandData env gap s =
     (case chunkCommandQueue s of
        [] \<Rightarrow> Some s
      | (cmd, data) # cs \<Rightarrow>
          (case prepareCmd env cmd data of
             None \<Rightarrow> None
           | Some frame \<Rightarrow> Some (enqueueWrite gap frame (s\<lparr>chunkCommandQueue := cs\<rparr>))))"

definition popFromChunkCommandQueueAndEnqueueWrite ::
  "lcsc_env \<Rightarrow> bool \<Rightarrow> lcsc \<Rightarrow> lcsc option" where
  "popFromChunkCommandQueueAndEnqueueWrite env gap s =
     (case popCommand s of
        None \<Rightarrow> Some s
      | Some ((cmd, data), s1) \<Rightarrow>
          (case data of
             NullData \<Rightarrow> Some (processEvent CHUNK_COMMAND_ERROR s1)
           | ChunksData chunks \<Rightarrow>
               if chunks = [] then Some (processEvent CHUNK_COMMAND_ERROR s1)
               else sendNextChunkCommandData env gap
                 (fold (\<lambda>chunk. enqueueChunkCommandOnIoThread cmd (BytesData chunk)) chunks s1)
           | _ \<Rightarrow> None))"

section \<open>Responses\<close>

definition msgStatus :: "mCSCEvents \<Rightarrow> string" where
  "msgStatus e = ''msgStatus='' @ dec_int (event_code e)"

text \<open>The first error codes are shared by the commands.\<close>

definition basic_error :: "byte \<Rightarrow> mCSCEvents option" where
  "basic_error r =
     (if r = 0x01 then Some sCorruptedCmd
      else if r = 0x02 then Some sIncompleteCmd
      else if r = 0x03 then Some sUnsupportedCmd
      else None)"

definition card_error :: "byte \<Rightarrow> mCSCEvents option" where
  "card_error r =
     (case basic_error r of
        Some e \<Rightarrow> Some e
      | None \<Rightarrow>
          if r = 0x06 then Some sNoCard
          else if r = 0x07 then Some sCardError
          else if r = 0x08 then Some sRFError
          else if r = 0x10 then Some sMultiCard
          else if r = 0x12 then Some sCardnotinlist
          else None)"

definition error_text :: "mCSCEvents option \<Rightarrow> string" where
  "error_text e = (case e of None \<Rightarrow> [] | Some ev \<Rightarrow> msgStatus ev)"

abbreviation hexf :: "byte list \<Rightarrow> nat \<Rightarrow> nat \<Rightarrow> string" where
  "hexf \<equiv> FnGetVectorCharToHexString_range"

definition raw_text :: "byte list \<Rightarrow> string" where
  "raw_text bs = map (\<lambda>b. char_of (unat b)) bs"

text \<open>GET_STATUS: the serial number is 32 raw characters, the mode one byte as a number, the
  versions hexadecimal.\<close>

definition getStatusRsp :: "byte list \<Rightarrow> string option" where
  "getStatusRsp p =
     (if hd p = 0x00 then
        (case (slice_opt p 1 32, nth_opt p 33) of
           (Some serial, Some mode) \<Rightarrow>
             Some (msgStatus sGetStatusOK @ '',serialNum='' @ raw_text serial
               @ '',readerMode='' @ dec_nat (unat mode)
               @ '',bl1Version='' @ hexf p 37 2 @ '',bl2Version='' @ hexf p 39 2
               @ '',bl3Version='' @ hexf p 41 2 @ '',bl4Version='' @ hexf p 43 2
               @ '',cil1Version='' @ hexf p 45 2 @ '',cil2Version='' @ hexf p 47 2
               @ '',cil3Version='' @ hexf p 49 2 @ '',cil4Version='' @ hexf p 51 2
               @ '',cfgVersion='' @ hexf p 53 2 @ '',firmwareVersion='' @ hexf p 55 3)
         | _ \<Rightarrow> None)
      else if hd p = 0x01 then Some (msgStatus sCorruptedCmd)
      else if hd p = 0x02 then Some (msgStatus sIncompleteCmd)
      else if hd p = 0x1c then Some (msgStatus sUnknown)
      else Some [])"

definition login1Rsp :: "byte list \<Rightarrow> lcsc \<Rightarrow> (string \<times> lcsc) option" where
  "login1Rsp p s =
     (if hd p = 0x00 then
        (case slice_opt p 17 16 of
           None \<Rightarrow> None
         | Some challenge \<Rightarrow>
             Some (msgStatus sLogin1Success @ '',readerChallenge=''
                     @ FnConvertVectorUint8ToHexString challenge False,
                   enqueueCommand LOGIN_2 (BytesData challenge) s))
      else
        Some (error_text
          (case basic_error (hd p) of
             Some e \<Rightarrow> Some e
           | None \<Rightarrow>
               if hd p = 0x04 then Some sUnsupportedMode
               else if hd p = 0x1D then Some sLoginAlready
               else None), s))"

definition login2Rsp :: "byte list \<Rightarrow> string" where
  "login2Rsp p =
     (if hd p = 0x00 then msgStatus sLoginSuccess
      else error_text
        (case basic_error (hd p) of
           Some e \<Rightarrow> Some e
         | None \<Rightarrow>
             if hd p = 0x04 then Some sUnsupportedMode
             else if hd p = 0x05 then Some sLoginAuthFail
             else None))"

definition logoutRsp :: "byte list \<Rightarrow> string" where
  "logoutRsp p =
     (if hd p = 0x00 then msgStatus sLogoutSuccess
      else error_text
        (case basic_error (hd p) of
           Some e \<Rightarrow> Some e
         | None \<Rightarrow> if hd p = 0x13 then Some sRecordNotFlush else None))"

definition cardIdRsp :: "byte list \<Rightarrow> lcsc \<Rightarrow> string \<times> lcsc" where
  "cardIdRsp p s =
     (if \<not> continueReadFlag s then ([], s)
      else
        let (oss, s1, success) =
          (if hd p = 0x00 then
             (msgStatus sGetIDSuccess @ '',CSN='' @ hexf p 1 8 @ '',CAN='' @ hexf p 9 8,
              FnSendGetCardBalance (s\<lparr>continueReadFlag := False\<rparr>), True)
           else (error_text (card_error (hd p)), s, False))
        in if continueReadFlag s1 \<and> \<not> success
           then ([], enqueueCommandToFront GET_CARD_ID NullData s1)
           else (oss, s1))"

definition cardBalanceRsp :: "byte list \<Rightarrow> lcsc \<Rightarrow> (string \<times> lcsc) option" where
  "cardBalanceRsp p s =
     (if \<not> continueReadFlag s then Some ([], s)
      else if hd p = 0x00 then
        (case (nth_opt p 17, nth_opt p 18, nth_opt p 19) of
           (Some b2, Some b1, Some b0) \<Rightarrow>
             Some (msgStatus sGetBlcSuccess @ '',CSN='' @ hexf p 1 8 @ '',CAN='' @ hexf p 9 8
                     @ '',cardBalance=''
                     @ dec_nat (unat b2 * 65536 + unat b1 * 256 + unat b0),
                   s\<lparr>continueReadFlag := False\<rparr>)
         | _ \<Rightarrow> None)
      else Some ([], enqueueCommandToFront CARD_BALANCE NullData s))"

text \<open>Bits of a record, most significant first in each byte, and the number a run of whole bytes
  of such bits denotes (\<open>FnConvertBinaryStringToString\<close> and \<open>FnConvertStringToDecimal\<close>).\<close>

definition FnVectorUint8ToBinaryString :: "byte list \<Rightarrow> bool list" where
  "FnVectorUint8ToBinaryString vec =
     concat (map (\<lambda>b. map (\<lambda>i. bit b (7 - i)) [0..<8]) vec)"

definition bits_to_u32 :: "bool list \<Rightarrow> u32" where
  "bits_to_u32 bs = foldl (\<lambda>acc b. push_bit 1 acc OR (if b then 1 else 0)) 0 bs"

definition balance_text :: "byte list \<Rightarrow> nat \<Rightarrow> string" where
  "balance_text record pos =
     dec_nat (unat (bits_to_u32 (take 24 (drop pos (FnVectorUint8ToBinaryString record)))))"

definition deduct_error :: "byte \<Rightarrow> mCSCEvents option" where
  "deduct_error r =
     (case card_error r of
        Some e \<Rightarrow> Some e
      | None \<Rightarrow>
          if r = 0x09 then Some sExpiredCard
          else if r = 0x0a then Some sCardAuthError
          else if r = 0x0b then Some sLockedCard
          else if r = 0x0c then Some sInadequatePurse
          else if r = 0x0d then Some sCryptoError
          else if r = 0x0e then Some sCardParaError
          else if r = 0x0f then Some sChangedCard
          else if r = 0x11 then Some sBlackCard
          else if r = 0x13 then Some sRecordNotFlush
          else None)"

definition cardDeductRsp :: "byte list \<Rightarrow> lcsc \<Rightarrow> (string \<times> lcsc) option" where
  "cardDeductRsp p s =
     (if hd p = 0x00 then
        (case (slice_opt p 13 32, slice_opt p 45 30, slice_opt p 77 30) of
           (Some csn, Some rec1, Some rec2) \<Rightarrow>
             (let seed = hexf p 1 4;
                  s1 = s\<lparr>transactions := transactions s @ [p]\<rparr> in
              Some (msgStatus sGetDeductSuccess @ '',seed='' @ seed @ '',CAN='' @ hexf p 5 8
                      @ '',CSN='' @ raw_text csn
                      @ '',BalanceBeforeTrans='' @ balance_text rec1 171
                      @ '',BalanceAfterTrans='' @ balance_text rec2 168,
                    (case strtol_opt 16 seed of
                       None \<Rightarrow> s1
                     | Some v \<Rightarrow> enqueueCommandToFront CARD_FLUSH (AmountData (of_int v)) s1)))
         | _ \<Rightarrow> None)
      else Some (error_text (deduct_error (hd p)), s))"

definition cardRecordRsp :: "byte list \<Rightarrow> lcsc \<Rightarrow> string \<times> lcsc" where
  "cardRecordRsp p s =
     (if hd p = 0x00 then
        (msgStatus sGetCardRecord @ '',seed='' @ hexf p 1 4,
         s\<lparr>transactions := transactions s @ [p]\<rparr>)
      else
        (error_text
          (case basic_error (hd p) of
             Some e \<Rightarrow> Some e
           | None \<Rightarrow> if hd p = 0x14 then Some sNoLastTrans else None), s))"

definition cardFlushRsp :: "byte list \<Rightarrow> string" where
  "cardFlushRsp p =
     (if hd p = 0x00 then msgStatus sCardFlushed
      else error_text
        (case basic_error (hd p) of
           Some e \<Rightarrow> Some e
         | None \<Rightarrow>
             if hd p = 0x15 then Some sNoNeedFlush
             else if hd p = 0x16 then Some sWrongSeed
             else None))"

text \<open>GET_TIME: the error cases have no break, so each runs into the ones after it.
  \<open>local_time\<close> is the text of a time in the local zone.\<close>

definition getTimeRsp :: "(u32 \<Rightarrow> string) \<Rightarrow> byte list \<Rightarrow> string option" where
  "getTimeRsp local_time p =
     (let e1c = msgStatus sUnknown;
          e03 = msgStatus sUnsupportedCmd @ e1c;
          e02 = msgStatus sIncompleteCmd @ e03;
          e01 = msgStatus sCorruptedCmd @ e02
      in if hd p = 0x00 then
           (case FnReadUint32BE p 1 of
              None \<Rightarrow> None
            | Some epochSeconds \<Rightarrow>
                Some (msgStatus sGetTimeSuccess @ '',readerTime='' @ local_time epochSeconds))
         else if hd p = 0x01 then Some e01
         else if hd p = 0x02 then Some e02
         else if hd p = 0x03 then Some e03
         else if hd p = 0x1c then Some e1c
         else Some [])"

definition setTimeRsp :: "byte list \<Rightarrow> string" where
  "setTimeRsp p =
     (if hd p = 0x00 then msgStatus sSetTimeSuccess
      else error_text
        (case basic_error (hd p) of
           Some e \<Rightarrow> Some e
         | None \<Rightarrow> if hd p = 0x1c then Some sUnknown else None))"

text \<open>The upload commands: version 0000 acknowledges a block, another version the file.\<close>

definition upload_success :: "byte \<Rightarrow> mCSCEvents" where
  "upload_success t =
     (if t = 0x30 then sBLUploadSuccess else if t = 0x31 then sCILUploadSuccess
      else sCFGUploadSuccess)"

definition upload_error :: "byte \<Rightarrow> byte \<Rightarrow> mCSCEvents option" where
  "upload_error t r =
     (case basic_error r of
        Some e \<Rightarrow> Some e
      | None \<Rightarrow>
          if r = 0x1c then Some sUnknown
          else if t = 0x32 then
            (if r = 0x13 then Some sRecordNotFlush
             else if r = 0x1b then Some sCFGUploadCorrupt else None)
          else if r = 0x17 then Some sIncorrectIndex
          else if r = 0x19 then
            Some (if t = 0x30 then sBLUploadCorrupt else sCILUploadCorrupt)
          else None)"

definition uploadRsp :: "byte \<Rightarrow> byte list \<Rightarrow> string" where
  "uploadRsp t p =
     (if hd p = 0x00 then
        (let version = hexf p 1 2 in
         if version = ''0000'' then []
         else msgStatus (upload_success t) @ '',version='' @ version)
      else error_text (upload_error t (hd p)))"

text \<open>The status code read back from the response text, as \<open>std::stoi\<close> of the value of
  \<open>msgStatus\<close>; a value that is no number ends the search.\<close>

fun find_status :: "string list \<Rightarrow> int \<Rightarrow> int" where
  "find_status [] st = st"
| "find_status (f # fs) st =
     (case FnBiteString f (CHR ''='') of
        (param, v) \<Rightarrow>
          if param = ''msgStatus'' then
            (case stoi_opt 10 v of None \<Rightarrow> st | Some n \<Rightarrow> find_status fs n)
          else find_status fs st)"

definition handleUploadLcscFilesCmdResponse :: "byte \<Rightarrow> string \<Rightarrow> lcsc \<Rightarrow> lcsc" where
  "handleUploadLcscFilesCmdResponse t msgRsp s =
     (if isChunkedCommandType t then
        (let st = find_status (FnParseString msgRsp (CHR '','')) 255 mod 256 in
         if st \<in> {event_code sBLUploadSuccess, event_code sCILUploadSuccess,
                  event_code sCFGUploadSuccess}
         then processUploadLcscFilesEvent CDFILE_UPLOADED [] s
         else processUploadLcscFilesEvent CDFILE_UPLOAD_FAILED [] s)
      else s)"

definition handleUploadLcscGetStatusCmdResponse :: "byte \<Rightarrow> string \<Rightarrow> lcsc \<Rightarrow> lcsc" where
  "handleUploadLcscGetStatusCmdResponse t msgRsp s =
     (if t = 0x00 then
        (if find_status (FnParseString msgRsp (CHR '','')) (- 1) = event_code sGetStatusOK
         then processUploadLcscFilesEvent GET_LCSC_DEVICE_STATUS_OK msgRsp s
         else processUploadLcscFilesEvent GET_LCSC_DEVICE_STATUS_FAILED [] s)
      else s)"

text \<open>The switch over the type of the response.\<close>

definition responseText ::
  "(u32 \<Rightarrow> string) \<Rightarrow> csc_packet \<Rightarrow> lcsc \<Rightarrow> (string \<times> lcsc) option" where
  "responseText local_time msg s =
     (let t = ptype msg; p = payload msg in
      if p = [] then None
      else if t = 0x00 then map_option (\<lambda>x. (x, s)) (getStatusRsp p)
      else if t = 0x10 then login1Rsp p s
      else if t = 0x11 then Some (login2Rsp p, s)
      else if t = 0x12 then Some (logoutRsp p, s)
      else if t = 0x20 then Some (cardIdRsp p s)
      else if t = 0x21 then cardBalanceRsp p s
      else if t = 0x22 then cardDeductRsp p s
      else if t = 0x23 then Some (cardRecordRsp p s)
      else if t = 0x24 then Some (cardFlushRsp p, s)
      else if t = 0x42 then map_option (\<lambda>x. (x, s)) (getTimeRsp local_time p)
      else if t = 0x41 then Some (setTimeRsp p, s)
      else if isChunkedCommandType t then Some (uploadRsp t p, s)
      else Some ([], s))"

definition handleCmdResponse ::
  "(u32 \<Rightarrow> string) \<Rightarrow> csc_packet \<Rightarrow> lcsc \<Rightarrow> (string \<times> lcsc) option" where
  "handleCmdResponse local_time msg s =
     (case responseText local_time msg s of
        None \<Rightarrow> None
      | Some (oss, s1) \<Rightarrow>
          (let t = ptype msg; p = payload msg;
               s2 =
                 (if isChunkedCommandType t then
                    (if hd p = 0x00 then
                       (if hexf p 1 2 = ''0000'' then processEvent SEND_NEXT_CHUNK_COMMAND s1
                        else handleUploadLcscFilesCmdResponse t oss
                          (processEvent ALL_CHUNK_COMMAND_COMPLETED s1))
                     else handleUploadLcscFilesCmdResponse t oss
                       (processEvent CHUNK_COMMAND_ERROR s1))
                  else handleUploadLcscGetStatusCmdResponse t oss s1);
               s3 = (if isChunkedCommandType t \<and> hd p = 0x03 then FnSendGetLoginCmd s2 else s2)
           in Some (oss, s3)))"

end
