(* ===== verification/Lcsc_Fsm.thy ===== *)
theory Lcsc_Fsm
  imports Lcsc_Reader
begin

text \<open>
  The state machine of the LCSC reader (src/lcsc.cpp): error reports, the handling of a received
  frame, the handlers of the five states, the transition table, and the actions of the whole
  driver.  \<open>lcsc_inputs\<close> are the inputs a step reads: the environment of \<open>prepareCmd\<close>, the local
  time, and whether the minimum gap to the last received byte is still running.
\<close>

record lcsc_inputs =
  env :: lcsc_env
  local_time :: "u32 \<Rightarrow> string"
  gap :: bool

section \<open>Errors and received frames\<close>

fun error_event_name :: "lcsc_cmd \<Rightarrow> string" where
  "error_event_name GET_STATUS_CMD = ''Evt_LcscReaderStatus''"
| "error_event_name LOGIN_1 = ''Evt_LcscReaderLogin''"
| "error_event_name LOGIN_2 = ''Evt_LcscReaderLogin''"
| "error_event_name LOGOUT = ''Evt_handleLcscReaderLogout''"
| "error_event_name CARD_DEDUCT = ''Evt_handleLcscReaderGetCardDeduct''"
| "error_event_name CARD_RECORD = ''Evt_handleLcscReaderGetCardRecord''"
| "error_event_name CARD_FLUSH = ''Evt_handleLcscReaderGetCardFlush''"
| "error_event_name GET_TIME = ''Evt_handleLcscReaderGetTime''"
| "error_event_name SET_TIME = ''Evt_handleLcscReaderSetTime''"
| "error_event_name UPLOAD_CFG_FILE = ''Evt_handleLcscReaderUploadCFGFile''"
| "error_event_name UPLOAD_CIL_FILE = ''Evt_handleLcscReaderUploadCILFile''"
| "error_event_name UPLOAD_BL_FILE = ''Evt_handleLcscReaderUploadBLFile''"
| "error_event_name GET_CARD_ID = []"
| "error_event_name CARD_BALANCE = []"

definition handleCmdErrorOrTimeout :: "lcsc_cmd \<Rightarrow> mCSCEvents \<Rightarrow> lcsc \<Rightarrow> lcsc" where
  "handleCmdErrorOrTimeout cmd status s =
     (let s1 = (if cmd = GET_STATUS_CMD \<and> generatingCDAck s
                then processUploadLcscFilesEvent GET_LCSC_DEVICE_STATUS_FAILED [] s else s)
      in if cmd = GET_CARD_ID then
           (if continueReadFlag s1 then enqueueCommandToFront GET_CARD_ID NullData s1 else s1)
         else if cmd = CARD_BALANCE then
           (if continueReadFlag s1 then enqueueCommandToFront CARD_BALANCE NullData s1 else s1)
         else EnqueueEvent (error_event_name cmd) (msgStatus status) s1)"

definition rejectCurrentResponse :: "mCSCEvents \<Rightarrow> lcsc \<Rightarrow> lcsc" where
  "rejectCurrentResponse status s =
     (let s1 = handleCmdErrorOrTimeout (currentCmd s) status (s\<lparr>rspTimer := False\<rparr>);
          s2 = (if isChunkedCommand (currentCmd s1)
                then processUploadLcscFilesEvent CDFILE_UPLOAD_FAILED [] s1 else s1)
      in processEvent RESPONSE_REJECTED s2)"

text \<open>The event name of a response type; asking for the name of a balance response also marks
  the card as present.\<close>

definition getEventStringFromResponseCmdType :: "byte \<Rightarrow> string" where
  "getEventStringFromResponseCmdType t =
     (if t = 0x10 then ''Evt_LcscReaderLogin''
      else if t = 0x11 then ''Evt_LcscReaderLogin''
      else if t = 0x12 then ''Evt_handleLcscReaderLogout''
      else if t = 0x20 then ''Evt_handleLcscReaderGetCardID''
      else if t = 0x21 then ''Evt_handleLcscReaderGetCardBalance''
      else if t = 0x22 then ''Evt_handleLcscReaderGetCardDeduct''
      else if t = 0x23 then ''Evt_handleLcscReaderGetCardRecord''
      else if t = 0x24 then ''Evt_handleLcscReaderGetCardFlush''
      else if t = 0x41 then ''Evt_handleLcscReaderSetTime''
      else if t = 0x42 then ''Evt_handleLcscReaderGetTime''
      else if t = 0x30 then ''Evt_handleLcscReaderUploadBLFile''
      else if t = 0x31 then ''Evt_handleLcscReaderUploadCILFile''
      else if t = 0x32 then ''Evt_handleLcscReaderUploadCFGFile''
      else if t = 0x00 then ''Evt_LcscReaderStatus''
      else [])"

definition handleReceivedCmd :: "lcsc_inputs \<Rightarrow> byte list \<Rightarrow> lcsc \<Rightarrow> lcsc option" where
  "handleReceivedCmd i msgDataBuff s =
     (case validate_frame (currentCmd s) msgDataBuff of
        None \<Rightarrow> None
      | Some (Rejected status) \<Rightarrow> Some (rejectCurrentResponse status s)
      | Some (Parsed msg) \<Rightarrow>
          (case handleCmdResponse (local_time i) msg (s\<lparr>rspTimer := False\<rparr>) of
             None \<Rightarrow> None
           | Some (msgRsp, s1) \<Rightarrow>
               (let s2 =
                  (if msgRsp \<noteq> [] then
                     (let eventName = getEventStringFromResponseCmdType (ptype msg);
                          s1' = (if ptype msg = 0x21 then s1\<lparr>LCSCCard_In := 1\<rparr> else s1)
                      in if eventName \<noteq> [] then EnqueueEvent eventName msgRsp s1' else s1')
                   else s1)
                in Some (if isChunkedCommandType (ptype msg) then s2
                         else processEvent RESPONSE_HANDLED s2))))"

section \<open>The handlers of the states\<close>

definition handleIdleState :: "lcsc_inputs \<Rightarrow> lcsc_event \<Rightarrow> lcsc \<Rightarrow> lcsc option" where
  "handleIdleState i e s =
     (if e = COMMAND_ENQUEUED then
        map_option startSerialWriteTimer (popFromCommandQueueAndEnqueueWrite (env i) (gap i) s)
      else if e = CHUNK_COMMAND_ENQUEUED then
        map_option startSerialWriteTimer
          (popFromChunkCommandQueueAndEnqueueWrite (env i) (gap i) s)
      else Some s)"

definition handleSendingRequestAsyncState ::
  "lcsc_inputs \<Rightarrow> lcsc_event \<Rightarrow> lcsc \<Rightarrow> lcsc option" where
  "handleSendingRequestAsyncState i e s =
     Some
       (if e = WRITE_COMPLETED then startResponseTimer (s\<lparr>serialWriteTimer := False\<rparr>)
        else if e = WRITE_FAILED then
          handleCmdErrorOrTimeout (currentCmd s) sSendcmdfail (s\<lparr>serialWriteTimer := False\<rparr>)
        else if e = WRITE_TIMEOUT then handleCmdErrorOrTimeout (currentCmd s) sSendcmdfail s
        else s)"

text \<open>Taking the received frame out of the buffer.\<close>

definition takeFrame :: "lcsc \<Rightarrow> byte list \<times> lcsc" where
  "takeFrame s = (rxBuffer (rxs s), s\<lparr>rxs := resetRxBuffer (rxs s)\<rparr>)"

definition handleWaitingForResponseState ::
  "lcsc_inputs \<Rightarrow> lcsc_event \<Rightarrow> lcsc \<Rightarrow> lcsc option" where
  "handleWaitingForResponseState i e s =
     (if e = RESPONSE_TIMEOUT then Some (handleCmdErrorOrTimeout (currentCmd s) sTimeout s)
      else if e = RESPONSE_RECEIVED then
        (case takeFrame s of (frame, s1) \<Rightarrow> handleReceivedCmd i frame s1)
      else Some s)"

definition uploadFailed :: "lcsc \<Rightarrow> lcsc" where
  "uploadFailed s =
     processUploadLcscFilesEvent CDFILE_UPLOAD_FAILED [] (clearChunkCommandQueue s)"

definition handleSendingChunkCommandRequestAsyncState ::
  "lcsc_inputs \<Rightarrow> lcsc_event \<Rightarrow> lcsc \<Rightarrow> lcsc option" where
  "handleSendingChunkCommandRequestAsyncState i e s =
     Some
       (if e = WRITE_COMPLETED then startResponseTimer (s\<lparr>serialWriteTimer := False\<rparr>)
        else if e = WRITE_FAILED then
          uploadFailed
            (handleCmdErrorOrTimeout (currentCmd s) sSendcmdfail (s\<lparr>serialWriteTimer := False\<rparr>))
        else if e = WRITE_TIMEOUT then
          uploadFailed (handleCmdErrorOrTimeout (currentCmd s) sSendcmdfail s)
        else if e = CHUNK_COMMAND_ERROR then
          uploadFailed
            (handleCmdErrorOrTimeout (currentCmd s) rNotRespCmd (s\<lparr>serialWriteTimer := False\<rparr>))
        else s)"

definition handleWaitingForChunkCommandResponseState ::
  "lcsc_inputs \<Rightarrow> lcsc_event \<Rightarrow> lcsc \<Rightarrow> lcsc option" where
  "handleWaitingForChunkCommandResponseState i e s =
     (if e = RESPONSE_TIMEOUT then
        Some (uploadFailed (handleCmdErrorOrTimeout (currentCmd s) sTimeout s))
      else if e = RESPONSE_RECEIVED then
        (case takeFrame s of (frame, s1) \<Rightarrow> handleReceivedCmd i frame s1)
      else if e = RESPONSE_REJECTED then Some (clearChunkCommandQueue s)
      else if e = SEND_NEXT_CHUNK_COMMAND then
        map_option startSerialWriteTimer (sendNextChunkCommandData (env i) (gap i) s)
      else if e = CHUNK_COMMAND_ERROR then
        Some (clearChunkCommandQueue (handleCmdErrorOrTimeout (currentCmd s) rNotRespCmd s))
      else Some s)"

section \<open>The transition table\<close>

type_synonym lcsc_handler = "lcsc_inputs \<Rightarrow> lcsc_event \<Rightarrow> lcsc \<Rightarrow> lcsc option"

fun stateTransitionTable :: "lcsc_state \<Rightarrow> (lcsc_event \<times> lcsc_handler \<times> lcsc_state) list" where
  "stateTransitionTable IDLE =
     [(COMMAND_ENQUEUED, handleIdleState, SENDING_REQUEST_ASYNC),
      (CHUNK_COMMAND_ENQUEUED, handleIdleState, SENDING_CHUNK_COMMAND_REQUEST_ASYNC)]"
| "stateTransitionTable SENDING_REQUEST_ASYNC =
     [(WRITE_COMPLETED, handleSendingRequestAsyncState, WAITING_FOR_RESPONSE),
      (WRITE_FAILED, handleSendingRequestAsyncState, IDLE),
      (WRITE_TIMEOUT, handleSendingRequestAsyncState, IDLE)]"
| "stateTransitionTable WAITING_FOR_RESPONSE =
     [(RESPONSE_RECEIVED, handleWaitingForResponseState, WAITING_FOR_RESPONSE),
      (RESPONSE_HANDLED, handleWaitingForResponseState, IDLE),
      (RESPONSE_REJECTED, handleWaitingForResponseState, IDLE),
      (RESPONSE_TIMEOUT, handleWaitingForResponseState, IDLE)]"
| "stateTransitionTable SENDING_CHUNK_COMMAND_REQUEST_ASYNC =
     [(WRITE_COMPLETED, handleSendingChunkCommandRequestAsyncState,
       WAITING_FOR_CHUNK_COMMAND_RESPONSE),
      (WRITE_FAILED, handleSendingChunkCommandRequestAsyncState, IDLE),
      (WRITE_TIMEOUT, handleSendingChunkCommandRequestAsyncState, IDLE),
      (CHUNK_COMMAND_ERROR, handleSendingChunkCommandRequestAsyncState, IDLE)]"
| "stateTransitionTable WAITING_FOR_CHUNK_COMMAND_RESPONSE =
     [(RESPONSE_RECEIVED, handleWaitingForChunkCommandResponseState,
       WAITING_FOR_CHUNK_COMMAND_RESPONSE),
      (RESPONSE_REJECTED, handleWaitingForChunkCommandResponseState, IDLE),
      (RESPONSE_TIMEOUT, handleWaitingForChunkCommandResponseState, IDLE),
      (SEND_NEXT_CHUNK_COMMAND, handleWaitingForChunkCommandResponseState,
       SENDING_CHUNK_COMMAND_REQUEST_ASYNC),
      (ALL_CHUNK_COMMAND_COMPLETED, handleWaitingForChunkCommandResponseState, IDLE),
      (CHUNK_COMMAND_ERROR, handleWaitingForChunkCommandResponseState, IDLE)]"

definition find_transition ::
  "lcsc_event \<Rightarrow> lcsc_state \<Rightarrow> (lcsc_handler \<times> lcsc_state) option" where
  "find_transition e st = map_of (stateTransitionTable st) e"

text \<open>The body of the handler \<open>processEvent\<close> posts.\<close>

definition runEvent :: "lcsc_inputs \<Rightarrow> lcsc_event \<Rightarrow> lcsc \<Rightarrow> lcsc option" where
  "runEvent i e s =
     (if stopping s then Some s
      else
        (case find_transition e (currentState s) of
           None \<Rightarrow> Some s
         | Some (handler, nextState) \<Rightarrow>
             (case handler i e s of
                None \<Rightarrow> None
              | Some s1 \<Rightarrow>
                  (let s2 = s1\<lparr>currentState := nextState\<rparr> in
                   Some (if nextState = IDLE then post CheckCommandQueue s2 else s2)))))"

definition runPosted :: "lcsc_inputs \<Rightarrow> posted_handler \<Rightarrow> lcsc \<Rightarrow> lcsc option" where
  "runPosted i h s =
     (case h of
        ProcessEvent e \<Rightarrow> runEvent i e s
      | CheckCommandQueue \<Rightarrow> Some (if stopping s then s else checkCommandQueue s)
      | SerialWriteTimeout \<Rightarrow> Some (handleSerialWriteTimeout s)
      | CmdResponseTimeout \<Rightarrow> Some (handleCmdResponseTimeout s)
      | DelayElapsed \<Rightarrow> Some (if stopping s then s else startWrite (gap i) s))"

section \<open>The driver\<close>

definition readEnd :: "byte list \<Rightarrow> lcsc \<Rightarrow> lcsc" where
  "readEnd data s =
     (if stopping s then s
      else
        (case isRxResponseComplete data (rxs s) of
           (r, done) \<Rightarrow>
             (let s1 = s\<lparr>rxs := r\<rparr> in if done then processEvent RESPONSE_RECEIVED s1 else s1)))"

text \<open>The actions: a request of another thread, the first posted handler, the end of the write in
  progress (an abort only follows a cancellation, hence a timeout), a read, and the expiry of
  an armed timer.\<close>

definition shutdownOnIoThread :: "lcsc \<Rightarrow> lcsc" where
  "shutdownOnIoThread s =
     s\<lparr>rspTimer := False, serialWriteDelayTimer := False, serialWriteTimer := False,
       portOpen := False, commandQueue := [], chunkCommandQueue := [], writeInProgress := False,
       writeTimedOut := False, currentState := IDLE, generatingCDAck := False\<rparr>"

datatype lcsc_action =
    Enqueue lcsc_cmd cmd_data | BeginClose | Shutdown | StartCardID | StartBalance | StopRead
  | RunNext lcsc_inputs | WriteEnd write_result | Read "byte list"
  | WriteTimerExpires | RspTimerExpires | DelayTimerExpires

definition lcsc_act :: "lcsc_action \<Rightarrow> lcsc \<Rightarrow> lcsc option" where
  "lcsc_act a s =
     (case a of
        Enqueue cmd data \<Rightarrow> Some (enqueueCommand cmd data s)
      | BeginClose \<Rightarrow> Some (s\<lparr>acceptingWork := False, stopping := True\<rparr>)
      | Shutdown \<Rightarrow> if stopping s then Some (shutdownOnIoThread s) else None
      | StartCardID \<Rightarrow> Some (FnSendGetCardIDCmd s)
      | StartBalance \<Rightarrow> Some (FnSendGetCardBalance s)
      | StopRead \<Rightarrow> Some (FnLCSCReaderStopRead s)
      | RunNext i \<Rightarrow>
          (case posted s of [] \<Rightarrow> None | h # hs \<Rightarrow> runPosted i h (s\<lparr>posted := hs\<rparr>))
      | WriteEnd r \<Rightarrow>
          if writeInProgress s \<and> (r = WriteAborted \<longrightarrow> writeTimedOut s) then Some (writeEnd r s)
          else None
      | Read data \<Rightarrow> Some (readEnd data s)
      | WriteTimerExpires \<Rightarrow>
          if serialWriteTimer s then Some (post SerialWriteTimeout (s\<lparr>serialWriteTimer := False\<rparr>))
          else None
      | RspTimerExpires \<Rightarrow>
          if rspTimer s then Some (post CmdResponseTimeout (s\<lparr>rspTimer := False\<rparr>)) else None
      | DelayTimerExpires \<Rightarrow>
          if serialWriteDelayTimer s
          then Some (post DelayElapsed (s\<lparr>serialWriteDelayTimer := False\<rparr>)) else None)"

text \<open>The states reached by allowed actions.\<close>

inductive lcsc_reach :: "(lcsc_action \<Rightarrow> bool) \<Rightarrow> lcsc \<Rightarrow> lcsc \<Rightarrow> bool" for allowed where
  lcsc_reach_start: "lcsc_reach allowed s s"
| lcsc_reach_step:
    "lcsc_reach allowed s s' \<Longrightarrow> allowed a \<Longrightarrow> lcsc_act a s' = Some s'' \<Longrightarrow>
     lcsc_reach allowed s s''"

definition lcsc_open :: lcsc where
  "lcsc_open =
     \<lparr>stopping = False, acceptingWork = True, portOpen = True, commandQueue = [],
      chunkCommandQueue = [], currentCmd = GET_STATUS_CMD, currentState = IDLE, posted = [],
      writeQueue = [], writeInProgress = False, writeTimedOut = False,
      serialWriteTimer = False, rspTimer = False, serialWriteDelayTimer = False,
      rxs = \<lparr>rx_receiving = False, rxBuffer = []\<rparr>, continueReadFlag = False,
      generatingCDAck = False, LCSCCard_In = 0, lcsc_events = [], uploads = [],
      transactions = []\<rparr>"

end
