(* ===== verification/Lcsc_Packet_Correct.thy ===== *)
theory Lcsc_Packet_Correct
  imports Lcsc_Packet
begin

text \<open>
  Correctness of the LCSC packet layer: the packet layout is a bijection on consistent packets,
  every command with its data is a well-formed frame, the receiver delivers exactly the frames
  on the line, and a received frame is accepted only if it is intact.
\<close>

section \<open>Word lemmas\<close>

lemma be16_split: "be16 (ucast (drop_bit 8 v)) (ucast (v AND 0xFF)) = v" for v :: u16
proof -
  have m: "(0xFF :: u16) = mask 8" by (simp add: mask_eq_exp_minus_1)
  show ?thesis unfolding m by (rule bit_word_eqI) (auto simp: bit_join bit_simps)
qed

lemma be16_high: "ucast (drop_bit 8 (be16 h l)) = h"
  by (rule bit_word_eqI) (auto simp: bit_join bit_simps)

lemma be16_low: "ucast (be16 h l AND 0xFF) = l"
proof -
  have m: "(0xFF :: u16) = mask 8" by (simp add: mask_eq_exp_minus_1)
  show ?thesis unfolding m by (rule bit_word_eqI) (auto simp: bit_join bit_simps)
qed

lemma be16_inject: "be16 h l = be16 h' l' \<longleftrightarrow> h = h' \<and> l = l'"
  by (metis be16_high be16_low)

lemma mask7: "(0x7F :: byte) = mask 7" "(0x80 :: byte) = push_bit 7 1"
  by (simp_all add: mask_eq_exp_minus_1)

definition code_type :: "bool \<Rightarrow> byte \<Rightarrow> byte" where
  "code_type c t = (if c then 0x80 else 0) OR (t AND 0x7F)"

lemma and_0x80_bit: "(x AND 0x80 \<noteq> 0) \<longleftrightarrow> bit x 7" for x :: byte
proof -
  have "x AND 0x80 = 0x80 \<or> x AND 0x80 = 0"
  proof (cases "bit x 7")
    case True
    then show ?thesis using and_0x80 by blast
  next
    case False
    then have "x AND 0x80 = 0"
      by (intro bit_word_eqI) (auto simp: bit_and_iff bit_128)
    then show ?thesis ..
  qed
  then show ?thesis using and_0x80 [of x] by auto
qed

lemma bit_7F: "bit (127 :: int) n \<longleftrightarrow> n < 7"
proof -
  have "(127 :: int) = mask 7" by (simp add: mask_eq_exp_minus_1)
  then show ?thesis by (simp only: bit_mask_iff) auto
qed

lemma code_type_bits:
  "(code_type c t AND 0x80 \<noteq> 0) \<longleftrightarrow> c" "code_type c t AND 0x7F = t AND 0x7F"
proof -
  show "(code_type c t AND 0x80 \<noteq> 0) \<longleftrightarrow> c"
    by (auto simp: and_0x80_bit code_type_def bit_or_iff bit_and_iff)
  show "code_type c t AND 0x7F = t AND 0x7F"
    by (rule bit_word_eqI)
      (auto simp: code_type_def bit_or_iff bit_and_iff bit_7F bit_128)
qed

lemma code_type_join: "code_type (x AND 0x80 \<noteq> 0) (x AND 0x7F) = x" for x :: byte
proof (rule bit_word_eqI)
  fix n assume "n < LENGTH(8)"
  then show "bit (code_type (x AND 0x80 \<noteq> 0) (x AND 0x7F)) n = bit x n"
    unfolding code_type_def and_0x80_bit
    by (cases "n = 7") (auto simp: bit_or_iff bit_and_iff bit_7F bit_128)
qed

section \<open>The packet layout\<close>

definition consistent :: "csc_packet \<Rightarrow> bool" where
  "consistent p \<longleftrightarrow> unat (plen p) = length (payload p) + 6 \<and> ptype p AND 0x7F = ptype p"

lemma serialize_alt:
  "serialize p = attn p # code_type (code p) (ptype p) # ucast (drop_bit 8 (plen p)) #
     ucast (plen p AND 0xFF) # payload p @ [ucast (drop_bit 8 (pcrc p)), ucast (pcrc p AND 0xFF)]"
  by (simp add: serialize_def code_type_def)

lemma length_serialize [simp]: "length (serialize p) = length (payload p) + 6"
  by (simp add: serialize_alt)

lemma serialize_without: "serialize p = serializeWithoutCRC p @
    [ucast (drop_bit 8 (pcrc p)), ucast (pcrc p AND 0xFF)]"
  by (simp add: serialize_def serializeWithoutCRC_def)

lemma deserialize_serialize: "consistent p \<Longrightarrow> deserialize (serialize p @ xs) = Some p"
  by (simp add: serialize_alt deserialize_def be16_split code_type_bits consistent_def nth_append
      Let_def)

lemma deserialize_total:
  assumes "6 \<le> length data" "unat (be16 (data ! 2) (data ! 3)) = length data"
  obtains p where "deserialize data = Some p" "consistent p" "serialize p = data"
proof -
  obtain a c l1 l0 rest where d: "data = a # c # l1 # l0 # rest"
    using assms(1) by (auto simp: numeral_eq_Suc Suc_le_length_iff)
  have len: "unat (be16 l1 l0) = length rest + 4" using assms(2) d by simp
  moreover have r: "2 \<le> length rest" using assms(1) d by simp
  moreover have "rest = take (length rest - 2) rest @ [rest ! (length rest - 2), rest ! (length rest - 1)]"
  proof -
    obtain x y zs where "rev rest = y # x # zs"
      using r by (cases "rev rest"; cases "tl (rev rest)") (auto simp flip: length_rev [of rest])
    then have "rest = rev zs @ [x, y]" by (metis append.assoc append_Cons append_Nil rev.simps(2) rev_rev_ident)
    then show ?thesis by (simp add: nth_append)
  qed
  ultimately show thesis
    by (intro that) (auto simp: d deserialize_def Let_def consistent_def serialize_alt
        code_type_join be16_high be16_low and.assoc)
qed

section \<open>Well-formed frames\<close>

definition frame_ok :: "byte list \<Rightarrow> bool" where
  "frame_ok f \<longleftrightarrow>
     6 \<le> length f \<and> f ! 0 = 0xA5 \<and> unat (be16 (f ! 2) (f ! 3)) = length f \<and>
     be16 (f ! (length f - 2)) (f ! (length f - 1)) = CRC16_CCITT (take (length f - 2) f)"

lemma seal_frame_ok:
  assumes "attn p = 0xA5" "unat (plen p) = length (payload p) + 6"
  shows "frame_ok (seal p)"
proof -
  let ?q = "p\<lparr>pcrc := CRC16_CCITT (serializeWithoutCRC p)\<rparr>"
  have w: "serializeWithoutCRC ?q = serializeWithoutCRC p"
    by (simp add: serializeWithoutCRC_def)
  have "length (serializeWithoutCRC p) = length (payload p) + 4"
    by (simp add: serializeWithoutCRC_def)
  then have "take (length (seal p) - 2) (seal p) = serializeWithoutCRC p"
    by (simp add: seal_def serialize_without [of ?q] w)
  moreover have "seal p = serializeWithoutCRC p @
      [ucast (drop_bit 8 (CRC16_CCITT (serializeWithoutCRC p))),
       ucast (CRC16_CCITT (serializeWithoutCRC p) AND 0xFF)]"
    by (simp add: seal_def serialize_without [of ?q] w)
  ultimately show ?thesis
    using assms
    by (simp add: frame_ok_def nth_append be16_split serializeWithoutCRC_def)
qed

lemma frame_ok_seal_length: "frame_ok (seal p) \<Longrightarrow> unat (plen p) = length (payload p) + 6"
  by (simp add: frame_ok_def seal_def serialize_alt be16_split)

lemma deserialize_crc:
  assumes "deserialize f = Some p" "serialize p = f"
  shows "pcrc p = be16 (f ! (length f - 2)) (f ! (length f - 1))"
  using assms(2) by (auto simp: serialize_alt nth_append be16_split)

text \<open>The validation decides well-formedness, the response flag, the type and a payload.\<close>

lemma validate_total: "\<exists>v. validate_frame cmd f = Some v"
proof (cases "6 \<le> length f \<and> unat (be16 (f ! 2) (f ! 3)) = length f")
  case True
  then obtain p where "deserialize f = Some p" by (metis deserialize_total)
  then show ?thesis by (simp add: validate_frame_def)
qed (auto simp: validate_frame_def)

lemma validate_parsed_iff:
  "validate_frame cmd f = Some (Parsed p) \<longleftrightarrow>
     frame_ok f \<and> deserialize f = Some p \<and> code p \<and> isCurrentCmdResponse cmd (ptype p) \<and>
     payload p \<noteq> []"
proof (cases "6 \<le> length f \<and> unat (be16 (f ! 2) (f ! 3)) = length f")
  case True
  then obtain q where q: "deserialize f = Some q" "serialize q = f" by (metis deserialize_total)
  then have "pcrc q = be16 (f ! (length f - 2)) (f ! (length f - 1))"
    by (rule deserialize_crc)
  with True q show ?thesis by (auto simp: validate_frame_def frame_ok_def)
next
  case False
  then show ?thesis by (auto simp: validate_frame_def frame_ok_def)
qed

lemma frame_ok_one_byte:
  assumes ok: "frame_ok f" and i: "i < length f" and b: "b \<noteq> f ! i"
  shows "\<not> frame_ok (f[i := b])"
proof
  assume ok': "frame_ok (f[i := b])"
  let ?n = "length f"
  have n: "6 \<le> ?n" using ok by (simp add: frame_ok_def)
  show False
  proof (cases "i < ?n - 2")
    case True
    have l: "i < length (take (?n - 2) f)" using True n by simp
    have f: "take (?n - 2) f = take i f @ f ! i # drop (Suc i) (take (?n - 2) f)"
      using id_take_nth_drop [OF l] True by (simp add: min_absorb1)
    have "take (?n - 2) (f[i := b]) = take i f @ b # drop (Suc i) (take (?n - 2) f)"
      using upd_conv_take_nth_drop [OF l, of b] True
      by (simp add: take_update_swap min_absorb1)
    then have "CRC16_CCITT (take (?n - 2) (f[i := b])) \<noteq> CRC16_CCITT (take (?n - 2) f)"
      using crc_one_byte [OF b] f by metis
    moreover have "f[i := b] ! (?n - 2) = f ! (?n - 2)" "f[i := b] ! (?n - 1) = f ! (?n - 1)"
      using True n by simp_all
    ultimately show ?thesis using ok ok' by (simp add: frame_ok_def)
  next
    case False
    then have "take (?n - 2) (f[i := b]) = take (?n - 2) f"
      by simp
    moreover have "i = ?n - 2 \<or> i = ?n - 1" using False i by linarith
    moreover have "be16 (f[i := b] ! (?n - 2)) (f[i := b] ! (?n - 1)) =
        be16 (f ! (?n - 2)) (f ! (?n - 1))"
      using ok ok' calculation(1) by (simp add: frame_ok_def)
    then have "f[i := b] ! (?n - 2) = f ! (?n - 2) \<and> f[i := b] ! (?n - 1) = f ! (?n - 1)"
      by (simp only: be16_inject)
    ultimately show ?thesis using b n by auto
  qed
qed

section \<open>Prepared commands\<close>

text \<open>The data a command needs: the encrypted challenge has 16 bytes, and an upload block fits
  the 16-bit length.\<close>

definition data_fits :: "lcsc_env \<Rightarrow> lcsc_cmd \<Rightarrow> cmd_data \<Rightarrow> bool" where
  "data_fits env cmd data =
     (case cmd of
        LOGIN_2 \<Rightarrow> (case data of BytesData ch \<Rightarrow> length (aes env ch) = 16 | _ \<Rightarrow> False)
      | CARD_DEDUCT \<Rightarrow> (case data of AmountData a \<Rightarrow> True | _ \<Rightarrow> False)
      | CARD_FLUSH \<Rightarrow> (case data of AmountData a \<Rightarrow> True | _ \<Rightarrow> False)
      | UPLOAD_CFG_FILE \<Rightarrow> (case data of BytesData bs \<Rightarrow> length bs \<le> 65529 | _ \<Rightarrow> False)
      | UPLOAD_CIL_FILE \<Rightarrow> (case data of BytesData bs \<Rightarrow> length bs \<le> 65529 | _ \<Rightarrow> False)
      | UPLOAD_BL_FILE \<Rightarrow> (case data of BytesData bs \<Rightarrow> length bs \<le> 65529 | _ \<Rightarrow> False)
      | _ \<Rightarrow> True)"

lemma unat_upload_length: "n \<le> 65529 \<Longrightarrow> unat (of_nat n + 6 :: u16) = n + 6"
proof -
  assume "n \<le> 65529"
  then have "unat (of_nat (n + 6) :: u16) = n + 6" by (simp only: unat_of_nat) simp
  then show ?thesis by simp
qed

lemma command_packet_shape:
  assumes "data_fits env cmd data"
  obtains p where "command_packet env cmd data = Some p" "attn p = 0xA5"
    "unat (plen p) = length (payload p) + 6" "ptype p = cmd_type cmd" "\<not> code p"
  using assms
  by (cases cmd)
    (auto simp: command_packet_def data_fits_def set_body_def csc_packet_clear_def Let_def
      be32_of_u32_def be32_of_epoch_def upload_body_def unat_upload_length
      split: cmd_data.splits)

lemma cmd_type_7bit: "cmd_type cmd AND 0x7F = cmd_type cmd"
  by (cases cmd) simp_all

lemma isCurrentCmdResponse_cmd_type: "isCurrentCmdResponse cmd t \<longleftrightarrow> t = cmd_type cmd"
  by (cases cmd) (simp_all add: isCurrentCmdResponse_def)

section \<open>Reception\<close>

definition deliverable :: "byte list \<Rightarrow> bool" where
  "deliverable f \<longleftrightarrow>
     6 \<le> length f \<and> length f \<le> RX_BUFFER_SIZE \<and> f ! 0 = 0xA5 \<and>
     unat (be16 (f ! 2) (f ! 3)) = length f"

definition rx_recv :: "lcsc_rx \<Rightarrow> byte \<Rightarrow> lcsc_rx \<times> byte list option" where
  "rx_recv r b = (case rx_data b r of (r', done) \<Rightarrow> (r', if done then Some (rxBuffer r') else None))"

lemma rx_data_collect:
  assumes "deliverable f" "0 < k" "k < length f" "rx_receiving r" "rxBuffer r = take k f"
  shows "rx_data (f ! k) r =
    (r\<lparr>rxBuffer := take (Suc k) f, rx_receiving := Suc k < length f\<rparr>, Suc k = length f)"
proof -
  have t: "take k f @ [f ! k] = take (Suc k) f"
    using assms(3) by (simp add: take_Suc_conv_app_nth)
  have b: "k < RX_BUFFER_SIZE" "\<not> RX_BUFFER_SIZE \<le> k"
    using assms by (auto simp: deliverable_def)
  show ?thesis
  proof (cases "Suc k < 4")
    case True
    then have "r\<lparr>rxBuffer := take (Suc k) f, rx_receiving := True\<rparr> = r\<lparr>rxBuffer := take (Suc k) f\<rparr>"
      using assms(4) by simp
    with True show ?thesis
      using assms b by (simp add: rx_data_def Let_def t deliverable_def)
  next
    case False
    then have "take (Suc k) f ! 2 = f ! 2" "take (Suc k) f ! 3 = f ! 3" by simp_all
    with False show ?thesis
      using assms b by (auto simp: rx_data_def Let_def t deliverable_def)
  qed
qed

lemma feed_rest:
  assumes f: "deliverable f"
  shows "0 < k \<Longrightarrow> k < length f \<Longrightarrow> rx_receiving r \<Longrightarrow> rxBuffer r = take k f \<Longrightarrow>
    feed rx_recv r (drop k f) = (r\<lparr>rxBuffer := f, rx_receiving := False\<rparr>, [f])"
proof (induction "length f - k" arbitrary: k r)
  case (Suc n)
  have d: "drop k f = f ! k # drop (Suc k) f" using Suc.prems(2) by (rule Cons_nth_drop_Suc [symmetric])
  show ?case
  proof (cases "Suc k = length f")
    case True
    then show ?thesis using rx_data_collect [OF f Suc.prems] by (simp add: d rx_recv_def)
  next
    case False
    then have "feed rx_recv (r\<lparr>rxBuffer := take (Suc k) f, rx_receiving := True\<rparr>) (drop (Suc k) f) =
        (r\<lparr>rxBuffer := f, rx_receiving := False\<rparr>, [f])"
      using Suc.hyps(1) [of "Suc k" "r\<lparr>rxBuffer := take (Suc k) f, rx_receiving := True\<rparr>"]
        Suc.hyps(2) Suc.prems by simp
    then show ?thesis
      using rx_data_collect [OF f Suc.prems] False Suc.prems(2) by (simp add: d rx_recv_def)
  qed
qed simp

lemma lcsc_feed_frame:
  assumes "deliverable f" "\<not> rx_receiving r"
  shows "feed rx_recv r f = (r\<lparr>rxBuffer := f, rx_receiving := False\<rparr>, [f])"
proof -
  have f: "f = f ! 0 # drop 1 f" "f ! 0 = 0xA5"
    using assms(1) by (cases f; simp add: deliverable_def)+
  have "take 1 f = [0xA5]" by (subst f(1)) (simp add: f(2))
  moreover have "1 < length f" using assms(1) by (simp add: deliverable_def)
  ultimately have "feed rx_recv (r\<lparr>rxBuffer := [0xA5], rx_receiving := True\<rparr>) (drop 1 f) =
      (r\<lparr>rxBuffer := f, rx_receiving := False\<rparr>, [f])"
    using feed_rest [OF assms(1), of 1 "r\<lparr>rxBuffer := [0xA5], rx_receiving := True\<rparr>"] by simp
  moreover have "rx_recv r (f ! 0) = (r\<lparr>rxBuffer := [0xA5], rx_receiving := True\<rparr>, None)"
    using assms(2) by (simp add: rx_recv_def rx_data_def f(2))
  ultimately show ?thesis by (subst f(1)) simp
qed

definition good_packet :: "csc_packet \<Rightarrow> bool" where
  "good_packet p \<longleftrightarrow> consistent p \<and> attn p = 0xA5 \<and> length (payload p) + 6 \<le> RX_BUFFER_SIZE"

lemma good_packet_deliverable: "good_packet p \<Longrightarrow> deliverable (serialize p)"
  by (simp add: good_packet_def consistent_def deliverable_def serialize_alt be16_split)

lemma lcsc_rx_noise: "\<not> rx_receiving r \<Longrightarrow> b \<noteq> 0xA5 \<Longrightarrow> rx_recv r b = (r, None)"
  by (simp add: rx_recv_def rx_data_def)

interpretation lcscrx: framed_receiver rx_recv "\<lambda>r. \<not> rx_receiving r" serialize good_packet
  "\<lambda>b. b \<noteq> 0xA5" serialize
  by unfold_locales (auto simp: lcsc_feed_frame good_packet_deliverable lcsc_rx_noise)

text \<open>One read of the port.\<close>

lemma complete_append:
  "isRxResponseComplete (xs @ ys) r =
     (case isRxResponseComplete xs r of
        (r', True) \<Rightarrow> (r', True)
      | (r', False) \<Rightarrow> isRxResponseComplete ys r')"
  by (induction xs arbitrary: r) (auto split: prod.split bool.split)

text \<open>The state after the first \<open>k\<close> bytes of a frame.\<close>

definition rx_after :: "byte list \<Rightarrow> lcsc_rx \<Rightarrow> nat \<Rightarrow> lcsc_rx" where
  "rx_after f r k =
     (if k = 0 then r else r\<lparr>rxBuffer := take k f, rx_receiving := k < length f\<rparr>)"

lemma rx_data_frame:
  assumes "deliverable f" "\<not> rx_receiving r" "k < length f"
  shows "rx_data (f ! k) (rx_after f r k) = (rx_after f r (Suc k), Suc k = length f)"
proof (cases "k = 0")
  case True
  moreover have "f \<noteq> []" using assms(1) by (auto simp: deliverable_def)
  ultimately show ?thesis
    using assms by (auto simp: rx_after_def rx_data_def deliverable_def take_Suc hd_conv_nth)
next
  case False
  then show ?thesis
    using rx_data_collect [OF assms(1), of k "rx_after f r k"] assms(3)
    by (simp add: rx_after_def)
qed

lemma complete_prefix:
  assumes "deliverable f" "\<not> rx_receiving r"
  shows "k < length f \<Longrightarrow> isRxResponseComplete (take k f) r = (rx_after f r k, False)"
proof (induction k)
  case (Suc k)
  then have t: "take (Suc k) f = take k f @ [f ! k]" by (simp add: take_Suc_conv_app_nth)
  show ?case
    unfolding t complete_append using Suc rx_data_frame [OF assms, of k] by simp
qed (simp add: rx_after_def)

lemma complete_part:
  assumes "deliverable f" "\<not> rx_receiving r" "k + m < length f"
  shows "isRxResponseComplete (take m (drop k f)) (rx_after f r k) = (rx_after f r (k + m), False)"
  using complete_prefix [OF assms(1,2), of k] complete_prefix [OF assms(1,2), of "k + m"] assms(3)
    complete_append [of "take k f" "take m (drop k f)" r]
  by (simp add: take_add)

lemma complete_rest:
  assumes "deliverable f" "\<not> rx_receiving r"
  shows "k < length f \<Longrightarrow>
    isRxResponseComplete (drop k f @ xs) (rx_after f r k) =
      (r\<lparr>rxBuffer := f, rx_receiving := False\<rparr>, True)"
proof (induction "length f - k" arbitrary: k)
  case (Suc n)
  have d: "drop k f = f ! k # drop (Suc k) f" using Suc.prems by (rule Cons_nth_drop_Suc [symmetric])
  show ?case
  proof (cases "Suc k = length f")
    case True
    moreover have "f \<noteq> []" using Suc.prems by auto
    ultimately show ?thesis
      using rx_data_frame [OF assms Suc.prems] by (simp add: d rx_after_def)
  next
    case False
    then have "isRxResponseComplete (drop (Suc k) f @ xs) (rx_after f r (Suc k)) =
        (r\<lparr>rxBuffer := f, rx_receiving := False\<rparr>, True)"
      using Suc.hyps Suc.prems by simp
    then show ?thesis using rx_data_frame [OF assms Suc.prems] False by (simp add: d)
  qed
qed simp

text \<open>A sequence of reads.\<close>

fun rx_reads :: "byte list list \<Rightarrow> lcsc_rx \<Rightarrow> lcsc_rx \<times> bool list" where
  "rx_reads [] r = (r, [])"
| "rx_reads (c # cs) r =
     (case isRxResponseComplete c r of (r', done) \<Rightarrow>
        (case rx_reads cs r' of (r'', ds) \<Rightarrow> (r'', done # ds)))"

lemma reads_of_frame:
  assumes "deliverable f" "\<not> rx_receiving r"
  shows "drop k f = concat cs @ c \<Longrightarrow> c \<noteq> [] \<Longrightarrow> k < length f \<Longrightarrow>
    rx_reads (cs @ [c @ junk]) (rx_after f r k) =
      (r\<lparr>rxBuffer := f, rx_receiving := False\<rparr>, replicate (length cs) False @ [True])"
proof (induction cs arbitrary: k)
  case Nil
  then show ?case using complete_rest [OF assms, of k junk] by simp
next
  case (Cons x cs)
  have len: "length f - k = length x + length (concat cs) + length c"
    using arg_cong [OF Cons.prems(1), of length] by simp
  have "0 < length c" using Cons.prems(2) by simp
  then have lt: "k + length x < length f" using len Cons.prems(3) by linarith
  have x: "take (length x) (drop k f) = x" and rest: "drop (k + length x) f = concat cs @ c"
    using Cons.prems(1) by (simp_all add: add.commute [of k] flip: drop_drop)
  show ?case
    using complete_part [OF assms lt] Cons.IH [OF rest Cons.prems(2) lt] by (simp add: x)
qed

section \<open>The receive buffer\<close>

lemma rx_data_bounded:
  "length (rxBuffer r) \<le> RX_BUFFER_SIZE \<Longrightarrow> length (rxBuffer (fst (rx_data b r))) \<le> RX_BUFFER_SIZE"
  by (auto simp: rx_data_def Let_def rx_restart_def resetRxBuffer_def RX_BUFFER_SIZE_def)

lemma complete_bounded:
  "length (rxBuffer r) \<le> RX_BUFFER_SIZE \<Longrightarrow>
   length (rxBuffer (fst (isRxResponseComplete bs r))) \<le> RX_BUFFER_SIZE"
proof (induction bs arbitrary: r)
  case (Cons b bs)
  obtain r1 c where d: "rx_data b r = (r1, c)" by fastforce
  then have "length (rxBuffer r1) \<le> RX_BUFFER_SIZE"
    using rx_data_bounded [OF Cons.prems, of b] by simp
  with d Cons.IH show ?case by (cases c) simp_all
qed simp

lemma complete_deliverable:
  "isRxResponseComplete bs r = (r', True) \<Longrightarrow>
   rx_receiving r \<longrightarrow> (rxBuffer r \<noteq> [] \<and> rxBuffer r ! 0 = 0xA5) \<Longrightarrow> deliverable (rxBuffer r')"
proof (induction bs arbitrary: r)
  case (Cons b bs)
  obtain r1 c where d: "rx_data b r = (r1, c)" by fastforce
  have "rx_receiving r1 \<longrightarrow> (rxBuffer r1 \<noteq> [] \<and> rxBuffer r1 ! 0 = 0xA5)"
    using d Cons.prems(2)
    by (auto simp: rx_data_def Let_def rx_restart_def resetRxBuffer_def nth_append split: if_splits)
  moreover have "c \<Longrightarrow> deliverable (rxBuffer r1)"
    using d Cons.prems(2)
    by (auto simp: rx_data_def Let_def rx_restart_def deliverable_def nth_append
        split: if_splits)
  ultimately show ?case using d Cons by (cases c) simp_all
qed simp

lemma complete_delivers:
  "isRxResponseComplete bs r = (r', True) \<Longrightarrow> length (rxBuffer r) \<le> RX_BUFFER_SIZE \<Longrightarrow>
   length (rxBuffer r') \<le> RX_BUFFER_SIZE"
  using complete_bounded [of r bs] by simp

section \<open>Properties\<close>

text \<open>C29: The checksum routine, which shifts a register kept in two bytes, computes the bitwise
  CRC-16 with polynomial 0x1021 and initial value 0xFFFF of a 16-bit register.\<close>

theorem lcsc_crc_reference: "CRC16_CCITT bs = crc16_ref bs"
  by (rule CRC16_CCITT_ref)

text \<open>C20: The packet layout.  A packet whose length field counts its payload and whose type has
  seven bits is read back from its serialization, whatever follows it; and data whose length field
  is its size is the serialization of the packet read from it.\<close>

theorem lcsc_packet_roundtrip:
  "(consistent p \<longrightarrow> deserialize (serialize p @ xs) = Some p) \<and>
   (6 \<le> length data \<and> unat (be16 (data ! 2) (data ! 3)) = length data \<longrightarrow>
      (\<exists>q. deserialize data = Some q \<and> consistent q \<and> serialize q = data))"
  using deserialize_serialize deserialize_total by metis

definition demo_response :: csc_packet where
  "demo_response = \<lparr>attn = 0xA5, code = True, ptype = 0x21, plen = 8, payload = [0, 0x10], pcrc = 0\<rparr>"

theorem lcsc_packet_roundtrip_witness:
  "deserialize (serialize demo_response @ [1, 2]) = Some demo_response \<and>
   (\<exists>q. deserialize [0xA5, 0x80, 0, 7, 9, 1, 2] = Some q \<and> consistent q \<and>
      serialize q = [0xA5, 0x80, 0, 7, 9, 1, 2])"
  using lcsc_packet_roundtrip [of demo_response "[1, 2]" "[0xA5, 0x80, 0, 7, 9, 1, 2]"]
  by (simp add: consistent_def demo_response_def be16_def)

text \<open>Every command with the data it needs becomes a frame the peer can accept: attention
  byte, the command's type, a length field equal to the size of the frame, and the checksum of
  everything before the checksum.  The encryption is assumed to give one 16-byte block.\<close>

theorem lcsc_command_frame:
  assumes "data_fits env cmd data"
  shows "\<exists>f. prepareCmd env cmd data = Some f \<and> frame_ok f \<and> f ! 1 = cmd_type cmd"
proof -
  obtain p where p: "command_packet env cmd data = Some p" "attn p = 0xA5"
    "unat (plen p) = length (payload p) + 6" "ptype p = cmd_type cmd" "\<not> code p"
    using assms by (rule command_packet_shape)
  then have "frame_ok (seal p)" by (intro seal_frame_ok)
  moreover have "seal p ! 1 = cmd_type cmd"
    using p(4,5) by (simp add: seal_def serialize_alt code_type_def cmd_type_7bit)
  ultimately show ?thesis using p(1) by (simp add: prepareCmd_def)
qed

definition demo_lcsc_env :: lcsc_env where
  "demo_lcsc_env = \<lparr>aes = (\<lambda>ch. take 16 (map (\<lambda>b. b XOR 0x5A) ch)), epoch = 1700000000\<rparr>"

theorem lcsc_command_frame_witness:
  "\<exists>f. prepareCmd demo_lcsc_env LOGIN_2 (BytesData (replicate 16 7)) = Some f \<and> frame_ok f \<and>
     f ! 1 = 0x11"
  using lcsc_command_frame [of demo_lcsc_env LOGIN_2 "BytesData (replicate 16 7)"]
  by (simp add: data_fits_def demo_lcsc_env_def)

text \<open>A command that needs data but carries none is still sent, with the length field of the
  full command over an empty payload: no peer that checks the length accepts it.\<close>

theorem lcsc_missing_data:
  assumes "cmd \<in> {LOGIN_2, CARD_DEDUCT, CARD_FLUSH, UPLOAD_CFG_FILE, UPLOAD_CIL_FILE, UPLOAD_BL_FILE}"
  shows "\<exists>f. prepareCmd env cmd NullData = Some f \<and> length f = 6 \<and> \<not> frame_ok f"
proof -
  obtain p where "command_packet env cmd NullData = Some p" "payload p = []" "unat (plen p) \<noteq> 6"
    using assms
    by (auto simp: command_packet_def set_body_def upload_body_def Let_def csc_packet_clear_def)
  moreover from this have "\<not> frame_ok (seal p)" using frame_ok_seal_length [of p] by auto
  ultimately show ?thesis by (simp add: prepareCmd_def seal_def)
qed

theorem lcsc_missing_data_witness:
  "\<exists>f. prepareCmd demo_lcsc_env CARD_DEDUCT NullData = Some f \<and> length f = 6 \<and> \<not> frame_ok f"
  by (rule lcsc_missing_data) simp

text \<open>A line of packets of at most 1024 bytes with noise between them that contains no
  attention byte is received as exactly these packets, in order, whatever the buffer held.\<close>

theorem lcsc_line_received:
  assumes "\<not> rx_receiving r" "line_ok good_packet (\<lambda>b. b \<noteq> 0xA5) xs"
  shows "snd (feed rx_recv r (line_bytes serialize xs)) = map serialize (line_frames xs)"
  using lcscrx.line_received [OF assms] by auto

definition demo_rx :: lcsc_rx where
  "demo_rx = \<lparr>rx_receiving = False, rxBuffer = [1, 2, 3]\<rparr>"

theorem lcsc_line_received_witness:
  "snd (feed rx_recv demo_rx (line_bytes serialize [Noise 0, Frame demo_response, Noise 1])) =
   [serialize demo_response]"
  by (subst lcsc_line_received)
    (simp_all add: demo_rx_def good_packet_def consistent_def demo_response_def RX_BUFFER_SIZE_def)

text \<open>A frame may arrive in any pieces.  If the reads before the last one carry proper parts
  of the frame and the last one carries its rest, followed by anything, then only the last read
  reports completion, and the buffer holds exactly the frame.\<close>

theorem lcsc_split_reads:
  assumes "deliverable (concat cs @ c)" "c \<noteq> []" "\<not> rx_receiving r"
  shows "rx_reads (cs @ [c @ junk]) r =
    (r\<lparr>rxBuffer := concat cs @ c, rx_receiving := False\<rparr>, replicate (length cs) False @ [True])"
proof -
  have "0 < length (concat cs @ c)" using assms(2) by simp
  then show ?thesis
    using reads_of_frame [OF assms(1,3), of 0 cs c junk] assms(2) by (simp add: rx_after_def)
qed

theorem lcsc_split_reads_witness:
  "snd (rx_reads [[0xA5, 0x80], [0], [7, 9, 1], [2, 0xFF]] demo_rx) = [False, False, False, True]"
proof -
  have "rx_reads ([[0xA5, 0x80], [0], [7, 9, 1]] @ [[2] @ [0xFF]]) demo_rx =
    (demo_rx\<lparr>rxBuffer := concat [[0xA5, 0x80], [0], [7, 9, 1]] @ [2], rx_receiving := False\<rparr>,
     replicate (length [[0xA5, 0x80], [0], [7, 9, 1 :: byte]]) False @ [True])"
    by (rule lcsc_split_reads)
      (simp_all add: deliverable_def be16_def RX_BUFFER_SIZE_def demo_rx_def)
  then show ?thesis by (simp add: numeral_eq_Suc)
qed



text \<open>Validation of a received frame never reads past it, and accepts it exactly when it is
  well-formed with a correct checksum, is a response of the type of the current command, and has a
  payload.\<close>

theorem lcsc_validation:
  "(\<exists>v. validate_frame cmd f = Some v) \<and>
   (validate_frame cmd f = Some (Parsed p) \<longleftrightarrow>
      frame_ok f \<and> deserialize f = Some p \<and> code p \<and> ptype p = cmd_type cmd \<and> payload p \<noteq> [])"
  using validate_total validate_parsed_iff isCurrentCmdResponse_cmd_type by simp

text \<open>C19: Corruption of a single byte.  If a frame is accepted, the same frame with any one byte
  changed, in the header, the payload or the checksum, is rejected, whatever the command.\<close>

theorem lcsc_corruption_detected:
  assumes "validate_frame cmd f = Some (Parsed p)" "i < length f" "b \<noteq> f ! i"
  shows "\<exists>reason. validate_frame cmd' (f[i := b]) = Some (Rejected reason)"
proof -
  have "frame_ok f" using assms(1) by (simp add: validate_parsed_iff)
  then have "\<not> frame_ok (f[i := b])" using assms(2,3) by (rule frame_ok_one_byte)
  then have "validate_frame cmd' (f[i := b]) \<noteq> Some (Parsed q)" for q
    by (simp add: validate_parsed_iff)
  moreover obtain v where "validate_frame cmd' (f[i := b]) = Some v" using validate_total by blast
  ultimately show ?thesis by (cases v) auto
qed

lemma demo_accepted:
  "\<exists>p. validate_frame CARD_BALANCE (seal demo_response) = Some (Parsed p)"
proof -
  let ?p = "demo_response\<lparr>pcrc := CRC16_CCITT (serializeWithoutCRC demo_response)\<rparr>"
  have "deserialize (seal demo_response @ []) = Some ?p"
    unfolding seal_def by (rule deserialize_serialize) (simp add: consistent_def demo_response_def)
  moreover have "frame_ok (seal demo_response)"
    by (rule seal_frame_ok) (simp_all add: demo_response_def)
  ultimately show ?thesis
    by (auto simp: validate_parsed_iff demo_response_def isCurrentCmdResponse_def)
qed

theorem lcsc_corruption_detected_witness:
  "\<exists>reason. validate_frame CARD_BALANCE ((seal demo_response)[5 := 0x11]) = Some (Rejected reason)"
proof -
  obtain p where "validate_frame CARD_BALANCE (seal demo_response) = Some (Parsed p)"
    using demo_accepted by blast
  then show ?thesis
    by (rule lcsc_corruption_detected)
      (simp_all add: seal_def serialize_alt demo_response_def)
qed

end
