(* ===== verification/Lcsc_Correct.thy ===== *)
theory Lcsc_Correct
  imports Lcsc_Fsm Lcsc_Packet_Correct
begin

text \<open>
  Correctness of the LCSC driver: its command queue, the liveness of the state machine for
  single-frame commands, the course of one transaction, retries of the card polling, and the
  payload parser.
\<close>

section \<open>The command queue\<close>

definition lcsc_admits :: "lcsc_cmd \<times> cmd_data \<Rightarrow> lcsc \<Rightarrow> bool" where
  "lcsc_admits c s \<longleftrightarrow> \<not> stopping s \<and> portOpen s"

lemma checkCommandQueue_queue [simp]: "commandQueue (checkCommandQueue s) = commandQueue s"
  by (simp add: checkCommandQueue_def processEvent_def post_def)

interpretation lcscq: command_queue commandQueue "\<lambda>(cmd, data). enqueueCommandOnIoThread cmd data"
  popCommand lcsc_admits
  by unfold_locales
    (auto simp: lcsc_admits_def enqueueCommandOnIoThread_def popCommand_def Let_def)

section \<open>Liveness of the state machine\<close>

text \<open>What will move the machine on: in IDLE with a pending command a queue check or its event,
  while sending the write timer, the write in flight, or an event of either, while waiting the
  response timer or an event.\<close>

definition lcsc_live :: "lcsc \<Rightarrow> bool" where
  "lcsc_live s \<longleftrightarrow>
     (case currentState s of
        IDLE \<Rightarrow>
          commandQueue s \<noteq> [] \<longrightarrow>
            CheckCommandQueue \<in> set (posted s) \<or> ProcessEvent COMMAND_ENQUEUED \<in> set (posted s)
      | SENDING_REQUEST_ASYNC \<Rightarrow>
          serialWriteTimer s \<or> writeInProgress s \<or> SerialWriteTimeout \<in> set (posted s) \<or>
          (\<exists>e \<in> {WRITE_COMPLETED, WRITE_FAILED, WRITE_TIMEOUT}. ProcessEvent e \<in> set (posted s))
      | WAITING_FOR_RESPONSE \<Rightarrow>
          rspTimer s \<or> CmdResponseTimeout \<in> set (posted s) \<or>
          (\<exists>e \<in> {RESPONSE_HANDLED, RESPONSE_REJECTED, RESPONSE_TIMEOUT}.
             ProcessEvent e \<in> set (posted s))
      | _ \<Rightarrow> False)"

definition lcsc_single :: "lcsc \<Rightarrow> bool" where
  "lcsc_single s \<longleftrightarrow>
     (\<forall>c \<in> set (commandQueue s). \<not> isChunkedCommand (fst c)) \<and>
     \<not> isChunkedCommand (currentCmd s) \<and>
     ProcessEvent CHUNK_COMMAND_ENQUEUED \<notin> set (posted s) \<and>
     (writeInProgress s \<longrightarrow> writeQueue s \<noteq> [])"

definition lcsc_inv :: "lcsc \<Rightarrow> bool" where
  "lcsc_inv s \<longleftrightarrow> \<not> stopping s \<longrightarrow> lcsc_live s \<and> lcsc_single s"

text \<open>Updates inside a handler: the state is not IDLE, and only these fields matter.\<close>

definition keeps :: "lcsc \<Rightarrow> lcsc \<Rightarrow> bool" where
  "keeps s t \<longleftrightarrow>
     stopping t = stopping s \<and> currentState t = currentState s \<and> currentCmd t = currentCmd s \<and>
     writeInProgress t = writeInProgress s \<and> writeQueue t = writeQueue s \<and>
     serialWriteTimer t = serialWriteTimer s \<and>
     set (posted s) \<subseteq> set (posted t) \<and>
     (ProcessEvent CHUNK_COMMAND_ENQUEUED \<in> set (posted t) \<longrightarrow>
        ProcessEvent CHUNK_COMMAND_ENQUEUED \<in> set (posted s)) \<and>
     ((\<forall>c \<in> set (commandQueue s). \<not> isChunkedCommand (fst c)) \<longrightarrow>
        (\<forall>c \<in> set (commandQueue t). \<not> isChunkedCommand (fst c)))"

lemma keeps_refl [simp]: "keeps s s"
  by (simp add: keeps_def)

lemma keeps_trans [trans]: "keeps s t \<Longrightarrow> keeps t u \<Longrightarrow> keeps s u"
  unfolding keeps_def by (elim conjE, intro conjI) (simp, simp, simp, simp, simp, simp, blast+)

lemma keeps_fields [simp]:
  "keeps s (s\<lparr>rspTimer := b\<rparr>)" "keeps s (s\<lparr>continueReadFlag := b\<rparr>)"
  "keeps s (s\<lparr>LCSCCard_In := k\<rparr>)" "keeps s (s\<lparr>transactions := ts\<rparr>)"
  "keeps s (s\<lparr>lcsc_events := es\<rparr>)" "keeps s (s\<lparr>uploads := us\<rparr>)" "keeps s (s\<lparr>rxs := r\<rparr>)"
  by (simp_all add: keeps_def)

lemma keeps_event [simp]:
  "keeps s (EnqueueEvent n txt s)" "keeps s (processUploadLcscFilesEvent ue str s)"
  by (simp_all add: EnqueueEvent_def processUploadLcscFilesEvent_def)

lemma keeps_processEvent [simp]: "e \<noteq> CHUNK_COMMAND_ENQUEUED \<Longrightarrow> keeps s (processEvent e s)"
  by (auto simp: keeps_def processEvent_def post_def)

lemma keeps_enqueue:
  "currentState s \<noteq> IDLE \<Longrightarrow> \<not> isChunkedCommand cmd \<Longrightarrow> keeps s (enqueueCommand cmd data s)"
  "currentState s \<noteq> IDLE \<Longrightarrow> \<not> isChunkedCommand cmd \<Longrightarrow> keeps s (enqueueCommandToFront cmd data s)"
  by (auto simp: keeps_def enqueueCommand_def enqueueCommandOnIoThread_def
      enqueueCommandToFront_def enqueueCommandToFrontOnIoThread_def Let_def)

lemma keeps_state: "keeps s t \<Longrightarrow> currentState t = currentState s"
  by (simp add: keeps_def)

lemma chunked_simps [simp]:
  "\<not> isChunkedCommand GET_CARD_ID" "\<not> isChunkedCommand CARD_BALANCE"
  "\<not> isChunkedCommand LOGIN_1" "\<not> isChunkedCommand LOGIN_2" "\<not> isChunkedCommand CARD_FLUSH"
  by (simp_all add: isChunkedCommand_def)

lemma keeps_error:
  assumes "currentState s \<noteq> IDLE"
  shows "keeps s (handleCmdErrorOrTimeout cmd status s)"
proof -
  define s1 where "s1 = (if cmd = GET_STATUS_CMD \<and> generatingCDAck s
    then processUploadLcscFilesEvent GET_LCSC_DEVICE_STATUS_FAILED [] s else s)"
  have k: "keeps s s1" by (simp add: s1_def)
  then have "currentState s1 \<noteq> IDLE" using assms by (simp add: keeps_state)
  then have "keeps s1 (handleCmdErrorOrTimeout cmd status s)"
    by (simp add: handleCmdErrorOrTimeout_def Let_def keeps_enqueue flip: s1_def)
  with k show ?thesis by (rule keeps_trans)
qed

lemma keeps_chunked_event:
  "keeps s t \<Longrightarrow> e \<noteq> CHUNK_COMMAND_ENQUEUED \<Longrightarrow> keeps s (processEvent e t)"
  by (rule keeps_trans [of s t]) simp_all

text \<open>The parsers of the responses, inside a handler.\<close>

lemma keeps_cardIdRsp:
  assumes "currentState s \<noteq> IDLE"
  shows "keeps s (snd (cardIdRsp p s))"
proof -
  have "keeps s (FnSendGetCardBalance (s\<lparr>continueReadFlag := False\<rparr>))"
    unfolding FnSendGetCardBalance_def
    by (rule keeps_trans [OF _ keeps_enqueue(1)]) (simp_all add: assms)
  then show ?thesis
    using keeps_enqueue(2) [OF assms, of GET_CARD_ID NullData]
    by (simp add: cardIdRsp_def Let_def)
qed

lemma keeps_login1Rsp:
  assumes "currentState s \<noteq> IDLE" "login1Rsp p s = Some (x, t)"
  shows "keeps s t"
  using assms keeps_enqueue(1) [OF assms(1), of LOGIN_2]
  by (cases "hd p = 0"; cases "slice_opt p 17 16") (auto simp: login1Rsp_def)

lemma keeps_cardBalanceRsp:
  assumes "currentState s \<noteq> IDLE" "cardBalanceRsp p s = Some (x, t)"
  shows "keeps s t"
  using assms keeps_enqueue(2) [OF assms(1), of CARD_BALANCE NullData]
  by (cases "hd p = 0") (auto simp: cardBalanceRsp_def split: if_splits option.splits)

lemma keeps_cardDeductRsp:
  assumes "currentState s \<noteq> IDLE" "cardDeductRsp p s = Some (x, t)"
  shows "keeps s t"
proof (cases "hd p = 0")
  case True
  let ?s1 = "s\<lparr>transactions := transactions s @ [p]\<rparr>"
  have "keeps ?s1 (enqueueCommandToFront CARD_FLUSH d ?s1)" for d
    using assms(1) by (simp add: keeps_enqueue)
  then have "keeps s (enqueueCommandToFront CARD_FLUSH d ?s1)" for d
    by (rule keeps_trans [OF keeps_fields(4)])
  with True assms(2) show ?thesis
    by (auto simp: cardDeductRsp_def Let_def split: option.splits)
qed (use assms in \<open>simp add: cardDeductRsp_def\<close>)

lemma keeps_cardRecordRsp: "keeps s (snd (cardRecordRsp p s))"
  by (simp add: cardRecordRsp_def)

lemma keeps_responseText:
  assumes i: "currentState s \<noteq> IDLE" and r: "responseText lt msg s = Some (oss, s1)"
  shows "keeps s s1"
proof -
  show ?thesis
    using r keeps_cardIdRsp [OF i, of "payload msg"] keeps_cardRecordRsp [of s "payload msg"]
    by (auto simp: responseText_def Let_def intro: keeps_login1Rsp [OF i] keeps_cardBalanceRsp [OF i]
        keeps_cardDeductRsp [OF i] split: if_splits)
qed

lemma keeps_handleCmdResponse:
  assumes i: "currentState s \<noteq> IDLE" and c: "\<not> isChunkedCommandType (ptype msg)"
    and r: "handleCmdResponse lt msg s = Some (oss, t)"
  shows "keeps s t"
proof -
  obtain s1 where s1: "responseText lt msg s = Some (oss, s1)"
    "t = handleUploadLcscGetStatusCmdResponse (ptype msg) oss s1"
    using r c by (auto simp: handleCmdResponse_def Let_def split: option.splits)
  have "keeps s1 t" by (simp add: s1(2) handleUploadLcscGetStatusCmdResponse_def)
  with keeps_responseText [OF i s1(1)] show ?thesis by (rule keeps_trans)
qed

lemma keeps_reject:
  assumes i: "currentState s \<noteq> IDLE" and c: "\<not> isChunkedCommand (currentCmd s)"
  shows "keeps s (rejectCurrentResponse st s)"
proof -
  let ?s0 = "s\<lparr>rspTimer := False\<rparr>"
  let ?s1 = "handleCmdErrorOrTimeout (currentCmd s) st ?s0"
  have "keeps ?s0 ?s1" using i by (simp add: keeps_error)
  with keeps_fields(1) have k: "keeps s ?s1" by (rule keeps_trans)
  then have "\<not> isChunkedCommand (currentCmd ?s1)" using c by (simp add: keeps_def)
  then show ?thesis
    using keeps_chunked_event [OF k, of RESPONSE_REJECTED]
    by (simp add: rejectCurrentResponse_def Let_def)
qed

lemma type_chunked: "isChunkedCommandType (cmd_type cmd) = isChunkedCommand cmd"
  by (cases cmd) (simp_all add: isChunkedCommandType_def isChunkedCommand_def)

lemma processEvent_posted [simp]: "ProcessEvent e \<in> set (posted (processEvent e s))"
  by (simp add: processEvent_def post_def)

text \<open>A frame received while waiting always ends the transaction.\<close>

lemma received_ends:
  assumes i: "currentState s \<noteq> IDLE" and c: "\<not> isChunkedCommand (currentCmd s)"
    and r: "handleReceivedCmd inp f s = Some t"
  shows "keeps s t \<and> (\<exists>e \<in> {RESPONSE_HANDLED, RESPONSE_REJECTED}. ProcessEvent e \<in> set (posted t))"
proof -
  obtain v where v: "validate_frame (currentCmd s) f = Some v"
    using r by (auto simp: handleReceivedCmd_def split: option.splits)
  show ?thesis
  proof (cases v)
    case (Rejected st)
    then have "t = rejectCurrentResponse st s"
      using r v by (simp add: handleReceivedCmd_def)
    then show ?thesis
      using keeps_reject [OF i c] by (auto simp: rejectCurrentResponse_def Let_def)
  next
    case (Parsed msg)
    then have ty: "\<not> isChunkedCommandType (ptype msg)"
      using v c by (auto simp: validate_parsed_iff type_chunked isCurrentCmdResponse_cmd_type)
    obtain m s1 where s1: "handleCmdResponse (local_time inp) msg (s\<lparr>rspTimer := False\<rparr>) = Some (m, s1)"
      using r v Parsed by (auto simp: handleReceivedCmd_def split: option.splits)
    have "keeps (s\<lparr>rspTimer := False\<rparr>) s1"
      using keeps_handleCmdResponse [OF _ ty s1] i by simp
    with keeps_fields(1) have k1: "keeps s s1" by (rule keeps_trans)
    then have k2: "keeps s (s1\<lparr>LCSCCard_In := k\<rparr>)" for k
      using keeps_fields(3) by (rule keeps_trans)
    have k3: "keeps s u \<Longrightarrow> keeps s (EnqueueEvent n b u)" for n b u
      using keeps_event(1) by (rule keeps_trans [rotated])
    have "\<exists>u. t = processEvent RESPONSE_HANDLED u \<and> keeps s u"
      using r v Parsed ty s1 k1 k2 k3 [OF k1] k3 [OF k2]
      by (auto simp: handleReceivedCmd_def Let_def split: if_splits)
    then obtain u where "t = processEvent RESPONSE_HANDLED u" "keeps s u" by blast
    then show ?thesis using keeps_chunked_event [of s u RESPONSE_HANDLED] by simp
  qed
qed

lemma posted_in_post: "posted (post h s) = posted s @ [h]" "currentState (post h s) = currentState s"
  "serialWriteTimer (post h s) = serialWriteTimer s" "rspTimer (post h s) = rspTimer s"
  "writeInProgress (post h s) = writeInProgress s" "commandQueue (post h s) = commandQueue s"
  "stopping (post h s) = stopping s"
  by (simp_all add: post_def)

text \<open>What the invariant needs of the write path and of the queue operations.\<close>

lemma single_post [simp]:
  "h \<noteq> ProcessEvent CHUNK_COMMAND_ENQUEUED \<Longrightarrow> lcsc_single (post h s) = lcsc_single s"
  by (auto simp: lcsc_single_def post_def)

lemma single_fields [simp]:
  "lcsc_single (s\<lparr>serialWriteTimer := b\<rparr>) = lcsc_single s"
  "lcsc_single (s\<lparr>rspTimer := b\<rparr>) = lcsc_single s"
  "lcsc_single (s\<lparr>serialWriteDelayTimer := b\<rparr>) = lcsc_single s"
  "lcsc_single (s\<lparr>writeTimedOut := b\<rparr>) = lcsc_single s"
  "lcsc_single (s\<lparr>currentState := st\<rparr>) = lcsc_single s"
  "lcsc_single (s\<lparr>continueReadFlag := b\<rparr>) = lcsc_single s"
  "lcsc_single (s\<lparr>rxs := r\<rparr>) = lcsc_single s"
  by (simp_all add: lcsc_single_def)

lemma single_idle_write: "lcsc_single s \<Longrightarrow> lcsc_single (s\<lparr>writeInProgress := False\<rparr>)"
  by (simp add: lcsc_single_def)

lemma single_startWrite: "lcsc_single s \<Longrightarrow> lcsc_single (startWrite g s)"
  by (auto simp: startWrite_def processEvent_def intro: single_idle_write)
    (simp add: lcsc_single_def)

lemma single_enqueueWrite: "lcsc_single s \<Longrightarrow> lcsc_single (enqueueWrite g f s)"
proof -
  assume "lcsc_single s"
  then have "lcsc_single (s\<lparr>writeQueue := writeQueue s @ [f]\<rparr>)" by (simp add: lcsc_single_def)
  then show ?thesis using \<open>lcsc_single s\<close>
    by (simp add: enqueueWrite_def Let_def single_startWrite)
qed

lemma startWrite_frame [simp]:
  "stopping (startWrite g s) = stopping s" "currentState (startWrite g s) = currentState s"
  "commandQueue (startWrite g s) = commandQueue s"
  "serialWriteTimer (startWrite g s) = serialWriteTimer s"
  "rspTimer (startWrite g s) = rspTimer s"
  "set (posted s) \<subseteq> set (posted (startWrite g s))"
  by (auto simp: startWrite_def processEvent_def post_def)

lemma enqueueWrite_frame [simp]:
  "stopping (enqueueWrite g f s) = stopping s"
  "currentState (enqueueWrite g f s) = currentState s"
  by (simp_all add: enqueueWrite_def Let_def)

lemma pop_single:
  assumes "lcsc_single s" "popFromCommandQueueAndEnqueueWrite e g s = Some t"
  shows "lcsc_single t" "stopping t = stopping s"
proof -
  have "lcsc_single t \<and> stopping t = stopping s"
  proof (cases "commandQueue s")
    case Nil
    then show ?thesis using assms
      by (simp add: popFromCommandQueueAndEnqueueWrite_def popCommand_def)
  next
    case (Cons c cs)
    let ?s1 = "s\<lparr>commandQueue := cs, currentCmd := fst c\<rparr>"
    have "lcsc_single ?s1" using assms(1) Cons by (simp add: lcsc_single_def)
    moreover obtain f where "t = enqueueWrite g f ?s1"
      using assms(2) Cons
      by (cases c) (auto simp: popFromCommandQueueAndEnqueueWrite_def popCommand_def
          split: option.splits)
    ultimately show ?thesis by (simp add: single_enqueueWrite)
  qed
  then show "lcsc_single t" "stopping t = stopping s" by simp_all
qed

lemma keeps_single: "keeps s t \<Longrightarrow> lcsc_single s \<Longrightarrow> lcsc_single t"
  by (simp add: keeps_def lcsc_single_def)

lemma live_idle_check: "CheckCommandQueue \<in> set (posted s) \<Longrightarrow> currentState s = IDLE \<Longrightarrow> lcsc_live s"
  by (simp add: lcsc_live_def)

text \<open>A step of the queue in IDLE arms the next command; elsewhere it changes nothing that
  keeps the machine alive.\<close>

lemma check_live:
  assumes "lcsc_single s" "currentState s = IDLE" "\<not> stopping s"
  shows "lcsc_live (checkCommandQueue s)" "lcsc_single (checkCommandQueue s)"
    "currentState (checkCommandQueue s) = IDLE" "stopping (checkCommandQueue s) = stopping s"
proof -
  have "checkCommandQueue s = (if commandQueue s = [] then s else processEvent COMMAND_ENQUEUED s)"
    using assms by (simp add: lcsc_single_def checkCommandQueue_def)
  with assms show "lcsc_live (checkCommandQueue s)" "lcsc_single (checkCommandQueue s)"
    "currentState (checkCommandQueue s) = IDLE" "stopping (checkCommandQueue s) = stopping s"
    by (simp_all add: processEvent_def lcsc_live_def) (simp_all add: post_def)
qed

lemma single_drop: "lcsc_single s \<Longrightarrow> posted s = h # hs \<Longrightarrow> lcsc_single (s\<lparr>posted := hs\<rparr>)"
  by (simp add: lcsc_single_def)

lemma live_drop:
  assumes "lcsc_live s" "posted s = ProcessEvent e # hs" "find_transition e (currentState s) = None"
  shows "lcsc_live (s\<lparr>posted := hs\<rparr>)"
  using assms
  by (cases "currentState s") (auto simp: lcsc_live_def find_transition_def split: if_splits)

text \<open>One transition of the machine, from a state with single-frame commands only.\<close>

lemma live_leave: "lcsc_single s \<Longrightarrow> lcsc_inv (post CheckCommandQueue (s\<lparr>currentState := IDLE\<rparr>))"
  by (simp add: lcsc_inv_def lcsc_live_def post_def lcsc_single_def)

lemma inv_sending: "lcsc_single s \<Longrightarrow> lcsc_inv (startSerialWriteTimer s\<lparr>currentState := SENDING_REQUEST_ASYNC\<rparr>)"
  by (simp add: lcsc_inv_def startSerialWriteTimer_def lcsc_live_def)

lemma inv_waiting: "lcsc_single s \<Longrightarrow> lcsc_inv (startResponseTimer s\<lparr>currentState := WAITING_FOR_RESPONSE\<rparr>)"
  by (simp add: lcsc_inv_def startResponseTimer_def lcsc_live_def)

lemma single_error:
  "lcsc_single s \<Longrightarrow> currentState s \<noteq> IDLE \<Longrightarrow> lcsc_single (handleCmdErrorOrTimeout c st s)"
  by (rule keeps_single [OF keeps_error])

lemma inv_received:
  assumes "lcsc_single s" "currentState s = WAITING_FOR_RESPONSE"
    "handleReceivedCmd i f (s\<lparr>rxs := r\<rparr>) = Some t"
  shows "lcsc_inv (t\<lparr>currentState := WAITING_FOR_RESPONSE\<rparr>)"
proof -
  have k: "keeps (s\<lparr>rxs := r\<rparr>) t"
    and e: "\<exists>e \<in> {RESPONSE_HANDLED, RESPONSE_REJECTED}. ProcessEvent e \<in> set (posted t)"
    using received_ends [OF _ _ assms(3)] assms(1,2) by (simp_all add: lcsc_single_def)
  have "lcsc_single t" by (rule keeps_single [OF k]) (simp add: assms(1))
  with e show ?thesis by (auto simp: lcsc_inv_def lcsc_live_def)
qed

lemma transition_inv:
  assumes "lcsc_single s" "\<not> stopping s"
    and "currentState s \<in> {IDLE, SENDING_REQUEST_ASYNC, WAITING_FOR_RESPONSE}"
    and "find_transition e (currentState s) \<noteq> None" "e \<noteq> CHUNK_COMMAND_ENQUEUED"
    and r: "runEvent i e s = Some t"
  shows "lcsc_inv t"
proof -
  consider (idle) "currentState s = IDLE" "e = COMMAND_ENQUEUED"
    | (sent) "currentState s = SENDING_REQUEST_ASYNC" "e = WRITE_COMPLETED"
    | (unsent) "currentState s = SENDING_REQUEST_ASYNC" "e = WRITE_FAILED \<or> e = WRITE_TIMEOUT"
    | (received) "currentState s = WAITING_FOR_RESPONSE" "e = RESPONSE_RECEIVED"
    | (over) "currentState s = WAITING_FOR_RESPONSE"
        "e = RESPONSE_HANDLED \<or> e = RESPONSE_REJECTED \<or> e = RESPONSE_TIMEOUT"
    using assms(3,4,5) by (auto simp: find_transition_def split: if_splits)
  then show ?thesis
  proof cases
    case idle
    then obtain u where "popFromCommandQueueAndEnqueueWrite (env i) (gap i) s = Some u"
      "t = startSerialWriteTimer u\<lparr>currentState := SENDING_REQUEST_ASYNC\<rparr>"
      using r assms(2) by (auto simp: runEvent_def find_transition_def handleIdleState_def split: option.splits)
    then show ?thesis using pop_single(1) [OF assms(1)] by (simp add: inv_sending)
  next
    case sent
    then have "t = startResponseTimer (s\<lparr>serialWriteTimer := False\<rparr>)\<lparr>currentState := WAITING_FOR_RESPONSE\<rparr>"
      using r assms(2)
      by (auto simp: runEvent_def find_transition_def handleSendingRequestAsyncState_def)
    then show ?thesis using assms(1) by (simp add: inv_waiting)
  next
    case unsent
    then obtain u where "t = post CheckCommandQueue (u\<lparr>currentState := IDLE\<rparr>)" "lcsc_single u"
      using r assms(1,2) single_error [of "s\<lparr>serialWriteTimer := False\<rparr>"] single_error [of s]
      by (auto simp: runEvent_def find_transition_def handleSendingRequestAsyncState_def)
    then show ?thesis by (simp add: live_leave)
  next
    case received
    then obtain u where "handleReceivedCmd i (rxBuffer (rxs s)) (s\<lparr>rxs := resetRxBuffer (rxs s)\<rparr>) = Some u"
      "t = u\<lparr>currentState := WAITING_FOR_RESPONSE\<rparr>"
      using r assms(2)
      by (auto simp: runEvent_def find_transition_def handleWaitingForResponseState_def
          takeFrame_def split: option.splits)
    then show ?thesis using inv_received [OF assms(1) received(1)] by simp
  next
    case over
    then obtain u where "t = post CheckCommandQueue (u\<lparr>currentState := IDLE\<rparr>)" "lcsc_single u"
      using r assms(1,2) single_error [of s]
      by (auto simp: runEvent_def find_transition_def handleWaitingForResponseState_def)
    then show ?thesis by (simp add: live_leave)
  qed
qed

lemma live_states: "lcsc_live s \<Longrightarrow> currentState s \<in> {IDLE, SENDING_REQUEST_ASYNC, WAITING_FOR_RESPONSE}"
  by (cases "currentState s") (simp_all add: lcsc_live_def)

lemma inv_runEvent:
  assumes "lcsc_inv s" "posted s = ProcessEvent e # hs" "runEvent i e (s\<lparr>posted := hs\<rparr>) = Some t"
  shows "lcsc_inv t"
proof (cases "stopping s")
  case True
  then show ?thesis using assms(3) by (auto simp: runEvent_def lcsc_inv_def)
next
  case False
  then have l: "lcsc_live s" and sg: "lcsc_single s" using assms(1) by (simp_all add: lcsc_inv_def)
  have sg': "lcsc_single (s\<lparr>posted := hs\<rparr>)" using single_drop [OF sg assms(2)] .
  show ?thesis
  proof (cases "find_transition e (currentState s)")
    case None
    then have "t = s\<lparr>posted := hs\<rparr>" using assms(3) False by (simp add: runEvent_def)
    then show ?thesis using live_drop [OF l assms(2) None] sg' by (simp add: lcsc_inv_def)
  next
    case (Some tr)
    have "e \<noteq> CHUNK_COMMAND_ENQUEUED" using sg assms(2) by (auto simp: lcsc_single_def)
    with Some False sg' assms(3) live_states [OF l] show ?thesis
      by (intro transition_inv [of "s\<lparr>posted := hs\<rparr>" e i]) simp_all
  qed
qed

lemma lcsc_inv_enqueue:
  assumes "lcsc_inv s" "\<not> isChunkedCommand cmd"
  shows "lcsc_inv (enqueueCommand cmd data s)"
proof (cases "acceptingWork s \<and> \<not> stopping s \<and> portOpen s")
  case True
  let ?s1 = "s\<lparr>commandQueue := commandQueue s @ [(cmd, data)]\<rparr>"
  have l: "lcsc_live s" "lcsc_single s" using assms(1) True by (simp_all add: lcsc_inv_def)
  have sg: "lcsc_single ?s1" using l(2) assms(2) by (auto simp: lcsc_single_def)
  show ?thesis
  proof (cases "currentState s = IDLE")
    case idle: True
    with True check_live [of ?s1] sg show ?thesis
      by (simp add: enqueueCommand_def enqueueCommandOnIoThread_def Let_def lcsc_inv_def)
  next
    case False
    then have "lcsc_live ?s1" using l(1) by (auto simp: lcsc_live_def split: lcsc_state.splits)
    with True False sg show ?thesis
      by (simp add: enqueueCommand_def enqueueCommandOnIoThread_def Let_def lcsc_inv_def)
  qed
qed (use assms(1) in \<open>auto simp: enqueueCommand_def enqueueCommandOnIoThread_def\<close>)

text \<open>The other posted handlers.\<close>

lemma live_other:
  assumes "lcsc_live s" "posted s = h # hs" "\<And>e. h \<noteq> ProcessEvent e" "h \<noteq> CheckCommandQueue"
    "h \<noteq> SerialWriteTimeout" "h \<noteq> CmdResponseTimeout"
  shows "lcsc_live (s\<lparr>posted := hs\<rparr>)"
  using assms by (cases "currentState s"; cases h) (auto simp: lcsc_live_def)

lemma live_startWrite:
  assumes "lcsc_live s" "lcsc_single s"
  shows "lcsc_live (startWrite g s)"
  using assms
  by (cases "currentState s")
    (auto simp: lcsc_live_def startWrite_def processEvent_def post_def lcsc_single_def)

lemma inv_delay:
  assumes "lcsc_inv s" "posted s = DelayElapsed # hs"
  shows "lcsc_inv (if stopping s then s\<lparr>posted := hs\<rparr> else startWrite g (s\<lparr>posted := hs\<rparr>))"
  using assms live_startWrite [of "s\<lparr>posted := hs\<rparr>" g] live_other [of s DelayElapsed hs]
    single_startWrite [of "s\<lparr>posted := hs\<rparr>" g] single_drop [of s DelayElapsed hs]
  by (simp add: lcsc_inv_def)

lemma inv_check:
  assumes "lcsc_inv s" "posted s = CheckCommandQueue # hs" "\<not> stopping s"
  shows "lcsc_inv (checkCommandQueue (s\<lparr>posted := hs\<rparr>))"
proof (cases "currentState s = IDLE")
  case True
  then show ?thesis
    using assms check_live [of "s\<lparr>posted := hs\<rparr>"] single_drop [of s CheckCommandQueue hs]
    by (simp add: lcsc_inv_def)
next
  case False
  then have "lcsc_live (s\<lparr>posted := hs\<rparr>)"
    using assms by (cases "currentState s") (auto simp: lcsc_inv_def lcsc_live_def)
  with assms False single_drop [of s CheckCommandQueue hs] show ?thesis
    by (simp add: lcsc_inv_def checkCommandQueue_def)
qed

lemma inv_write_timeout:
  assumes "lcsc_inv s" "posted s = SerialWriteTimeout # hs"
  shows "lcsc_inv (handleSerialWriteTimeout (s\<lparr>posted := hs\<rparr>))"
  using assms single_drop [of s SerialWriteTimeout hs]
  by (cases "currentState s")
    (auto simp: lcsc_inv_def lcsc_live_def handleSerialWriteTimeout_def processEvent_def
      posted_in_post)

lemma inv_rsp_timeout:
  assumes "lcsc_inv s" "posted s = CmdResponseTimeout # hs"
  shows "lcsc_inv (handleCmdResponseTimeout (s\<lparr>posted := hs\<rparr>))"
  using assms single_drop [of s CmdResponseTimeout hs]
  by (cases "currentState s")
    (auto simp: lcsc_inv_def lcsc_live_def handleCmdResponseTimeout_def processEvent_def
      posted_in_post)

lemma inv_runPosted:
  assumes "lcsc_inv s" "posted s = h # hs" "runPosted i h (s\<lparr>posted := hs\<rparr>) = Some t"
  shows "lcsc_inv t"
proof (cases h)
  case (ProcessEvent e)
  then show ?thesis using assms inv_runEvent [of s e hs i t] by (simp add: runPosted_def)
next
  case CheckCommandQueue
  then show ?thesis using assms inv_check [of s hs]
    by (auto simp: runPosted_def lcsc_inv_def split: if_splits)
next
  case DelayElapsed
  then show ?thesis using assms inv_delay [of s hs "gap i"] by (auto simp: runPosted_def)
qed (use assms inv_write_timeout [of s hs] inv_rsp_timeout [of s hs] in
    \<open>simp_all add: runPosted_def\<close>)

lemma inv_writeEnd:
  assumes "lcsc_inv s" "writeInProgress s" "r = WriteAborted \<longrightarrow> writeTimedOut s"
  shows "lcsc_inv (writeEnd r s)"
proof -
  let ?s1 = "s\<lparr>serialWriteTimer := False, writeQueue := tl (writeQueue s), writeInProgress := False\<rparr>"
  have sg: "lcsc_single ?s1" if "lcsc_single s" using that by (simp add: lcsc_single_def)
  show ?thesis
  proof (cases "stopping s")
    case True
    then show ?thesis by (simp add: writeEnd_def Let_def lcsc_inv_def)
  next
    case False
    with assms have l: "lcsc_live s" "lcsc_single s" by (simp_all add: lcsc_inv_def)
    obtain e u where e: "e \<in> {WRITE_COMPLETED, WRITE_FAILED, WRITE_TIMEOUT}"
      "writeEnd r s = processEvent e u" "u = ?s1 \<or> u = ?s1\<lparr>writeTimedOut := False\<rparr>"
      using assms(3) False by (cases "writeTimedOut s"; cases r) (auto simp: writeEnd_def Let_def)
    have "lcsc_live (processEvent e u)"
      using l(1) e(1,3) by (cases "currentState s")
        (auto simp: lcsc_live_def processEvent_def posted_in_post)
    moreover have "lcsc_single (processEvent e u)"
      using e(1,3) sg [OF l(2)] by (auto simp: processEvent_def)
    ultimately show ?thesis by (simp add: lcsc_inv_def e(2))
  qed
qed

lemma inv_timer:
  "lcsc_inv s \<Longrightarrow> lcsc_inv (post SerialWriteTimeout (s\<lparr>serialWriteTimer := False\<rparr>))"
  "lcsc_inv s \<Longrightarrow> lcsc_inv (post CmdResponseTimeout (s\<lparr>rspTimer := False\<rparr>))"
  "lcsc_inv s \<Longrightarrow> lcsc_inv (post DelayElapsed (s\<lparr>serialWriteDelayTimer := False\<rparr>))"
  by (cases "currentState s"; auto simp: lcsc_inv_def lcsc_live_def posted_in_post)+

lemma inv_read: "lcsc_inv s \<Longrightarrow> lcsc_inv (readEnd d s)"
  by (cases "currentState s"; cases "isRxResponseComplete d (rxs s)")
    (auto simp: lcsc_inv_def lcsc_live_def readEnd_def Let_def processEvent_def posted_in_post)

lemma inv_flag [simp]: "lcsc_inv (s\<lparr>continueReadFlag := b\<rparr>) = lcsc_inv s"
  by (cases "currentState s") (simp_all add: lcsc_inv_def lcsc_live_def)

text \<open>Requests for single-frame commands; the upload of a file uses the chunk queue.\<close>

fun single_frame_request :: "lcsc_action \<Rightarrow> bool" where
  "single_frame_request (Enqueue cmd data) = (\<not> isChunkedCommand cmd)"
| "single_frame_request _ = True"

lemma lcsc_inv_act:
  assumes "lcsc_inv s" "single_frame_request a" "lcsc_act a s = Some t"
  shows "lcsc_inv t"
proof (cases a)
  case (RunNext i)
  then show ?thesis using assms inv_runPosted by (auto simp: lcsc_act_def split: list.splits)
next
  case (WriteEnd r)
  then show ?thesis using assms inv_writeEnd by (auto simp: lcsc_act_def split: if_splits)
next
  case BeginClose
  then show ?thesis using assms by (auto simp: lcsc_act_def lcsc_inv_def)
next
  case Shutdown
  then show ?thesis using assms
    by (auto simp: lcsc_act_def lcsc_inv_def shutdownOnIoThread_def split: if_splits)
qed (use assms inv_timer [of s] inv_read in
    \<open>auto simp: lcsc_act_def FnSendGetCardIDCmd_def FnSendGetCardBalance_def
      FnLCSCReaderStopRead_def lcsc_inv_enqueue split: if_splits\<close>)

lemma lcsc_inv_reach: "lcsc_reach single_frame_request s t \<Longrightarrow> lcsc_inv s \<Longrightarrow> lcsc_inv t"
  by (induction rule: lcsc_reach.induct) (auto intro: lcsc_inv_act)

lemma inv_open: "lcsc_inv lcsc_open"
  by (simp add: lcsc_inv_def lcsc_live_def lcsc_single_def lcsc_open_def isChunkedCommand_def)

section \<open>Running the driver on concrete actions\<close>

fun lcsc_run :: "lcsc_action list \<Rightarrow> lcsc \<Rightarrow> lcsc option" where
  "lcsc_run [] s = Some s"
| "lcsc_run (a # as) s = (case lcsc_act a s of None \<Rightarrow> None | Some s' \<Rightarrow> lcsc_run as s')"

lemma lcsc_run_append:
  "lcsc_run (as @ bs) s = (case lcsc_run as s of None \<Rightarrow> None | Some t \<Rightarrow> lcsc_run bs t)"
  by (induction as arbitrary: s) (auto split: option.splits)

lemma lcsc_run_then: "lcsc_run as s = Some t \<Longrightarrow> lcsc_run (as @ bs) s = lcsc_run bs t"
  by (simp add: lcsc_run_append)

lemma lcsc_reach_trans: "lcsc_reach P s' s'' \<Longrightarrow> lcsc_reach P s s' \<Longrightarrow> lcsc_reach P s s''"
  by (induction rule: lcsc_reach.induct) (auto intro: lcsc_reach.intros)

lemma lcsc_run_reach: "lcsc_run as s = Some t \<Longrightarrow> list_all P as \<Longrightarrow> lcsc_reach P s t"
proof (induction as arbitrary: s)
  case (Cons a as)
  then obtain u where u: "lcsc_act a s = Some u" "lcsc_run as u = Some t"
    by (auto split: option.splits)
  have "P a" using Cons.prems(2) by simp
  then have "lcsc_reach P s u" using u(1) by (rule lcsc_reach_step [OF lcsc_reach_start])
  with Cons.IH [OF u(2)] Cons.prems(2) show ?case by (simp add: lcsc_reach_trans)
qed (simp add: lcsc_reach_start)

section \<open>One transaction\<close>

text \<open>An open driver with nothing to do.\<close>

definition quiet :: "lcsc \<Rightarrow> bool" where
  "quiet s \<longleftrightarrow>
     \<not> stopping s \<and> acceptingWork s \<and> portOpen s \<and> commandQueue s = [] \<and>
     currentState s = IDLE \<and> posted s = [] \<and> writeQueue s = [] \<and> \<not> writeInProgress s \<and>
     \<not> serialWriteTimer s \<and> \<not> rspTimer s \<and> \<not> serialWriteDelayTimer s \<and>
     \<not> rx_receiving (rxs s) \<and> \<not> generatingCDAck s"

text \<open>What a command whose response changes no state reports for a verdict: the text of its
  parser, the code of the rejection.\<close>

fun plain_report :: "lcsc_cmd \<Rightarrow> byte list \<Rightarrow> string" where
  "plain_report LOGIN_2 p = login2Rsp p"
| "plain_report LOGOUT p = logoutRsp p"
| "plain_report CARD_FLUSH p = cardFlushRsp p"
| "plain_report SET_TIME p = setTimeRsp p"
| "plain_report _ p = []"

definition plain_commands :: "lcsc_cmd set" where
  "plain_commands = {LOGIN_2, LOGOUT, CARD_FLUSH, SET_TIME}"

definition verdict_report :: "lcsc_cmd \<Rightarrow> verdict \<Rightarrow> (string \<times> string) list" where
  "verdict_report cmd v =
     (case v of
        Rejected st \<Rightarrow> [(error_event_name cmd, msgStatus st)]
      | Parsed msg \<Rightarrow>
          (let txt = plain_report cmd (payload msg) in
           if txt = [] then [] else [(error_event_name cmd, txt)]))"

lemma quiet_send:
  assumes "quiet s" "cmd \<in> plain_commands" "prepareCmd (env i) cmd data = Some out" "\<not> gap i"
  shows "lcsc_run [Enqueue cmd data, RunNext i] s =
    Some (s\<lparr>currentCmd := cmd, writeQueue := [out], writeInProgress := True, writeTimedOut := False,
      serialWriteTimer := True, currentState := SENDING_REQUEST_ASYNC\<rparr>)"
proof -
  have "\<not> isChunkedCommand cmd" using assms(2) by (auto simp: plain_commands_def isChunkedCommand_def)
  then show ?thesis
    using assms
    by (simp add: quiet_def lcsc_act_def enqueueCommand_def enqueueCommandOnIoThread_def Let_def
        checkCommandQueue_def processEvent_def post_def runPosted_def runEvent_def
        find_transition_def handleIdleState_def popFromCommandQueueAndEnqueueWrite_def
        popCommand_def enqueueWrite_def startWrite_def startSerialWriteTimer_def)
qed

lemma sending_to_waiting:
  assumes "currentState s = SENDING_REQUEST_ASYNC" "\<not> stopping s" "posted s = []"
    "writeInProgress s" "\<not> writeTimedOut s"
  shows "lcsc_run [WriteEnd WriteOk, RunNext i] s =
    Some (s\<lparr>serialWriteTimer := False, writeQueue := tl (writeQueue s), writeInProgress := False,
      rspTimer := True, currentState := WAITING_FOR_RESPONSE\<rparr>)"
  using assms
  by (simp add: lcsc_act_def writeEnd_def Let_def processEvent_def post_def runPosted_def
      runEvent_def find_transition_def handleSendingRequestAsyncState_def startResponseTimer_def)

lemma run_partial_reads:
  assumes "\<not> stopping s" "rx_reads cs (rxs s) = (r, replicate (length cs) False)"
  shows "lcsc_run (map Read cs) s = Some (s\<lparr>rxs := r\<rparr>)"
  using assms
proof (induction cs arbitrary: s)
  case (Cons c cs)
  obtain r1 d where r1: "isRxResponseComplete c (rxs s) = (r1, d)" by fastforce
  obtain ds where ds: "rx_reads cs r1 = (r, ds)" "ds = replicate (length cs) False" "\<not> d"
    using Cons.prems(2) r1 by (auto split: prod.splits)
  have "lcsc_act (Read c) s = Some (s\<lparr>rxs := r1\<rparr>)"
    using Cons.prems(1) r1 ds(3) by (simp add: lcsc_act_def readEnd_def)
  then show ?case using Cons.IH [of "s\<lparr>rxs := r1\<rparr>"] Cons.prems(1) ds by simp
qed simp

lemma rx_reads_snoc:
  "rx_reads (cs @ [c]) r =
     (case rx_reads cs r of (r1, ds) \<Rightarrow>
        (case isRxResponseComplete c r1 of (r2, d) \<Rightarrow> (r2, ds @ [d])))"
  by (induction cs arbitrary: r) (auto split: prod.splits)

lemma run_reads_frame:
  assumes "\<not> stopping s" "posted s = []" "\<not> rx_receiving (rxs s)" "deliverable (concat cs @ c)" "c \<noteq> []"
  shows "lcsc_run (map Read cs @ [Read (c @ junk)]) s =
    Some (s\<lparr>rxs := \<lparr>rx_receiving = False, rxBuffer = concat cs @ c\<rparr>,
      posted := [ProcessEvent RESPONSE_RECEIVED]\<rparr>)"
proof -
  have "0 < length (concat cs @ c)" using assms(5) by simp
  then have all: "rx_reads (cs @ [c @ junk]) (rxs s) =
      ((rxs s)\<lparr>rxBuffer := concat cs @ c, rx_receiving := False\<rparr>, replicate (length cs) False @ [True])"
    using reads_of_frame [OF assms(4,3), of 0 cs c junk] assms(5) by (simp add: rx_after_def)
  obtain r where r: "rx_reads cs (rxs s) = (r, replicate (length cs) False)"
    "isRxResponseComplete (c @ junk) r = ((rxs s)\<lparr>rxBuffer := concat cs @ c, rx_receiving := False\<rparr>, True)"
    using rx_reads_snoc [of cs "c @ junk" "rxs s"] all by (auto split: prod.splits)
  show ?thesis
    using run_partial_reads [OF assms(1) r(1)] r(2) assms(1,2)
    by (simp add: lcsc_run_append lcsc_act_def readEnd_def Let_def processEvent_def post_def)
qed

lemma error_event_name_plain: "cmd \<in> plain_commands \<Longrightarrow> error_event_name cmd \<noteq> []"
  by (auto simp: plain_commands_def)

lemma plain_rejected:
  assumes "cmd \<in> plain_commands" "currentCmd s = cmd"
  shows "rejectCurrentResponse st s =
    s\<lparr>rspTimer := False, lcsc_events := lcsc_events s @ [(error_event_name cmd, msgStatus st)],
      posted := posted s @ [ProcessEvent RESPONSE_REJECTED]\<rparr>"
  using assms
  by (cases cmd; simp add: plain_commands_def rejectCurrentResponse_def handleCmdErrorOrTimeout_def
      Let_def isChunkedCommand_def EnqueueEvent_def processEvent_def post_def)

lemma plain_response:
  assumes "cmd \<in> plain_commands" "ptype msg = cmd_type cmd" "payload msg \<noteq> []"
  shows "handleCmdResponse lt msg s = Some (plain_report cmd (payload msg), s)"
  using assms
  by (cases cmd; simp add: plain_commands_def handleCmdResponse_def responseText_def Let_def
      isChunkedCommandType_def handleUploadLcscGetStatusCmdResponse_def)

lemma plain_received:
  assumes cmd: "cmd \<in> plain_commands" "currentCmd s = cmd" and v: "validate_frame cmd f = Some v"
  shows "handleReceivedCmd i f s = Some (s\<lparr>rspTimer := False,
    lcsc_events := lcsc_events s @ verdict_report cmd v,
    posted := posted s @ [ProcessEvent
      (case v of Rejected _ \<Rightarrow> RESPONSE_REJECTED | Parsed _ \<Rightarrow> RESPONSE_HANDLED)]\<rparr>)"
proof (cases v)
  case (Rejected st)
  then show ?thesis
    using cmd v by (simp add: handleReceivedCmd_def plain_rejected verdict_report_def)
next
  case (Parsed msg)
  then have m: "ptype msg = cmd_type cmd" "payload msg \<noteq> []"
    using v by (simp_all add: validate_parsed_iff isCurrentCmdResponse_cmd_type)
  have "getEventStringFromResponseCmdType (cmd_type cmd) = error_event_name cmd"
    "\<not> isChunkedCommandType (cmd_type cmd)" "cmd_type cmd \<noteq> 0x21"
    using cmd(1) by (auto simp: plain_commands_def getEventStringFromResponseCmdType_def
        isChunkedCommandType_def)
  with cmd v Parsed m show ?thesis
    by (simp add: handleReceivedCmd_def plain_response verdict_report_def EnqueueEvent_def Let_def
        processEvent_def post_def error_event_name_plain)
qed

lemma waiting_to_idle:
  assumes "currentState s = WAITING_FOR_RESPONSE" "\<not> stopping s"
    "posted s = [ProcessEvent RESPONSE_RECEIVED]" "commandQueue s = []"
    "cmd \<in> plain_commands" "currentCmd s = cmd" "validate_frame cmd (rxBuffer (rxs s)) = Some v"
  shows "lcsc_run [RunNext i, RunNext i, RunNext i] s =
    Some (s\<lparr>rxs := resetRxBuffer (rxs s), rspTimer := False, posted := [], currentState := IDLE,
      lcsc_events := lcsc_events s @ verdict_report cmd v\<rparr>)"
proof -
  let ?s1 = "s\<lparr>posted := [], rxs := resetRxBuffer (rxs s)\<rparr>"
  note r = plain_received [OF assms(5) _ assms(7), of ?s1 i]
  show ?thesis
    using assms r
    by (cases v)
      (simp_all add: lcsc_act_def runPosted_def runEvent_def find_transition_def
        handleWaitingForResponseState_def takeFrame_def post_def checkCommandQueue_def)
qed

section \<open>The seed of a deduction\<close>

definition be_value :: "byte list \<Rightarrow> nat" where
  "be_value bs = foldl (\<lambda>acc b. acc * 256 + unat b) 0 bs"

lemma hex2_chars: "c \<in> set (hex2 b) \<Longrightarrow> \<exists>n. c = hex_digit n"
  by (auto simp: hex2_digits simp del: hex_digit.simps)

lemma hex_digit_not_x: "hex_digit n \<noteq> CHR ''x''" "hex_digit n \<noteq> CHR ''X''"
  using nibble_cases [of n]
  by (simp_all only: hex_digit.simps insert_iff empty_iff; elim disjE; simp)+

lemma digits_value_hex: "digits_value 16 (concat (map hex2 bs)) = be_value bs"
proof (induction bs rule: rev_induct)
  case (snoc b bs)
  have "unat b div 16 mod 16 * 16 + unat b mod 16 = unat b"
    using unat_byte_bound [of b] by (simp add: div_less_iff_less_mult)
  with snoc show ?case
    by (simp add: digits_value_def be_value_def hex2_digits del: hex_digit.simps)
qed (simp add: digits_value_def be_value_def)

lemma strtol_hex_vector:
  assumes "bs \<noteq> []"
  shows "strtol_opt 16 (concat (map hex2 bs)) = Some (int (be_value bs))"
proof -
  define s where "s = concat (map hex2 bs)"
  have d: "\<exists>n. c = hex_digit n" if "c \<in> set s" for c using that hex2_chars by (auto simp: s_def)
  obtain b bs' where "bs = b # bs'" using assms by (cases bs) auto
  then obtain a c r where s: "s = hex_digit a # hex_digit c # r"
    by (simp add: s_def hex2_digits del: hex_digit.simps)
  have "takeWhile (\<lambda>c. digit_val c < 16) s = s"
    by (rule takeWhile_eq_all_conv [THEN iffD2]) (use d in fastforce)
  moreover have "strip_0x 16 s = s"
    by (simp add: s strip_0x_def hex_digit_not_x del: hex_digit.simps split: list.splits)
  moreover have "dropWhile is_space s = s" "s \<noteq> []"
    "(case s of c # _ \<Rightarrow> c = CHR ''-'' | [] \<Rightarrow> False) = False"
    "(case s of c # cs \<Rightarrow> (if c = CHR ''-'' \<or> c = CHR ''+'' then cs else s) | [] \<Rightarrow> []) = s"
    by (simp_all add: s del: hex_digit.simps)
  ultimately show ?thesis
    unfolding strtol_opt_def Let_def s_def [symmetric]
    by (simp only: if_False HOL.simp_thms digits_value_hex [of bs, folded s_def])
qed

lemma byte_of_word: "unat (ucast (drop_bit k w AND 0xFF) :: byte) = unat w div 2 ^ k mod 256" for w :: u32
proof -
  have "(0xFF :: u32) = mask 8" by (simp add: mask_eq_exp_minus_1)
  then have "drop_bit k w AND 0xFF = take_bit 8 (drop_bit k w)" by (simp add: take_bit_eq_mask)
  moreover have "unat w mod 4294967296 = unat w"
    by (rule mod_less) (use unsigned_less [of w] in simp)
  ultimately show ?thesis
    by (simp only: unsigned_ucast_eq unsigned_take_bit_eq unsigned_drop_bit_eq)
      (simp add: take_bit_eq_mod drop_bit_eq_div)
qed

lemma be32_of_value:
  assumes "length bs = 4"
  shows "be32_of_u32 (of_nat (be_value bs)) = bs"
proof -
  obtain a b c d where bs: "bs = [a, b, c, d]"
    using assms by (auto simp: numeral_eq_Suc length_Suc_conv)
  have lt: "unat a < 256" "unat b < 256" "unat c < 256" "unat d < 256" by simp_all
  let ?n = "((unat a * 256 + unat b) * 256 + unat c) * 256 + unat d"
  have n: "be_value bs = ?n" by (simp add: bs be_value_def)
  have "((a * 256 + b) * 256 + c) * 256 + d < (4294967296 :: nat)"
    if "a < 256" "b < 256" "c < 256" "d < 256" for a b c d
    using that by (simp add: algebra_simps)
  then have "?n < 4294967296" using lt by blast
  moreover have "unat (of_nat n :: u32) = n" if "n < 4294967296" for n
    using that by (simp add: unsigned_of_nat take_bit_eq_mod)
  ultimately have u: "unat (of_nat ?n :: u32) = ?n" by blast
  have w: "unat (ucast (drop_bit k (of_nat ?n :: u32) AND 0xFF) :: byte) = ?n div 2 ^ k mod 256" for k
    by (simp only: byte_of_word u)
  have h: "(x * 256 + y) div 256 = x" "(x * 256 + y) mod 256 = y" if "y < 256" for x y :: nat
    using that by simp_all
  have p: "n div 2 ^ 24 = n div 256 div 256 div 256" "n div 2 ^ 16 = n div 256 div 256"
    "n div 2 ^ 8 = n div 256" "n div 2 ^ 0 = n" for n :: nat
    by (simp_all flip: div_mult2_eq)
  have q: "?n div 2 ^ 24 mod 256 = unat a" "?n div 2 ^ 16 mod 256 = unat b"
    "?n div 2 ^ 8 mod 256 = unat c" "?n div 2 ^ 0 mod 256 = unat d"
    unfolding p by (simp_all only: h lt mod_less)
  have "ucast (drop_bit 24 (of_nat ?n :: u32) AND 0xFF) = a"
    "ucast (drop_bit 16 (of_nat ?n :: u32) AND 0xFF) = b"
    "ucast (drop_bit 8 (of_nat ?n :: u32) AND 0xFF) = c"
    "ucast (drop_bit 0 (of_nat ?n :: u32) AND 0xFF) = d"
    by (rule word_unat_eq_iff [THEN iffD2], simp only: w q)+
  then show ?thesis unfolding n be32_of_u32_def by (simp only: bs drop_bit_0 id_apply)
qed
lemma hexf_seed: "5 \<le> length p \<Longrightarrow> hexf p 1 4 = concat (map hex2 (take 4 (drop 1 p)))"
  by (simp add: FnGetVectorCharToHexString_range_def)

lemma strtol_seed:
  "5 \<le> length p \<Longrightarrow> strtol_opt 16 (hexf p 1 4) = Some (int (be_value (take 4 (drop 1 p))))"
  unfolding hexf_seed by (rule strtol_hex_vector) (cases p; auto)

section \<open>Bounds of the response parsers\<close>

text \<open>How many payload bytes the parser of a successful response reads without a check.\<close>

fun success_size :: "lcsc_cmd \<Rightarrow> nat" where
  "success_size GET_STATUS_CMD = 34"
| "success_size LOGIN_1 = 33"
| "success_size CARD_BALANCE = 20"
| "success_size CARD_DEDUCT = 107"
| "success_size GET_TIME = 5"
| "success_size _ = 0"

definition overruns :: "lcsc_cmd \<Rightarrow> byte list \<Rightarrow> lcsc \<Rightarrow> bool" where
  "overruns cmd p s \<longleftrightarrow>
     hd p = 0 \<and> length p < success_size cmd \<and> (cmd = CARD_BALANCE \<longrightarrow> continueReadFlag s)"

lemma slice_opt_None [simp]: "slice_opt xs i n = None \<longleftrightarrow> length xs < i + n"
  by (simp add: slice_opt_def)

lemma slice_opt_bound: "slice_opt xs i n = Some ys \<Longrightarrow> i + n \<le> length xs"
  by (simp add: slice_opt_def split: if_splits)

lemma getStatusRsp_None: "getStatusRsp p = None \<longleftrightarrow> hd p = 0 \<and> length p < 34"
  by (auto simp: getStatusRsp_def nth_opt_Some split: option.splits)

lemma login1Rsp_None: "login1Rsp p s = None \<longleftrightarrow> hd p = 0 \<and> length p < 33"
  by (auto simp: login1Rsp_def dest: slice_opt_bound split: option.splits)

lemma cardBalanceRsp_None:
  "cardBalanceRsp p s = None \<longleftrightarrow> continueReadFlag s \<and> hd p = 0 \<and> length p < 20"
  by (auto simp: cardBalanceRsp_def nth_opt_Some split: option.splits)

lemma cardDeductRsp_None: "cardDeductRsp p s = None \<longleftrightarrow> hd p = 0 \<and> length p < 107"
proof (cases "hd p = 0")
  case True
  show ?thesis
  proof (cases "length p < 107")
    case short: True
    with True show ?thesis by (simp add: cardDeductRsp_def slice_opt_def)
  next
    case False
    then obtain x y z where "slice_opt p 13 32 = Some x" "slice_opt p 45 30 = Some y"
      "slice_opt p 77 30 = Some z" by (simp add: slice_opt_def)
    with True False show ?thesis by (simp add: cardDeductRsp_def Let_def)
  qed
qed (simp add: cardDeductRsp_def)

lemma read_u32_None: "FnReadUint32BE p k = None \<longleftrightarrow> length p < k + 4"
  by (auto simp: FnReadUint32BE_def nth_opt_Some split: option.splits)

lemma getTimeRsp_None: "getTimeRsp lt p = None \<longleftrightarrow> hd p = 0 \<and> length p < 5"
  using read_u32_None [of p 1]
  by (cases "FnReadUint32BE p 1") (auto simp: getTimeRsp_def Let_def)

lemma responseText_None:
  assumes "ptype msg = cmd_type cmd" "payload msg \<noteq> []"
  shows "responseText lt msg s = None \<longleftrightarrow> overruns cmd (payload msg) s"
  using assms
  by (cases cmd; simp add: responseText_def Let_def overruns_def getStatusRsp_None login1Rsp_None
      cardBalanceRsp_None cardDeductRsp_None getTimeRsp_None isChunkedCommandType_def) auto

lemma handleReceivedCmd_None:
  assumes "validate_frame (currentCmd s) f = Some (Parsed msg)"
  shows "handleReceivedCmd i f s = None \<longleftrightarrow> overruns (currentCmd s) (payload msg) s"
proof -
  have m: "ptype msg = cmd_type (currentCmd s)" "payload msg \<noteq> []"
    using assms by (simp_all add: validate_parsed_iff isCurrentCmdResponse_cmd_type)
  have "overruns (currentCmd s) (payload msg) (s\<lparr>rspTimer := False\<rparr>) \<longleftrightarrow> overruns (currentCmd s) (payload msg) s"
    by (simp add: overruns_def)
  with assms responseText_None [OF m, of "local_time i" "s\<lparr>rspTimer := False\<rparr>"] show ?thesis
    by (auto simp: handleReceivedCmd_def handleCmdResponse_def Let_def split: option.splits prod.splits)
qed

section \<open>Unanswered commands\<close>

definition polling_commands :: "lcsc_cmd set" where
  "polling_commands = {GET_CARD_ID, CARD_BALANCE}"

lemma timeout_other:
  assumes "cmd \<notin> polling_commands" "cmd = GET_STATUS_CMD \<longrightarrow> \<not> generatingCDAck s"
  shows "handleCmdErrorOrTimeout cmd st s =
    s\<lparr>lcsc_events := lcsc_events s @ [(error_event_name cmd, msgStatus st)]\<rparr>"
  using assms by (auto simp: polling_commands_def handleCmdErrorOrTimeout_def EnqueueEvent_def)

lemma timeout_polling:
  assumes "cmd \<in> polling_commands" "acceptingWork s" "\<not> stopping s" "portOpen s"
    "currentState s \<noteq> IDLE" "commandQueue s = []"
  shows "handleCmdErrorOrTimeout cmd st s =
    (if continueReadFlag s then s\<lparr>commandQueue := [(cmd, NullData)]\<rparr> else s)"
  using assms
  by (auto simp: polling_commands_def handleCmdErrorOrTimeout_def enqueueCommandToFront_def
      enqueueCommandToFrontOnIoThread_def)

text \<open>The state in which a command that was sent waits for its response.\<close>

definition awaiting :: "lcsc_cmd \<Rightarrow> lcsc \<Rightarrow> bool" where
  "awaiting cmd s \<longleftrightarrow>
     \<not> stopping s \<and> acceptingWork s \<and> portOpen s \<and> commandQueue s = [] \<and>
     currentState s = WAITING_FOR_RESPONSE \<and> currentCmd s = cmd \<and> posted s = [] \<and>
     rspTimer s \<and> \<not> generatingCDAck s"

lemma msgStatus_errors:
  "msgStatus sCorruptedCmd = ''msgStatus=-2''" "msgStatus sIncompleteCmd = ''msgStatus=-3''"
  "msgStatus sUnsupportedCmd = ''msgStatus=-6''" "msgStatus sUnknown = ''msgStatus=-4''"
  by code_simp+

section \<open>Cutting a file into blocks\<close>

lemma chunkData_enough:
  assumes "0 < k"
  shows "length data < fuel \<Longrightarrow> \<exists>cs. chunkData fuel data k = Some cs \<and> concat cs = data \<and>
    length cs = (length data + k - 1) div k \<and> (\<forall>c \<in> set cs. c \<noteq> [] \<and> length c \<le> k) \<and>
    (\<forall>c \<in> set (butlast cs). length c = k)"
proof (induction fuel arbitrary: data)
  case (Suc fuel)
  show ?case
  proof (cases "data = []")
    case False
    then have "length (drop k data) < fuel" using Suc.prems assms by (cases data) auto
    then obtain cs where cs: "chunkData fuel (drop k data) k = Some cs" "concat cs = drop k data"
      "length cs = (length (drop k data) + k - 1) div k" "\<forall>c \<in> set cs. c \<noteq> [] \<and> length c \<le> k"
      "\<forall>c \<in> set (butlast cs). length c = k" using Suc.IH by blast
    have n: "Suc (length cs) = (length data + k - 1) div k"
    proof (cases "k \<le> length data")
      case True
      then have "length data + k - 1 = (length data - k + k - 1) + k" using assms by simp
      moreover have "((length data - k + k - 1) + k) div k = Suc ((length data - k + k - 1) div k)"
        using assms by (intro trans [OF div_add_self2]) simp_all
      ultimately show ?thesis by (simp only: cs(3) length_drop)
    next
      case False
      have "0 < length data" using \<open>data \<noteq> []\<close> by simp
      then obtain m where m: "length data = Suc m" by (cases "length data") simp_all
      then have "(length data + k - 1) div k = 1"
        using False assms by (simp add: m div_add_self2)
      moreover have "(k - Suc 0) div k = 0" using assms by simp
      ultimately show ?thesis using cs(3) False by simp
    qed
    have full: "length (take k data) = k" if "cs \<noteq> []"
    proof -
      have "concat cs \<noteq> []" using that cs(4) by (cases cs) auto
      then have "k < length data" using cs(2) by simp
      then show ?thesis by simp
    qed
    have "chunkData (Suc fuel) data k = Some (take k data # cs)" using False cs(1) by simp
    moreover have "concat (take k data # cs) = data" using cs(2) by simp
    moreover have "length (take k data # cs) = (length data + k - 1) div k"
      using n by (simp only: length_Cons)
    moreover have "\<forall>c \<in> set (take k data # cs). c \<noteq> [] \<and> length c \<le> k"
      using False assms cs(4) by simp
    moreover have "\<forall>c \<in> set (butlast (take k data # cs)). length c = k"
      using full cs(5) by simp
    ultimately show ?thesis by blast
  qed (use assms in simp)
qed simp

lemma chunkData_zero: "data \<noteq> [] \<Longrightarrow> chunkData fuel data 0 = None"
  by (induction fuel) simp_all

section \<open>Properties\<close>

definition demo_inputs :: lcsc_inputs where
  "demo_inputs = \<lparr>env = demo_lcsc_env, local_time = (\<lambda>t. dec_nat (unat t)), gap = False\<rparr>"

text \<open>C12: The driver is never stuck.  In every state it can reach with single-frame commands, by any
  interleaving of requests, posted handlers, reads, write completions and timer expiries, and as
  long as it is not closed, something is under way that will move it on: a pending command in IDLE
  has its event or a queue check posted, a command being sent has a write or its timer, and a command
  waiting for its response has its timer or the event that ends it.\<close>

theorem lcsc_never_stuck:
  assumes "lcsc_reach single_frame_request lcsc_open s" "\<not> stopping s"
  shows "lcsc_live s"
  using lcsc_inv_reach [OF assms(1) inv_open] assms(2) by (simp add: lcsc_inv_def)

theorem lcsc_never_stuck_witness:
  "\<exists>s. lcsc_run [Enqueue LOGOUT NullData, RunNext demo_inputs, WriteEnd WriteOk] lcsc_open = Some s \<and>
     currentState s = SENDING_REQUEST_ASYNC \<and> lcsc_live s"
proof -
  have "quiet lcsc_open" by (simp add: quiet_def lcsc_open_def)
  moreover obtain out where "prepareCmd (env demo_inputs) LOGOUT NullData = Some out"
    by (simp add: prepareCmd_def command_packet_def Let_def)
  ultimately obtain t where t: "lcsc_run [Enqueue LOGOUT NullData, RunNext demo_inputs] lcsc_open = Some t"
    "writeInProgress t" "\<not> stopping t" "currentState t = SENDING_REQUEST_ASYNC"
    using quiet_send [of lcsc_open LOGOUT demo_inputs NullData out]
    by (auto simp: plain_commands_def demo_inputs_def lcsc_open_def)
  let ?as = "[Enqueue LOGOUT NullData, RunNext demo_inputs, WriteEnd WriteOk]"
  have r: "lcsc_run ?as lcsc_open = Some (writeEnd WriteOk t)"
    using t lcsc_run_append [of "[Enqueue LOGOUT NullData, RunNext demo_inputs]" "[WriteEnd WriteOk]" lcsc_open]
    by (simp add: lcsc_act_def)
  have w: "\<not> stopping (writeEnd WriteOk t)" "currentState (writeEnd WriteOk t) = SENDING_REQUEST_ASYNC"
    using t(3,4) by (simp_all add: writeEnd_def Let_def processEvent_def post_def)
  have "lcsc_reach single_frame_request lcsc_open (writeEnd WriteOk t)"
    by (rule lcsc_run_reach [OF r]) (simp add: isChunkedCommand_def)
  then have "lcsc_live (writeEnd WriteOk t)" using w(1) by (rule lcsc_never_stuck)
  with r w show ?thesis by blast
qed


lemma demo_logout_accepted:
  "validate_frame LOGOUT [0xA5, 0x92, 0, 7, 0, 0xAA, 0x5F] =
     Some (Parsed \<lparr>attn = 0xA5, code = True, ptype = 0x12, plen = 7, payload = [0], pcrc = 0xAA5F\<rparr>)"
  by code_simp


text \<open>C31: A command whose response never comes.  When the response timer expires, the driver is
  back in IDLE; it reports the timeout exactly once under the event of the command, except that a
  card poll reports nothing and, while polling is wanted, is queued again and its event posted.\<close>

theorem lcsc_unanswered:
  assumes "awaiting cmd s" "\<not> isChunkedCommand cmd"
  shows "lcsc_run [RspTimerExpires, RunNext i, RunNext i, RunNext i] s =
    Some (if cmd \<notin> polling_commands
      then s\<lparr>rspTimer := False, currentState := IDLE,
             lcsc_events := lcsc_events s @ [(error_event_name cmd, msgStatus sTimeout)]\<rparr>
      else if continueReadFlag s
      then s\<lparr>rspTimer := False, currentState := IDLE, commandQueue := [(cmd, NullData)],
             posted := [ProcessEvent COMMAND_ENQUEUED]\<rparr>
      else s\<lparr>rspTimer := False, currentState := IDLE\<rparr>)"
proof -
  let ?s0 = "s\<lparr>rspTimer := False, posted := []\<rparr>"
  have "lcsc_run [RspTimerExpires, RunNext i, RunNext i, RunNext i] s =
      Some (checkCommandQueue (handleCmdErrorOrTimeout cmd sTimeout ?s0\<lparr>currentState := IDLE, posted := []\<rparr>))"
    using assms timeout_other [of cmd ?s0 sTimeout] timeout_polling [of cmd ?s0 sTimeout]
    by (cases "cmd \<in> polling_commands"; cases "continueReadFlag s")
      (simp_all add: awaiting_def lcsc_act_def post_def runPosted_def handleCmdResponseTimeout_def
        processEvent_def runEvent_def find_transition_def handleWaitingForResponseState_def)
  also have "\<dots> = Some (if cmd \<notin> polling_commands
      then s\<lparr>rspTimer := False, currentState := IDLE,
             lcsc_events := lcsc_events s @ [(error_event_name cmd, msgStatus sTimeout)]\<rparr>
      else if continueReadFlag s
      then s\<lparr>rspTimer := False, currentState := IDLE, commandQueue := [(cmd, NullData)],
             posted := [ProcessEvent COMMAND_ENQUEUED]\<rparr>
      else s\<lparr>rspTimer := False, currentState := IDLE\<rparr>)"
    using assms timeout_other [of cmd ?s0 sTimeout] timeout_polling [of cmd ?s0 sTimeout]
    by (cases "cmd \<in> polling_commands"; cases "continueReadFlag s")
      (simp_all add: awaiting_def checkCommandQueue_def processEvent_def post_def)
  finally show ?thesis .
qed

definition demo_awaiting :: lcsc where
  "demo_awaiting = lcsc_open\<lparr>currentState := WAITING_FOR_RESPONSE, currentCmd := GET_CARD_ID,
     rspTimer := True, continueReadFlag := True\<rparr>"

theorem lcsc_unanswered_witness:
  "\<exists>t. lcsc_run [RspTimerExpires, RunNext demo_inputs, RunNext demo_inputs, RunNext demo_inputs]
      demo_awaiting = Some t \<and> commandQueue t = [(GET_CARD_ID, NullData)] \<and> lcsc_events t = []"
  using lcsc_unanswered [of GET_CARD_ID demo_awaiting demo_inputs]
  by (simp add: awaiting_def demo_awaiting_def lcsc_open_def polling_commands_def)

text \<open>Settlement of a deduction.  A successful response to a deduction puts a flush of the card
  in front of every pending command, whose frame carries back exactly the four seed bytes of the
  response, read through their hexadecimal text, and records the response for settlement.\<close>

theorem lcsc_deduct_flushes:
  assumes "hd p = 0" "107 \<le> length p" "acceptingWork s" "\<not> stopping s" "portOpen s"
    "currentState s \<noteq> IDLE" "commandQueue s = [] \<or> fst (hd (commandQueue s)) \<noteq> CARD_FLUSH"
  shows "\<exists>txt t seed q. cardDeductRsp p s = Some (txt, t) \<and>
    commandQueue t = (CARD_FLUSH, AmountData seed) # commandQueue s \<and>
    transactions t = transactions s @ [p] \<and>
    command_packet e CARD_FLUSH (AmountData seed) = Some q \<and> payload q = take 4 (drop 1 p)"
proof -
  let ?seed = "of_nat (be_value (take 4 (drop 1 p))) :: u32"
  let ?s1 = "s\<lparr>transactions := transactions s @ [p]\<rparr>"
  have "be32_of_u32 ?seed = take 4 (drop 1 p)"
    by (rule be32_of_value) (use assms(2) in simp)
  then obtain q where q: "command_packet e CARD_FLUSH (AmountData ?seed) = Some q"
    "payload q = take 4 (drop 1 p)" by (simp add: command_packet_def set_body_def Let_def)
  obtain x y z where sl: "slice_opt p 13 32 = Some x" "slice_opt p 45 30 = Some y"
    "slice_opt p 77 30 = Some z" using assms(2) by (simp add: slice_opt_def)
  have st: "strtol_opt 16 (hexf p 1 4) = Some (int (be_value (take 4 (drop 1 p))))"
    by (rule strtol_seed) (use assms(2) in simp)
  obtain report where d: "cardDeductRsp p s =
      Some (report, enqueueCommandToFront CARD_FLUSH (AmountData ?seed) ?s1)"
    using assms(1) by (simp add: cardDeductRsp_def sl st [simplified] Let_def)
  have "enqueueCommandToFront CARD_FLUSH (AmountData ?seed) ?s1 =
      ?s1\<lparr>commandQueue := (CARD_FLUSH, AmountData ?seed) # commandQueue s\<rparr>"
    using assms(3-7)
    by (auto simp: enqueueCommandToFront_def enqueueCommandToFrontOnIoThread_def Let_def)
  with q d show ?thesis by simp
qed

theorem lcsc_deduct_flushes_witness:
  "\<exists>txt t seed q. cardDeductRsp (replicate 107 0) demo_awaiting = Some (txt, t) \<and>
    commandQueue t = [(CARD_FLUSH, AmountData seed)] \<and>
    transactions t = [replicate 107 0] \<and>
    command_packet demo_lcsc_env CARD_FLUSH (AmountData seed) = Some q \<and> payload q = [0, 0, 0, 0]"
  using lcsc_deduct_flushes [of "replicate 107 0" demo_awaiting demo_lcsc_env]
  by (simp add: demo_awaiting_def lcsc_open_def numeral_eq_Suc)

text \<open>When the handling of a received frame reads past its payload.  Only the emptiness of the
  payload is checked: an accepted response is handled without undefined behaviour exactly when it is
  not a success report shorter than what the parser of its command reads.\<close>

theorem lcsc_response_bounds:
  assumes "validate_frame (currentCmd s) f = Some (Parsed msg)"
  shows "handleReceivedCmd i f s = None \<longleftrightarrow>
    hd (payload msg) = 0 \<and> length (payload msg) < success_size (currentCmd s) \<and>
    (currentCmd s = CARD_BALANCE \<longrightarrow> continueReadFlag s)"
  using handleReceivedCmd_None [OF assms] by (simp add: overruns_def)

lemma demo_balance_accepted:
  "validate_frame CARD_BALANCE [0xA5, 0xA1, 0, 8, 0, 0x10, 0x97, 0x9C] =
     Some (Parsed \<lparr>attn = 0xA5, code = True, ptype = 0x21, plen = 8, payload = [0, 0x10], pcrc = 0x979C\<rparr>)"
  by code_simp

theorem lcsc_response_bounds_witness:
  "handleReceivedCmd demo_inputs [0xA5, 0xA1, 0, 8, 0, 0x10, 0x97, 0x9C]
     (demo_awaiting\<lparr>currentCmd := CARD_BALANCE\<rparr>) = None"
  using lcsc_response_bounds [of "demo_awaiting\<lparr>currentCmd := CARD_BALANCE\<rparr>"
      "[0xA5, 0xA1, 0, 8, 0, 0x10, 0x97, 0x9C]" _ demo_inputs] demo_balance_accepted
  by (simp add: demo_awaiting_def lcsc_open_def)

text \<open>Cutting a file into blocks for the upload.  With a positive block size the loop ends and
  its blocks, concatenated, are the file; there are as many as needed, none is empty or too large, and
  all but the last are full.  With block size 0 and a non-empty file it never ends.\<close>

theorem lcsc_chunks:
  "(0 < k \<and> length data < fuel \<longrightarrow>
      (\<exists>cs. chunkData fuel data k = Some cs \<and> concat cs = data \<and>
        length cs = (length data + k - 1) div k \<and> (\<forall>c \<in> set cs. c \<noteq> [] \<and> length c \<le> k) \<and>
        (\<forall>c \<in> set (butlast cs). length c = k))) \<and>
   (data \<noteq> [] \<longrightarrow> chunkData fuel' data 0 = None)"
  by (intro conjI impI chunkData_enough chunkData_zero) simp_all

theorem lcsc_chunks_witness:
  "(\<exists>cs. chunkData 6 [1, 2, 3, 4, 5] 2 = Some cs \<and> concat cs = [1, 2, 3, 4, 5]) \<and>
   chunkData 100 [1] 0 = None"
proof
  have "0 < (2 :: nat) \<and> length [1, 2, 3, 4, 5 :: byte] < 6" by simp
  then show "\<exists>cs. chunkData 6 [1, 2, 3, 4, 5] 2 = Some cs \<and> concat cs = [1, 2, 3, 4, 5]"
    using lcsc_chunks [of 2 "[1, 2, 3, 4, 5]" 6] by blast
  show "chunkData 100 [1] 0 = None" using lcsc_chunks [of 0 "[1]" 0 100] by blast
qed

text \<open>The error reports of GET_TIME run into each other.  The cases of a corrupted, incomplete or
  unsupported command have no break: the report carries the codes of all later cases as well, and no
  status parsed from it is the one of the error, unless it is the last.\<close>

theorem lcsc_get_time_runs_on:
  "getTimeRsp lt (0x01 # p) = Some ''msgStatus=-2msgStatus=-3msgStatus=-6msgStatus=-4'' \<and>
   getTimeRsp lt (0x02 # p) = Some ''msgStatus=-3msgStatus=-6msgStatus=-4'' \<and>
   getTimeRsp lt (0x03 # p) = Some ''msgStatus=-6msgStatus=-4'' \<and>
   getTimeRsp lt (0x1c # p) = Some ''msgStatus=-4''"
  by (simp add: getTimeRsp_def Let_def msgStatus_errors)

text \<open>Commands are sent in the order in which they were requested.  Whatever was queued before,
  requests that are accepted are taken from the queue after it and in their own order.\<close>

theorem lcsc_commands_fifo:
  "\<exists>as. subseq as cs \<and>
     drain popCommand (length (commandQueue s) + length cs)
       (fold (\<lambda>(cmd, data). enqueueCommandOnIoThread cmd data) cs s) = commandQueue s @ as"
  by (rule lcscq.fifo)

end
