(* ===== verification/Lane_State.thy ===== *)
theory Lane_State
  imports Pbs_Prelude
begin

text \<open>
  The state of an entry station and the operations its control logic is built from
  (src/operation.cpp, src/db.cpp): the configuration, the record of the current entry, the
  messages shown and sent, the error table, and the questions asked of the databases.  The
  singletons of the C++ are one record \<open>lane\<close>; what the station does to the outside world is
  appended to \<open>out\<close>.  A step reads the clock, the sensors and the answers of the databases from
  an \<open>inputs\<close> record; the database servers, the display and the devices are outside the model.
  Waiting loops that only delay are left out.
\<close>

section \<open>Configuration, inputs and state\<close>

datatype lane_msg =
    Msg_LoopA | MsgBlackList | Msg_authorizedvehicle | Msg_LockStation | Msg_SeasonPassback
  | Msg_SeasonAsHourly | Msg_WithIU | Msg_CardReadingError | Msg_CardTaken | Msg_InsertCashcard
  | Msg_SeasonInvalid | Msg_ValidSeason | Msg_SeasonExpired | Msg_SeasonTerminated
  | Msg_SeasonBlocked | Msg_SeasonNotStart | Msg_ESeasonWithinAllowance | MsgExit_MasterSeason
  | Msg_WholeDayParking

text \<open>\<open>iLock\<close> and \<open>iNoPartial\<close> of the action taken when the car park is full.\<close>

datatype eFullAction = iNoAct | iallowseason | iNoPartial | iLock

datatype eUPOSStatus = UposInit | UposLogin | UposEnable | UposDisable | UposReadCardTimeout

record lane_cfg =
  sName :: string
  iSID :: int
  iZoneID :: int
  giEPS :: int
  giMaxTransInterval :: int
  giOperationTO :: int
  giFullAction :: eFullAction
  gscarparkcode :: string
  giCommPortAntenna :: int
  giCommPortLCSC :: int
  giCommPortKDEReader :: int
  giCommPortUPOS :: int
  gsDefaultIU :: string
  BlockIUPrefix :: string
  NotAllowHourly :: int
  LPRIP4Front :: string
  tMsg :: "lane_msg \<Rightarrow> string \<times> string"
  tVType :: "(int \<times> int) list"
  led_present :: bool

datatype DBError =
    iCentralFail | iLocalFail | iDBSuccess | iNoData | iCentralSuccess | iLocalSuccess

text \<open>What the database servers answer: \<open>None\<close> for a statement that failed, otherwise the rows.\<close>

record db_answers =
  blacklist_rows :: "string \<Rightarrow> string list option"
  sp_season :: "string \<Rightarrow> int \<times> int \<times> string \<times> string"
  local_season_rows :: "string \<Rightarrow> (string \<times> string \<times> int) list option"
  trans_type_rows :: "int \<Rightarrow> string list option"
  ezpay_rows :: "string \<Rightarrow> string list option"
  axs_rows :: "string \<Rightarrow> string list option"
  season_of_plate_rows :: "string \<Rightarrow> string list option"
  central_connected :: bool
  central_connects :: bool
  central_insert_ok :: bool
  local_connected :: bool
  local_connects :: bool
  local_insert_ok :: bool

text \<open>The steady clock counts nanoseconds.\<close>

definition one_second :: int where "one_second = 1000000000"

record inputs =
  now :: int
  date_text :: string
  date_digits :: string
  loopA_on :: bool
  loopB_on :: bool
  lorry_on :: bool
  db :: db_answers

record entry_trans =
  esid :: string
  sSerialNo :: string
  sIUTKNo :: string
  sEntryTime :: string
  iTransType :: int
  iRateType :: int
  iStatus :: int
  sCardNo :: string
  iCardType :: int
  sLPN0 :: string
  sLPN1 :: string
  iVehicleType :: int
  gbEntryOK :: bool
  VCC :: string

text \<open>A row of one of the two tables of entries, with the transaction id and the plate.\<close>

datatype entry_table = Central_Entry_Trans_tmp | Local_Entry_Trans

datatype eep_cmd =
    EEP_idle | GET_OBU_INFO_REQ_CMD | CARPARK_PROCESS_COMPLETE_NOTIFICATION_REQ_CMD
  | CPO_INFO_DISPLAY_REQ_CMD | DSRC_PROCESS_COMPLETE_NOTIFICATION_REQ_CMD

datatype eProcessStatus = NotDeducting | Doingdeduction

datatype lane_effect =
    ToServer string string | LedDisplay string | LcdDisplay string | LcdBacklight int
  | SetOpenBarrier int | SetCloseBarrier int
  | InsertEntry entry_table entry_trans string string | RemoteControl string string
  | SysEvent string
  | AntennaStopRead | AntennaSendReadIU | SendTransIDToLPR string bool
  | UpdateEntryPlate string string
  | LcscGetCardID | LcscStopRead | KsmEnable bool | KsmEjectToFront | KsmReadCardInfo
  | UptCardDetect | UptCancel | BarcodeStartRead | BarcodeStopRead
  | EepGetOBUInfo | EepGetOBUInfoStop | EepStopDistribution string
  | EepCarparkComplete string string string | EepDSRCComplete string
  | EepDisplay string int string string
  | LoopATimer bool

record pbs_error =
  ErrNo :: int
  ErrCode :: int
  ErrMsg :: string

record season =
  date_from :: string
  date_to :: string
  rate_type :: int

record lane =
  gbLoopApresent :: bool
  gbcarparkfull :: bool
  gbsavedtrans :: bool
  giShowType :: int
  giIsSeason :: int
  giCardIsIn :: int
  sEnableReader :: bool
  gbBarrierOpened :: bool
  giBarrierContinueOpened :: int
  fiLastEEPCmd :: eep_cmd
  gsTransID :: string
  gsTailgateOBU :: string
  gsLastIUNo :: string
  lastIUEntryTime :: int
  gbUPOSStatus :: eUPOSStatus
  giSystemOnline :: int
  glNoofOfflineData :: int
  lastActionTimeAfterLoopA :: int
  loopATimerArmed :: bool
  tEntry :: entry_trans
  tSeason :: season
  tPBSError :: "nat \<Rightarrow> pbs_error"
  exit_iTransType :: int
  exit_sIUNo :: string
  exit_giDeductionStatus :: eProcessStatus
  exit_bPayByAXS :: bool
  exit_bPayByEZPay :: bool
  sLastLEDMsg :: string
  sLastLCDMsg :: string
  manualOpenBarrierStatusFlag :: int
  out :: "lane_effect list"

definition emit :: "lane_effect \<Rightarrow> lane \<Rightarrow> lane" where
  "emit e s = s\<lparr>out := out s @ [e]\<rparr>"

definition on_entry :: "(entry_trans \<Rightarrow> entry_trans) \<Rightarrow> lane \<Rightarrow> lane" where
  "on_entry f s = s\<lparr>tEntry := f (tEntry s)\<rparr>"

section \<open>Messages\<close>

definition SendMsg2Server :: "string \<Rightarrow> string \<Rightarrow> lane \<Rightarrow> lane" where
  "SendMsg2Server cmdcode dstr s = emit (ToServer cmdcode dstr) s"

text \<open>A text is sent to a display only when it differs from the last one sent there.\<close>

definition ShowLEDMsg :: "lane_cfg \<Rightarrow> string \<times> string \<Rightarrow> lane \<Rightarrow> lane" where
  "ShowLEDMsg cfg m s =
     (let s1 = (if sLastLEDMsg s \<noteq> fst m \<and> led_present cfg
                then (emit (LedDisplay (fst m)) s)\<lparr>sLastLEDMsg := fst m\<rparr> else s)
      in if sLastLCDMsg s1 \<noteq> snd m
         then (emit (LcdDisplay (snd m)) s1)\<lparr>sLastLCDMsg := snd m\<rparr> else s1)"

abbreviation both :: "string \<Rightarrow> string \<times> string" where
  "both t \<equiv> (t, t)"

section \<open>The error table\<close>

definition Errsize :: nat where "Errsize = 17"

definition iAntenna :: nat where "iAntenna = 0"
definition iPrinter :: nat where "iPrinter = 1"
definition iDB :: nat where "iDB = 2"
definition iReader :: nat where "iReader = 3"
definition iUPOS :: nat where "iUPOS = 4"
definition iParam :: nat where "iParam = 5"
definition iLCSC :: nat where "iLCSC = 10"
definition iBarrierStatus :: nat where "iBarrierStatus = 16"

lemmas error_slots = iAntenna_def iPrinter_def iDB_def iReader_def iUPOS_def iParam_def
  iLCSC_def iBarrierStatus_def

datatype EPSError =
    AntennaNoError | AntennaError | PrinterNoError | PrinterError | PrinterNoPaper | DBNoError
  | DBFailed | DBUpdateFail | ReaderNoError | ReaderError | UPOSNoError | UPOSError
  | AntennaPowerOnOff | TariffError | TariffOk | HolidayError | HolidayOk | DIOError | DIOOk
  | LoopAHang | LoopAOk | LCSCNoError | LCSCError | SDoorError | SDoorNoError | BDoorError
  | BDoorNoError | BarrierStatus | ParamOk | ParamError

definition err :: "nat \<Rightarrow> lane \<Rightarrow> int" where
  "err i s = ErrNo (tPBSError s i)"

definition set_no :: "nat \<Rightarrow> int \<Rightarrow> lane \<Rightarrow> lane" where
  "set_no i n s = s\<lparr>tPBSError := (tPBSError s)(i := (tPBSError s i)\<lparr>ErrNo := n\<rparr>)\<rparr>"

definition set_code :: "nat \<Rightarrow> int \<Rightarrow> lane \<Rightarrow> lane" where
  "set_code i n s = s\<lparr>tPBSError := (tPBSError s)(i := (tPBSError s i)\<lparr>ErrCode := n\<rparr>)\<rparr>"

definition set_msg :: "nat \<Rightarrow> string \<Rightarrow> lane \<Rightarrow> lane" where
  "set_msg i m s = s\<lparr>tPBSError := (tPBSError s)(i := (tPBSError s i)\<lparr>ErrMsg := m\<rparr>)\<rparr>"

definition Sendmystatus :: "inputs \<Rightarrow> lane \<Rightarrow> lane" where
  "Sendmystatus inp s =
     SendMsg2Server ''00''
       (concat (map (\<lambda>i. dec_int (err i s) @ '','') [0..<Errsize])
          @ ''0;0,'' @ date_digits inp @ '','') s"

text \<open>The texts of the barrier states.\<close>

definition barrier_text :: "int \<Rightarrow> string" where
  "barrier_text c =
     (if c = 0 then ''Barrier Status: Closed''
      else if c = 1 then ''Barrier Status: Open''
      else if c = 2 then ''Barrier Status: Open Too Long''
      else if c = 3 then ''Barrier Status: Arm Drop Down''
      else if c = 4 then ''Barrier Status: Fail To Open''
      else if c = 5 then ''Barrier Status: Fail To Close''
      else ''Barrier Status: Unknown'')"

text \<open>One arm of the switch: the new state, the command and the text to report.\<close>

definition fault :: "nat \<Rightarrow> int \<Rightarrow> string \<Rightarrow> string \<Rightarrow> lane \<Rightarrow> lane \<times> string \<times> string" where
  "fault i n cmd m s = (set_msg i m (set_no i n s), cmd, m)"

definition recovered :: "nat \<Rightarrow> string \<Rightarrow> string \<Rightarrow> lane \<Rightarrow> lane \<times> string \<times> string" where
  "recovered i cmd m s =
     (set_no i 0 s, if err i s < 0 then cmd else [], if err i s < 0 then m else [])"

definition plain :: "nat \<Rightarrow> int \<Rightarrow> string \<Rightarrow> string \<Rightarrow> lane \<Rightarrow> lane \<times> string \<times> string" where
  "plain i n cmd m s = (set_no i n s, cmd, m)"

definition db_error :: "inputs \<Rightarrow> int \<Rightarrow> string \<Rightarrow> lane \<Rightarrow> lane \<times> string \<times> string" where
  "db_error inp n m s = (Sendmystatus inp (set_msg 2 m (set_no 2 n s)), ''201'', m)"

fun pbs_case :: "inputs \<Rightarrow> EPSError \<Rightarrow> int \<Rightarrow> lane \<Rightarrow> lane \<times> string \<times> string" where
  "pbs_case inp ParamOk c s = recovered iParam ''200'' ''Parameter OK'' s"
| "pbs_case inp ParamError c s = fault iParam (- 1) ''200'' ''Parameter Error'' s"
| "pbs_case inp AntennaNoError c s = recovered iAntenna ''03'' ''Antenna OK'' s"
| "pbs_case inp AntennaError c s =
     (let m = ''Antenna Error: '' @ dec_int c in
      (set_msg iAntenna m (set_code iAntenna c (set_no iAntenna (- 1) s)), ''03'', m))"
| "pbs_case inp AntennaPowerOnOff c s =
     (if c = 1
      then (set_msg iAntenna ''Antenna: Power ON'' (set_code iAntenna 1 (set_no iAntenna 0 s)),
            ''03'', ''Antenna: Power ON'')
      else (set_msg iAntenna ''Antenna Error: Power OFF''
              (set_code iAntenna 0 (set_no iAntenna (- 2) s)),
            ''03'', ''Antenna Error: Power OFF''))"
| "pbs_case inp PrinterNoError c s = recovered 1 ''04'' ''Printer OK'' s"
| "pbs_case inp PrinterError c s = fault 1 (- 1) ''04'' ''Printer Error'' s"
| "pbs_case inp PrinterNoPaper c s = fault 1 (- 2) ''04'' ''Printer Paper Low'' s"
| "pbs_case inp DBNoError c s = db_error inp 0 ''DB OK'' s"
| "pbs_case inp DBFailed c s = db_error inp (- 1) ''DB Error'' s"
| "pbs_case inp DBUpdateFail c s = db_error inp (- 2) ''DB Update Error'' s"
| "pbs_case inp UPOSNoError c s = recovered 4 ''06'' ''UPOS OK'' s"
| "pbs_case inp UPOSError c s = fault 4 (- 1) ''06'' ''UPOS Error'' s"
| "pbs_case inp TariffError c s = plain 5 (- 1) ''08'' ''5Tariff Error'' s"
| "pbs_case inp TariffOk c s = plain 5 0 ''08'' ''5Tariff OK'' s"
| "pbs_case inp HolidayError c s = plain 5 (- 2) ''08'' ''5No Holiday Set'' s"
| "pbs_case inp HolidayOk c s = plain 5 0 ''08'' ''5Holiday OK'' s"
| "pbs_case inp DIOError c s = plain 6 (- 1) ''08'' ''6DIO Error'' s"
| "pbs_case inp DIOOk c s = plain 6 0 ''08'' ''6DIO OK'' s"
| "pbs_case inp LoopAHang c s = plain 7 (- 1) ''08'' ''7Loop A Hang'' s"
| "pbs_case inp LoopAOk c s = plain 7 0 ''08'' ''7Loop A OK'' s"
| "pbs_case inp LCSCNoError c s = recovered 10 ''70'' ''LCSC OK'' s"
| "pbs_case inp LCSCError c s = fault 10 (- 1) ''70'' ''LCSC Error'' s"
| "pbs_case inp SDoorError c s = fault 11 (- 1) ''71'' ''Station door open'' s"
| "pbs_case inp SDoorNoError c s = plain 11 0 ''71'' ''Station door close'' s"
| "pbs_case inp BDoorError c s = fault 12 (- 1) ''72'' ''barrier door open'' s"
| "pbs_case inp BDoorNoError c s = fault 12 0 ''72'' ''barrier door close'' s"
| "pbs_case inp ReaderNoError c s = (set_msg iReader ''Card Reader OK'' (set_no iReader 0 s), ''05'', [])"
| "pbs_case inp ReaderError c s =
     (set_msg iReader ''Card Reader Error'' (set_no iReader (- 1) s), ''05'', [])"
| "pbs_case inp BarrierStatus c s =
     (let s1 = set_msg iBarrierStatus (barrier_text c) (set_no iBarrierStatus c s);
          s2 = (if c = 3 then SendMsg2Server ''90'' '',,,,,barrierarmdrop'' s1 else s1)
      in (s2, ''08'', ''9'' @ barrier_text c))"

definition HandlePBSError :: "inputs \<Rightarrow> EPSError \<Rightarrow> int \<Rightarrow> lane \<Rightarrow> lane" where
  "HandlePBSError inp iEPSErr iErrCode s =
     (case pbs_case inp iEPSErr iErrCode s of
        (s1, sCmd, sErrMsg) \<Rightarrow>
          if sErrMsg \<noteq> [] then Sendmystatus inp (SendMsg2Server sCmd sErrMsg s1) else s1)"

section \<open>Questions to the databases\<close>

text \<open>-1 when the statement fails or the number is in no row, or the row's type is no number.\<close>

definition IsBlackListIU :: "inputs \<Rightarrow> string \<Rightarrow> int" where
  "IsBlackListIU inp iuNo =
     (case blacklist_rows (db inp) iuNo of
        None \<Rightarrow> - 1
      | Some [] \<Rightarrow> - 1
      | Some (r # rs) \<Rightarrow> (case stoi_opt 10 r of None \<Rightarrow> - 1 | Some v \<Rightarrow> v))"

definition FnGetVehicleType :: "lane_cfg \<Rightarrow> string \<Rightarrow> int" where
  "FnGetVehicleType cfg iuCode =
     (case stoi_opt 10 iuCode of
        None \<Rightarrow> 1
      | Some v \<Rightarrow> (case map_of (tVType cfg) v of None \<Rightarrow> 1 | Some t \<Rightarrow> t))"

text \<open>The local table knows the season or not; the central procedure answers -1 when it cannot be
  asked, and then the local table decides.\<close>

definition local_isvalidseason :: "inputs \<Rightarrow> string \<Rightarrow> lane \<Rightarrow> DBError \<times> lane" where
  "local_isvalidseason inp seasonNo s =
     (case local_season_rows (db inp) seasonNo of
        None \<Rightarrow> (iLocalFail, s)
      | Some [] \<Rightarrow> (iNoData, s)
      | Some ((from, to, rate) # rs) \<Rightarrow>
          (iDBSuccess,
           s\<lparr>tSeason := (tSeason s)\<lparr>date_from := from, date_to := to, rate_type := rate\<rparr>\<rparr>))"

definition isvalidseason :: "inputs \<Rightarrow> string \<Rightarrow> lane \<Rightarrow> int \<times> lane" where
  "isvalidseason inp seasonNo s =
     (case sp_season (db inp) seasonNo of
        (retCode, rateType, validFrom, validTo) \<Rightarrow>
          if retCode \<noteq> - 1 then
            (retCode,
             if retCode \<noteq> 8
             then s\<lparr>tSeason := \<lparr>date_from = validFrom, date_to = validTo, rate_type = rateType\<rparr>\<rparr>
             else s)
          else
            (case local_isvalidseason inp seasonNo s of
               (localRet, s1) \<Rightarrow> (if localRet = iDBSuccess then 1 else 8, s1)))"

definition GetPartialSeasonMsg :: "inputs \<Rightarrow> int \<Rightarrow> string" where
  "GetPartialSeasonMsg inp t =
     (case trans_type_rows (db inp) t of Some (r # rs) \<Rightarrow> r | _ \<Rightarrow> [])"

definition rows_found :: "string list option \<Rightarrow> int" where
  "rows_found r = (case r of None \<Rightarrow> - 1 | Some rows \<Rightarrow> if rows = [] then 0 else 1)"

definition HasEZpay :: "inputs \<Rightarrow> string \<Rightarrow> int" where
  "HasEZpay inp iuNo = rows_found (ezpay_rows (db inp) iuNo)"

definition HasAXS :: "inputs \<Rightarrow> string \<Rightarrow> int" where
  "HasAXS inp iuNo = rows_found (axs_rows (db inp) iuNo)"

text \<open>At an entry station only the season table is asked for the number of a plate.\<close>

definition GetIUByLPN :: "inputs \<Rightarrow> string \<Rightarrow> string" where
  "GetIUByLPN inp lpn =
     (case season_of_plate_rows (db inp) lpn of Some (r # rs) \<Rightarrow> r | _ \<Rightarrow> [])"

text \<open>The plate stored with an entry: motorcycles are taken by the rear camera.\<close>

definition entry_plate :: "entry_trans \<Rightarrow> string" where
  "entry_plate e =
     (if sLPN0 e \<noteq> [] \<or> sLPN1 e \<noteq> [] then
        (if iTransType e = 7 \<or> iTransType e = 8 \<or> iTransType e = 22 then sLPN1 e else sLPN0 e)
      else [])"

text \<open>Storing an entry: in the central database when it can be reached, otherwise in the local
  one.\<close>

definition insertentrytrans :: "inputs \<Rightarrow> lane \<Rightarrow> DBError \<times> lane" where
  "insertentrytrans inp s =
     (let e0 = tEntry s;
          e = e0\<lparr>sEntryTime := date_text inp,
                 sSerialNo := (if stoi_opt 10 (sSerialNo e0) = None then ''0'' else sSerialNo e0)\<rparr>;
          s1 = s\<lparr>tEntry := e\<rparr>;
          row = (\<lambda>table. InsertEntry table e (gsTransID s) (entry_plate e))
      in if central_connected (db inp) \<or> central_connects (db inp) then
           (let s2 = s1\<lparr>giSystemOnline := 0\<rparr> in
            if central_insert_ok (db inp)
            then (iDBSuccess, emit (row Central_Entry_Trans_tmp) s2) else (iCentralFail, s2))
         else
           (let s2 = s1\<lparr>giSystemOnline := 1\<rparr> in
            if \<not> (local_connected (db inp) \<or> local_connects (db inp)) then (iLocalFail, s2)
            else if local_insert_ok (db inp)
            then (iDBSuccess, (emit (row Local_Entry_Trans) s2)
                    \<lparr>glNoofOfflineData := glNoofOfflineData s2 + 1\<rparr>)
            else (iLocalFail, s2)))"

end
