(* ===== verification/Season_Type.thy ===== *)
theory Season_Type
  imports Pbs_Prelude "HOL-Library.Sublist"
begin

text \<open>
  Functions on seasons and strings that the entry and the exit share: the transaction type of a
  season (src/operation.cpp, \<open>GetSeasonTransType\<close>) and the searches in strings its messages use.
\<close>

definition GetSeasonTransType :: "int \<Rightarrow> int \<Rightarrow> int \<Rightarrow> int" where
  "GetSeasonTransType v season t =
     (if season = 3 then if v = 0 then 50 else if v = 1 then 51 else if v = 2 then 52 else t + 1
      else if season = 4 then if v = 0 then 53 else if v = 1 then 54 else if v = 2 then 55 else t + 1
      else if season = 5 then if v = 0 then 56 else if v = 1 then 57 else if v = 2 then 58 else t + 1
      else if season = 6 then if v = 0 then 59 else if v = 1 then 60 else if v = 2 then 61 else t + 1
      else if season = 7 then
        if v = 0 \<or> v = 14 then 62 else if v = 1 then 63 else if v = 2 then 64 else t + 1
      else if season = 8 then if v = 0 then 65 else if v = 1 then 66 else if v = 2 then 67 else t + 1
      else if season = 9 then if v = 0 then 68 else if v = 1 then 69 else if v = 2 then 70 else t + 1
      else if season = 10 then if v = 0 then 71 else if v = 1 then 72 else if v = 2 then 73 else t + 1
      else if season = 11 then if v = 0 then 74 else if v = 1 then 75 else if v = 2 then 76 else t + 1
      else if season = 12 then if v = 0 then 77 else if v = 1 then 78 else if v = 2 then 79 else t + 1
      else if season = 13 then if v = 0 then 80 else if v = 1 then 81 else if v = 2 then 82 else t + 1
      else if season = 14 then if v = 0 then 83 else if v = 1 then 84 else if v = 2 then 85 else t + 1
      else if season = 15 then if v = 0 then 86 else if v = 1 then 87 else if v = 2 then 88 else t + 1
      else if season = 16 then if v = 0 then 89 else if v = 1 then 90 else if v = 2 then 91 else t + 1
      else if season = 17 then if v = 0 then 92 else if v = 1 then 93 else if v = 2 then 94 else t + 1
      else if season = 18 then if v = 0 then 95 else if v = 1 then 96 else if v = 2 then 97 else t + 1
      else if t = 9 then 9
      else t + 1)"

text \<open>\<open>std::string::find\<close> and the replacement of the first occurrence.\<close>

fun replace_first :: "string \<Rightarrow> string \<Rightarrow> string \<Rightarrow> string" where
  "replace_first pat new [] = (if pat = [] then new else [])"
| "replace_first pat new (c # cs) =
     (if prefix pat (c # cs) then new @ drop (length pat) (c # cs)
      else c # replace_first pat new cs)"

fun contains_str :: "string \<Rightarrow> string \<Rightarrow> bool" where
  "contains_str [] pat = (pat = [])"
| "contains_str (c # cs) pat = (prefix pat (c # cs) \<or> contains_str cs pat)"

end
