(* ===== verification/Lane_Entry.thy ===== *)
theory Lane_Entry
  imports Lane_State Season_Type "HOL-Library.Sublist" "HOL-Library.Signed_Division"
begin

text \<open>
  The control logic of an entry station (src/operation.cpp): what happens when a vehicle stands on
  loop A, is identified by antenna, on-board unit, card or plate, and drives over loop C.  The
  definitions are the branches the C++ takes at a station of type entry.
\<close>

section \<open>Seasons\<close>

text \<open>The message of a season answer, before the name of the season is put in.\<close>

definition season_msg :: "lane_cfg \<Rightarrow> int \<Rightarrow> string \<times> string" where
  "season_msg cfg r =
     (if r = 0 then tMsg cfg Msg_SeasonInvalid
      else if r = 1 then tMsg cfg Msg_ValidSeason
      else if r = 2 then tMsg cfg Msg_SeasonExpired
      else if r = 3 then tMsg cfg Msg_SeasonTerminated
      else if r = 4 then tMsg cfg Msg_SeasonBlocked
      else if r = 5 then tMsg cfg Msg_SeasonInvalid
      else if r = 6 then tMsg cfg Msg_SeasonPassback
      else if r = 7 then tMsg cfg Msg_SeasonNotStart
      else if r = 8 then both ''Wrong Season Type''
      else if r = 9 then both ''Complimentary''
      else if r = 10 then tMsg cfg Msg_SeasonAsHourly
      else if r = 11 then tMsg cfg Msg_ESeasonWithinAllowance
      else if r = 12 then tMsg cfg MsgExit_MasterSeason
      else if r = 13 then tMsg cfg Msg_WholeDayParking
      else both [])"

definition FormatSeasonMsg :: "lane_cfg \<Rightarrow> inputs \<Rightarrow> int \<Rightarrow> lane \<Rightarrow> lane" where
  "FormatSeasonMsg cfg inp iReturn s =
     (let rate = rate_type (tSeason s);
          t = GetSeasonTransType (iVehicleType (tEntry s)) rate (iTransType (tEntry s));
          s1 = (on_entry (\<lambda>e. e\<lparr>iTransType := t\<rparr>) s)\<lparr>giShowType := 0\<rparr>;
          p = (if t > 49 then GetPartialSeasonMsg inp t else []);
          name = (if p = [] then ''Season'' else p);
          m = season_msg cfg iReturn;
          m1 = (replace_first ''Season'' name (fst m), replace_first ''Season'' name (snd m))
      in ShowLEDMsg cfg (if iReturn = 1 \<and> rate \<noteq> 0 then (name, name) else m1) s1)"

definition CheckSeason :: "lane_cfg \<Rightarrow> inputs \<Rightarrow> string \<Rightarrow> lane \<Rightarrow> int \<times> lane" where
  "CheckSeason cfg inp sIU s =
     (case isvalidseason inp sIU s of
        (iRet, s1) \<Rightarrow> (iRet, if iRet \<noteq> 8 then FormatSeasonMsg cfg inp iRet s1 else s1))"

section \<open>Clearing the station, the timer of loop A, the on-board unit\<close>

definition entry_cleared :: "int \<Rightarrow> entry_trans" where
  "entry_cleared sid =
     \<lparr>esid = dec_int sid, sSerialNo = [], sIUTKNo = [], sEntryTime = [], iTransType = 1,
      iRateType = 0, iStatus = 0, sCardNo = [], iCardType = 0, sLPN0 = [], sLPN1 = [],
      iVehicleType = 0, gbEntryOK = False, VCC = []\<rparr>"

definition Clearme :: "lane_cfg \<Rightarrow> lane \<Rightarrow> lane" where
  "Clearme cfg s =
     s\<lparr>giShowType := 1, giIsSeason := 0, giCardIsIn := 0, gbsavedtrans := False,
       sEnableReader := False, gbBarrierOpened := False, fiLastEEPCmd := EEP_idle,
       gsTransID := [], tEntry := entry_cleared (iSID cfg)\<rparr>"

definition startLoopAPeriodicTimer :: "lane \<Rightarrow> lane" where
  "startLoopAPeriodicTimer s = emit (LoopATimer True) (s\<lparr>loopATimerArmed := True\<rparr>)"

definition stopLoopAPeriodicTimer :: "lane \<Rightarrow> lane" where
  "stopLoopAPeriodicTimer s = emit (LoopATimer False) (s\<lparr>loopATimerArmed := False\<rparr>)"

definition setLastActionTimeAfterLoopA :: "inputs \<Rightarrow> lane \<Rightarrow> lane" where
  "setLastActionTimeAfterLoopA inp s = s\<lparr>lastActionTimeAfterLoopA := now inp\<rparr>"

definition EEPInq :: "lane \<Rightarrow> lane" where
  "EEPInq s =
     (if \<not> gbLoopApresent s then s
      else if exit_giDeductionStatus s = Doingdeduction then s
      else if fiLastEEPCmd s = GET_OBU_INFO_REQ_CMD then s
      else (emit EepGetOBUInfo s)\<lparr>fiLastEEPCmd := GET_OBU_INFO_REQ_CMD\<rparr>)"

definition SendMsg2OBU :: "string \<Rightarrow> int \<Rightarrow> string \<Rightarrow> string \<Rightarrow> lane \<Rightarrow> lane" where
  "SendMsg2OBU OBU DType line1 line2 s =
     (emit (EepDisplay OBU DType line1 line2) s)\<lparr>fiLastEEPCmd := CPO_INFO_DISPLAY_REQ_CMD\<rparr>"

definition EndEEPprocess :: "lane_cfg \<Rightarrow> int \<Rightarrow> lane \<Rightarrow> lane" where
  "EndEEPprocess cfg ProcessingResult s =
     (let gsIUNo = sIUTKNo (tEntry s);
          s1 = emit (EepCarparkComplete gsIUNo (dec_int ProcessingResult) ''00'')
                 (s\<lparr>fiLastEEPCmd := CARPARK_PROCESS_COMPLETE_NOTIFICATION_REQ_CMD\<rparr>);
          s2 = SendMsg2OBU gsIUNo 0 ''Welcome To EEP'' [] s1;
          s3 = emit (EepDSRCComplete gsIUNo)
                 (s2\<lparr>fiLastEEPCmd := DSRC_PROCESS_COMPLETE_NOTIFICATION_REQ_CMD\<rparr>)
      in if gsTailgateOBU s3 \<noteq> [] then EEPInq (Clearme cfg s3) else s3)"

section \<open>The barrier\<close>

definition Openbarrier :: "lane_cfg \<Rightarrow> int \<Rightarrow> lane \<Rightarrow> lane" where
  "Openbarrier cfg iReason s =
     (let s1 = stopLoopAPeriodicTimer s in
      if giCardIsIn s1 = 1 then ShowLEDMsg cfg (''Please Take^CashCard.'', ''Please Take^Cashcard.'') s1
      else if giBarrierContinueOpened s1 = 1 then s1
      else
        (let s2 = emit (SetOpenBarrier 0)
                    (emit (SetOpenBarrier 1) (s1\<lparr>gbBarrierOpened := True\<rparr>))
         in if giEPS cfg = 3 then EndEEPprocess cfg iReason s2 else s2))"

definition closeBarrier :: "lane \<Rightarrow> lane" where
  "closeBarrier s =
     (emit (SetCloseBarrier 0) (emit (SetCloseBarrier 1) (emit (SetOpenBarrier 0) s)))
       \<lparr>giBarrierContinueOpened := 0\<rparr>"

definition continueOpenBarrier :: "lane \<Rightarrow> lane" where
  "continueOpenBarrier s = (emit (SetOpenBarrier 1) s)\<lparr>giBarrierContinueOpened := 1\<rparr>"

section \<open>Recording an entry\<close>

definition SaveEntry :: "inputs \<Rightarrow> lane \<Rightarrow> lane" where
  "SaveEntry inp s =
     (if sIUTKNo (tEntry s) = [] then s
      else
        (case insertentrytrans inp s of
           (iRet, s1) \<Rightarrow>
             (let s2 = (if iRet = iDBSuccess
                        then s1\<lparr>gsLastIUNo := sIUTKNo (tEntry s1), lastIUEntryTime := now inp\<rparr>
                        else s1);
                  s3 = set_no iDB (if iRet = iDBSuccess then 0
                                   else if iRet = iCentralFail then - 1 else - 2) s2;
                  e = tEntry s3;
                  txt = (if iRet = iDBSuccess then ''Entry OK''
                         else if iRet = iCentralFail then ''Entry Central Failed''
                         else ''Entry Local Failed'');
                  s4 = (if iStatus e = 0
                        then SendMsg2Server ''90''
                          (sIUTKNo e @ '',,,'' @ entry_plate e @ '','' @ dec_int (giShowType s3)
                             @ '','' @ txt) s3
                        else s3)
              in s4\<lparr>gbsavedtrans := True\<rparr>)))"

definition GetVTypeFromLoop :: "inputs \<Rightarrow> int" where
  "GetVTypeFromLoop inp = (if lorry_on inp then 4 else if loopB_on inp \<and> loopA_on inp then 1 else 7)"

section \<open>The decision on an entry\<close>

text \<open>The type of a vehicle from its number, or from the loops for a card.  With an on-board unit
  the code stores the type in the exit transaction.\<close>

definition classify :: "lane_cfg \<Rightarrow> inputs \<Rightarrow> string \<Rightarrow> lane \<Rightarrow> lane" where
  "classify cfg inp sIU s =
     (if length sIU = 10 then
        (if giEPS cfg = 3 \<and> VCC (tEntry s) \<noteq> []
         then s\<lparr>exit_iTransType := FnGetVehicleType cfg (take 3 (VCC (tEntry s)))\<rparr>
         else on_entry (\<lambda>e. e\<lparr>iTransType := FnGetVehicleType cfg (take 3 sIU)\<rparr>) s)
      else on_entry (\<lambda>e. e\<lparr>iTransType := GetVTypeFromLoop inp\<rparr>) s)"

definition obu_note :: "lane_cfg \<Rightarrow> string \<Rightarrow> string \<Rightarrow> lane \<Rightarrow> lane" where
  "obu_note cfg line1 line2 s =
     (if giEPS cfg = 3 then SendMsg2OBU (exit_sIUNo s) 0 line1 line2 s else s)"

definition greet_hourly :: "lane_cfg \<Rightarrow> inputs \<Rightarrow> string \<Rightarrow> lane \<Rightarrow> lane" where
  "greet_hourly cfg inp sIU s =
     (let s1 =
        (if giEPS cfg \<noteq> 3 then
           (if HasEZpay inp sIU = 1
            then ShowLEDMsg cfg (both ''EZ-Link Motoring^Service Nember'') s
            else if HasAXS inp sIU = 1
            then ShowLEDMsg cfg (both ''AXS Drive Member^Please Proceed'') s
            else ShowLEDMsg cfg (tMsg cfg Msg_WithIU) s)
         else s)
      in (on_entry (\<lambda>e. e\<lparr>iTransType := 1\<rparr>) (ShowLEDMsg cfg (tMsg cfg Msg_WithIU) s1))
           \<lparr>giShowType := 1\<rparr>)"

text \<open>The part of \<open>PBSEntry\<close> after the season has been looked up.\<close>

definition admit :: "lane_cfg \<Rightarrow> inputs \<Rightarrow> string \<Rightarrow> int \<Rightarrow> lane \<Rightarrow> lane" where
  "admit cfg inp sIU iRet s =
     (let s1 = (if iRet = 1 \<or> iRet = 4 \<or> iRet = 6 then s\<lparr>giShowType := 0\<rparr> else s);
          s2 = (if iRet = 10
                then (ShowLEDMsg cfg (tMsg cfg Msg_SeasonAsHourly) s1)\<lparr>giShowType := 2\<rparr> else s1);
          s3 = (if iRet \<noteq> 1 then greet_hourly cfg inp sIU s2 else s2);
          s4 = on_entry (\<lambda>e. e\<lparr>gbEntryOK := True\<rparr>) (SaveEntry inp s3)
      in Openbarrier cfg 0 s4)"

definition after_season :: "lane_cfg \<Rightarrow> inputs \<Rightarrow> string \<Rightarrow> int \<Rightarrow> lane \<Rightarrow> lane" where
  "after_season cfg inp sIU iRet s =
     (if iRet \<noteq> 1 \<and> NotAllowHourly cfg = 1 then
        obu_note cfg ''Season'' ''Parking Only'' (ShowLEDMsg cfg (both ''Season Parking Only'') s)
      else if gbcarparkfull s \<and> iRet = 1 \<and> rate_type (tSeason s) \<noteq> 0 \<and> giFullAction cfg = iNoPartial then
        obu_note cfg ''Car Park Full'' [] (ShowLEDMsg cfg (both ''Carpark Full!^VIP Season Only'') s)
      else if gbcarparkfull s \<and> iRet \<noteq> 1 then
        obu_note cfg ''Car Park Full'' [] (ShowLEDMsg cfg (both ''Carpark Full!^Season only'') s)
      else if iRet = 6 \<and> length sIU > 10 then
        ShowLEDMsg cfg (tMsg cfg Msg_SeasonPassback)
          (SendMsg2Server ''90'' (sIU @ '',,,,,Season Passback'') s)
      else admit cfg inp sIU iRet s)"

definition PBSEntry :: "lane_cfg \<Rightarrow> inputs \<Rightarrow> string \<Rightarrow> lane \<Rightarrow> lane" where
  "PBSEntry cfg inp sIU s =
     (let s1 = on_entry (\<lambda>e. e\<lparr>sIUTKNo := sIU, sEntryTime := date_text inp\<rparr>) s in
      if sIU = [] then s1
      else
        let s2 = SendMsg2Server ''90''
                   ('','' @ sIU @ '',,'' @ sLPN0 (tEntry s1) @ '',,PMS_DVR'') s1;
            black = IsBlackListIU inp sIU;
            s3 = (if black \<ge> 0
                  then SendMsg2Server ''90'' (sIU @ '',,,,,Blacklist IU'')
                         (ShowLEDMsg cfg (tMsg cfg MsgBlackList) s2)
                  else s2)
        in if black = 0 then s3
           else if contains_str (BlockIUPrefix cfg) (take 3 sIU) \<and> length sIU = 10 then
             SendMsg2Server ''90'' (sIU @ '',,,,,Block IU'')
               (ShowLEDMsg cfg (both ''Lorry No Entry^Pls Reverse'') s3)
           else
             let s4 = classify cfg inp sIU s3 in
             if iTransType (tEntry s4) = 9 then
               Openbarrier cfg 0
                 (SaveEntry inp
                   (on_entry (\<lambda>e. e\<lparr>iStatus := 0\<rparr>)
                     (ShowLEDMsg cfg (tMsg cfg Msg_authorizedvehicle) s4)))
             else if gbcarparkfull s4 \<and> giFullAction cfg = iLock then
               ShowLEDMsg cfg (tMsg cfg Msg_LockStation) s4
             else
               (case CheckSeason cfg inp sIU
                       (on_entry (\<lambda>e. e\<lparr>iVehicleType := (iTransType e - 1) sdiv 3\<rparr>) s4) of
                  (iRet, s5) \<Rightarrow> after_season cfg inp sIU iRet s5))"

end
