(* ===== verification/Lane_Station.thy ===== *)
theory Lane_Station
  imports Lane_Entry
begin

text \<open>
  The events of an entry station (src/operation.cpp): enabling the card readers, the arrival of a
  number, loops A and C, the barrier inputs, the answers of the card readers, the plate camera and
  the commands of the operator.  \<open>EnableCashcard\<close> and \<open>VehicleCome\<close> call each other; \<open>fuel\<close> bounds
  the depth of these calls and five is always enough (\<open>Lane_Correct\<close>).
\<close>

section \<open>The card readers\<close>

definition EnableLCSC :: "lane_cfg \<Rightarrow> bool \<Rightarrow> lane \<Rightarrow> lane" where
  "EnableLCSC cfg bEnable s =
     (if giCommPortLCSC cfg = 0 then s
      else if err iLCSC s \<noteq> 0 then s
      else emit (if bEnable then LcscGetCardID else LcscStopRead) s)"

definition EnableKDE :: "lane_cfg \<Rightarrow> bool \<Rightarrow> lane \<Rightarrow> lane" where
  "EnableKDE cfg bEnable s =
     (if giCommPortKDEReader cfg = 0 then s
      else if err iReader s \<noteq> 0 then s
      else if \<not> bEnable \<and> giCardIsIn s = 1 then emit KsmEjectToFront s
      else emit (KsmEnable bEnable) s)"

definition EnableUPOS :: "lane_cfg \<Rightarrow> bool \<Rightarrow> lane \<Rightarrow> lane" where
  "EnableUPOS cfg bEnable s =
     (if giCommPortUPOS cfg = 0 then s
      else if gbUPOSStatus s = UposInit then s
      else if bEnable then
        (if gbUPOSStatus s = UposEnable then s
         else (emit UptCardDetect s)\<lparr>gbUPOSStatus := UposEnable\<rparr>)
      else if gbUPOSStatus s = UposDisable then s
      else (emit UptCancel s)\<lparr>gbUPOSStatus := UposDisable\<rparr>)"

definition switch_readers :: "lane_cfg \<Rightarrow> bool \<Rightarrow> lane \<Rightarrow> lane" where
  "switch_readers cfg bEnable s =
     emit (if bEnable then BarcodeStartRead else BarcodeStopRead)
       (if \<not> exit_bPayByAXS s \<and> \<not> exit_bPayByEZPay s
        then EnableUPOS cfg bEnable (EnableKDE cfg bEnable (EnableLCSC cfg bEnable s)) else s)"

text \<open>The number of the season whose plate the camera has read, when there is one of full
  length.\<close>

definition plate_iu :: "inputs \<Rightarrow> lane \<Rightarrow> string" where
  "plate_iu inp s =
     (let sLPN = sLPN0 (tEntry s);
          sIU = (if sLPN \<noteq> [] \<and> sLPN \<noteq> ''0000000000'' then GetIUByLPN inp sLPN else [])
      in if gsTransID s \<noteq> [] \<and> length sIU = 10 then sIU else [])"

section \<open>A vehicle is identified\<close>

text \<open>The part of \<open>VehicleCome\<close> after the readers have been stopped.\<close>

definition same_as_last :: "lane_cfg \<Rightarrow> inputs \<Rightarrow> string \<Rightarrow> lane \<Rightarrow> bool" where
  "same_as_last cfg inp sNo s \<longleftrightarrow>
     length sNo = 10 \<and> gsLastIUNo s = sNo \<and>
     (now inp - lastIUEntryTime s) sdiv one_second \<le> giMaxTransInterval cfg"

definition identified :: "lane_cfg \<Rightarrow> inputs \<Rightarrow> string \<Rightarrow> lane \<Rightarrow> lane" where
  "identified cfg inp sNo s =
     (if same_as_last cfg inp sNo s
      then Openbarrier cfg 2 (ShowLEDMsg cfg (both ''Same as last OBU^Please Proceed'') s)
      else if \<not> gbEntryOK (tEntry s) then PBSEntry cfg inp sNo s
      else s)"

fun EnableCashcard :: "nat \<Rightarrow> lane_cfg \<Rightarrow> inputs \<Rightarrow> bool \<Rightarrow> lane \<Rightarrow> lane option"
  and VehicleCome :: "nat \<Rightarrow> lane_cfg \<Rightarrow> inputs \<Rightarrow> string \<Rightarrow> lane \<Rightarrow> lane option" where
  "EnableCashcard 0 cfg inp bEnable s = None"
| "VehicleCome 0 cfg inp sNo s = None"
| "EnableCashcard (Suc fuel) cfg inp bEnable s =
     (if bEnable = sEnableReader s then Some s
      else
        let s1 = s\<lparr>sEnableReader := bEnable\<rparr>; sIU = plate_iu inp s1 in
        if sIU \<noteq> [] then VehicleCome fuel cfg inp sIU s1
        else Some (switch_readers cfg bEnable s1))"
| "VehicleCome (Suc fuel) cfg inp sNo s =
     (if sNo = [] then Some s
      else
        let isIU = (length sNo = 10);
            s1 = (if isIU then s else emit AntennaStopRead s)
        in if isIU \<and> sNo = gsDefaultIU cfg
           then Some (SendMsg2Server ''90'' (sNo @ '',,,,,Default IU'') s1)
           else if isIU then map_option (identified cfg inp sNo) (EnableCashcard fuel cfg inp False s1)
           else Some (identified cfg inp sNo s1))"

definition call_depth :: nat where "call_depth = 5"

abbreviation cashcard :: "lane_cfg \<Rightarrow> inputs \<Rightarrow> bool \<Rightarrow> lane \<Rightarrow> lane option" where
  "cashcard \<equiv> EnableCashcard call_depth"

abbreviation vehicle :: "lane_cfg \<Rightarrow> inputs \<Rightarrow> string \<Rightarrow> lane \<Rightarrow> lane option" where
  "vehicle \<equiv> VehicleCome call_depth"

section \<open>The loops\<close>

definition AntennaOK :: "lane_cfg \<Rightarrow> lane \<Rightarrow> bool" where
  "AntennaOK cfg s =
     (if giEPS cfg = 0 \<or> giEPS cfg = 3 then False
      else if giCommPortAntenna cfg = 0 then False
      else if err iAntenna s = 0 then True
      else True)"

definition LoopACome :: "lane_cfg \<Rightarrow> inputs \<Rightarrow> lane \<Rightarrow> lane option" where
  "LoopACome cfg inp s =
     (let s1 = setLastActionTimeAfterLoopA inp (startLoopAPeriodicTimer s);
          s2 = emit (LcdBacklight 1)
                 ((Clearme cfg (ShowLEDMsg cfg (tMsg cfg Msg_LoopA) s1))\<lparr>gsTailgateOBU := []\<rparr>);
          transID = gscarparkcode cfg @ ''-'' @ dec_int (iSID cfg) @ ''-'' @ date_digits inp;
          s3 = emit (SendTransIDToLPR transID (LPRIP4Front cfg \<noteq> ''1.1.1.1''))
                 (s2\<lparr>gsTransID := transID\<rparr>)
      in if giEPS cfg = 3 then
           Some (ShowLEDMsg cfg (both ''Reading OBU...^Please wait'') (EEPInq s3))
         else if giEPS cfg = 0 then
           map_option (ShowLEDMsg cfg (both ''Insert/Tap Card'')) (cashcard cfg inp True s3)
         else if AntennaOK cfg s3 then
           Some (ShowLEDMsg cfg (both ''Reading IU...^Please wait'') (emit AntennaSendReadIU s3))
         else
           map_option (ShowLEDMsg cfg (both ''Antenna Error!^Insert/Tap Card''))
             (cashcard cfg inp True s3))"

definition LoopAGone :: "lane_cfg \<Rightarrow> inputs \<Rightarrow> lane \<Rightarrow> lane option" where
  "LoopAGone cfg inp s =
     (let s1 = emit (LcdBacklight 0) (stopLoopAPeriodicTimer s);
          s2 = (if sIUTKNo (tEntry s1) = [] then emit AntennaStopRead s1 else s1)
      in map_option (\<lambda>s3. if giEPS cfg = 3 then emit EepGetOBUInfoStop s3 else s3)
           (cashcard cfg inp False s2))"

definition LoopCGone :: "lane_cfg \<Rightarrow> inputs \<Rightarrow> lane \<Rightarrow> lane option" where
  "LoopCGone cfg inp s =
     (if \<not> gbsavedtrans s \<and> gbLoopApresent s then Some s
      else
        let s1 = Clearme cfg s in
        if gbLoopApresent s1 then
          LoopACome cfg inp
            (if giEPS cfg = 3 then emit (EepStopDistribution (gsLastIUNo s1)) s1 else s1)
        else Some s1)"

definition loopATimeoutHandler :: "lane_cfg \<Rightarrow> inputs \<Rightarrow> lane \<Rightarrow> lane option" where
  "loopATimeoutHandler cfg inp s =
     (case cashcard cfg inp False (emit AntennaStopRead s) of
        None \<Rightarrow> None
      | Some s1 \<Rightarrow> if gbLoopApresent s1 then LoopACome cfg inp s1 else Some s1)"

text \<open>One expiry of the timer, which runs every second while it is armed.\<close>

definition handleLoopAPeriodicTimerTimeout :: "lane_cfg \<Rightarrow> inputs \<Rightarrow> lane \<Rightarrow> lane option" where
  "handleLoopAPeriodicTimerTimeout cfg inp s =
     (if now inp - lastActionTimeAfterLoopA s > giOperationTO cfg * one_second
      then loopATimeoutHandler cfg inp (s\<lparr>loopATimerArmed := False\<rparr>)
      else Some (s\<lparr>loopATimerArmed := True\<rparr>))"

section \<open>The operator\<close>

definition ManualOpenBarrier :: "lane_cfg \<Rightarrow> inputs \<Rightarrow> lane \<Rightarrow> lane" where
  "ManualOpenBarrier cfg inp s =
     (if sIUTKNo (tEntry s) \<noteq> [] \<and> gbLoopApresent s then
        (let s1 = on_entry (\<lambda>e. e\<lparr>sEntryTime := date_text inp, iStatus := 4\<rparr>) s;
             s2 = emit (RemoteControl ''Manual open barrier''
                          (''Auto save for IU:'' @ sIUTKNo (tEntry s1))) s1
         in Openbarrier cfg 0 (SaveEntry inp s2))
      else Openbarrier cfg 0 s)"

definition ManualCloseBarrier :: "lane \<Rightarrow> lane" where
  "ManualCloseBarrier s = closeBarrier (emit (RemoteControl ''Manual close barrier'' []) s)"

section \<open>Events of the devices\<close>

definition handleAntennaIUComeOnIo :: "lane_cfg \<Rightarrow> inputs \<Rightarrow> string \<Rightarrow> lane \<Rightarrow> lane option" where
  "handleAntennaIUComeOnIo cfg inp iuNo s =
     map_option (\<lambda>s1. if err iAntenna s1 \<noteq> 0 then HandlePBSError inp AntennaNoError 0 s1 else s1)
       (if same_as_last cfg inp iuNo s
        then Some (Openbarrier cfg 0 (ShowLEDMsg cfg (both ''Same as last IU^Please Proceed'') s))
        else vehicle cfg inp iuNo s)"

definition handleAntennaFailOnIo :: "lane_cfg \<Rightarrow> inputs \<Rightarrow> int \<Rightarrow> lane \<Rightarrow> lane option" where
  "handleAntennaFailOnIo cfg inp errorCode s =
     (if errorCode = 2 \<and> gbLoopApresent s then
        (if \<not> sEnableReader s
         then cashcard cfg inp True (ShowLEDMsg cfg (both ''No IU Detected!^Insert/Tap Card'') s)
         else Some s)
      else if gbLoopApresent s then
        cashcard cfg inp True
          (ShowLEDMsg cfg (both ''Antenna Error!^Insert/Tap Card'')
            (emit AntennaStopRead (HandlePBSError inp AntennaError errorCode s)))
      else Some s)"

definition handleAntennaPowerOnIo :: "inputs \<Rightarrow> bool \<Rightarrow> lane \<Rightarrow> lane" where
  "handleAntennaPowerOnIo inp poweredOn s =
     HandlePBSError inp AntennaPowerOnOff (if poweredOn then 1 else 0) s"

datatype dio_event =
    LOOP_A_ON | LOOP_A_OFF | LOOP_B_ON | LOOP_B_OFF | LOOP_C_ON | LOOP_C_OFF
  | INTERCOM_ON | INTERCOM_OFF | STATION_DOOR_OPEN | STATION_DOOR_CLOSE
  | BARRIER_DOOR_OPEN | BARRIER_DOOR_CLOSE | BARRIER_STATUS_ON | BARRIER_STATUS_OFF
  | MANUAL_OPEN_BARRIED_ON | MANUAL_OPEN_BARRIED_OFF | LORRY_SENSOR_ON | LORRY_SENSOR_OFF
  | ARM_BROKEN_ON | ARM_BROKEN_OFF | PRINT_RECEIPT_OFF
  | BARRIER_OPEN_TOO_LONG_ON | BARRIER_OPEN_TOO_LONG_OFF

definition updateBarrierStatus :: "inputs \<Rightarrow> int \<Rightarrow> string \<Rightarrow> lane \<Rightarrow> lane" where
  "updateBarrierStatus inp errorCode message s =
     emit (SysEvent message) (HandlePBSError inp BarrierStatus errorCode s)"

fun handleDioEventOnIo :: "lane_cfg \<Rightarrow> inputs \<Rightarrow> dio_event \<Rightarrow> lane \<Rightarrow> lane option" where
  "handleDioEventOnIo cfg inp LOOP_A_ON s = LoopACome cfg inp s"
| "handleDioEventOnIo cfg inp LOOP_A_OFF s = LoopAGone cfg inp s"
| "handleDioEventOnIo cfg inp LOOP_C_ON s = Some s"
| "handleDioEventOnIo cfg inp LOOP_C_OFF s = LoopCGone cfg inp s"
| "handleDioEventOnIo cfg inp STATION_DOOR_OPEN s = Some (HandlePBSError inp SDoorError 0 s)"
| "handleDioEventOnIo cfg inp STATION_DOOR_CLOSE s = Some (HandlePBSError inp SDoorNoError 0 s)"
| "handleDioEventOnIo cfg inp BARRIER_DOOR_OPEN s = Some (HandlePBSError inp BDoorError 0 s)"
| "handleDioEventOnIo cfg inp BARRIER_DOOR_CLOSE s = Some (HandlePBSError inp BDoorNoError 0 s)"
| "handleDioEventOnIo cfg inp BARRIER_STATUS_ON s =
     (if gbBarrierOpened s then Some s
      else
        let s1 = (if manualOpenBarrierStatusFlag s = 1
                  then s\<lparr>manualOpenBarrierStatusFlag := 0\<rparr> else s)
        in Some (ManualOpenBarrier cfg inp (emit (SysEvent ''Barrier up'') s1)))"
| "handleDioEventOnIo cfg inp ARM_BROKEN_ON s =
     Some (updateBarrierStatus inp 3 ''Arm failure detected.'' s)"
| "handleDioEventOnIo cfg inp ARM_BROKEN_OFF s =
     Some (updateBarrierStatus inp 0 ''Arm recovered successfully.'' s)"
| "handleDioEventOnIo cfg inp BARRIER_OPEN_TOO_LONG_ON s =
     Some (updateBarrierStatus inp 2 ''Barrier open too long detected.'' s)"
| "handleDioEventOnIo cfg inp BARRIER_OPEN_TOO_LONG_OFF s =
     Some (updateBarrierStatus inp 0 ''Barrier open too long - closed successfully.'' s)"
| "handleDioEventOnIo cfg inp _ s = Some s"

section \<open>The card reader and the camera\<close>

definition KSM_CardIn :: "inputs \<Rightarrow> lane_cfg \<Rightarrow> lane \<Rightarrow> lane" where
  "KSM_CardIn inp cfg s =
     (let s1 = setLastActionTimeAfterLoopA inp (ShowLEDMsg cfg (both ''Card In^Please Wait ...'') s);
          s2 = (if err iReader s1 \<noteq> 0 then HandlePBSError inp ReaderNoError 0 s1 else s1)
      in emit KsmReadCardInfo (s2\<lparr>giCardIsIn := 1\<rparr>))"

definition handleKSM_EnableError :: "inputs \<Rightarrow> lane \<Rightarrow> lane" where
  "handleKSM_EnableError inp s =
     (if err iReader s \<noteq> - 1 then HandlePBSError inp ReaderError 0 s else s)"

definition wrong_card :: "lane_cfg \<Rightarrow> lane \<Rightarrow> lane" where
  "wrong_card cfg s =
     emit KsmEjectToFront
       (SendMsg2Server ''90'' '',,,,,Wrong Card Insertion''
         (ShowLEDMsg cfg (tMsg cfg Msg_CardReadingError) s))"

definition handleKSM_CardReadError :: "lane_cfg \<Rightarrow> lane \<Rightarrow> lane" where
  "handleKSM_CardReadError cfg s = wrong_card cfg s"

definition KSM_CardInfo :: "lane_cfg \<Rightarrow> inputs \<Rightarrow> string \<Rightarrow> lane \<Rightarrow> lane option" where
  "KSM_CardInfo cfg inp sKSMCardNo s =
     (let s1 = set_no iReader 0 (setLastActionTimeAfterLoopA inp s) in
      if sKSMCardNo = [] \<or> length sKSMCardNo \<noteq> 16 \<or> take 4 (drop 5 sKSMCardNo) = ''0005''
      then Some (wrong_card cfg s1)
      else if sIUTKNo (tEntry s1) = [] then vehicle cfg inp sKSMCardNo s1
      else Some (emit KsmEjectToFront s1))"

definition KSM_CardTakeAway :: "lane_cfg \<Rightarrow> inputs \<Rightarrow> lane \<Rightarrow> lane option" where
  "KSM_CardTakeAway cfg inp s =
     (let s1 = (setLastActionTimeAfterLoopA inp s)\<lparr>giCardIsIn := 2\<rparr> in
      if gbEntryOK (tEntry s1) then
        cashcard cfg inp False (Openbarrier cfg 0 (ShowLEDMsg cfg (tMsg cfg Msg_CardTaken) s1))
      else if gbcarparkfull s1 \<and> sIUTKNo (tEntry s1) \<noteq> [] then Some s1
      else Some (ShowLEDMsg cfg (tMsg cfg Msg_InsertCashcard) s1))"

text \<open>A card number read by the LCSC reader.\<close>

definition lcsc_card :: "lane_cfg \<Rightarrow> inputs \<Rightarrow> string \<Rightarrow> lane \<Rightarrow> lane option" where
  "lcsc_card cfg inp cardno s =
     (let s1 = setLastActionTimeAfterLoopA inp (HandlePBSError inp LCSCNoError 0 s) in
      if length cardno \<noteq> 16 then
        Some (EnableLCSC cfg True
          (SendMsg2Server ''90'' (cardno @ '',,,,,Wrong Card No'')
            (ShowLEDMsg cfg (tMsg cfg Msg_CardReadingError) s1)))
      else if sIUTKNo (tEntry s1) = [] then
        (case cashcard cfg inp False s1 of
           None \<Rightarrow> None | Some s2 \<Rightarrow> vehicle cfg inp cardno s2)
      else Some s1)"

definition ReceivedLPR :: "string \<Rightarrow> string \<Rightarrow> lane \<Rightarrow> lane" where
  "ReceivedLPR LPN sTransid s =
     (let s1 = (if gsTransID s = sTransid \<and> gbLoopApresent s \<and> \<not> gbsavedtrans s
                then on_entry (\<lambda>e. e\<lparr>sLPN0 := LPN, sLPN1 := LPN\<rparr>) s
                else emit (UpdateEntryPlate LPN sTransid) s)
      in if sIUTKNo (tEntry s1) \<noteq> []
         then SendMsg2Server ''90'' (sIUTKNo (tEntry s1) @ '',,,'' @ LPN @ '',,Entry OK'') s1
         else s1)"

text \<open>The information of an on-board unit: its number, plate and category.\<close>

definition ProcessOUBInformation ::
  "lane_cfg \<Rightarrow> inputs \<Rightarrow> string \<Rightarrow> string \<Rightarrow> string \<Rightarrow> lane \<Rightarrow> lane option" where
  "ProcessOUBInformation cfg inp gsOBU plate gsVCC s =
     (if exit_giDeductionStatus s = Doingdeduction then Some s
      else
        let s1 = (if gsTailgateOBU s = gsOBU then s\<lparr>gsTailgateOBU := []\<rparr> else s) in
        vehicle cfg inp gsOBU (on_entry (\<lambda>e. e\<lparr>sLPN0 := plate, sLPN1 := plate, VCC := gsVCC\<rparr>) s1))"

text \<open>The car park becomes full or free again; a vehicle that was refused is then tried again.\<close>

definition CarparkFull :: "lane_cfg \<Rightarrow> inputs \<Rightarrow> bool \<Rightarrow> lane \<Rightarrow> lane" where
  "CarparkFull cfg inp full s =
     (if full \<noteq> gbcarparkfull s then
        (let s1 = s\<lparr>gbcarparkfull := full\<rparr>; iu = sIUTKNo (tEntry s1) in
         if \<not> full \<and> gbLoopApresent s1 \<and> iu \<noteq> [] then PBSEntry cfg inp iu s1 else s1)
      else s)"

section \<open>The station\<close>

datatype lane_action =
    Dio dio_event | LoopAFlag bool | AntennaIU string | AntennaFail int | AntennaPower bool
  | CardIn | CardInfo string | CardTakenAway | CardReadError | CardEnableError | LcscCard string
  | Plate string string | Obu string string string | Full bool
  | PmsOpen | PmsClose | PmsContinueOpen | LoopATick

fun lane_act :: "lane_cfg \<Rightarrow> inputs \<Rightarrow> lane_action \<Rightarrow> lane \<Rightarrow> lane option" where
  "lane_act cfg inp (Dio e) s = handleDioEventOnIo cfg inp e s"
| "lane_act cfg inp (LoopAFlag b) s = Some (s\<lparr>gbLoopApresent := b\<rparr>)"
| "lane_act cfg inp (AntennaIU iu) s = handleAntennaIUComeOnIo cfg inp iu s"
| "lane_act cfg inp (AntennaFail c) s = handleAntennaFailOnIo cfg inp c s"
| "lane_act cfg inp (AntennaPower b) s = Some (handleAntennaPowerOnIo inp b s)"
| "lane_act cfg inp CardIn s = Some (KSM_CardIn inp cfg s)"
| "lane_act cfg inp (CardInfo c) s = KSM_CardInfo cfg inp c s"
| "lane_act cfg inp CardTakenAway s = KSM_CardTakeAway cfg inp s"
| "lane_act cfg inp CardReadError s = Some (handleKSM_CardReadError cfg s)"
| "lane_act cfg inp CardEnableError s = Some (handleKSM_EnableError inp s)"
| "lane_act cfg inp (LcscCard c) s = lcsc_card cfg inp c s"
| "lane_act cfg inp (Plate lpn tid) s = Some (ReceivedLPR lpn tid s)"
| "lane_act cfg inp (Obu obu plate vcc) s = ProcessOUBInformation cfg inp obu plate vcc s"
| "lane_act cfg inp (Full b) s = Some (CarparkFull cfg inp b s)"
| "lane_act cfg inp PmsOpen s = Some (ManualOpenBarrier cfg inp s)"
| "lane_act cfg inp PmsClose s = Some (SendMsg2Server ''99'' ''Close Barrier'' (ManualCloseBarrier s))"
| "lane_act cfg inp PmsContinueOpen s =
     Some (SendMsg2Server ''99'' ''Continue Open Barrier'' (continueOpenBarrier s))"
| "lane_act cfg inp LoopATick s =
     (if loopATimerArmed s then handleLoopAPeriodicTimerTimeout cfg inp s else None)"

text \<open>The states a sequence of actions leads to, each with its own inputs.\<close>

inductive lane_reach ::
  "lane_cfg \<Rightarrow> lane \<Rightarrow> (inputs \<times> lane_action) list \<Rightarrow> lane \<Rightarrow> bool" for cfg where
  lane_reach_start: "lane_reach cfg s [] s"
| lane_reach_step:
    "lane_reach cfg s as s' \<Longrightarrow> lane_act cfg inp a s' = Some s'' \<Longrightarrow>
     lane_reach cfg s (as @ [(inp, a)]) s''"

end
