(* ===== verification/Lane_Gate.thy ===== *)
theory Lane_Gate
  imports Lane_Station
begin

text \<open>
  The contract of an entry station, and the proof that the station keeps it.  A \<open>gate\<close> is what can
  be seen of the station from outside: the barrier relays, the two displays and the rows stored,
  with the few flags that decide about them.  \<open>gate_step\<close> lists the moves a gate may make.  Every
  action of the station is a sequence of such moves (\<open>gate_of_act\<close>), so what holds of every move
  holds along every run; \<open>gate_invariant\<close> is that argument, proved once.
\<close>

section \<open>The gate\<close>

record gate =
  g_acts :: "lane_effect list"
  g_led :: string
  g_lcd :: string
  g_held :: int
  g_cardin :: int
  g_ok :: bool
  g_saved :: bool
  g_iu :: string

fun visible :: "lane_effect \<Rightarrow> bool" where
  "visible (LedDisplay _) = True"
| "visible (LcdDisplay _) = True"
| "visible (SetOpenBarrier _) = True"
| "visible (SetCloseBarrier _) = True"
| "visible (InsertEntry _ _ _ _) = True"
| "visible _ = False"

definition gate_of :: "lane \<Rightarrow> gate" where
  "gate_of s =
     \<lparr>g_acts = filter visible (out s), g_led = sLastLEDMsg s, g_lcd = sLastLCDMsg s,
      g_held = giBarrierContinueOpened s, g_cardin = giCardIsIn s, g_ok = gbEntryOK (tEntry s),
      g_saved = gbsavedtrans s, g_iu = sIUTKNo (tEntry s)\<rparr>"

definition g_emit :: "lane_effect list \<Rightarrow> gate \<Rightarrow> gate" where
  "g_emit es g = g\<lparr>g_acts := g_acts g @ es\<rparr>"

inductive gate_step :: "gate \<Rightarrow> gate \<Rightarrow> bool" where
  gate_led: "t \<noteq> g_led g \<Longrightarrow> gate_step g ((g_emit [LedDisplay t] g)\<lparr>g_led := t\<rparr>)"
| gate_lcd: "t \<noteq> g_lcd g \<Longrightarrow> gate_step g ((g_emit [LcdDisplay t] g)\<lparr>g_lcd := t\<rparr>)"
| gate_pulse: "g_held g \<noteq> 1 \<Longrightarrow> g_cardin g \<noteq> 1 \<Longrightarrow>
     gate_step g (g_emit [SetOpenBarrier 1, SetOpenBarrier 0] g)"
| gate_hold: "gate_step g ((g_emit [SetOpenBarrier 1] g)\<lparr>g_held := 1\<rparr>)"
| gate_release: "gate_step g
     ((g_emit [SetOpenBarrier 0, SetCloseBarrier 1, SetCloseBarrier 0] g)\<lparr>g_held := 0\<rparr>)"
| gate_number: "iu \<noteq> [] \<Longrightarrow> gate_step g (g\<lparr>g_iu := iu\<rparr>)"
| gate_save: "g_iu g \<noteq> [] \<Longrightarrow> rows = [] \<or> (\<exists>tab e tid lpn.
     rows = [InsertEntry tab e tid lpn] \<and> sIUTKNo e = g_iu g) \<Longrightarrow>
     gate_step g ((g_emit rows g)\<lparr>g_saved := True\<rparr>)"
| gate_entry_ok: "g_saved g \<Longrightarrow> g_iu g \<noteq> [] \<Longrightarrow> gate_step g (g\<lparr>g_ok := True\<rparr>)"
| gate_card: "gate_step g (g\<lparr>g_cardin := c\<rparr>)"
| gate_clear: "gate_step g (g\<lparr>g_ok := False, g_saved := False, g_cardin := 0, g_iu := []\<rparr>)"

abbreviation gate_run :: "gate \<Rightarrow> gate \<Rightarrow> bool" where
  "gate_run \<equiv> gate_step\<^sup>*\<^sup>*"

text \<open>A lane step that the gate follows.\<close>

definition follows :: "lane \<Rightarrow> lane \<Rightarrow> bool" where
  "follows s s' \<longleftrightarrow> gate_run (gate_of s) (gate_of s')"

lemma follows_refl [simp, intro]: "follows s s"
  by (simp add: follows_def)

lemma follows_trans: "follows s t \<Longrightarrow> follows t u \<Longrightarrow> follows s u"
  unfolding follows_def by (rule rtranclp_trans)

lemma follows_same: "gate_of t = gate_of s \<Longrightarrow> follows s t"
  by (simp add: follows_def)

lemma follows_step: "gate_step (gate_of s) (gate_of t) \<Longrightarrow> follows s t"
  unfolding follows_def by (rule r_into_rtranclp)

text \<open>To follow a composition it is enough to follow its outermost operation.\<close>

lemma follows_comp: "follows s t \<Longrightarrow> (\<And>t. follows t (f t)) \<Longrightarrow> follows s (f t)"
  by (blast intro: follows_trans)

section \<open>Operations the gate does not see\<close>

named_theorems unseen

lemma gate_of_emit [unseen]: "\<not> visible e \<Longrightarrow> gate_of (emit e s) = gate_of s"
  by (simp add: gate_of_def emit_def)

lemma gate_of_SendMsg2Server [unseen]: "gate_of (SendMsg2Server c d s) = gate_of s"
  by (simp add: SendMsg2Server_def unseen)

lemma gate_of_Sendmystatus [unseen]: "gate_of (Sendmystatus inp s) = gate_of s"
  by (simp add: Sendmystatus_def unseen)

lemma gate_of_set_no [unseen]: "gate_of (set_no i n s) = gate_of s"
  by (simp add: gate_of_def set_no_def)

lemma gate_of_set_code [unseen]: "gate_of (set_code i n s) = gate_of s"
  by (simp add: gate_of_def set_code_def)

lemma gate_of_set_msg [unseen]: "gate_of (set_msg i m s) = gate_of s"
  by (simp add: gate_of_def set_msg_def)

lemma gate_of_pbs_case: "gate_of (fst (pbs_case inp e c s)) = gate_of s"
  by (cases e)
    (simp_all add: fault_def recovered_def plain_def db_error_def Let_def unseen)

lemma gate_of_HandlePBSError [unseen]: "gate_of (HandlePBSError inp e c s) = gate_of s"
  using gate_of_pbs_case [of inp e c s]
  by (auto simp: HandlePBSError_def unseen split: prod.splits)

lemma gate_of_isvalidseason [unseen]: "gate_of (snd (isvalidseason inp n s)) = gate_of s"
  by (auto simp: isvalidseason_def local_isvalidseason_def gate_of_def
      split: prod.splits option.splits list.splits)

lemma gate_of_on_entry [unseen]:
  "gbEntryOK (f (tEntry s)) = gbEntryOK (tEntry s) \<Longrightarrow>
   sIUTKNo (f (tEntry s)) = sIUTKNo (tEntry s) \<Longrightarrow> gate_of (on_entry f s) = gate_of s"
  by (simp add: gate_of_def on_entry_def)

lemma gate_of_fields [unseen]:
  "gate_of (s\<lparr>gbLoopApresent := b\<rparr>) = gate_of s"
  "gate_of (s\<lparr>gbcarparkfull := b\<rparr>) = gate_of s"
  "gate_of (s\<lparr>giShowType := i\<rparr>) = gate_of s"
  "gate_of (s\<lparr>sEnableReader := b\<rparr>) = gate_of s"
  "gate_of (s\<lparr>gbBarrierOpened := b\<rparr>) = gate_of s"
  "gate_of (s\<lparr>fiLastEEPCmd := x\<rparr>) = gate_of s"
  "gate_of (s\<lparr>gsTransID := t\<rparr>) = gate_of s"
  "gate_of (s\<lparr>gsTailgateOBU := t\<rparr>) = gate_of s"
  "gate_of (s\<lparr>gbUPOSStatus := u\<rparr>) = gate_of s"
  "gate_of (s\<lparr>lastActionTimeAfterLoopA := i\<rparr>) = gate_of s"
  "gate_of (s\<lparr>loopATimerArmed := b\<rparr>) = gate_of s"
  "gate_of (s\<lparr>exit_iTransType := i\<rparr>) = gate_of s"
  "gate_of (s\<lparr>manualOpenBarrierStatusFlag := i\<rparr>) = gate_of s"
  by (simp_all add: gate_of_def)

section \<open>What each operation does to the gate\<close>

lemma follows_ShowLEDMsg: "follows s (ShowLEDMsg cfg m s)"
proof -
  let ?t = "(emit (LedDisplay (fst m)) s)\<lparr>sLastLEDMsg := fst m\<rparr>"
  have led: "follows s (if sLastLEDMsg s \<noteq> fst m \<and> led_present cfg then ?t else s)"
    using gate_led [of "fst m" "gate_of s"]
    by (auto intro!: follows_step simp: gate_of_def emit_def g_emit_def)
  have lcd: "follows t (if sLastLCDMsg t \<noteq> snd m
       then (emit (LcdDisplay (snd m)) t)\<lparr>sLastLCDMsg := snd m\<rparr> else t)" for t
    using gate_lcd [of "snd m" "gate_of t"]
    by (auto intro!: follows_step simp: gate_of_def emit_def g_emit_def)
  show ?thesis
    unfolding ShowLEDMsg_def Let_def by (rule follows_trans [OF led lcd])
qed

lemma follows_Clearme: "follows s (Clearme cfg s)"
  using gate_clear [of "gate_of s"]
  by (auto intro!: follows_step simp: gate_of_def Clearme_def entry_cleared_def)

lemma gate_of_obu [unseen]:
  "gate_of (SendMsg2OBU o' t l1 l2 s) = gate_of s" "gate_of (EEPInq s) = gate_of s"
  "gate_of (obu_note cfg l1 l2 s) = gate_of s"
  by (simp_all add: SendMsg2OBU_def EEPInq_def obu_note_def unseen)

lemma gate_of_timer [unseen]:
  "gate_of (startLoopAPeriodicTimer s) = gate_of s"
  "gate_of (stopLoopAPeriodicTimer s) = gate_of s"
  "gate_of (setLastActionTimeAfterLoopA inp s) = gate_of s"
  by (simp_all add: startLoopAPeriodicTimer_def stopLoopAPeriodicTimer_def
      setLastActionTimeAfterLoopA_def unseen)

lemma follows_EndEEPprocess: "follows s (EndEEPprocess cfg r s)"
proof -
  define t where "t = (emit (EepDSRCComplete (sIUTKNo (tEntry s)))
      ((SendMsg2OBU (sIUTKNo (tEntry s)) 0 ''Welcome To EEP'' []
        (emit (EepCarparkComplete (sIUTKNo (tEntry s)) (dec_int r) ''00'')
          (s\<lparr>fiLastEEPCmd := CARPARK_PROCESS_COMPLETE_NOTIFICATION_REQ_CMD\<rparr>)))
        \<lparr>fiLastEEPCmd := DSRC_PROCESS_COMPLETE_NOTIFICATION_REQ_CMD\<rparr>))"
  have t: "follows s t"
    by (rule follows_same) (simp add: t_def unseen)
  have "follows t (EEPInq (Clearme cfg t))"
    by (rule follows_trans [OF follows_Clearme follows_same]) (rule unseen)
  with t have "follows s (EEPInq (Clearme cfg t))" by (rule follows_trans)
  with t show ?thesis
    by (simp add: EndEEPprocess_def Let_def t_def)
qed

lemma follows_Openbarrier: "follows s (Openbarrier cfg r s)"
proof -
  define t where "t = stopLoopAPeriodicTimer s"
  have t: "follows s t" by (rule follows_same) (simp add: t_def unseen)
  have pulse: "follows t (emit (SetOpenBarrier 0) (emit (SetOpenBarrier 1)
      (t\<lparr>gbBarrierOpened := True\<rparr>)))"
    if "giBarrierContinueOpened t \<noteq> 1" "giCardIsIn t \<noteq> 1"
    using gate_pulse [of "gate_of t"] that
    by (auto intro!: follows_step simp: gate_of_def emit_def g_emit_def)
  show ?thesis
    unfolding Openbarrier_def Let_def
    using follows_trans [OF t follows_ShowLEDMsg]
      follows_trans [OF t pulse] follows_trans [OF t follows_trans [OF pulse follows_EndEEPprocess]]
      t
    by (simp add: t_def)
qed

lemma follows_closeBarrier: "follows s (closeBarrier s)"
  using gate_release [of "gate_of s"]
  by (auto intro!: follows_step simp: gate_of_def emit_def g_emit_def closeBarrier_def)

lemma follows_continueOpenBarrier: "follows s (continueOpenBarrier s)"
  using gate_hold [of "gate_of s"]
  by (auto intro!: follows_step simp: gate_of_def emit_def g_emit_def continueOpenBarrier_def)

lemma gate_of_insertentrytrans:
  "\<exists>rows. gate_of (snd (insertentrytrans inp s)) = g_emit rows (gate_of s) \<and>
     (rows = [] \<or> (\<exists>tab e tid lpn. rows = [InsertEntry tab e tid lpn] \<and>
        sIUTKNo e = sIUTKNo (tEntry s)))"
proof -
  note sel = insertentrytrans_def Let_def gate_of_def emit_def g_emit_def
  show ?thesis
  proof (cases "central_connected (db inp) \<or> central_connects (db inp)")
    case True
    then show ?thesis by (cases "central_insert_ok (db inp)") (simp_all add: sel)
  next
    case False
    then show ?thesis
      by (cases "local_connected (db inp) \<or> local_connects (db inp)";
          cases "local_insert_ok (db inp)") (simp_all add: sel)
  qed
qed

lemma follows_SaveEntry: "follows s (SaveEntry inp s)"
proof (cases "sIUTKNo (tEntry s) = []")
  case True
  then show ?thesis by (simp add: SaveEntry_def)
next
  case False
  obtain r t where rt: "insertentrytrans inp s = (r, t)" by (cases "insertentrytrans inp s")
  obtain rows where rows: "gate_of t = g_emit rows (gate_of s)"
    "rows = [] \<or> (\<exists>tab e tid lpn. rows = [InsertEntry tab e tid lpn] \<and>
        sIUTKNo e = sIUTKNo (tEntry s))"
    using gate_of_insertentrytrans [of inp s] rt by auto
  have saved: "gate_of (u\<lparr>gbsavedtrans := True\<rparr>) = (gate_of u)\<lparr>g_saved := True\<rparr>" for u
    by (simp add: gate_of_def)
  have last: "gate_of (u\<lparr>gsLastIUNo := a, lastIUEntryTime := b\<rparr>) = gate_of u" for u a b
    by (simp add: gate_of_def)
  have "gate_of (SaveEntry inp s) = (g_emit rows (gate_of s))\<lparr>g_saved := True\<rparr>"
    using False rows by (simp add: SaveEntry_def rt Let_def saved last unseen)
  moreover have "gate_step (gate_of s) ((g_emit rows (gate_of s))\<lparr>g_saved := True\<rparr>)"
    using False rows by (intro gate_save) (auto simp: gate_of_def)
  ultimately show ?thesis by (simp add: follows_step)
qed

lemma SaveEntry_saves:
  assumes "sIUTKNo (tEntry s) \<noteq> []"
  shows "gbsavedtrans (SaveEntry inp s)"
    and "sIUTKNo (tEntry (SaveEntry inp s)) = sIUTKNo (tEntry s)"
proof -
  obtain r t where rt: "insertentrytrans inp s = (r, t)" by (cases "insertentrytrans inp s")
  have t: "sIUTKNo (tEntry t) = sIUTKNo (tEntry s)"
    using gate_of_insertentrytrans [of inp s] rt by (auto simp: gate_of_def g_emit_def)
  show "gbsavedtrans (SaveEntry inp s)"
    using assms by (simp add: SaveEntry_def rt Let_def)
  show "sIUTKNo (tEntry (SaveEntry inp s)) = sIUTKNo (tEntry s)"
    using assms t
    by (simp add: SaveEntry_def rt Let_def set_no_def SendMsg2Server_def emit_def)
qed

section \<open>Every action of the station is a run of the gate\<close>

text \<open>The operations above as rewrite rules on the end of a run.\<close>

named_theorems seen

lemma seen_rule: "follows t u \<Longrightarrow> gate_run g (gate_of t) \<Longrightarrow> gate_run g (gate_of u)"
  unfolding follows_def by (rule rtranclp_trans)

lemmas seen_rules [seen] =
  seen_rule [OF follows_ShowLEDMsg] seen_rule [OF follows_Clearme]
  seen_rule [OF follows_EndEEPprocess] seen_rule [OF follows_Openbarrier]
  seen_rule [OF follows_closeBarrier] seen_rule [OF follows_continueOpenBarrier]
  seen_rule [OF follows_SaveEntry]

lemma seen_card [seen]: "gate_run g (gate_of s) \<Longrightarrow> gate_run g (gate_of (s\<lparr>giCardIsIn := c\<rparr>))"
  using gate_card [of "gate_of s" c]
  by (simp add: gate_of_def)

lemma seen_number [seen]:
  "gate_run g (gate_of s) \<Longrightarrow> sIUTKNo (f (tEntry s)) \<noteq> [] \<Longrightarrow>
   gbEntryOK (f (tEntry s)) = gbEntryOK (tEntry s) \<Longrightarrow> gate_run g (gate_of (on_entry f s))"
  using gate_number [of "sIUTKNo (f (tEntry s))" "gate_of s"]
  by (simp add: gate_of_def on_entry_def)

lemma seen_FormatSeasonMsg [seen]:
  "gate_run g (gate_of s) \<Longrightarrow> gate_run g (gate_of (FormatSeasonMsg cfg inp r s))"
  by (simp add: FormatSeasonMsg_def Let_def unseen seen)

lemma seen_CheckSeason [seen]:
  "gate_run g (gate_of s) \<Longrightarrow> gate_run g (gate_of (snd (CheckSeason cfg inp iu s)))"
  using gate_of_isvalidseason [of inp iu s]
  by (auto simp: CheckSeason_def seen split: prod.splits)

lemma seen_greet_hourly [seen]:
  "gate_run g (gate_of s) \<Longrightarrow> gate_run g (gate_of (greet_hourly cfg inp iu s))"
  by (simp add: greet_hourly_def Let_def unseen seen)

lemma number_of_ShowLEDMsg [simp]: "tEntry (ShowLEDMsg cfg m s) = tEntry s"
  by (simp add: ShowLEDMsg_def Let_def emit_def)

lemma seen_recorded:
  assumes "gate_run g (gate_of s)" "sIUTKNo (tEntry s) \<noteq> []"
  shows "gate_run g (gate_of (on_entry (\<lambda>e. e\<lparr>gbEntryOK := True\<rparr>) (SaveEntry inp s)))"
proof -
  let ?t = "SaveEntry inp s"
  have "gate_run g (gate_of ?t)" using assms(1) by (rule seen)
  moreover have "gate_step (gate_of ?t) (gate_of (on_entry (\<lambda>e. e\<lparr>gbEntryOK := True\<rparr>) ?t))"
    using gate_entry_ok [of "gate_of ?t"] SaveEntry_saves [OF assms(2), of inp] assms(2)
    by (simp add: gate_of_def on_entry_def)
  ultimately show ?thesis by (rule rtranclp.rtrancl_into_rtrancl)
qed

lemma number_of_greet_hourly [simp]:
  "sIUTKNo (tEntry (greet_hourly cfg inp iu s)) = sIUTKNo (tEntry s)"
  by (simp add: greet_hourly_def Let_def on_entry_def)

lemma seen_admit [seen]:
  "gate_run g (gate_of s) \<Longrightarrow> sIUTKNo (tEntry s) \<noteq> [] \<Longrightarrow>
   gate_run g (gate_of (admit cfg inp iu r s))"
  unfolding admit_def Let_def
  by (intro seen_rule [OF follows_Openbarrier] seen_recorded) (simp_all add: unseen seen)

lemma seen_after_season [seen]:
  "gate_run g (gate_of s) \<Longrightarrow> sIUTKNo (tEntry s) \<noteq> [] \<Longrightarrow>
   gate_run g (gate_of (after_season cfg inp iu r s))"
  by (simp add: after_season_def unseen seen)

lemma number_of_CheckSeason [simp]:
  "sIUTKNo (tEntry (snd (CheckSeason cfg inp iu s))) = sIUTKNo (tEntry s)"
  by (auto simp: CheckSeason_def FormatSeasonMsg_def Let_def on_entry_def isvalidseason_def
      local_isvalidseason_def split: prod.splits option.splits list.splits)

lemma number_of_emit [simp]: "tEntry (emit e s) = tEntry s"
  by (simp add: emit_def)

lemma number_of_on_entry [simp]: "tEntry (on_entry f s) = f (tEntry s)"
  by (simp add: on_entry_def)

lemma number_of_SendMsg2Server [simp]: "tEntry (SendMsg2Server c d s) = tEntry s"
  by (simp add: SendMsg2Server_def)

lemma number_of_classify [simp]:
  "sIUTKNo (tEntry (classify cfg inp iu s)) = sIUTKNo (tEntry s)"
  by (simp add: classify_def)

lemma seen_classify [seen]:
  "gate_run g (gate_of s) \<Longrightarrow> gate_run g (gate_of (classify cfg inp iu s))"
  by (simp add: classify_def unseen)

lemma seen_PBSEntry [seen]:
  assumes "gate_run g (gate_of s)" "iu \<noteq> []"
  shows "gate_run g (gate_of (PBSEntry cfg inp iu s))"
proof -
  define t where "t = on_entry (\<lambda>e. e\<lparr>sIUTKNo := iu, sEntryTime := date_text inp\<rparr>) s"
  have t: "gate_run g (gate_of t)" "sIUTKNo (tEntry t) = iu"
    using assms by (simp_all add: t_def seen)
  have split: "(case CheckSeason cfg inp iu u of (r, v) \<Rightarrow> after_season cfg inp iu r v) =
      after_season cfg inp iu (fst (CheckSeason cfg inp iu u)) (snd (CheckSeason cfg inp iu u))" for u
    by (simp add: case_prod_beta)
  show ?thesis
    unfolding PBSEntry_def Let_def t_def [symmetric] split
    using t assms(2) by (simp add: unseen seen)
qed

text \<open>The calls between \<open>EnableCashcard\<close> and \<open>VehicleCome\<close>, by induction on their depth.\<close>

lemma gate_of_readers [unseen]:
  "gate_of (EnableLCSC cfg b s) = gate_of s"
  "gate_of (EnableKDE cfg b s) = gate_of s"
  "gate_of (EnableUPOS cfg b s) = gate_of s"
  by (simp_all add: EnableLCSC_def EnableKDE_def EnableUPOS_def unseen)

lemma gate_of_switch_readers [unseen]: "gate_of (switch_readers cfg b s) = gate_of s"
  by (simp add: switch_readers_def unseen)

lemma seen_identified [seen]:
  "gate_run g (gate_of s) \<Longrightarrow> iu \<noteq> [] \<Longrightarrow> gate_run g (gate_of (identified cfg inp iu s))"
  by (simp add: identified_def seen)

lemma seen_calls:
  "EnableCashcard n cfg inp b s = Some t \<Longrightarrow> gate_run g (gate_of s) \<Longrightarrow> gate_run g (gate_of t)"
  "VehicleCome n cfg inp iu s = Some t \<Longrightarrow> gate_run g (gate_of s) \<Longrightarrow> gate_run g (gate_of t)"
proof (induction n cfg inp b s and n cfg inp iu s arbitrary: t and t
    rule: EnableCashcard_VehicleCome.induct)
  case (3 fuel cfg inp bEnable s)
  then show ?case by (auto simp: Let_def unseen split: if_splits)
next
  case (4 fuel cfg inp sNo s)
  then show ?case by (auto simp: Let_def unseen seen split: if_splits)
qed simp_all

named_theorems calls

lemmas seen_cashcard [calls] = seen_calls(1) and seen_vehicle [calls] = seen_calls(2)

lemma seen_LoopACome [calls]:
  "LoopACome cfg inp s = Some t \<Longrightarrow> gate_run g (gate_of s) \<Longrightarrow> gate_run g (gate_of t)"
  by (auto simp: LoopACome_def Let_def unseen seen calls split: if_splits)

lemma seen_LoopAGone [calls]:
  "LoopAGone cfg inp s = Some t \<Longrightarrow> gate_run g (gate_of s) \<Longrightarrow> gate_run g (gate_of t)"
  by (auto simp: LoopAGone_def Let_def unseen seen calls split: if_splits)

lemma seen_LoopCGone [calls]:
  "LoopCGone cfg inp s = Some t \<Longrightarrow> gate_run g (gate_of s) \<Longrightarrow> gate_run g (gate_of t)"
  by (auto simp: LoopCGone_def Let_def unseen seen calls split: if_splits)

lemma seen_timer [calls]:
  "handleLoopAPeriodicTimerTimeout cfg inp s = Some t \<Longrightarrow> gate_run g (gate_of s) \<Longrightarrow> gate_run g (gate_of t)"
  by (auto simp: handleLoopAPeriodicTimerTimeout_def loopATimeoutHandler_def Let_def unseen seen calls
      split: if_splits option.splits)

lemma seen_ManualOpenBarrier [seen]:
  "gate_run g (gate_of s) \<Longrightarrow> gate_run g (gate_of (ManualOpenBarrier cfg inp s))"
  by (simp add: ManualOpenBarrier_def Let_def unseen seen calls)

lemma seen_ManualCloseBarrier [seen]:
  "gate_run g (gate_of s) \<Longrightarrow> gate_run g (gate_of (ManualCloseBarrier s))"
  by (simp add: ManualCloseBarrier_def unseen seen calls)

lemma seen_handleDioEventOnIo [calls]:
  "handleDioEventOnIo cfg inp e s = Some t \<Longrightarrow> gate_run g (gate_of s) \<Longrightarrow> gate_run g (gate_of t)"
  by (cases e) (auto simp: Let_def updateBarrierStatus_def unseen seen calls split: if_splits)

lemma seen_antenna [calls]:
  "handleAntennaIUComeOnIo cfg inp iu s = Some t \<Longrightarrow> gate_run g (gate_of s) \<Longrightarrow> gate_run g (gate_of t)"
  "handleAntennaFailOnIo cfg inp c s = Some t \<Longrightarrow> gate_run g (gate_of s) \<Longrightarrow> gate_run g (gate_of t)"
  by (auto simp: handleAntennaIUComeOnIo_def handleAntennaFailOnIo_def unseen seen calls
      split: if_splits)

lemma seen_cards [calls]:
  "KSM_CardInfo cfg inp c s = Some t \<Longrightarrow> gate_run g (gate_of s) \<Longrightarrow> gate_run g (gate_of t)"
  "KSM_CardTakeAway cfg inp s = Some t \<Longrightarrow> gate_run g (gate_of s) \<Longrightarrow> gate_run g (gate_of t)"
  "lcsc_card cfg inp c s = Some t \<Longrightarrow> gate_run g (gate_of s) \<Longrightarrow> gate_run g (gate_of t)"
  by (auto simp: KSM_CardInfo_def KSM_CardTakeAway_def lcsc_card_def wrong_card_def EnableLCSC_def
      Let_def unseen seen calls split: if_splits option.splits)

lemma seen_rest [seen]:
  "gate_run g (gate_of s) \<Longrightarrow> gate_run g (gate_of (KSM_CardIn inp cfg s))"
  "gate_run g (gate_of s) \<Longrightarrow> gate_run g (gate_of (handleKSM_CardReadError cfg s))"
  "gate_run g (gate_of s) \<Longrightarrow> gate_run g (gate_of (ReceivedLPR l tid s))"
  "gate_run g (gate_of s) \<Longrightarrow> gate_run g (gate_of (CarparkFull cfg inp b s))"
  by (simp_all add: KSM_CardIn_def handleKSM_CardReadError_def wrong_card_def ReceivedLPR_def
      CarparkFull_def Let_def unseen seen)

lemma seen_obu [calls]:
  "ProcessOUBInformation cfg inp n l v s = Some t \<Longrightarrow> gate_run g (gate_of s) \<Longrightarrow>
   gate_run g (gate_of t)"
  by (auto simp: ProcessOUBInformation_def Let_def unseen seen calls split: if_splits)

lemma gate_run_of_act:
  "lane_act cfg inp a s = Some t \<Longrightarrow> gate_run g (gate_of s) \<Longrightarrow> gate_run g (gate_of t)"
  by (cases a) (auto simp: handleAntennaPowerOnIo_def handleKSM_EnableError_def unseen seen calls
      split: if_splits)

lemma gate_run_of_reach:
  "lane_reach cfg s as t \<Longrightarrow> gate_run (gate_of s) (gate_of t)"
  by (induction rule: lane_reach.induct) (auto dest: gate_run_of_act)

section \<open>Invariants of the gate\<close>

text \<open>What holds at the start and is kept by every move of a gate holds along every run of the
  station.\<close>

locale gate_invariant =
  fixes I :: "gate \<Rightarrow> bool"
  assumes kept: "gate_step g g' \<Longrightarrow> I g \<Longrightarrow> I g'"
begin

lemma run: "gate_run g g' \<Longrightarrow> I g \<Longrightarrow> I g'"
  by (induction rule: rtranclp_induct) (auto intro: kept)

lemma act: "lane_act cfg inp a s = Some t \<Longrightarrow> I (gate_of s) \<Longrightarrow> I (gate_of t)"
  by (rule run [OF gate_run_of_act]) auto

lemma reach: "lane_reach cfg s as t \<Longrightarrow> I (gate_of s) \<Longrightarrow> I (gate_of t)"
  by (rule run [OF gate_run_of_reach])

end

text \<open>The level of the relay that opens the barrier is its last setting.\<close>

definition relay_level :: "lane_effect list \<Rightarrow> int" where
  "relay_level es = fold (\<lambda>e v. case e of SetOpenBarrier x \<Rightarrow> x | _ \<Rightarrow> v) es 0"

lemma relay_level_append [simp]:
  "relay_level (es @ fs) =
     fold (\<lambda>e v. case e of SetOpenBarrier x \<Rightarrow> x | _ \<Rightarrow> v) fs (relay_level es)"
  by (simp add: relay_level_def)

lemma relay_level_visible: "relay_level (filter visible es) = relay_level es"
proof (induction es rule: rev_induct)
  case (snoc e es)
  then show ?case by (cases e) simp_all
qed simp

definition relay_ok :: "gate \<Rightarrow> bool" where
  "relay_ok g \<longleftrightarrow> g_held g \<in> {0, 1} \<and> relay_level (g_acts g) = g_held g"

interpretation relay: gate_invariant relay_ok
proof
  fix g g' assume "gate_step g g'" and "relay_ok g"
  then show "relay_ok g'"
    by (induction rule: gate_step.induct) (auto simp: relay_ok_def g_emit_def)
qed

text \<open>A vehicle that is let in has a number and its entry has been saved; every row stored has a
  number.\<close>

definition entry_ok :: "gate \<Rightarrow> bool" where
  "entry_ok g \<longleftrightarrow> (g_ok g \<longrightarrow> g_saved g \<and> g_iu g \<noteq> []) \<and>
     (\<forall>tab e tid lpn. InsertEntry tab e tid lpn \<in> set (g_acts g) \<longrightarrow> sIUTKNo e \<noteq> [])"

interpretation entered: gate_invariant entry_ok
proof
  fix g g' assume "gate_step g g'" and "entry_ok g"
  then show "entry_ok g'"
    by (induction rule: gate_step.induct) (auto simp: entry_ok_def g_emit_def)
qed

text \<open>The texts sent to a display.\<close>

definition led_texts :: "lane_effect list \<Rightarrow> string list" where
  "led_texts es = concat (map (\<lambda>e. case e of LedDisplay t \<Rightarrow> [t] | _ \<Rightarrow> []) es)"

definition lcd_texts :: "lane_effect list \<Rightarrow> string list" where
  "lcd_texts es = concat (map (\<lambda>e. case e of LcdDisplay t \<Rightarrow> [t] | _ \<Rightarrow> []) es)"

lemma texts_append [simp]:
  "led_texts (es @ fs) = led_texts es @ led_texts fs"
  "lcd_texts (es @ fs) = lcd_texts es @ lcd_texts fs"
  by (simp_all add: led_texts_def lcd_texts_def)

lemma texts_Cons [simp]:
  "led_texts [] = []" "lcd_texts [] = []"
  "led_texts (e # es) = (case e of LedDisplay t \<Rightarrow> [t] | _ \<Rightarrow> []) @ led_texts es"
  "lcd_texts (e # es) = (case e of LcdDisplay t \<Rightarrow> [t] | _ \<Rightarrow> []) @ lcd_texts es"
  by (simp_all add: led_texts_def lcd_texts_def)

text \<open>No text follows itself, starting after \<open>p\<close>.\<close>

fun changing :: "string \<Rightarrow> string list \<Rightarrow> bool" where
  "changing p [] = True"
| "changing p (t # ts) = (t \<noteq> p \<and> changing t ts)"

lemma changing_snoc [simp]:
  "changing p (ts @ [t]) \<longleftrightarrow> changing p ts \<and> t \<noteq> last (p # ts)"
  by (induction ts arbitrary: p) auto

definition displays_ok :: "gate \<Rightarrow> bool" where
  "displays_ok g \<longleftrightarrow>
     changing [] (led_texts (g_acts g)) \<and> last ([] # led_texts (g_acts g)) = g_led g \<and>
     changing [] (lcd_texts (g_acts g)) \<and> last ([] # lcd_texts (g_acts g)) = g_lcd g"

interpretation displays: gate_invariant displays_ok
proof
  fix g g' assume "gate_step g g'" and "displays_ok g"
  then show "displays_ok g'"
    by (induction rule: gate_step.induct)
      (auto simp: displays_ok_def g_emit_def)
qed

lemma texts_visible:
  "led_texts (filter visible es) = led_texts es" "lcd_texts (filter visible es) = lcd_texts es"
proof (induction es)
  case (Cons e es)
  { case 1 from Cons show ?case by (cases e) simp_all next
    case 2 from Cons show ?case by (cases e) simp_all }
qed simp_all

end
