(* ===== verification/Lane_Correct.thy ===== *)
theory Lane_Correct
  imports Lane_Gate
begin

text \<open>
  What an entry station does with a number: the decision table of \<open>PBSEntry\<close>, the effects it has
  on the barrier and the databases, and the safety of every action of the station.  The invariants
  of \<open>Lane_Gate\<close> become facts about every run.
\<close>

section \<open>What counts\<close>

fun act :: "lane_effect \<Rightarrow> bool" where
  "act (SetOpenBarrier _) = True"
| "act (SetCloseBarrier _) = True"
| "act (InsertEntry _ _ _ _) = True"
| "act _ = False"

definition acts :: "lane \<Rightarrow> lane_effect list" where
  "acts s = filter act (out s)"

text \<open>\<open>view\<close> is what a refused number leaves as it is; \<open>obs\<close> is what only \<open>Clearme\<close> changes too.\<close>

definition view :: "lane \<Rightarrow> lane_effect list \<times> int \<times> bool \<times> string \<times> int" where
  "view s = (acts s, giBarrierContinueOpened s, gbcarparkfull s, gsLastIUNo s, lastIUEntryTime s)"

definition obs :: "lane \<Rightarrow> (lane_effect list \<times> int \<times> bool \<times> string \<times> int) \<times> int \<times> string" where
  "obs s = (view s, giCardIsIn s, gsTransID s)"

named_theorems frame

lemma view_of_obs: "obs s = obs t \<Longrightarrow> view s = view t"
  by (simp add: obs_def)

lemma obs_emit [frame]: "\<not> act e \<Longrightarrow> obs (emit e s) = obs s"
  by (simp add: obs_def view_def acts_def emit_def)

lemma obs_ShowLEDMsg [frame]: "obs (ShowLEDMsg cfg m s) = obs s"
  by (simp add: obs_def view_def acts_def emit_def ShowLEDMsg_def Let_def)

lemma obs_on_entry [frame]: "obs (on_entry f s) = obs s"
  by (simp add: obs_def view_def acts_def on_entry_def)

lemma obs_set [frame]:
  "obs (set_no i n s) = obs s" "obs (set_code i n s) = obs s" "obs (set_msg i m s) = obs s"
  by (simp_all add: obs_def view_def acts_def set_no_def set_code_def set_msg_def)

lemma obs_fields [frame]:
  "obs (s\<lparr>gbLoopApresent := b\<rparr>) = obs s"
  "obs (s\<lparr>gbsavedtrans := b\<rparr>) = obs s"
  "obs (s\<lparr>giShowType := i\<rparr>) = obs s"
  "obs (s\<lparr>sEnableReader := b\<rparr>) = obs s"
  "obs (s\<lparr>gbBarrierOpened := b\<rparr>) = obs s"
  "obs (s\<lparr>fiLastEEPCmd := x\<rparr>) = obs s"
  "obs (s\<lparr>gsTailgateOBU := t\<rparr>) = obs s"
  "obs (s\<lparr>gbUPOSStatus := u\<rparr>) = obs s"
  "obs (s\<lparr>lastActionTimeAfterLoopA := i\<rparr>) = obs s"
  "obs (s\<lparr>loopATimerArmed := b\<rparr>) = obs s"
  "obs (s\<lparr>exit_iTransType := i\<rparr>) = obs s"
  "obs (s\<lparr>manualOpenBarrierStatusFlag := i\<rparr>) = obs s"
  "obs (s\<lparr>tSeason := x'\<rparr>) = obs s"
  by (simp_all add: obs_def view_def acts_def)

lemma obs_messages [frame]:
  "obs (SendMsg2Server c d s) = obs s"
  "obs (Sendmystatus inp s) = obs s"
  "obs (SendMsg2OBU o' t l1 l2 s) = obs s"
  "obs (EEPInq s) = obs s"
  "obs (obu_note cfg l1 l2 s) = obs s"
  "obs (startLoopAPeriodicTimer s) = obs s"
  "obs (stopLoopAPeriodicTimer s) = obs s"
  "obs (setLastActionTimeAfterLoopA inp s) = obs s"
  by (simp_all add: SendMsg2Server_def Sendmystatus_def SendMsg2OBU_def EEPInq_def obu_note_def
      startLoopAPeriodicTimer_def stopLoopAPeriodicTimer_def setLastActionTimeAfterLoopA_def frame)

lemma obs_pbs_case: "obs (fst (pbs_case inp e c s)) = obs s"
  by (cases e) (simp_all add: fault_def recovered_def plain_def db_error_def Let_def frame)

lemma obs_HandlePBSError [frame]: "obs (HandlePBSError inp e c s) = obs s"
  using obs_pbs_case [of inp e c s]
  by (auto simp: HandlePBSError_def frame split: prod.splits)

lemma obs_readers [frame]:
  "obs (EnableLCSC cfg b s) = obs s"
  "obs (EnableKDE cfg b s) = obs s"
  "obs (EnableUPOS cfg b s) = obs s"
  by (simp_all add: EnableLCSC_def EnableKDE_def EnableUPOS_def frame)

lemma obs_switch_readers [frame]: "obs (switch_readers cfg b s) = obs s"
  by (simp add: switch_readers_def frame)

lemma obs_FormatSeasonMsg [frame]: "obs (FormatSeasonMsg cfg inp r s) = obs s"
  by (simp add: FormatSeasonMsg_def Let_def frame)

lemma obs_isvalidseason [frame]: "obs (snd (isvalidseason inp n s)) = obs s"
  by (auto simp: isvalidseason_def local_isvalidseason_def frame
      split: prod.splits option.splits list.splits)

lemma obs_CheckSeason [frame]: "obs (snd (CheckSeason cfg inp iu s)) = obs s"
proof (cases "isvalidseason inp iu s")
  case (Pair r t)
  then have "obs t = obs s" using obs_isvalidseason [of inp iu s] by simp
  then show ?thesis by (simp add: CheckSeason_def Pair frame)
qed

lemma obs_greet_hourly [frame]: "obs (greet_hourly cfg inp iu s) = obs s"
  by (simp add: greet_hourly_def Let_def frame)

lemma obs_classify [frame]: "obs (classify cfg inp iu s) = obs s"
  by (simp add: classify_def frame)

lemma view_Clearme [frame]: "view (Clearme cfg s) = view s"
  by (simp add: view_def acts_def Clearme_def)

lemmas view_frame [frame] = view_of_obs [OF obs_ShowLEDMsg] view_of_obs [OF obs_on_entry]
  obs_set [THEN view_of_obs] obs_fields [THEN view_of_obs] obs_messages [THEN view_of_obs]
  view_of_obs [OF obs_HandlePBSError] view_of_obs [OF obs_switch_readers]
  obs_readers [THEN view_of_obs] view_of_obs [OF obs_emit]

lemma obs_sel:
  assumes "obs s = obs t"
  shows "acts s = acts t" "giBarrierContinueOpened s = giBarrierContinueOpened t"
    "gbcarparkfull s = gbcarparkfull t" "giCardIsIn s = giCardIsIn t" "gsTransID s = gsTransID t"
  using assms by (simp_all add: obs_def view_def)

section \<open>Opening and storing\<close>

text \<open>One pulse on the relay, when the barrier is not already held open and no card is inside.\<close>

definition opens :: "lane \<Rightarrow> lane_effect list" where
  "opens s = (if giCardIsIn s = 1 \<or> giBarrierContinueOpened s = 1 then []
              else [SetOpenBarrier 1, SetOpenBarrier 0])"

lemma view_EndEEPprocess [frame]: "view (EndEEPprocess cfg r s) = view s"
  by (simp add: EndEEPprocess_def Let_def frame)

lemma acts_of_view: "view s = view t \<Longrightarrow> acts s = acts t"
  by (simp add: view_def)

lemma acts_Openbarrier: "acts (Openbarrier cfg r s) = acts s @ opens s"
proof -
  define t where "t = stopLoopAPeriodicTimer s"
  have o: "obs t = obs s" by (simp add: t_def frame)
  note t = obs_sel [OF o]
  define u where "u = emit (SetOpenBarrier 0) (emit (SetOpenBarrier 1) (t\<lparr>gbBarrierOpened := True\<rparr>))"
  have u: "acts u = acts s @ [SetOpenBarrier 1, SetOpenBarrier 0]"
    using t(1) by (simp add: u_def emit_def acts_def)
  have e: "acts (EndEEPprocess cfg r u) = acts u"
    by (rule acts_of_view) (rule frame)
  have l: "acts (ShowLEDMsg cfg m t) = acts s" for m
    using obs_sel(1) [OF obs_ShowLEDMsg, of cfg m t] t(1) by simp
  show ?thesis
    using t u e l
    by (simp add: Openbarrier_def Let_def t_def [symmetric] u_def [symmetric] opens_def)
qed

text \<open>Where an entry is stored: a central database that can be reached but refuses the row is not
  replaced by the local one.\<close>

definition storage :: "inputs \<Rightarrow> entry_table option" where
  "storage inp =
     (if central_connected (db inp) \<or> central_connects (db inp) then
        if central_insert_ok (db inp) then Some Central_Entry_Trans_tmp else None
      else if (local_connected (db inp) \<or> local_connects (db inp)) \<and> local_insert_ok (db inp)
      then Some Local_Entry_Trans else None)"

definition stored_entry :: "inputs \<Rightarrow> entry_trans \<Rightarrow> entry_trans" where
  "stored_entry inp e =
     e\<lparr>sEntryTime := date_text inp,
       sSerialNo := (if stoi_opt 10 (sSerialNo e) = None then ''0'' else sSerialNo e)\<rparr>"

definition stores :: "inputs \<Rightarrow> string \<Rightarrow> entry_trans \<Rightarrow> lane_effect list" where
  "stores inp tid e =
     (case storage inp of None \<Rightarrow> []
      | Some tab \<Rightarrow> [InsertEntry tab (stored_entry inp e) tid (entry_plate e)])"

lemma entry_plate_stored [simp]: "entry_plate (stored_entry inp e) = entry_plate e"
  by (simp add: entry_plate_def stored_entry_def)

lemma insertentrytrans_acts:
  fixes inp s
  defines "r \<equiv> fst (insertentrytrans inp s)" and "t \<equiv> snd (insertentrytrans inp s)"
  shows "acts t = acts s @ stores inp (gsTransID s) (tEntry s)"
    and "tEntry t = stored_entry inp (tEntry s)"
    and "r = iDBSuccess \<longleftrightarrow> storage inp \<noteq> None"
    and "r = iCentralFail \<longleftrightarrow> storage inp = None \<and>
           (central_connected (db inp) \<or> central_connects (db inp))"
    and "giCardIsIn t = giCardIsIn s" "giBarrierContinueOpened t = giBarrierContinueOpened s"
proof -
  note sel = insertentrytrans_def Let_def emit_def acts_def stores_def storage_def
    entry_plate_def stored_entry_def
  have "acts t = acts s @ stores inp (gsTransID s) (tEntry s) \<and>
     tEntry t = stored_entry inp (tEntry s) \<and>
     (r = iDBSuccess \<longleftrightarrow> storage inp \<noteq> None) \<and>
     (r = iCentralFail \<longleftrightarrow> storage inp = None \<and>
           (central_connected (db inp) \<or> central_connects (db inp))) \<and>
     giCardIsIn t = giCardIsIn s \<and> giBarrierContinueOpened t = giBarrierContinueOpened s"
  proof (cases "central_connected (db inp) \<or> central_connects (db inp)")
    case True
    then show ?thesis unfolding r_def t_def
      by (cases "central_insert_ok (db inp)") (simp_all add: sel)
  next
    case False
    then show ?thesis unfolding r_def t_def
      by (cases "local_connected (db inp) \<or> local_connects (db inp)";
          cases "local_insert_ok (db inp)") (simp_all add: sel)
  qed
  then show "acts t = acts s @ stores inp (gsTransID s) (tEntry s)"
    and "tEntry t = stored_entry inp (tEntry s)"
    and "r = iDBSuccess \<longleftrightarrow> storage inp \<noteq> None"
    and "r = iCentralFail \<longleftrightarrow> storage inp = None \<and>
           (central_connected (db inp) \<or> central_connects (db inp))"
    and "giCardIsIn t = giCardIsIn s" "giBarrierContinueOpened t = giBarrierContinueOpened s"
    by auto
qed

lemma SaveEntry_frame:
  assumes "sIUTKNo (tEntry s) \<noteq> []"
  shows "acts (SaveEntry inp s) = acts s @ stores inp (gsTransID s) (tEntry s)"
    and "opens (SaveEntry inp s) = opens s"
    and "tEntry (SaveEntry inp s) = stored_entry inp (tEntry s)"
proof -
  obtain r t where rt: "insertentrytrans inp s = (r, t)" by (cases "insertentrytrans inp s")
  note ins = insertentrytrans_acts [of inp s, unfolded rt, simplified]
  have q: "acts (set_no i n u) = acts u" "acts (SendMsg2Server c d u) = acts u"
    "opens (set_no i n u) = opens u" "opens (SendMsg2Server c d u) = opens u"
    "acts (u\<lparr>gbsavedtrans := True\<rparr>) = acts u" "opens (u\<lparr>gbsavedtrans := True\<rparr>) = opens u"
    "acts (u\<lparr>gsLastIUNo := x, lastIUEntryTime := y\<rparr>) = acts u"
    "opens (u\<lparr>gsLastIUNo := x, lastIUEntryTime := y\<rparr>) = opens u"
    "tEntry (set_no i n u) = tEntry u"
    for i n u c d x y
    by (simp_all add: set_no_def SendMsg2Server_def emit_def acts_def opens_def)
  have o: "opens t = opens s" using ins by (simp add: opens_def)
  show "acts (SaveEntry inp s) = acts s @ stores inp (gsTransID s) (tEntry s)"
    "opens (SaveEntry inp s) = opens s"
    "tEntry (SaveEntry inp s) = stored_entry inp (tEntry s)"
    using assms ins o by (simp_all add: SaveEntry_def rt Let_def q)
qed

section \<open>The decision table\<close>

datatype decision =
    Ignored | Blacklisted | PrefixBlocked | Authorised | Locked | SeasonOnly | FullPartial
  | FullHourly | PassedBack | Admitted

text \<open>The answer of the season question and the rate of the season, from the databases alone.\<close>

definition season_answer :: "inputs \<Rightarrow> string \<Rightarrow> int \<times> int" where
  "season_answer inp iu =
     (case sp_season (db inp) iu of
        (ret, rate, from, to) \<Rightarrow>
          if ret \<noteq> - 1 then (ret, rate)
          else (case local_season_rows (db inp) iu of
                  Some ((from, to, rate) # rs) \<Rightarrow> (1, rate) | _ \<Rightarrow> (8, 0)))"

definition decided_type :: "lane_cfg \<Rightarrow> inputs \<Rightarrow> string \<Rightarrow> entry_trans \<Rightarrow> int" where
  "decided_type cfg inp iu e =
     (if length iu \<noteq> 10 then GetVTypeFromLoop inp
      else if giEPS cfg = 3 \<and> VCC e \<noteq> [] then iTransType e
      else FnGetVehicleType cfg (take 3 iu))"

definition decide :: "lane_cfg \<Rightarrow> inputs \<Rightarrow> string \<Rightarrow> bool \<Rightarrow> entry_trans \<Rightarrow> decision" where
  "decide cfg inp iu full e =
     (if iu = [] then Ignored
      else if IsBlackListIU inp iu = 0 then Blacklisted
      else if contains_str (BlockIUPrefix cfg) (take 3 iu) \<and> length iu = 10 then PrefixBlocked
      else if decided_type cfg inp iu e = 9 then Authorised
      else if full \<and> giFullAction cfg = iLock then Locked
      else
        (case season_answer inp iu of
           (r, rate) \<Rightarrow>
             if r \<noteq> 1 \<and> NotAllowHourly cfg = 1 then SeasonOnly
             else if full \<and> r = 1 \<and> rate \<noteq> 0 \<and> giFullAction cfg = iNoPartial then FullPartial
             else if full \<and> r \<noteq> 1 then FullHourly
             else if r = 6 \<and> length iu > 10 then PassedBack
             else Admitted))"

definition grants :: "decision \<Rightarrow> bool" where
  "grants d \<longleftrightarrow> d = Authorised \<or> d = Admitted"

text \<open>The type stored with a granted entry.\<close>

definition granted_type :: "lane_cfg \<Rightarrow> inputs \<Rightarrow> string \<Rightarrow> entry_trans \<Rightarrow> int" where
  "granted_type cfg inp iu e =
     (let v = decided_type cfg inp iu e in
      if v = 9 then 9
      else case season_answer inp iu of
        (r, rate) \<Rightarrow> if r = 1 then GetSeasonTransType ((v - 1) sdiv 3) rate v else 1)"

lemma isvalidseason_answer:
  "fst (isvalidseason inp iu s) = fst (season_answer inp iu)"
  "fst (season_answer inp iu) = 1 \<Longrightarrow>
     rate_type (tSeason (snd (isvalidseason inp iu s))) = snd (season_answer inp iu)"
  "tEntry (snd (isvalidseason inp iu s)) = tEntry s"
  by (auto simp: isvalidseason_def local_isvalidseason_def season_answer_def
      split: prod.splits option.splits list.splits)

lemma season_of_ShowLEDMsg [simp]: "tSeason (ShowLEDMsg cfg m s) = tSeason s"
  by (simp add: ShowLEDMsg_def Let_def emit_def)

lemma season_of_on_entry [simp]: "tSeason (on_entry f s) = tSeason s"
  by (simp add: on_entry_def)

lemma FormatSeasonMsg_entry:
  "tEntry (FormatSeasonMsg cfg inp r s) = (tEntry s)\<lparr>iTransType :=
     GetSeasonTransType (iVehicleType (tEntry s)) (rate_type (tSeason s)) (iTransType (tEntry s))\<rparr>"
  "tSeason (FormatSeasonMsg cfg inp r s) = tSeason s"
  by (simp_all add: FormatSeasonMsg_def Let_def)

lemma CheckSeason_result:
  assumes "CheckSeason cfg inp iu s = (r, t)"
  shows "r = fst (season_answer inp iu)"
    and "r = 1 \<Longrightarrow> rate_type (tSeason t) = snd (season_answer inp iu)"
    and "\<exists>ty. tEntry t = (tEntry s)\<lparr>iTransType := ty\<rparr> \<and>
           (r = 1 \<longrightarrow> ty = GetSeasonTransType (iVehicleType (tEntry s)) (snd (season_answer inp iu))
                            (iTransType (tEntry s)))"
    and "obs t = obs s"
proof -
  obtain q u where qu: "isvalidseason inp iu s = (q, u)" by (cases "isvalidseason inp iu s")
  note ans = isvalidseason_answer [of inp iu s, unfolded qu, simplified]
  show "r = fst (season_answer inp iu)" "r = 1 \<Longrightarrow> rate_type (tSeason t) = snd (season_answer inp iu)"
    using assms ans by (auto simp: CheckSeason_def qu FormatSeasonMsg_entry split: if_splits)
  show "\<exists>ty. tEntry t = (tEntry s)\<lparr>iTransType := ty\<rparr> \<and>
           (r = 1 \<longrightarrow> ty = GetSeasonTransType (iVehicleType (tEntry s)) (snd (season_answer inp iu))
                            (iTransType (tEntry s)))"
  proof (cases "q = 8")
    case True
    with assms ans show ?thesis
      by (intro exI [of _ "iTransType (tEntry s)"]) (auto simp: CheckSeason_def qu)
  next
    case False
    with assms ans show ?thesis by (auto simp: CheckSeason_def qu FormatSeasonMsg_entry)
  qed
  show "obs t = obs s"
    using obs_CheckSeason [of cfg inp iu s] assms by simp
qed

text \<open>What a granted entry does: the row, if it can be stored, then one pulse.\<close>

definition granted_acts :: "lane_cfg \<Rightarrow> inputs \<Rightarrow> string \<Rightarrow> lane \<Rightarrow> entry_trans \<Rightarrow> lane_effect list" where
  "granted_acts cfg inp iu s e = stores inp (gsTransID s) e @ opens s"

lemma opens_obs: "obs s = obs t \<Longrightarrow> opens s = opens t"
  by (simp add: opens_def obs_def view_def)

text \<open>A number is let in from \<open>s\<close> when the state \<open>s'\<close> comes from saving an entry in a state that
  looks like \<open>s\<close> and opening the barrier.\<close>

definition lets_in :: "lane_cfg \<Rightarrow> inputs \<Rightarrow> entry_trans \<Rightarrow> lane \<Rightarrow> lane \<Rightarrow> bool" where
  "lets_in cfg inp e s s' \<longleftrightarrow>
     (\<exists>t f. s' = Openbarrier cfg 0 (on_entry f (SaveEntry inp t)) \<and> obs t = obs s \<and> tEntry t = e)"

lemma obs_of_on_entry [simp]:
  "acts (on_entry f u) = acts u" "opens (on_entry f u) = opens u"
  using obs_sel [OF obs_on_entry] opens_obs [OF obs_on_entry] by blast+

lemma lets_in_acts:
  assumes "lets_in cfg inp e s s'" "sIUTKNo e \<noteq> []"
  shows "acts s' = acts s @ granted_acts cfg inp iu s e"
proof -
  obtain t f where t: "s' = Openbarrier cfg 0 (on_entry f (SaveEntry inp t))" "obs t = obs s"
    "tEntry t = e"
    using assms(1) by (auto simp: lets_in_def)
  then show ?thesis
    using SaveEntry_frame [of t inp] obs_sel [OF t(2)] opens_obs [OF t(2)] assms(2)
    by (simp add: acts_Openbarrier granted_acts_def)
qed

lemma entry_of_greet_hourly:
  "tEntry (greet_hourly cfg inp iu s) = (tEntry s)\<lparr>iTransType := 1\<rparr>"
  by (simp add: greet_hourly_def Let_def on_entry_def)

lemma admit_lets_in:
  assumes "obs s = obs s0"
  shows "lets_in cfg inp (if r = 1 then tEntry s else (tEntry s)\<lparr>iTransType := 1\<rparr>) s0
           (admit cfg inp iu r s)"
proof -
  define t where "t =
     (let s1 = (if r = 1 \<or> r = 4 \<or> r = 6 then s\<lparr>giShowType := 0\<rparr> else s);
          s2 = (if r = 10
                then (ShowLEDMsg cfg (tMsg cfg Msg_SeasonAsHourly) s1)\<lparr>giShowType := 2\<rparr> else s1)
      in if r \<noteq> 1 then greet_hourly cfg inp iu s2 else s2)"
  have "obs t = obs s0"
    and "tEntry t = (if r = 1 then tEntry s else (tEntry s)\<lparr>iTransType := 1\<rparr>)"
    using assms by (simp_all add: t_def Let_def frame entry_of_greet_hourly)
  moreover have "admit cfg inp iu r s =
      Openbarrier cfg 0 (on_entry (\<lambda>e. e\<lparr>gbEntryOK := True\<rparr>) (SaveEntry inp t))"
    by (simp add: admit_def t_def Let_def)
  ultimately show ?thesis unfolding lets_in_def by blast
qed

lemma after_season_acts:
  fixes cfg iu
  assumes o: "obs s = obs s0" and rate: "r = 1 \<Longrightarrow> rate_type (tSeason s) = rate"
  defines "go \<equiv> \<not> (r \<noteq> 1 \<and> NotAllowHourly cfg = 1) \<and>
      \<not> (gbcarparkfull s0 \<and> r = 1 \<and> rate \<noteq> 0 \<and> giFullAction cfg = iNoPartial) \<and>
      \<not> (gbcarparkfull s0 \<and> r \<noteq> 1) \<and> \<not> (r = 6 \<and> length iu > 10)"
  shows "go \<Longrightarrow> lets_in cfg inp (if r = 1 then tEntry s else (tEntry s)\<lparr>iTransType := 1\<rparr>) s0
           (after_season cfg inp iu r s)"
    and "\<not> go \<Longrightarrow> obs (after_season cfg inp iu r s) = obs s0"
proof -
  have f: "gbcarparkfull s = gbcarparkfull s0" by (rule obs_sel [OF o])
  show "lets_in cfg inp (if r = 1 then tEntry s else (tEntry s)\<lparr>iTransType := 1\<rparr>) s0
           (after_season cfg inp iu r s)" if go
    using that rate admit_lets_in [OF o, of cfg inp r iu]
    by (auto simp: go_def after_season_def f)
  show "obs (after_season cfg inp iu r s) = obs s0" if "\<not> go"
    using that rate o by (auto simp: go_def after_season_def f frame)
qed

text \<open>The states inside \<open>PBSEntry\<close>: before the vehicle is classified, and before the season is
  looked up.\<close>

definition presented :: "lane_cfg \<Rightarrow> inputs \<Rightarrow> string \<Rightarrow> lane \<Rightarrow> lane" where
  "presented cfg inp iu s =
     (let s1 = on_entry (\<lambda>e. e\<lparr>sIUTKNo := iu, sEntryTime := date_text inp\<rparr>) s;
          s2 = SendMsg2Server ''90''
                   ('','' @ iu @ '',,'' @ sLPN0 (tEntry s1) @ '',,PMS_DVR'') s1
      in if IsBlackListIU inp iu \<ge> 0
         then SendMsg2Server ''90'' (iu @ '',,,,,Blacklist IU'')
                (ShowLEDMsg cfg (tMsg cfg MsgBlackList) s2)
         else s2)"

lemma presented_frame:
  "obs (presented cfg inp iu s) = obs s"
  "tEntry (presented cfg inp iu s) = (tEntry s)\<lparr>sIUTKNo := iu, sEntryTime := date_text inp\<rparr>"
  by (simp_all add: presented_def Let_def frame)

lemma PBSEntry_presented:
  assumes "iu \<noteq> []"
  shows "PBSEntry cfg inp iu s =
     (let s3 = presented cfg inp iu s in
      if IsBlackListIU inp iu = 0 then s3
      else if contains_str (BlockIUPrefix cfg) (take 3 iu) \<and> length iu = 10 then
        SendMsg2Server ''90'' (iu @ '',,,,,Block IU'')
          (ShowLEDMsg cfg (both ''Lorry No Entry^Pls Reverse'') s3)
      else
        let s4 = classify cfg inp iu s3 in
        if iTransType (tEntry s4) = 9 then
          Openbarrier cfg 0
            (SaveEntry inp
              (on_entry (\<lambda>e. e\<lparr>iStatus := 0\<rparr>)
                (ShowLEDMsg cfg (tMsg cfg Msg_authorizedvehicle) s4)))
        else if gbcarparkfull s4 \<and> giFullAction cfg = iLock then
          ShowLEDMsg cfg (tMsg cfg Msg_LockStation) s4
        else
          (case CheckSeason cfg inp iu
                  (on_entry (\<lambda>e. e\<lparr>iVehicleType := (iTransType e - 1) sdiv 3\<rparr>) s4) of
             (r, s5) \<Rightarrow> after_season cfg inp iu r s5))"
  using assms by (simp only: PBSEntry_def presented_def Let_def if_False)

lemma classify_entry:
  "tEntry (classify cfg inp iu s) =
     (tEntry s)\<lparr>iTransType := decided_type cfg inp iu (tEntry s)\<rparr>"
  by (simp add: classify_def decided_type_def)

lemma decided_type_presented [simp]:
  "decided_type cfg inp iu (e\<lparr>sIUTKNo := a, sEntryTime := b\<rparr>) = decided_type cfg inp iu e"
  by (simp add: decided_type_def)

text \<open>The entry stored when a number is granted.\<close>

definition entry_for :: "lane_cfg \<Rightarrow> inputs \<Rightarrow> string \<Rightarrow> entry_trans \<Rightarrow> entry_trans \<Rightarrow> bool" where
  "entry_for cfg inp iu e e' \<longleftrightarrow>
     sIUTKNo e' = iu \<and> iTransType e' = granted_type cfg inp iu e \<and>
     sLPN0 e' = sLPN0 e \<and> sLPN1 e' = sLPN1 e"

lemma PBSEntry_lets_in:
  fixes cfg inp iu
  defines "go s \<equiv> grants (decide cfg inp iu (gbcarparkfull s) (tEntry s))"
  shows "go s \<Longrightarrow> \<exists>e. entry_for cfg inp iu (tEntry s) e \<and>
           lets_in cfg inp e s (PBSEntry cfg inp iu s)"
    and "\<not> go s \<Longrightarrow> obs (PBSEntry cfg inp iu s) = obs s"
proof -
  have *: "(go s \<longrightarrow> (\<exists>e. entry_for cfg inp iu (tEntry s) e \<and>
           lets_in cfg inp e s (PBSEntry cfg inp iu s))) \<and>
     (\<not> go s \<longrightarrow> obs (PBSEntry cfg inp iu s) = obs s)"
  proof (cases "iu = []")
    case True
    then show ?thesis by (simp add: go_def decide_def grants_def PBSEntry_def Let_def frame)
  next
    case iu: False
    define s3 where "s3 = presented cfg inp iu s"
    define s4 where "s4 = classify cfg inp iu s3"
    let ?v = "decided_type cfg inp iu (tEntry s)"
    have o4: "obs s4 = obs s" and o3: "obs s3 = obs s"
      by (simp_all add: s4_def s3_def frame presented_frame)
    have e4: "tEntry s4 = (tEntry s)\<lparr>sIUTKNo := iu, sEntryTime := date_text inp, iTransType := ?v\<rparr>"
      by (simp add: s4_def s3_def classify_entry presented_frame)
    have f4: "gbcarparkfull s4 = gbcarparkfull s" by (rule obs_sel [OF o4])
    note unf = PBSEntry_presented [OF iu] Let_def s3_def [symmetric] s4_def [symmetric]
    note dec = go_def decide_def grants_def iu
    consider "IsBlackListIU inp iu = 0"
      | "IsBlackListIU inp iu \<noteq> 0" "contains_str (BlockIUPrefix cfg) (take 3 iu) \<and> length iu = 10"
      | "IsBlackListIU inp iu \<noteq> 0" "\<not> (contains_str (BlockIUPrefix cfg) (take 3 iu) \<and> length iu = 10)"
        "?v = 9"
      | "IsBlackListIU inp iu \<noteq> 0" "\<not> (contains_str (BlockIUPrefix cfg) (take 3 iu) \<and> length iu = 10)"
        "?v \<noteq> 9" "gbcarparkfull s \<and> giFullAction cfg = iLock"
      | "IsBlackListIU inp iu \<noteq> 0" "\<not> (contains_str (BlockIUPrefix cfg) (take 3 iu) \<and> length iu = 10)"
        "?v \<noteq> 9" "\<not> (gbcarparkfull s \<and> giFullAction cfg = iLock)"
      by blast
    then show ?thesis
    proof cases
      case 1
      then show ?thesis by (simp add: unf dec o3)
    next
      case 2
      then show ?thesis by (simp add: unf dec frame o3)
    next
      case 3
      let ?t = "on_entry (\<lambda>e. e\<lparr>iStatus := 0\<rparr>) (ShowLEDMsg cfg (tMsg cfg Msg_authorizedvehicle) s4)"
      have "Openbarrier cfg 0 (SaveEntry inp ?t) = Openbarrier cfg 0 (on_entry id (SaveEntry inp ?t))"
        by (simp add: on_entry_def)
      moreover have "obs ?t = obs s" by (simp add: frame o4)
      ultimately have "lets_in cfg inp (tEntry ?t) s (Openbarrier cfg 0 (SaveEntry inp ?t))"
        unfolding lets_in_def by blast
      moreover have "entry_for cfg inp iu (tEntry s) (tEntry ?t)"
        using 3 by (simp add: entry_for_def e4 granted_type_def)
      ultimately show ?thesis using 3 by (auto simp: unf dec e4)
    next
      case 4
      then show ?thesis by (simp add: unf dec frame o3 o4 e4 f4)
    next
      case 5
      let ?u = "on_entry (\<lambda>e. e\<lparr>iVehicleType := (iTransType e - 1) sdiv 3\<rparr>) s4"
      obtain r s5 where rs: "CheckSeason cfg inp iu ?u = (r, s5)" by fastforce
      note cs = CheckSeason_result [OF rs]
      obtain ty where ty: "tEntry s5 = (tEntry ?u)\<lparr>iTransType := ty\<rparr>"
        "r = 1 \<Longrightarrow> ty = GetSeasonTransType ((?v - 1) sdiv 3) (snd (season_answer inp iu)) ?v"
        using cs(3) by (auto simp: e4)
      have o5: "obs s5 = obs s" using cs(4) by (simp add: frame o4)
      have pb: "PBSEntry cfg inp iu s = after_season cfg inp iu r s5"
        using 5 f4 by (auto simp add: unf e4 rs)
      obtain rate where ans: "season_answer inp iu = (r, rate)"
        using cs(1) by (cases "season_answer inp iu") simp
      have e: "entry_for cfg inp iu (tEntry s)
          (if r = 1 then tEntry s5 else (tEntry s5)\<lparr>iTransType := 1\<rparr>)"
        using 5 ty by (auto simp: entry_for_def e4 granted_type_def Let_def ans)
      show ?thesis
        using after_season_acts [OF o5, of r rate cfg iu inp] cs(2) e 5
        by (auto simp: pb dec ans f4)
    qed
  qed
  show "go s \<Longrightarrow> \<exists>e. entry_for cfg inp iu (tEntry s) e \<and>
           lets_in cfg inp e s (PBSEntry cfg inp iu s)"
    and "\<not> go s \<Longrightarrow> obs (PBSEntry cfg inp iu s) = obs s"
    using * by blast+
qed

lemma entry_for_number:
  "grants (decide cfg inp iu full e) \<Longrightarrow> entry_for cfg inp iu e e' \<Longrightarrow> sIUTKNo e' \<noteq> []"
  by (auto simp: entry_for_def decide_def grants_def)

lemma PBSEntry_effect:
  fixes cfg inp iu
  defines "go s \<equiv> grants (decide cfg inp iu (gbcarparkfull s) (tEntry s))"
  shows "go s \<Longrightarrow> \<exists>e. entry_for cfg inp iu (tEntry s) e \<and>
           acts (PBSEntry cfg inp iu s) = acts s @ granted_acts cfg inp iu s e"
    and "\<not> go s \<Longrightarrow> obs (PBSEntry cfg inp iu s) = obs s"
  using PBSEntry_lets_in [of cfg inp iu s] lets_in_acts entry_for_number
  unfolding go_def by blast+

text \<open>Without the on-board unit system, opening the barrier leaves the last number alone.\<close>

lemma lets_in_last:
  assumes "lets_in cfg inp e s s'" "sIUTKNo e \<noteq> []" "giEPS cfg \<noteq> 3" "storage inp \<noteq> None"
  shows "gsLastIUNo s' = sIUTKNo e" and "lastIUEntryTime s' = now inp" and "opens s' = opens s"
proof -
  obtain t f where t: "s' = Openbarrier cfg 0 (on_entry f (SaveEntry inp t))" "obs t = obs s"
    "tEntry t = e"
    using assms(1) by (auto simp: lets_in_def)
  obtain r u where ru: "insertentrytrans inp t = (r, u)" by (cases "insertentrytrans inp t")
  note ins = insertentrytrans_acts [of inp t, unfolded ru, simplified]
  have saved: "gsLastIUNo (SaveEntry inp t) = sIUTKNo e" "lastIUEntryTime (SaveEntry inp t) = now inp"
    using assms(2,4) t(3) ins
    by (simp_all add: SaveEntry_def ru Let_def set_no_def SendMsg2Server_def emit_def stored_entry_def)
  have o: "gsLastIUNo (Openbarrier cfg 0 v) = gsLastIUNo v"
    "lastIUEntryTime (Openbarrier cfg 0 v) = lastIUEntryTime v"
    "opens (Openbarrier cfg 0 v) = opens v" for v
    using assms(3)
    by (simp_all add: Openbarrier_def Let_def stopLoopAPeriodicTimer_def emit_def ShowLEDMsg_def
        opens_def)
  have e: "gsLastIUNo (on_entry f v) = gsLastIUNo v"
    "lastIUEntryTime (on_entry f v) = lastIUEntryTime v" for v
    by (simp_all add: on_entry_def)
  show "gsLastIUNo s' = sIUTKNo e" "lastIUEntryTime s' = now inp" "opens s' = opens s"
    using saved SaveEntry_frame(2) [of t inp] opens_obs [OF t(2)] assms(2) t(3)
    by (simp_all add: t(1) o e)
qed

section \<open>Without a number that may enter, nothing moves\<close>

text \<open>None of the numbers in \<open>P\<close>, and no number the databases know for a plate, may enter.\<close>

definition barred ::
  "lane_cfg \<Rightarrow> inputs \<Rightarrow> (string \<Rightarrow> bool) \<Rightarrow> lane_effect list \<times> int \<times> bool \<times> string \<times> int \<Rightarrow> bool" where
  "barred cfg inp P v =
     (case v of (a, held, full, lastIU, lastT) \<Rightarrow>
        (\<forall>iu. P iu \<or> (\<exists>lpn. iu = GetIUByLPN inp lpn) \<longrightarrow>
           \<not> (length iu = 10 \<and> lastIU = iu \<and> (now inp - lastT) sdiv one_second \<le> giMaxTransInterval cfg) \<and>
           (\<forall>e. \<not> grants (decide cfg inp iu full e))))"

lemma view_PBSEntry:
  assumes "barred cfg inp P (view s)" "P iu \<or> (\<exists>lpn. iu = GetIUByLPN inp lpn)"
  shows "view (PBSEntry cfg inp iu s) = view s"
proof -
  have "\<not> grants (decide cfg inp iu (gbcarparkfull s) (tEntry s))"
    using assms by (auto simp: barred_def view_def)
  then show ?thesis by (rule view_of_obs [OF PBSEntry_effect(2)])
qed

lemma view_identified:
  assumes "barred cfg inp P (view s)" "P iu \<or> (\<exists>lpn. iu = GetIUByLPN inp lpn)"
  shows "view (identified cfg inp iu s) = view s"
proof -
  have "\<not> same_as_last cfg inp iu s"
    using assms by (auto simp: barred_def view_def same_as_last_def)
  then show ?thesis
    using view_PBSEntry [OF assms] by (simp add: identified_def)
qed

lemma plate_iu_cases: "plate_iu inp s = [] \<or> (\<exists>lpn. plate_iu inp s = GetIUByLPN inp lpn)"
  by (auto simp: plate_iu_def Let_def)

lemma view_calls:
  "EnableCashcard n cfg inp b s = Some t \<Longrightarrow> barred cfg inp P (view s) \<Longrightarrow> view t = view s"
  "VehicleCome n cfg inp iu s = Some t \<Longrightarrow> barred cfg inp P (view s) \<Longrightarrow>
     P iu \<or> (\<exists>lpn. iu = GetIUByLPN inp lpn) \<Longrightarrow> view t = view s"
proof (induction n cfg inp b s and n cfg inp iu s arbitrary: t and t
    rule: EnableCashcard_VehicleCome.induct)
  case (3 fuel cfg inp bEnable s)
  let ?s = "s\<lparr>sEnableReader := bEnable\<rparr>"
  show ?case
  proof (cases "bEnable = sEnableReader s \<or> plate_iu inp ?s = []")
    case True
    with 3 show ?thesis by (auto simp: Let_def frame split: if_splits)
  next
    case False
    with 3 have "view t = view ?s"
      using plate_iu_cases [of inp ?s] by (auto simp: Let_def frame split: if_splits)
    then show ?thesis by (simp add: frame)
  qed
next
  case (4 fuel cfg inp sNo s)
  consider "sNo = []" | "sNo \<noteq> []" "length sNo = 10" "sNo = gsDefaultIU cfg"
    | "sNo \<noteq> []" "length sNo = 10" "sNo \<noteq> gsDefaultIU cfg" | "sNo \<noteq> []" "length sNo \<noteq> 10"
    by blast
  then show ?case
  proof cases
    case 3
    with "4.prems" obtain u where u: "EnableCashcard fuel cfg inp False s = Some u"
      "t = identified cfg inp sNo u"
      by auto
    then have v: "view u = view s" using "4.IH" 3 "4.prems" by simp
    then show ?thesis
      using view_identified [of cfg inp P u sNo] "4.prems" by (simp add: u(2))
  next
    case 4
    then show ?thesis
      using "4.prems" view_identified [of cfg inp P "emit AntennaStopRead s" sNo]
      by (auto simp: Let_def frame)
  qed (use "4.prems" in \<open>auto simp: Let_def frame\<close>)
qed simp_all

text \<open>The fields that only the handlers change.\<close>

lemma view_more_fields [frame]:
  "view (s\<lparr>gsTransID := t\<rparr>) = view s" "view (s\<lparr>giCardIsIn := i\<rparr>) = view s"
  by (simp_all add: view_def acts_def)

named_theorems quiet_calls

lemma quiet_cashcard [quiet_calls]:
  "EnableCashcard n cfg inp b s = Some t \<Longrightarrow> barred cfg inp P (view s) \<Longrightarrow> view t = view s"
  by (rule view_calls(1))

lemma quiet_LoopACome [quiet_calls]:
  "LoopACome cfg inp s = Some t \<Longrightarrow> barred cfg inp P (view s) \<Longrightarrow> view t = view s"
  by (auto simp: LoopACome_def Let_def frame quiet_calls split: if_splits)

lemma quiet_LoopAGone [quiet_calls]:
  "LoopAGone cfg inp s = Some t \<Longrightarrow> barred cfg inp P (view s) \<Longrightarrow> view t = view s"
  by (auto simp: LoopAGone_def Let_def frame quiet_calls split: if_splits)

lemma quiet_LoopCGone [quiet_calls]:
  "LoopCGone cfg inp s = Some t \<Longrightarrow> barred cfg inp P (view s) \<Longrightarrow> view t = view s"
  by (auto simp: LoopCGone_def Let_def frame quiet_calls split: if_splits)

lemma quiet_timer [quiet_calls]:
  "handleLoopAPeriodicTimerTimeout cfg inp s = Some t \<Longrightarrow> barred cfg inp P (view s) \<Longrightarrow>
   view t = view s"
  by (auto simp: handleLoopAPeriodicTimerTimeout_def loopATimeoutHandler_def Let_def frame
      quiet_calls split: if_splits option.splits)

text \<open>The number an action brings, and whether the car park is full when it is looked at.\<close>

fun brings :: "lane_action \<Rightarrow> lane \<Rightarrow> string \<Rightarrow> bool" where
  "brings (AntennaIU n) s iu \<longleftrightarrow> iu = n"
| "brings (CardInfo c) s iu \<longleftrightarrow> iu = c"
| "brings (LcscCard c) s iu \<longleftrightarrow> iu = c"
| "brings (Obu n l v) s iu \<longleftrightarrow> iu = n"
| "brings (Full b) s iu \<longleftrightarrow> iu = sIUTKNo (tEntry s)"
| "brings _ s iu \<longleftrightarrow> False"

fun full_at :: "lane_action \<Rightarrow> lane \<Rightarrow> bool" where
  "full_at (Full b) s = b"
| "full_at _ s = gbcarparkfull s"

text \<open>What the operator does, and a card taken out after the entry has been recorded.\<close>

fun by_hand :: "lane_action \<Rightarrow> lane \<Rightarrow> bool" where
  "by_hand PmsOpen s = True"
| "by_hand PmsClose s = True"
| "by_hand PmsContinueOpen s = True"
| "by_hand (Dio BARRIER_STATUS_ON) s = True"
| "by_hand CardTakenAway s = gbEntryOK (tEntry s)"
| "by_hand _ s = False"

lemma quiet_dio:
  assumes "handleDioEventOnIo cfg inp e s = Some t" "barred cfg inp P (view s)"
    and "e \<noteq> BARRIER_STATUS_ON"
  shows "view t = view s"
  using assms by (cases e) (auto simp: updateBarrierStatus_def frame quiet_calls)

lemma view_KSM_CardIn [frame]: "view (KSM_CardIn inp cfg s) = view s"
  by (simp add: KSM_CardIn_def Let_def frame)

lemma view_wrong_card [frame]: "view (wrong_card cfg s) = view s"
  by (simp add: wrong_card_def frame)

lemma view_ReceivedLPR [frame]: "view (ReceivedLPR l tid s) = view s"
  by (simp add: ReceivedLPR_def Let_def frame)

lemma quiet_vehicle [quiet_calls]:
  "VehicleCome n cfg inp iu s = Some t \<Longrightarrow> barred cfg inp ((=) iu) (view s) \<Longrightarrow> view t = view s"
  by (erule view_calls(2)) auto

lemma quiet_antenna:
  "handleAntennaIUComeOnIo cfg inp iu s = Some t \<Longrightarrow> barred cfg inp ((=) iu) (view s) \<Longrightarrow>
   view t = view s"
  using view_identified [of cfg inp "(=) iu" s iu]
  by (auto simp: handleAntennaIUComeOnIo_def barred_def same_as_last_def view_def [of s] frame
      quiet_calls split: if_splits)

lemma quiet_antenna_fail:
  "handleAntennaFailOnIo cfg inp c s = Some t \<Longrightarrow> barred cfg inp P (view s) \<Longrightarrow> view t = view s"
  by (auto simp: handleAntennaFailOnIo_def frame quiet_calls split: if_splits)

lemma quiet_cards:
  "KSM_CardInfo cfg inp c s = Some t \<Longrightarrow> barred cfg inp ((=) c) (view s) \<Longrightarrow> view t = view s"
  "KSM_CardTakeAway cfg inp s = Some t \<Longrightarrow> \<not> gbEntryOK (tEntry s) \<Longrightarrow> view t = view s"
  "lcsc_card cfg inp c s = Some t \<Longrightarrow> barred cfg inp ((=) c) (view s) \<Longrightarrow> view t = view s"
  "ProcessOUBInformation cfg inp c l v s = Some t \<Longrightarrow> barred cfg inp ((=) c) (view s) \<Longrightarrow>
     view t = view s"
  by (auto simp: KSM_CardInfo_def KSM_CardTakeAway_def lcsc_card_def ProcessOUBInformation_def
      setLastActionTimeAfterLoopA_def [of inp s]
      Let_def frame quiet_calls split: if_splits option.splits)

lemma quiet_act:
  assumes "lane_act cfg inp a s = Some t"
    and "barred cfg inp (brings a s) (view (s\<lparr>gbcarparkfull := full_at a s\<rparr>))"
    and "\<not> by_hand a s"
  shows "acts t = acts s"
proof -
  have same: "brings (AntennaIU c) s = (=) c" "brings (CardInfo c) s = (=) c"
    "brings (LcscCard c) s = (=) c" "brings (Obu c l v) s = (=) c" for c l v
    by auto
  have full: "s\<lparr>gbcarparkfull := gbcarparkfull s\<rparr> = s" by simp
  show ?thesis
  proof (cases "\<exists>b. a = Full b")
    case True
    then obtain b where a: "a = Full b" ..
    let ?s = "s\<lparr>gbcarparkfull := b\<rparr>"
    have "barred cfg inp (brings a s) (view ?s)" using assms(2) a by simp
    then have "view (PBSEntry cfg inp (sIUTKNo (tEntry s)) ?s) = view ?s"
      by (rule view_PBSEntry) (simp add: a)
    then have "acts (PBSEntry cfg inp (sIUTKNo (tEntry s)) ?s) = acts s"
      by (simp add: view_def acts_def)
    then show ?thesis
      using assms(1) by (auto simp: a CarparkFull_def Let_def acts_def)
  next
    case False
    then have b: "barred cfg inp (brings a s) (view s)"
      using assms(2) by (cases a) (auto simp: full)
    have "view t = view s"
    proof (cases a)
      case (Dio e)
      then have "e \<noteq> BARRIER_STATUS_ON" using assms(3) by auto
      moreover have "handleDioEventOnIo cfg inp e s = Some t" using assms(1) Dio by simp
      ultimately show ?thesis using b quiet_dio by blast
    qed (use assms(1,3) b False in \<open>auto simp: same frame quiet_antenna quiet_antenna_fail quiet_cards
        quiet_calls handleAntennaPowerOnIo_def handleKSM_EnableError_def
        handleKSM_CardReadError_def split: if_splits\<close>)
    then show ?thesis by (rule acts_of_view)
  qed
qed

section \<open>The calls return\<close>

lemma cashcard_returns_at:
  "b = sEnableReader s \<Longrightarrow> EnableCashcard (Suc n) cfg inp b s = Some s"
  by simp

lemma vehicle_returns_at:
  assumes "\<And>u. sEnableReader u = sEnableReader s \<Longrightarrow> EnableCashcard n cfg inp False u \<noteq> None"
  shows "VehicleCome (Suc n) cfg inp iu s \<noteq> None"
  using assms [of s] by (auto simp: Let_def)

lemma depth_False: "EnableCashcard (Suc (Suc (Suc n))) cfg inp False s \<noteq> None"
proof (cases "sEnableReader s")
  case True
  have "VehicleCome (Suc (Suc n)) cfg inp iu (s\<lparr>sEnableReader := False\<rparr>) \<noteq> None" for iu
    by (rule vehicle_returns_at) simp
  with True show ?thesis by (simp add: Let_def del: VehicleCome.simps)
qed simp

lemma depth_vehicle: "VehicleCome (Suc (Suc (Suc (Suc n)))) cfg inp iu s \<noteq> None"
  by (rule vehicle_returns_at) (rule depth_False)

lemma depth_cashcard: "EnableCashcard (Suc (Suc (Suc (Suc (Suc n))))) cfg inp b s \<noteq> None"
  using depth_vehicle [of n] 
  by (simp only: EnableCashcard.simps Let_def split: if_splits) (auto simp del: VehicleCome.simps)

lemma cashcard_step:
  "EnableCashcard (Suc n) cfg inp b s =
     (let s1 = s\<lparr>sEnableReader := b\<rparr> in
      if b = sEnableReader s then Some s
      else if plate_iu inp s1 = [] then Some (switch_readers cfg b s1)
      else VehicleCome n cfg inp (plate_iu inp s1) s1)"
  by (simp add: Let_def del: VehicleCome.simps)

lemma vehicle_step:
  "VehicleCome (Suc n) cfg inp iu s =
     (if iu = [] then Some s
      else if length iu \<noteq> 10 then Some (identified cfg inp iu (emit AntennaStopRead s))
      else if iu = gsDefaultIU cfg then Some (SendMsg2Server ''90'' (iu @ '',,,,,Default IU'') s)
      else map_option (identified cfg inp iu) (EnableCashcard n cfg inp False s))"
  by (simp add: Let_def del: EnableCashcard.simps)

declare EnableCashcard.simps [simp del] VehicleCome.simps [simp del]

lemma deeper:
  "EnableCashcard n cfg inp b s = Some t \<Longrightarrow> EnableCashcard (Suc n) cfg inp b s = Some t"
  "VehicleCome n cfg inp iu s = Some t \<Longrightarrow> VehicleCome (Suc n) cfg inp iu s = Some t"
proof (induction n cfg inp b s and n cfg inp iu s arbitrary: t and t
    rule: EnableCashcard_VehicleCome.induct)
  case (3 fuel cfg inp bEnable s)
  then show ?case
    unfolding cashcard_step [of "Suc fuel"] cashcard_step [of fuel]
    by (auto simp: Let_def split: if_splits)
next
  case (4 fuel cfg inp sNo s)
  then show ?case
    unfolding vehicle_step [of "Suc fuel"] vehicle_step [of fuel]
    by (auto split: if_splits)
qed (simp_all add: EnableCashcard.simps VehicleCome.simps)

lemma enough_depth:
  assumes "call_depth \<le> n"
  shows "EnableCashcard n cfg inp b s = cashcard cfg inp b s"
    and "VehicleCome n cfg inp iu s = vehicle cfg inp iu s"
    and "cashcard cfg inp b s \<noteq> None" and "vehicle cfg inp iu s \<noteq> None"
proof -
  have d: "call_depth = Suc (Suc (Suc (Suc (Suc 0))))" by (simp add: call_depth_def)
  show c: "cashcard cfg inp b s \<noteq> None" unfolding d by (rule depth_cashcard)
  show v: "vehicle cfg inp iu s \<noteq> None" unfolding d by (rule depth_vehicle)
  from assms show "EnableCashcard n cfg inp b s = cashcard cfg inp b s"
    using c by (induction n rule: dec_induct) (auto intro: deeper)
  from assms show "VehicleCome n cfg inp iu s = vehicle cfg inp iu s"
    using v by (induction n rule: dec_induct) (auto intro: deeper)
qed

text \<open>Everything the station is asked to do returns; only a timer that is not armed cannot fire.\<close>

lemma LoopACome_returns: "LoopACome cfg inp s \<noteq> None"
  by (auto simp: enough_depth(3) [OF order_refl] LoopACome_def Let_def simp del: not_None_eq)

lemma returns:
  "handleDioEventOnIo cfg inp e s \<noteq> None" "handleAntennaIUComeOnIo cfg inp iu s \<noteq> None"
  "handleAntennaFailOnIo cfg inp c s \<noteq> None" "KSM_CardInfo cfg inp n s \<noteq> None"
  "KSM_CardTakeAway cfg inp s \<noteq> None" "lcsc_card cfg inp n s \<noteq> None"
  "ProcessOUBInformation cfg inp n l v s \<noteq> None"
  "handleLoopAPeriodicTimerTimeout cfg inp s \<noteq> None"
proof -
  note c = enough_depth(3) [OF order_refl] and v = enough_depth(4) [OF order_refl]
  show "handleDioEventOnIo cfg inp e s \<noteq> None"
    by (cases e) (auto simp: c LoopACome_returns LoopAGone_def LoopCGone_def Let_def simp del: not_None_eq)
  show "handleAntennaIUComeOnIo cfg inp iu s \<noteq> None" "handleAntennaFailOnIo cfg inp c s \<noteq> None"
    "KSM_CardInfo cfg inp n s \<noteq> None" "KSM_CardTakeAway cfg inp s \<noteq> None"
    by (auto simp: c v handleAntennaIUComeOnIo_def handleAntennaFailOnIo_def
        KSM_CardInfo_def KSM_CardTakeAway_def Let_def simp del: not_None_eq)
  show "lcsc_card cfg inp n s \<noteq> None" "ProcessOUBInformation cfg inp n l v s \<noteq> None"
    "handleLoopAPeriodicTimerTimeout cfg inp s \<noteq> None"
    by (auto simp: c v LoopACome_returns lcsc_card_def ProcessOUBInformation_def handleLoopAPeriodicTimerTimeout_def
        loopATimeoutHandler_def Let_def simp del: not_None_eq split: option.splits)
qed

end
