(* ===== verification/Lane_Theorems.thy ===== *)
theory Lane_Theorems
  imports Lane_Correct
begin

text \<open>
  The properties of an entry station.  Each is a few steps over \<open>Lane_Gate\<close> and \<open>Lane_Correct\<close>;
  the witnesses run a small station: number 1096000001 is a season, 1096000002 is not, and plate
  SBA1234A belongs to the season.
\<close>

section \<open>A small station\<close>

definition demo_cfg :: lane_cfg where
  "demo_cfg =
     \<lparr>sName = ''ENTRY1'', iSID = 1, iZoneID = 1, giEPS = 1, giMaxTransInterval = 60,
      giOperationTO = 30, giFullAction = iallowseason, gscarparkcode = ''P1'',
      giCommPortAntenna = 1, giCommPortLCSC = 2, giCommPortKDEReader = 3, giCommPortUPOS = 4,
      gsDefaultIU = ''1096999999'', BlockIUPrefix = [], NotAllowHourly = 0,
      LPRIP4Front = ''1.1.1.1'', tMsg = (\<lambda>m. (''L'', ''C'')), tVType = [(109, 1)],
      led_present = True\<rparr>"

definition demo_db :: db_answers where
  "demo_db =
     \<lparr>blacklist_rows = (\<lambda>iu. Some []),
      sp_season = (\<lambda>iu. if iu = ''1096000001'' then (1, 3, [], []) else (0, 0, [], [])),
      local_season_rows = (\<lambda>iu. None), trans_type_rows = (\<lambda>t. None), ezpay_rows = (\<lambda>iu. None),
      axs_rows = (\<lambda>iu. None),
      season_of_plate_rows =
        (\<lambda>lpn. if lpn = ''SBA1234A'' then Some [''1096000001''] else Some []),
      central_connected = True, central_connects = True, central_insert_ok = True,
      local_connected = True, local_connects = True, local_insert_ok = True\<rparr>"

definition demo_inputs :: inputs where
  "demo_inputs =
     \<lparr>now = 100000000000, date_text = ''2026-01-01 00:00:00'', date_digits = ''20260101000000'',
      loopA_on = True, loopB_on = True, lorry_on = False, db = demo_db\<rparr>"

definition demo_lane :: lane where
  "demo_lane =
     \<lparr>gbLoopApresent = True, gbcarparkfull = False, gbsavedtrans = False, giShowType = 1,
      giIsSeason = 0, giCardIsIn = 0, sEnableReader = False, gbBarrierOpened = False,
      giBarrierContinueOpened = 0, fiLastEEPCmd = EEP_idle, gsTransID = [], gsTailgateOBU = [],
      gsLastIUNo = [], lastIUEntryTime = 0, gbUPOSStatus = UposInit, giSystemOnline = 0,
      glNoofOfflineData = 0, lastActionTimeAfterLoopA = 0, loopATimerArmed = False,
      tEntry = entry_cleared 1, tSeason = \<lparr>date_from = [], date_to = [], rate_type = 0\<rparr>,
      tPBSError = (\<lambda>i. \<lparr>ErrNo = 0, ErrCode = 0, ErrMsg = []\<rparr>), exit_iTransType = 0,
      exit_sIUNo = [], exit_giDeductionStatus = NotDeducting, exit_bPayByAXS = False,
      exit_bPayByEZPay = False, sLastLEDMsg = [], sLastLCDMsg = [],
      manualOpenBarrierStatusFlag = 0, out = []\<rparr>"

definition demo_iu :: string where "demo_iu = ''1096000001''"

lemmas demo = demo_cfg_def demo_db_def demo_inputs_def demo_lane_def demo_iu_def

section \<open>The decision on a number\<close>

text \<open>C3: \<open>PBSEntry\<close> carries out the decision table \<open>decide\<close>.  A number that is granted is stored
  first, as one row with its number, its plates and the type the table names (or no row, when the
  storage fails), and then the barrier is pulsed once, unless it is held open or a card is inside.
  Every other number moves no barrier and stores nothing.\<close>

theorem lane_entry_decision:
  "if grants (decide cfg inp iu (gbcarparkfull s) (tEntry s))
   then \<exists>e. entry_for cfg inp iu (tEntry s) e \<and>
          acts (PBSEntry cfg inp iu s) = acts s @ stores inp (gsTransID s) e @ opens s
   else acts (PBSEntry cfg inp iu s) = acts s"
  using PBSEntry_effect [of cfg inp iu s]
  by (auto simp: granted_acts_def dest: obs_sel)

text \<open>C9: The barrier moves, and a row is stored, for a reason: unless the operator acts or a card
  is taken out after its entry has been recorded, an action that moves the barrier or stores a row
  brought a number (or the databases gave one for a plate) that is the number of the last entry
  within the interval, or that the decision table grants.\<close>

theorem lane_moves_for_a_reason:
  assumes "lane_act cfg inp a s = Some t" and "\<not> by_hand a s" and "acts t \<noteq> acts s"
  shows "\<exists>iu. (brings a s iu \<or> (\<exists>lpn. iu = GetIUByLPN inp lpn)) \<and>
     (same_as_last cfg inp iu s \<or> (\<exists>e. grants (decide cfg inp iu (full_at a s) e)))"
proof (rule ccontr)
  assume "\<not> ?thesis"
  then have "barred cfg inp (brings a s) (view (s\<lparr>gbcarparkfull := full_at a s\<rparr>))"
    by (auto simp: barred_def view_def same_as_last_def)
  with assms show False using quiet_act by blast
qed

theorem lane_moves_for_a_reason_witness:
  "\<exists>iu. (brings (AntennaIU demo_iu) demo_lane iu \<or> (\<exists>lpn. iu = GetIUByLPN demo_inputs lpn)) \<and>
     (same_as_last demo_cfg demo_inputs iu demo_lane \<or>
      (\<exists>e. grants (decide demo_cfg demo_inputs iu (full_at (AntennaIU demo_iu) demo_lane) e)))"
proof -
  obtain t where t: "lane_act demo_cfg demo_inputs (AntennaIU demo_iu) demo_lane = Some t"
    using returns(2) by fastforce
  have "acts (the (lane_act demo_cfg demo_inputs (AntennaIU demo_iu) demo_lane)) \<noteq> acts demo_lane"
    by code_simp
  then have "acts t \<noteq> acts demo_lane" by (simp add: t del: lane_act.simps)
  then show ?thesis by (intro lane_moves_for_a_reason [OF t]) simp_all
qed



section \<open>Runs of the station\<close>

lemma demo_run: "\<exists>t. lane_reach demo_cfg demo_lane
    [(demo_inputs, Dio LOOP_A_ON), (demo_inputs, AntennaIU demo_iu), (demo_inputs, Dio LOOP_C_OFF)] t"
proof -
  obtain t1 where 1: "lane_act demo_cfg demo_inputs (Dio LOOP_A_ON) demo_lane = Some t1"
    using returns(1) by (fastforce simp del: handleDioEventOnIo.simps)
  obtain t2 where 2: "lane_act demo_cfg demo_inputs (AntennaIU demo_iu) t1 = Some t2"
    using returns(2) by fastforce
  obtain t3 where 3: "lane_act demo_cfg demo_inputs (Dio LOOP_C_OFF) t2 = Some t3"
    using returns(1) by (fastforce simp del: handleDioEventOnIo.simps)
  show ?thesis
    using lane_reach_step [OF lane_reach_step [OF lane_reach_step [OF lane_reach_start 1] 2] 3]
    by auto
qed

text \<open>C10: Every run of the station is a run of the abstract gate: texts are shown only when they
  change, the barrier is pulsed only when it is not held and no card is inside, rows carry the
  number presented, and an entry is marked complete only after it has been saved.\<close>

theorem lane_refines_gate:
  assumes "lane_reach cfg s as t"
  shows "gate_step\<^sup>*\<^sup>* (gate_of s) (gate_of t)"
  using assms by (rule gate_run_of_reach)

theorem lane_refines_gate_witness:
  "\<exists>as t. length as = 3 \<and> lane_reach demo_cfg demo_lane as t \<and>
     gate_step\<^sup>*\<^sup>* (gate_of demo_lane) (gate_of t)"
proof -
  obtain t where t: "lane_reach demo_cfg demo_lane
    [(demo_inputs, Dio LOOP_A_ON), (demo_inputs, AntennaIU demo_iu), (demo_inputs, Dio LOOP_C_OFF)] t"
    using demo_run ..
  from lane_refines_gate [OF t] t show ?thesis by (intro exI conjI) auto
qed

text \<open>C11: Along every run that starts with the relay released, the level of the relay that opens
  the barrier is the flag of a barrier held open: it is high after \<open>continueOpenBarrier\<close> until
  \<open>closeBarrier\<close>, and every pulse ends low.\<close>

theorem lane_relay_level:
  assumes "lane_reach cfg s as t"
    and "giBarrierContinueOpened s = 0" and "relay_level (out s) = 0"
  shows "relay_level (out t) = giBarrierContinueOpened t \<and> giBarrierContinueOpened t \<in> {0, 1}"
proof -
  have "relay_ok (gate_of s)"
    using assms by (simp add: relay_ok_def gate_of_def relay_level_visible)
  with assms(1) have "relay_ok (gate_of t)" by (rule relay.reach)
  then show ?thesis by (simp add: relay_ok_def gate_of_def relay_level_visible)
qed

theorem lane_relay_level_witness:
  "\<exists>as t. length as = 3 \<and> lane_reach demo_cfg demo_lane as t \<and>
     relay_level (out t) = giBarrierContinueOpened t \<and> giBarrierContinueOpened t \<in> {0, 1}"
proof -
  obtain t where t: "lane_reach demo_cfg demo_lane
    [(demo_inputs, Dio LOOP_A_ON), (demo_inputs, AntennaIU demo_iu), (demo_inputs, Dio LOOP_C_OFF)] t"
    using demo_run ..
  have "giBarrierContinueOpened demo_lane = 0" "relay_level (out demo_lane) = 0" by code_simp+
  from lane_relay_level [OF t this] t show ?thesis by (intro exI conjI) auto
qed

text \<open>Along every run, an entry that is marked complete has been saved and has a number, and
  every row stored in either database has a number.\<close>

theorem lane_entry_recorded:
  assumes "lane_reach cfg s as t"
    and "\<not> gbEntryOK (tEntry s)" and "out s = []"
  shows "(gbEntryOK (tEntry t) \<longrightarrow> gbsavedtrans t \<and> sIUTKNo (tEntry t) \<noteq> []) \<and>
     (\<forall>tab e tid lpn. InsertEntry tab e tid lpn \<in> set (out t) \<longrightarrow> sIUTKNo e \<noteq> [])"
proof -
  have "entry_ok (gate_of s)"
    using assms by (simp add: entry_ok_def gate_of_def)
  with assms(1) have "entry_ok (gate_of t)" by (rule entered.reach)
  then show ?thesis by (auto simp: entry_ok_def gate_of_def)
qed

theorem lane_entry_recorded_witness:
  "\<exists>as t. length as = 3 \<and> lane_reach demo_cfg demo_lane as t \<and>
     (gbEntryOK (tEntry t) \<longrightarrow> gbsavedtrans t \<and> sIUTKNo (tEntry t) \<noteq> [])"
proof -
  obtain t where t: "lane_reach demo_cfg demo_lane
    [(demo_inputs, Dio LOOP_A_ON), (demo_inputs, AntennaIU demo_iu), (demo_inputs, Dio LOOP_C_OFF)] t"
    using demo_run ..
  have "\<not> gbEntryOK (tEntry demo_lane)" "out demo_lane = []" by code_simp+
  from lane_entry_recorded [OF t this] t show ?thesis by (intro exI conjI) auto
qed

text \<open>Along every run the texts sent to a display never repeat, and the text the station
  remembers is the last one sent.\<close>

theorem lane_displays:
  assumes "lane_reach cfg s as t"
    and "sLastLEDMsg s = []" and "sLastLCDMsg s = []" and "out s = []"
  shows "changing [] (led_texts (out t)) \<and> sLastLEDMsg t = last ([] # led_texts (out t)) \<and>
     changing [] (lcd_texts (out t)) \<and> sLastLCDMsg t = last ([] # lcd_texts (out t))"
proof -
  have "displays_ok (gate_of s)"
    using assms by (simp add: displays_ok_def gate_of_def)
  with assms(1) have "displays_ok (gate_of t)" by (rule displays.reach)
  then show ?thesis by (simp add: displays_ok_def gate_of_def texts_visible)
qed

theorem lane_displays_witness:
  "\<exists>as t. length as = 3 \<and> lane_reach demo_cfg demo_lane as t \<and>
     changing [] (led_texts (out t)) \<and> sLastLEDMsg t = last ([] # led_texts (out t))"
proof -
  obtain t where t: "lane_reach demo_cfg demo_lane
    [(demo_inputs, Dio LOOP_A_ON), (demo_inputs, AntennaIU demo_iu), (demo_inputs, Dio LOOP_C_OFF)] t"
    using demo_run ..
  have "sLastLEDMsg demo_lane = []" "sLastLCDMsg demo_lane = []" "out demo_lane = []" by code_simp+
  from lane_displays [OF t this] t show ?thesis by (intro exI conjI) auto
qed

text \<open>C27: Everything the station is asked to do returns: no sensor, card or database answer makes
  the calls between \<open>EnableCashcard\<close> and \<open>VehicleCome\<close> go on for ever, and five levels of them are
  always enough.  Only a timer that is not armed cannot fire.\<close>

theorem lane_returns:
  assumes "a = LoopATick \<longrightarrow> loopATimerArmed s" and "call_depth \<le> n"
  shows "(\<exists>t. lane_act cfg inp a s = Some t) \<and>
     EnableCashcard n cfg inp b s = cashcard cfg inp b s \<and> cashcard cfg inp b s \<noteq> None \<and>
     VehicleCome n cfg inp iu s = vehicle cfg inp iu s \<and> vehicle cfg inp iu s \<noteq> None"
proof -
  have "lane_act cfg inp a s \<noteq> None"
    using assms(1) returns by (cases a) (auto simp del: handleDioEventOnIo.simps)
  then show ?thesis using enough_depth [OF assms(2)] by auto
qed

theorem lane_returns_witness:
  "(\<exists>t. lane_act demo_cfg demo_inputs (AntennaIU demo_iu) demo_lane = Some t) \<and>
   EnableCashcard 7 demo_cfg demo_inputs True demo_lane =
     cashcard demo_cfg demo_inputs True demo_lane"
  using lane_returns [of "AntennaIU demo_iu" demo_lane 7 demo_cfg demo_inputs True demo_iu]
  by (simp add: call_depth_def del: lane_act.simps)

section \<open>Storing an entry\<close>

text \<open>Saving an entry stores exactly one row or none; the error state of the database says
  which, and why; the last number is remembered only when the row was stored.  The entry counts as
  saved in every case.\<close>

theorem lane_save:
  assumes "sIUTKNo (tEntry s) \<noteq> []"
  shows "acts (SaveEntry inp s) = acts s @ stores inp (gsTransID s) (tEntry s) \<and>
    err iDB (SaveEntry inp s) =
      (if storage inp \<noteq> None then 0
       else if central_connected (db inp) \<or> central_connects (db inp) then - 1 else - 2) \<and>
    gsLastIUNo (SaveEntry inp s) =
      (if storage inp \<noteq> None then sIUTKNo (tEntry s) else gsLastIUNo s) \<and>
    gbsavedtrans (SaveEntry inp s)"
proof -
  obtain r t where rt: "insertentrytrans inp s = (r, t)" by (cases "insertentrytrans inp s")
  note ins = insertentrytrans_acts [of inp s, unfolded rt, simplified]
  have last: "gsLastIUNo t = gsLastIUNo s"
    using rt by (auto simp: insertentrytrans_def Let_def emit_def split: if_splits)
  have "err iDB (SaveEntry inp s) =
      (if storage inp \<noteq> None then 0
       else if central_connected (db inp) \<or> central_connects (db inp) then - 1 else - 2)"
    using assms ins
    by (simp add: SaveEntry_def rt Let_def err_def set_no_def SendMsg2Server_def emit_def)
  moreover have "gsLastIUNo (SaveEntry inp s) =
      (if storage inp \<noteq> None then sIUTKNo (tEntry s) else gsLastIUNo s)"
    using assms ins last
    by (simp add: SaveEntry_def rt Let_def set_no_def SendMsg2Server_def emit_def stored_entry_def)
  ultimately show ?thesis
    using SaveEntry_frame(1) [OF assms] SaveEntry_saves(1) [OF assms] by simp
qed

theorem lane_save_witness:
  "err iDB (SaveEntry demo_inputs (on_entry (\<lambda>e. e\<lparr>sIUTKNo := demo_iu\<rparr>) demo_lane)) = 0"
proof -
  have h: "sIUTKNo (tEntry (on_entry (\<lambda>e. e\<lparr>sIUTKNo := demo_iu\<rparr>) demo_lane)) \<noteq> []"
    and "storage demo_inputs \<noteq> None" by code_simp+
  with lane_save [OF h] show ?thesis by simp
qed

text \<open>C32: A central database that can be reached but refuses the row loses the entry: the vehicle
  is let in, no row is stored in either database, whatever the local one would
  do.\<close>

theorem lane_entry_lost:
  assumes "central_connected (db inp)" and "\<not> central_insert_ok (db inp)"
    and "grants (decide cfg inp iu (gbcarparkfull s) (tEntry s))"
    and "giCardIsIn s \<noteq> 1" and "giBarrierContinueOpened s \<noteq> 1"
  shows "acts (PBSEntry cfg inp iu s) = acts s @ [SetOpenBarrier 1, SetOpenBarrier 0]"
  using PBSEntry_effect(1) [OF assms(3)] assms
  by (auto simp: granted_acts_def stores_def storage_def opens_def)

theorem lane_entry_lost_witness:
  "acts (PBSEntry demo_cfg (demo_inputs\<lparr>db := demo_db\<lparr>central_insert_ok := False\<rparr>\<rparr>) demo_iu
     demo_lane) = [SetOpenBarrier 1, SetOpenBarrier 0]"
proof -
  let ?i = "demo_inputs\<lparr>db := demo_db\<lparr>central_insert_ok := False\<rparr>\<rparr>"
  have h: "central_connected (db ?i)" "\<not> central_insert_ok (db ?i)"
    "grants (decide demo_cfg ?i demo_iu (gbcarparkfull demo_lane) (tEntry demo_lane))"
    "giCardIsIn demo_lane \<noteq> 1" "giBarrierContinueOpened demo_lane \<noteq> 1"
    by code_simp+
  have "acts demo_lane = []" by code_simp
  with lane_entry_lost [OF h] show ?thesis by simp
qed

text \<open>The end of a full car park repeats an entry: a vehicle that was let in while the car park
  was full, and still stands on loop A, is stored a second time and the barrier is pulsed again,
  although its entry is complete and saved.\<close>

theorem lane_entry_repeated:
  assumes "gbcarparkfull s" and "gbLoopApresent s" and "gbEntryOK (tEntry s)" and "gbsavedtrans s"
    and "sIUTKNo (tEntry s) = iu" and "iu \<noteq> []"
    and "grants (decide cfg inp iu False (tEntry s))"
  shows "\<exists>e. sIUTKNo e = iu \<and>
     acts (CarparkFull cfg inp False s) = acts s @ stores inp (gsTransID s) e @ opens s"
proof -
  let ?s = "s\<lparr>gbcarparkfull := False\<rparr>"
  have "CarparkFull cfg inp False s = PBSEntry cfg inp iu ?s"
    using assms by (simp add: CarparkFull_def Let_def)
  moreover have "acts ?s = acts s" "opens ?s = opens s" by (simp_all add: acts_def opens_def)
  ultimately show ?thesis
    using PBSEntry_effect(1) [of cfg inp iu ?s] assms(7)
    by (auto simp: granted_acts_def entry_for_def)
qed

theorem lane_entry_repeated_witness:
  "\<exists>e. sIUTKNo e = demo_iu \<and>
     acts (CarparkFull demo_cfg demo_inputs False
       (PBSEntry demo_cfg demo_inputs demo_iu (demo_lane\<lparr>gbcarparkfull := True\<rparr>))) =
     acts (PBSEntry demo_cfg demo_inputs demo_iu (demo_lane\<lparr>gbcarparkfull := True\<rparr>)) @
       stores demo_inputs [] e @ [SetOpenBarrier 1, SetOpenBarrier 0]"
proof -
  let ?s = "PBSEntry demo_cfg demo_inputs demo_iu (demo_lane\<lparr>gbcarparkfull := True\<rparr>)"
  have h: "gbcarparkfull ?s" "gbLoopApresent ?s" "gbEntryOK (tEntry ?s)" "gbsavedtrans ?s"
    "sIUTKNo (tEntry ?s) = demo_iu" "demo_iu \<noteq> []"
    "grants (decide demo_cfg demo_inputs demo_iu False (tEntry ?s))"
    by code_simp+
  have o: "gsTransID ?s = []" "opens ?s = [SetOpenBarrier 1, SetOpenBarrier 0]" by code_simp+
  show ?thesis using lane_entry_repeated [OF h] unfolding o .
qed

section \<open>Types, readers and errors\<close>

text \<open>The type of a season entry: the seventeen cases of \<open>GetSeasonTransType\<close> are one formula
  for cars, lorries and motorcycles with a rate type between 3 and 18, and different pairs of
  vehicle and rate have different types.\<close>

theorem lane_season_types:
  assumes "3 \<le> rate" and "rate \<le> 18" and "0 \<le> v" and "v \<le> 2"
  shows "GetSeasonTransType v rate t = 50 + 3 * (rate - 3) + v \<and>
    (\<forall>v' rate'. 0 \<le> v' \<longrightarrow> v' \<le> 2 \<longrightarrow> 3 \<le> rate' \<longrightarrow> rate' \<le> 18 \<longrightarrow>
       GetSeasonTransType v' rate' t' = GetSeasonTransType v rate t \<longrightarrow> v' = v \<and> rate' = rate)"
proof -
  have closed: "GetSeasonTransType w r u = 50 + 3 * (r - 3) + w"
    if "3 \<le> r" "r \<le> 18" "0 \<le> w" "w \<le> 2" for w r u :: int
  proof -
    have r: "r = 3 \<or> r = 4 \<or> r = 5 \<or> r = 6 \<or> r = 7 \<or> r = 8 \<or> r = 9 \<or> r = 10 \<or> r = 11 \<or>
        r = 12 \<or> r = 13 \<or> r = 14 \<or> r = 15 \<or> r = 16 \<or> r = 17 \<or> r = 18"
      using that by arith
    have w: "w = 0 \<or> w = 1 \<or> w = 2" using that by arith
    from r w show ?thesis
      by (elim disjE) (simp_all add: GetSeasonTransType_def)
  qed
  show ?thesis
    using assms by (auto simp: closed) presburger+
qed

theorem lane_season_types_witness:
  "GetSeasonTransType 1 7 4 = 63"
  using lane_season_types [of 7 1 4 0] by simp

text \<open>When the readers are switched on and a season is known for the plate of a vehicle that has
  not been let in, the number is handled twice, once by the nested call that switches the
  readers off again and once as the number of the last entry, and the barrier is pulsed twice.\<close>

theorem lane_barrier_twice:
  assumes "plate_iu inp (s\<lparr>sEnableReader := True\<rparr>) = iu" and "iu \<noteq> []" and "iu \<noteq> gsDefaultIU cfg"
    and "\<not> sEnableReader s" and "\<not> gbEntryOK (tEntry s)" and "\<not> same_as_last cfg inp iu s"
    and "grants (decide cfg inp iu (gbcarparkfull s) (tEntry s))" and "storage inp \<noteq> None"
    and "giEPS cfg \<noteq> 3" and "0 \<le> giMaxTransInterval cfg"
    and "giCardIsIn s \<noteq> 1" and "giBarrierContinueOpened s \<noteq> 1"
  shows "\<exists>t row. cashcard cfg inp True s = Some t \<and>
    acts t = acts s @ [row, SetOpenBarrier 1, SetOpenBarrier 0, SetOpenBarrier 1, SetOpenBarrier 0]"
proof -
  let ?s = "s\<lparr>sEnableReader := False\<rparr>"
  let ?u = "PBSEntry cfg inp iu ?s"
  have len: "length iu = 10" and iu: "plate_iu inp ?s = iu"
    using assms(1,2) by (auto simp: plate_iu_def Let_def split: if_splits)
  have same: "acts ?s = acts s" "opens ?s = opens s" "gbcarparkfull ?s = gbcarparkfull s"
    "tEntry ?s = tEntry s"
    by (simp_all add: acts_def opens_def)
  have 1: "identified cfg inp iu ?s = ?u"
    using assms(5,6) by (auto simp: identified_def same_as_last_def)
  have c: "cashcard cfg inp True s = Some (identified cfg inp iu ?u)"
    using assms iu len
    by (simp add: call_depth_def numeral_eq_Suc cashcard_step vehicle_step 1)
  obtain e where e: "entry_for cfg inp iu (tEntry s) e" "lets_in cfg inp e ?s ?u"
    using PBSEntry_lets_in(1) [of cfg inp iu ?s] assms(7) by auto
  have n: "sIUTKNo e \<noteq> []" "sIUTKNo e = iu"
    using e(1) assms(2) by (simp_all add: entry_for_def)
  have u: "gsLastIUNo ?u = iu" "lastIUEntryTime ?u = now inp" "opens ?u = opens s"
    using lets_in_last [OF e(2) n(1) assms(9,8)] same n(2) by simp_all
  have o: "opens s = [SetOpenBarrier 1, SetOpenBarrier 0]"
    using assms by (simp add: opens_def)
  obtain row where row: "stores inp (gsTransID ?s) e = [row]"
    using assms(8) by (auto simp: stores_def)
  have a: "acts ?u = acts s @ [row, SetOpenBarrier 1, SetOpenBarrier 0]"
    using lets_in_acts [OF e(2) n(1)] row same o by (simp add: granted_acts_def)
  have "same_as_last cfg inp iu ?u"
    using u len assms(10) by (simp add: same_as_last_def)
  then have i: "identified cfg inp iu ?u =
      Openbarrier cfg 2 (ShowLEDMsg cfg (both ''Same as last OBU^Please Proceed'') ?u)"
    by (simp add: identified_def)
  have "acts (identified cfg inp iu ?u) =
      acts s @ [row, SetOpenBarrier 1, SetOpenBarrier 0, SetOpenBarrier 1, SetOpenBarrier 0]"
    unfolding i acts_Openbarrier
    using obs_sel(1) [OF obs_ShowLEDMsg] opens_obs [OF obs_ShowLEDMsg] a u(3) o by simp
  with c show ?thesis by blast
qed

definition demo_plate_lane :: lane where
  "demo_plate_lane =
     on_entry (\<lambda>e. e\<lparr>sLPN0 := ''SBA1234A''\<rparr>) (demo_lane\<lparr>gsTransID := ''P1-1-20260101000000''\<rparr>)"

theorem lane_barrier_twice_witness:
  "\<exists>t row. cashcard demo_cfg demo_inputs True demo_plate_lane = Some t \<and>
    acts t = [row, SetOpenBarrier 1, SetOpenBarrier 0, SetOpenBarrier 1, SetOpenBarrier 0]"
proof -
  have h: "plate_iu demo_inputs (demo_plate_lane\<lparr>sEnableReader := True\<rparr>) = demo_iu"
    "demo_iu \<noteq> []" "demo_iu \<noteq> gsDefaultIU demo_cfg" "\<not> sEnableReader demo_plate_lane"
    "\<not> gbEntryOK (tEntry demo_plate_lane)"
    "\<not> same_as_last demo_cfg demo_inputs demo_iu demo_plate_lane"
    "grants (decide demo_cfg demo_inputs demo_iu (gbcarparkfull demo_plate_lane)
       (tEntry demo_plate_lane))"
    "storage demo_inputs \<noteq> None" "giEPS demo_cfg \<noteq> 3" "0 \<le> giMaxTransInterval demo_cfg"
    "giCardIsIn demo_plate_lane \<noteq> 1" "giBarrierContinueOpened demo_plate_lane \<noteq> 1"
    by code_simp+
  have "acts demo_plate_lane = []" by code_simp
  with lane_barrier_twice [OF h] show ?thesis by simp
qed

text \<open>What the error table forgets: a failing card reader changes the table and reports
  nothing; a holiday table that is in order clears the error of the tariff, which shares its slot;
  and the antenna's error does not keep the station from waiting for a number by antenna.\<close>

theorem lane_errors_forgotten:
  "out (HandlePBSError inp ReaderError c s) = out s \<and>
   err iReader (HandlePBSError inp ReaderError c s) = - 1 \<and>
   err iParam (HandlePBSError inp HolidayOk c' (HandlePBSError inp TariffError c s)) = 0 \<and>
   AntennaOK cfg (HandlePBSError inp AntennaError c s) = AntennaOK cfg s"
  by (simp add: HandlePBSError_def plain_def set_no_def set_msg_def err_def error_slots AntennaOK_def
      SendMsg2Server_def Sendmystatus_def emit_def Let_def)

text \<open>With the category of an on-board unit the vehicle type is stored in the exit transaction, and
  an entry without a season is always stored with type 1.\<close>

lemma obu_type_misplaced:
  assumes "giEPS cfg = 3" and "VCC (tEntry s) \<noteq> []" and "length iu = 10"
  shows "tEntry (classify cfg inp iu s) = tEntry s"
    and "exit_iTransType (classify cfg inp iu s) = FnGetVehicleType cfg (take 3 (VCC (tEntry s)))"
  using assms by (simp_all add: classify_def)

lemma hourly_type:
  assumes "decided_type cfg inp iu e \<noteq> 9" and "fst (season_answer inp iu) \<noteq> 1"
  shows "granted_type cfg inp iu e = 1"
  using assms by (auto simp: granted_type_def Let_def split: prod.splits)

end
