(* ===== verification/Fee_Time.thy ===== *)
theory Fee_Time
  imports Complex_Main Pbs_Prelude
begin

text \<open>
  Times as the fee calculation uses them (src/ce_time.cpp) and the types of days (src/db.cpp).  A
  time is a whole number of seconds since the epoch, in local time; the class keeps Julian dates as
  floating-point numbers and adds the milliseconds of the wall clock, which is not modelled, and
  the time zone is a whole number of hours.  A day is the number of days since the epoch.
\<close>

section \<open>Differences\<close>

definition diffmin :: "int \<Rightarrow> int \<Rightarrow> int" where
  "diffmin qt1 qt2 = qt2 div 60 - qt1 div 60"

definition diffhour :: "int \<Rightarrow> int \<Rightarrow> int" where
  "diffhour qt1 qt2 = qt2 div 3600 - qt1 div 3600"

definition diffday :: "int \<Rightarrow> int \<Rightarrow> int" where
  "diffday qt1 qt2 = qt2 div 86400 - qt1 div 86400"

definition at_day :: "int \<Rightarrow> int \<Rightarrow> int" where
  "at_day day tod = day * 86400 + tod"

section \<open>The day of the week\<close>

text \<open>\<open>getweekday\<close> is Zeller's congruence with Monday as 1 and Sunday as 7.\<close>

definition weekday_table :: "int \<Rightarrow> int" where
  "weekday_table w =
     (if w = 0 then 6 else if w = 1 then 7 else if w = 2 then 1 else if w = 3 then 2
      else if w = 4 then 3 else if w = 5 then 4 else 5)"

definition getweekday :: "int \<Rightarrow> int \<Rightarrow> int \<Rightarrow> int" where
  "getweekday year month day =
     (let mon = (if month > 2 then month else 12 + month);
          yr = (if month > 2 then year else year - 1);
          y = yr mod 100;
          c = yr div 100;
          w = day + (13 * (mon + 1)) div 5 + y + y div 4 + c div 4 + 5 * c
      in weekday_table (w mod 7))"

text \<open>The day number of a date of the Gregorian calendar, as \<open>g2j\<close> computes it, from 1970-01-01.\<close>

definition day_number :: "int \<Rightarrow> int \<Rightarrow> int \<Rightarrow> int" where
  "day_number year month day =
     (let a = (14 - month) div 12;
          y = year + 4800 - a;
          m = month + 12 * a - 3
      in day + (153 * m + 2) div 5 + 365 * y + y div 4 - y div 100 + y div 400 - 32045 - 2440588)"

definition weekday_of :: "int \<Rightarrow> int" where
  "weekday_of day = (day + 3) mod 7 + 1"

lemma weekday_table_of: "0 \<le> w \<Longrightarrow> w < 7 \<Longrightarrow> weekday_table w = (w + 5) mod 7 + 1"
proof -
  assume "0 \<le> w" "w < 7"
  then have "w = 0 \<or> w = 1 \<or> w = 2 \<or> w = 3 \<or> w = 4 \<or> w = 5 \<or> w = 6" by arith
  then show ?thesis by (auto simp: weekday_table_def)
qed

lemma century_split:
  fixes y :: int
  defines "c \<equiv> y div 100" and "k \<equiv> y mod 100"
  shows "365 * y + y div 4 - y div 100 + y div 400 =
    k + k div 4 + c div 4 + 5 * c + 7 * (5217 * c + 52 * k)"
proof -
  have y: "y = 100 * c + k" by (simp add: c_def k_def)
  have "y div 4 = (k + 4 * (25 * c)) div 4" by (simp add: y)
  then have 4: "y div 4 = 25 * c + k div 4" by simp
  have 400: "y div 400 = c div 4"
    unfolding c_def using zdiv_zmult2_eq [of 4 y 100] by simp
  have 365: "365 * y = 365 * (100 * c + k)" using y by simp
  show ?thesis
    unfolding 4 400 365 c_def [symmetric] by simp
qed

lemma getweekday_day_number:
  assumes "1 \<le> month" "month \<le> 12"
  shows "getweekday year month day = weekday_of (day_number year month day)"
proof -
  define yr where "yr = (if month > 2 then year else year - 1)"
  define z where "z = yr mod 100 + yr mod 100 div 4 + yr div 100 div 4 + 5 * (yr div 100)"
  define m where "m = (if month > 2 then month - 3 else month + 9)"
  define q where "q = 5217 * (yr div 100) + 52 * (yr mod 100)"
  have q: "365 * yr + yr div 4 - yr div 100 + yr div 400 = z + 7 * q"
    unfolding z_def q_def by (rule century_split)
  have a: "(14 - month) div 12 = (if month > 2 then 0 else 1)"
    using assms by auto
  have y: "year + 4800 - (if month > 2 then 0 else 1) = yr + 4800"
    and m: "month + 12 * (if month > 2 then 0 else 1) - 3 = m"
    by (simp_all add: yr_def m_def)
  have shift: "(yr + 4800) div 4 = yr div 4 + 1200" "(yr + 4800) div 100 = yr div 100 + 48"
    "(yr + 4800) div 400 = yr div 400 + 12" by simp_all
  have const: "day + M + 365 * (yr + 4800) + (A + 1200) - (B + 48) + (C + 12) - 32045 - 2440588 =
      day + M + (365 * yr + A - B + C) - 719469" for M A B C
    by simp
  have "day_number year month day = day + (153 * m + 2) div 5 + 365 * (yr + 4800) +
      (yr + 4800) div 4 - (yr + 4800) div 100 + (yr + 4800) div 400 - 32045 - 2440588"
    by (simp only: day_number_def a Let_def y m)
  then have "day_number year month day =
      day + (153 * m + 2) div 5 + (365 * yr + yr div 4 - yr div 100 + yr div 400) - 719469"
    unfolding shift const .
  then have dn: "day_number year month day = day + (153 * m + 2) div 5 + z + 7 * q - 719469"
    by (simp add: q)
  have mon: "(if month > 2 then month else 12 + month) + 1 = m + 4" by (simp add: m_def)
  have "getweekday year month day = weekday_table ((day + (13 * (m + 4)) div 5 + z) mod 7)"
    unfolding getweekday_def Let_def mon yr_def [symmetric] z_def add.assoc ..
  then have gw: "getweekday year month day =
      ((day + (13 * (m + 4)) div 5 + z) mod 7 + 5) mod 7 + 1"
    by (simp only: weekday_table_of pos_mod_sign pos_mod_bound zero_less_numeral)
  have "153 * m + 2 = 13 * (m + 4) + 5 * (28 * m - 10)" by simp
  then have month: "(153 * m + 2) div 5 = (13 * (m + 4)) div 5 + (28 * m - 10)"
    by (simp only: div_mult_self2)
  define w where "w = day + (13 * (m + 4)) div 5 + z"
  have "day_number year month day + 3 = w + 5 + 7 * (4 * m + q - 102783)"
    unfolding dn month by (simp add: w_def)
  then have "(day_number year month day + 3) mod 7 = (w + 5) mod 7"
    by (simp only: mod_mult_self2)
  then show ?thesis
    unfolding gw weekday_of_def w_def by (simp add: mod_add_left_eq)
qed

section \<open>Types of days\<close>

text \<open>The list of holidays as day numbers.  A holiday has type 7, like a Sunday, when the eves of
  holidays count, and type 8 otherwise.\<close>

definition GetDayTypeWithHE :: "int list \<Rightarrow> int \<Rightarrow> int" where
  "GetDayTypeWithHE msholiday day =
     (let dayType = weekday_of day in
      if day \<in> set msholiday then 7
      else if dayType \<noteq> 6 \<and> dayType \<noteq> 7 \<and> day + 1 \<in> set msholiday then 8
      else dayType)"

definition GetDayTypeNoPE :: "int list \<Rightarrow> int \<Rightarrow> int" where
  "GetDayTypeNoPE msholiday day = (if day \<in> set msholiday then 8 else weekday_of day)"

definition GetDayType :: "int \<Rightarrow> int list \<Rightarrow> int \<Rightarrow> int" where
  "GetDayType giHasHolidayEve msholiday day =
     (if giHasHolidayEve = 1 then GetDayTypeWithHE msholiday day else GetDayTypeNoPE msholiday day)"

lemma weekday_range: "1 \<le> weekday_of day \<and> weekday_of day \<le> 7"
  by (simp add: weekday_of_def)

lemma GetDayType_range: "1 \<le> GetDayType he hs day \<and> GetDayType he hs day \<le> 8"
  using weekday_range [of day]
  by (auto simp: GetDayType_def GetDayTypeWithHE_def GetDayTypeNoPE_def Let_def)

section \<open>Differences and days\<close>

lemma diffmin_trans: "diffmin a c = diffmin a b + diffmin b c"
  by (simp add: diffmin_def)

lemma diffmin_add_minutes [simp]: "diffmin a (b + m * 60) = diffmin a b + m"
  "diffmin (a + m * 60) b = diffmin a b - m"
  by (simp_all add: diffmin_def)

lemma diffmin_self [simp]: "diffmin a a = 0"
  by (simp add: diffmin_def)

lemma diffmin_mono: "b \<le> c \<Longrightarrow> diffmin a b \<le> diffmin a c"
  by (simp add: diffmin_def zdiv_mono1)

lemma diffmin_pos_less: "diffmin a b > 0 \<Longrightarrow> a < b"
  using zdiv_mono1 [of b a 60] by (force simp: diffmin_def)

lemma diffmin_day:
  assumes "a div 86400 = d" and "0 \<le> t"
  shows "diffmin a (at_day (d + 1) t) > 0"
proof -
  have "a div 60 div 1440 = d" using assms by (simp add: zdiv_zmult2_eq)
  moreover have mod_less: "a div 60 mod 1440 < 1440" by simp
  ultimately have "a div 60 < (d + 1) * 1440"
    using div_mult_mod_eq [of "a div 60" 1440] mod_less by (simp add: algebra_simps)
  moreover have "(d + 1) * 1440 \<le> at_day (d + 1) t div 60"
    using assms(2) by (simp add: at_day_def)
  ultimately show ?thesis by (simp add: diffmin_def)
qed

end
