(* ===== verification/Fee_Tariff.thy ===== *)
theory Fee_Tariff
  imports Fee_Time
begin

text \<open>
  The parking fee (src/db.cpp, \<open>CalFeeRAM2GR\<close> and \<open>CalFeeRAM2G\<close>).  The tariff table of the
  database is held parsed: amounts are exact rational numbers where the code has \<open>float\<close>, and the
  start of a zone is a time of day, \<open>None\<close> when the field is empty.  The arrays of the function are
  maps, so that reading an entry that was never written, or writing past the end of an array, is
  the outcome \<open>Undef\<close>.  Loops take fuel; \<open>Fee_Correct\<close> says how much is enough.
\<close>

section \<open>Tariffs\<close>

record zone =
  start_time :: "int option"
  end_time :: "int option"
  rate_type :: int
  charge_time_block :: int
  charge_rate :: rat
  grace_time :: int
  first_free :: int
  first_add :: rat
  second_free :: int
  second_add :: rat
  third_free :: int
  third_add :: rat
  allowance :: int
  min_charge :: rat
  max_charge :: rat

text \<open>The zones of a day, at the indices 0 to 8.\<close>

record tariff =
  zones :: "nat \<Rightarrow> zone"
  zone_cutoff :: int
  day_cutoff :: int
  whole_day_max :: rat
  whole_day_min :: rat

record fee_paras =
  giTariffFeeMode :: int
  giFirstHourMode :: int
  giFirstHour :: int
  giPEAllowance :: int
  giHr2PEAllowance :: int
  giMCyclePerDay :: int

text \<open>What a calculation reads: the tariffs by type of transaction and of day, the type of each day,
  and what the databases say has been paid since a time.\<close>

record fee_env =
  gtariff :: "int \<Rightarrow> int \<Rightarrow> tariff"
  day_type :: "int \<Rightarrow> int"
  HasPaidWithinPeriod :: "int \<Rightarrow> rat"
  paras :: fee_paras

datatype 'a outcome = Go 'a | Leave 'a | Return rat | Undef

text \<open>The zone whose end is the start of the day, counted from one; 0 when there is none.\<close>

definition max_zone :: "tariff \<Rightarrow> nat" where
  "max_zone t =
     (case find (\<lambda>k. end_time (zones t (k - 1)) = start_time (zones t 0)) [1..<10] of
        None \<Rightarrow> 0 | Some k \<Rightarrow> k)"

text \<open>The start of zone \<open>k\<close>, counted from zero: an empty field leaves the time that was read
  before.\<close>

fun zone_tod :: "tariff \<Rightarrow> nat \<Rightarrow> int" where
  "zone_tod t 0 = (case start_time (zones t 0) of None \<Rightarrow> 0 | Some x \<Rightarrow> x)"
| "zone_tod t (Suc k) = (case start_time (zones t (Suc k)) of None \<Rightarrow> zone_tod t k | Some x \<Rightarrow> x)"

section \<open>The variables of the function\<close>

record fee_state =
  pt :: int
  PD :: int
  dayFee :: rat
  charge :: rat
  bNoGT :: bool
  bFirstFreed :: bool
  bGotDayInfo :: bool
  b24HourBlock :: bool
  bMCPerDayChecked :: bool
  s24HourFee :: int
  s24HourCharges :: int
  maxZone :: nat
  iZoneCutoff :: int
  dayMin :: rat
  dayMax :: rat
  currentZone :: "nat option"
  currentMin :: rat
  currentMax :: rat
  zone_data :: "nat \<Rightarrow> zone option"
  rateType :: "nat \<Rightarrow> int option"
  graceTime :: "nat \<Rightarrow> int option"
  zoneTime :: "nat \<Rightarrow> int option"

definition trunc_rat :: "rat \<Rightarrow> int" where
  "trunc_rat x = (if x \<ge> 0 then \<lfloor>x\<rfloor> else \<lceil>x\<rceil>)"

definition RoundIt :: "rat \<Rightarrow> int \<Rightarrow> rat" where
  "RoundIt v tariffFeeMode =
     (if tariffFeeMode = 1 then of_int \<lceil>v\<rceil>
      else if tariffFeeMode = 2 then of_int \<lfloor>v\<rfloor>
      else if tariffFeeMode = 3
        then (if v \<ge> 0 then of_int \<lfloor>v + 1 / 2\<rfloor> else of_int \<lceil>v - 1 / 2\<rceil>)
      else v)"

section \<open>The zones of a day\<close>

text \<open>Before the first zone of a day stands the last one of the day before, after the last one the
  start of the next day.\<close>

definition fill ::
  "nat \<Rightarrow> 'a \<Rightarrow> (nat \<Rightarrow> 'a) \<Rightarrow> 'a option \<Rightarrow> (nat \<Rightarrow> 'a option) \<Rightarrow> nat \<Rightarrow> 'a option" where
  "fill m initial f final old k =
     (if k = 0 then Some initial else if k \<le> m then Some (f (k - 1))
      else if k = m + 1 then final else old k)"

definition load_arrays ::
  "tariff \<Rightarrow> int \<Rightarrow> tariff \<Rightarrow> int \<Rightarrow> tariff \<Rightarrow> fee_state \<Rightarrow> fee_state" where
  "load_arrays lt ltod t day nt s =
     (let m = max_zone t; lz = zones lt (max_zone lt - 1); nz = zones nt 0;
          nextStart = at_day (day + 1) (if day_cutoff t = 1 then 0 else zone_tod nt 0)
      in s\<lparr>zone_data := fill m lz (zones t) (zone_data s (m + 1)) (zone_data s),
           rateType := fill m (rate_type lz) (\<lambda>k. rate_type (zones t k)) (Some (rate_type nz))
                         (rateType s),
           graceTime := fill m (grace_time lz) (\<lambda>k. grace_time (zones t k)) (Some (grace_time nz))
                         (graceTime s),
           zoneTime := fill m (at_day (day - 1) ltod) (\<lambda>k. at_day day (zone_tod t k))
                         (Some nextStart) (zoneTime s),
           maxZone := m\<rparr>)"

text \<open>A day whose least and greatest fee agree is charged in blocks of 24 hours.\<close>

definition set_day :: "tariff \<Rightarrow> fee_state \<Rightarrow> fee_state" where
  "set_day t s0 =
     (let s = s0\<lparr>dayFee := 0, bGotDayInfo := True, iZoneCutoff := zone_cutoff t\<rparr> in
      if whole_day_min t = whole_day_max t \<and> whole_day_min t > 0
      then s\<lparr>b24HourBlock := True, s24HourFee := trunc_rat (whole_day_min t),
             dayMin := 0, dayMax := 0\<rparr>
      else s\<lparr>b24HourBlock := False, dayMin := whole_day_min t, dayMax := whole_day_max t\<rparr>)"

definition load_day :: "fee_env \<Rightarrow> int \<Rightarrow> fee_state \<Rightarrow> fee_state outcome" where
  "load_day env iTransType s =
     (let tariff_of = (\<lambda>day. gtariff env iTransType (day_type env day));
          lt = tariff_of (PD s - 1); t = tariff_of (PD s); nt = tariff_of (PD s + 1)
      in if start_time (zones lt 0) = None then Return (- 2)
         else if max_zone lt = 0 then Return (- 4)
         else
           (case start_time (zones lt (max_zone lt - 1)) of
              None \<Rightarrow> Undef
            | Some ltod \<Rightarrow>
                if start_time (zones t 0) = None then Return (- 2)
                else if max_zone t = 0 then Return (- 4)
                else if max_zone t = 9 then Undef
                else if start_time (zones nt 0) = None then Return (- 2)
                else Go (set_day t (load_arrays lt ltod t (PD s) nt s))))"

section \<open>The first hours of a zone\<close>

text \<open>The first, second and third period of a zone at fixed prices.  \<open>Leave\<close> ends the calculation
  with the price so far; otherwise the time reached, the price, and whether the code sets
  \<open>bFirstFreed\<close> when the first hours are only given once.\<close>

definition first_hours ::
  "fee_paras \<Rightarrow> zone \<Rightarrow> int \<Rightarrow> int \<Rightarrow> int option \<Rightarrow> int \<Rightarrow> int \<Rightarrow> rat + (int \<times> rat \<times> bool)" where
  "first_hours p z zcut zend nextRate cur t0 =
     (let FH = giFirstHour p;
          a1 = first_add z; a2 = a1 + second_add z; a3 = a2 + third_add z;
          after = (\<lambda>t fee freed. if diffmin t cur \<le> 0 then Inl fee else Inr (t, fee, freed));
          perEntryNext = (\<lambda>t. diffmin t zend \<le> 0 \<and> nextRate = Some 2)
      in if diffmin t0 zend \<le> first_free z then
           (let t1 = (if zcut = 1 then zend else t0 + first_free z * 60) in
            if diffmin t1 cur \<le> 0 then Inl a1
            else if FH > 1 \<and> zcut = 0 then
              (if perEntryNext t1 then Inr (t1, a1, True)
               else
                 (let t2 = t1 + second_free z * 60 in
                  if diffmin t2 cur \<le> 0 then Inl a2
                  else if FH > 2 then
                    (if perEntryNext t2 then Inr (t2, a2, True)
                     else after (t2 + third_free z * 60) a3 True)
                  else Inr (t2, a2, True)))
            else Inr (t1, a1, True))
         else
           (let t1 = t0 + first_free z * 60 in
            if diffmin t1 cur \<le> 0 then Inl a1
            else if FH > 1 then
              (if diffmin t1 zend \<le> second_free z then
                 (let t2 = (if zcut = 1 then zend else t1 + second_free z * 60) in
                  if diffmin t2 cur \<le> 0 then Inl a2
                  else if FH > 2 \<and> zcut = 0 then
                    (if perEntryNext t2 then Inr (t2, a2, True)
                     else after (t2 + third_free z * 60) a3 True)
                  else Inr (t2, a2, True))
               else
                 (let t2 = t1 + second_free z * 60 in
                  if diffmin t2 cur \<le> 0 then Inl a2
                  else if FH > 2 then
                    (if diffmin t2 zend \<le> third_free z
                     then after (if zcut = 1 then zend else t2 + third_free z * 60) a3 True
                     else after (t2 + third_free z * 60) a3 True)
                  else Inr (t2, a2, False)))
            else Inr (t1, a1, False)))"

section \<open>One zone\<close>

text \<open>A block is free within the allowance at the end of a stay that has been charged.\<close>

definition block_fee :: "zone \<Rightarrow> bool \<Rightarrow> int \<Rightarrow> int \<Rightarrow> rat \<Rightarrow> rat" where
  "block_fee z charged cur t fee =
     (if allowance z > 0 \<and> (charged \<or> fee > 0) \<and> diffmin t cur \<le> allowance z
      then fee else fee + charge_rate z)"

text \<open>The loop over the blocks of an hourly zone: the time reached and the price of the zone.\<close>

fun hour_loop :: "nat \<Rightarrow> zone \<Rightarrow> bool \<Rightarrow> int \<Rightarrow> int \<Rightarrow> int \<Rightarrow> rat \<Rightarrow> (int \<times> rat) option" where
  "hour_loop 0 z charged zend cur t fee = None"
| "hour_loop (Suc fuel) z charged zend cur t fee =
     (let fee1 = block_fee z charged cur t fee; t1 = t + charge_time_block z * 60 in
      if diffmin t zend \<le> 0 then Some (t, fee)
      else if max_charge z > 0 \<and> fee1 \<ge> max_charge z then Some (zend, fee1)
      else if diffmin t1 cur \<le> 0 then Some (t1, fee1)
      else hour_loop fuel z charged zend cur t1 fee1)"

text \<open>The end of an hourly zone with a cut-off.\<close>

definition cut_zone ::
  "fee_paras \<Rightarrow> int \<Rightarrow> int option \<Rightarrow> int \<Rightarrow> int \<Rightarrow> int \<Rightarrow> int \<Rightarrow> int" where
  "cut_zone p zcut nextRate entry pay zend t =
     (if zcut = 1 \<and> diffmin t zend < 0 then
        (if giHr2PEAllowance p > 0 \<and> nextRate = Some 2
         then (if diffmin entry pay > giHr2PEAllowance p then zend else t)
         else zend)
      else t)"

text \<open>The times of a calculation: entry, payment (rounded up), which is also the time to reach.\<close>

definition hourly_zone ::
  "nat \<Rightarrow> fee_paras \<Rightarrow> int \<Rightarrow> int \<Rightarrow> zone \<Rightarrow> int \<Rightarrow> int option \<Rightarrow> fee_state \<Rightarrow>
   (fee_state \<times> rat) outcome option" where
  "hourly_zone fuel p entry cur z zend nextRate s =
     (let charged = (charge s > 0 \<or> dayFee s > 0) in
      if charge_time_block z = 0 then Some (Return (- 3))
      else if allowance z > 0 \<and> charged \<and> diffmin (pt s) cur \<le> allowance z
      then Some (Leave (s, 0))
      else
        let fresh = (first_free z > 0 \<and>
              (giFirstHourMode p = 0 \<or> (dayFee s = 0 \<and> charge s = 0)) \<and> \<not> bFirstFreed s \<and>
              giFirstHour p > 0)
        in (case (if fresh then first_hours p z (iZoneCutoff s) zend nextRate cur (pt s)
                  else Inr (pt s, 0, False)) of
              Inl fee \<Rightarrow> Some (Leave (s\<lparr>dayFee := dayFee s + fee\<rparr>, fee))
            | Inr (t0, fee0, freed) \<Rightarrow>
                (case hour_loop fuel z charged zend cur t0 fee0 of
                   None \<Rightarrow> None
                 | Some (t1, fee1) \<Rightarrow>
                     Some (Go (s\<lparr>pt := cut_zone p (iZoneCutoff s) nextRate entry cur zend t1,
                                 bFirstFreed := (bFirstFreed s \<or> freed \<and> giFirstHourMode p = 1)\<rparr>,
                               fee1)))))"

definition entry_zone ::
  "fee_env \<Rightarrow> int \<Rightarrow> int \<Rightarrow> zone \<Rightarrow> int \<Rightarrow> int \<Rightarrow> fee_state \<Rightarrow> fee_state \<times> rat" where
  "entry_zone env iTransType cur z zstart zend s =
     (let p = paras env;
          mc = (giMCyclePerDay p > 0 \<and> iTransType = 2);
          rate = (if mc \<and> \<not> bMCPerDayChecked s \<and> charge_rate z > 0 \<and>
                    HasPaidWithinPeriod env zstart > 0 then 0 else charge_rate z);
          inside = (allowance z > 0 \<and> (charge s > 0 \<or> dayFee s > 0) \<and>
                     diffmin (pt s) cur \<le> allowance z);
          t1 = (if giPEAllowance p > 0 \<and> diffmin (pt s) zend < giPEAllowance p
                then pt s + giPEAllowance p * 60 else zend)
      in (s\<lparr>pt := t1, bMCPerDayChecked := (bMCPerDayChecked s \<or> mc)\<rparr>,
          if inside then 0 else rate))"

section \<open>One round of the calculation\<close>

text \<open>The first zone whose end lies after \<open>pt\<close>; when there is none, the variable keeps its value.\<close>

definition find_zone :: "fee_state \<Rightarrow> nat option" where
  "find_zone s =
     (case find (\<lambda>k. case zoneTime s k of None \<Rightarrow> False | Some e \<Rightarrow> diffmin (pt s) e > 0)
             [1..<maxZone s + 2] of
        Some k \<Rightarrow> Some (k - 1)
      | None \<Rightarrow> currentZone s)"

text \<open>The end of a round: the price of the zone within its bounds, and the change of day.\<close>

definition settle_day :: "rat \<Rightarrow> fee_state \<Rightarrow> rat" where
  "settle_day fee s =
     (let f1 = (if dayMin s > 0 \<and> fee < dayMin s then dayMin s else fee)
      in if dayMax s > 0 \<and> f1 > dayMax s then dayMax s else f1)"

definition zone_price :: "rat \<Rightarrow> fee_state \<Rightarrow> rat" where
  "zone_price fee s =
     (let f1 = (if currentMin s > 0 \<and> fee < currentMin s then currentMin s else fee)
      in if currentMax s > 0 \<and> f1 > currentMax s then currentMax s else f1)"

definition end_round :: "int \<Rightarrow> rat \<Rightarrow> fee_state \<Rightarrow> fee_state outcome" where
  "end_round cur zoneFee s =
     (let s1 = s\<lparr>dayFee := dayFee s + zone_price zoneFee s\<rparr>;
          s2 = (if diffday (at_day (PD s1) 0) (pt s1) > 0
                then s1\<lparr>charge := charge s1 + settle_day (dayFee s1) s1, dayFee := 0,
                         bGotDayInfo := False, PD := PD s1 + 1\<rparr>
                else s1)
      in if diffmin (pt s2) cur \<le> 0 then Leave s2 else Go s2)"

text \<open>A round that is not a block of 24 hours.\<close>

definition zone_round ::
  "nat \<Rightarrow> fee_env \<Rightarrow> int \<Rightarrow> int \<Rightarrow> int \<Rightarrow> fee_state \<Rightarrow> fee_state outcome option" where
  "zone_round fuel env iTransType entry cur s0 =
     (case find_zone s0 of
        None \<Rightarrow> Some Undef
      | Some zi \<Rightarrow>
          (case (zone_data s0 zi, rateType s0 zi, graceTime s0 zi, zoneTime s0 zi,
                 zoneTime s0 (zi + 1)) of
             (Some z, Some rt, Some gt, Some zstart, Some zend) \<Rightarrow>
               (let s = s0\<lparr>currentZone := Some zi, currentMin := min_charge z,
                           currentMax := max_charge z\<rparr>
                in if rt < 1 \<or> rt > 2 then Some (Return (- 3))
                   else if \<not> bNoGT s \<and> gt > 0 \<and> diffmin (pt s) cur \<le> gt
                   then Some (Return 0)
                   else
                     let s1 = s\<lparr>bNoGT := True\<rparr> in
                     if rt = 1 then
                       (case hourly_zone fuel (paras env) entry cur z zend (rateType s1 (zi + 1)) s1 of
                          None \<Rightarrow> None
                        | Some (Go (s2, fee)) \<Rightarrow> Some (end_round cur fee s2)
                        | Some (Leave (s2, fee)) \<Rightarrow> Some (Leave s2)
                        | Some (Return r) \<Rightarrow> Some (Return r)
                        | Some Undef \<Rightarrow> Some Undef)
                     else
                       (case entry_zone env iTransType cur z zstart zend s1 of
                          (s2, fee) \<Rightarrow> Some (end_round cur fee s2)))
           | _ \<Rightarrow> Some Undef))"

definition fee_round ::
  "nat \<Rightarrow> fee_env \<Rightarrow> int \<Rightarrow> int \<Rightarrow> int \<Rightarrow> fee_state \<Rightarrow> fee_state outcome option" where
  "fee_round fuel env iTransType entry cur s =
     (if diffday (at_day (PD s) 0) cur < 0 then Some (Leave s)
      else
        (case (if bGotDayInfo s then Go s else load_day env iTransType s) of
           Go s1 \<Rightarrow>
             (if b24HourBlock s1 \<and> diffhour (pt s1) cur div 24 > 0
              then Some (end_round cur 0
                     (s1\<lparr>s24HourCharges := s24HourCharges s1 + s24HourFee s1,
                         pt := pt s1 + 86400, bNoGT := True\<rparr>))
              else zone_round fuel env iTransType entry cur s1)
         | Leave s1 \<Rightarrow> Some (Leave s1)
         | Return r \<Rightarrow> Some (Return r)
         | Undef \<Rightarrow> Some Undef))"

fun fee_loop ::
  "nat \<Rightarrow> fee_env \<Rightarrow> int \<Rightarrow> int \<Rightarrow> int \<Rightarrow> fee_state \<Rightarrow> fee_state outcome option" where
  "fee_loop 0 env iTransType entry cur s = None"
| "fee_loop (Suc fuel) env iTransType entry cur s =
     (case fee_round (Suc fuel) env iTransType entry cur s of
        Some (Go s1) \<Rightarrow> fee_loop fuel env iTransType entry cur s1
      | r \<Rightarrow> r)"

section \<open>The fee\<close>

definition fee_start :: "int \<Rightarrow> bool \<Rightarrow> fee_state" where
  "fee_start entry noGrace =
     \<lparr>pt = entry, PD = entry div 86400, dayFee = 0, charge = 0, bNoGT = noGrace,
      bFirstFreed = False, bGotDayInfo = False, b24HourBlock = False, bMCPerDayChecked = False,
      s24HourFee = 0, s24HourCharges = 0, maxZone = 0, iZoneCutoff = 0, dayMin = 0, dayMax = 0,
      currentZone = None, currentMin = 0, currentMax = 0, zone_data = (\<lambda>k. None),
      rateType = (\<lambda>k. None), graceTime = (\<lambda>k. None), zoneTime = (\<lambda>k. None)\<rparr>"

definition final_fee :: "fee_paras \<Rightarrow> fee_state \<Rightarrow> rat" where
  "final_fee p s =
     (let c1 = (if dayFee s > 0 then charge s + settle_day (dayFee s) s else charge s);
          c2 = (if b24HourBlock s
                then of_int (s24HourCharges s) +
                       (if c1 > of_int (s24HourFee s) then of_int (s24HourFee s) else c1)
                else c1)
      in if giTariffFeeMode p > 0 then RoundIt c2 (giTariffFeeMode p) / 100 else c2)"

text \<open>The time of payment is rounded up to the next minute when its seconds are past those of the
  entry.  The result is a number, an error code among them; \<open>Undef\<close> where the code reads a variable
  it never wrote or writes past an array; \<open>None\<close> when the fuel runs out.\<close>

definition pay_time :: "int \<Rightarrow> int \<Rightarrow> int" where
  "pay_time entry pay = (if entry mod 60 < pay mod 60 then pay + 60 else pay)"

definition CalFeeRAM2GR ::
  "nat \<Rightarrow> fee_env \<Rightarrow> int \<Rightarrow> int \<Rightarrow> int \<Rightarrow> bool \<Rightarrow> rat outcome option" where
  "CalFeeRAM2GR fuel env entry pay iTransType noGrace =
     (if diffmin entry pay < 0 then Some (Return 0)
      else
        (case fee_loop fuel env iTransType entry (pay_time entry pay) (fee_start entry noGrace) of
           None \<Rightarrow> None
         | Some (Return r) \<Rightarrow> Some (Return r)
         | Some (Leave s) \<Rightarrow> Some (Return (final_fee (paras env) s))
         | Some _ \<Rightarrow> Some Undef))"

section \<open>Two tariffs\<close>

record tariff_type_info =
  tariff_type :: int
  type_start :: int
  type_end :: int

datatype used_tariffs = FirstType | SecondType | BothTypes | TypeError

text \<open>Which tariff types cover the stay; the second one when none does.\<close>

definition uses_type :: "tariff_type_info \<Rightarrow> int \<Rightarrow> int \<Rightarrow> bool" where
  "uses_type i entry pay \<longleftrightarrow> entry > type_start i \<and> type_end i > pay"

definition crosses_type :: "tariff_type_info \<Rightarrow> int \<Rightarrow> int \<Rightarrow> bool" where
  "crosses_type i entry pay \<longleftrightarrow> entry > type_start i \<and> \<not> type_end i > pay \<and> entry < type_end i"

definition used_types :: "tariff_type_info \<Rightarrow> tariff_type_info \<Rightarrow> int \<Rightarrow> int \<Rightarrow> used_tariffs" where
  "used_types i0 i1 entry pay =
     (if uses_type i0 entry pay then FirstType
      else if crosses_type i0 entry pay then BothTypes
      else if uses_type i1 entry pay then SecondType
      else if crosses_type i1 entry pay then TypeError
      else SecondType)"

definition bind_fee :: "rat outcome option \<Rightarrow> (rat \<Rightarrow> rat outcome option) \<Rightarrow> rat outcome option" where
  "bind_fee m k = (case m of Some (Return r) \<Rightarrow> k r | _ \<Rightarrow> m)"

definition CalFeeRAM2G ::
  "nat \<Rightarrow> fee_env \<Rightarrow> tariff_type_info \<Rightarrow> tariff_type_info \<Rightarrow> int \<Rightarrow> int \<Rightarrow> int \<Rightarrow> bool \<Rightarrow>
   rat outcome option" where
  "CalFeeRAM2G fuel env i0 i1 entry pay transType noGrace =
     (case used_types i0 i1 entry pay of
        TypeError \<Rightarrow> Some (Return (- 4))
      | BothTypes \<Rightarrow>
          (if diffmin entry pay \<le> grace_time (zones (gtariff env transType 1) 0)
           then Some (Return 0)
           else
             bind_fee (CalFeeRAM2GR fuel env entry (type_end i0) (transType + tariff_type i0 * 40) True)
               (\<lambda>fee0. bind_fee
                  (CalFeeRAM2GR fuel env (type_start i1) pay (transType + tariff_type i1 * 40) True)
                  (\<lambda>fee1. Some (Return (fee0 + fee1)))))
      | FirstType \<Rightarrow> CalFeeRAM2GR fuel env entry pay (transType + tariff_type i0 * 40) noGrace
      | SecondType \<Rightarrow> CalFeeRAM2GR fuel env entry pay (transType + tariff_type i1 * 40) noGrace)"

end
