(* ===== verification/Fee_Correct.thy ===== *)
theory Fee_Correct
  imports Fee_Tariff
begin

text \<open>
  The fee calculation returns, and returns an amount.  A tariff is sane when its zones are charged
  by the hour or per entry with positive blocks and amounts that are not negative, and when a block
  or a free period that starts before the first zone of the next day ends within that day
  (\<open>S\<close> bounds the start of the first zone).  Every round then moves the time forward, and the time
  stays within the day whose zones are loaded.
\<close>

section \<open>Sane tariffs\<close>

definition sane_zone :: "int \<Rightarrow> zone \<Rightarrow> bool" where
  "sane_zone S z \<longleftrightarrow>
     rate_type z \<in> {1, 2} \<and> charge_time_block z > 0 \<and> charge_rate z \<ge> 0 \<and>
     first_free z \<ge> 0 \<and> second_free z \<ge> 0 \<and> third_free z \<ge> 0 \<and>
     first_add z \<ge> 0 \<and> second_add z \<ge> 0 \<and> third_add z \<ge> 0 \<and>
     S + charge_time_block z * 60 \<le> 86400 \<and>
     S + (first_free z + second_free z + third_free z) * 60 < 86400"

definition sane_tariff :: "int \<Rightarrow> tariff \<Rightarrow> bool" where
  "sane_tariff S t \<longleftrightarrow>
     1 \<le> max_zone t \<and> max_zone t \<le> 8 \<and>
     (\<forall>k < max_zone t. sane_zone S (zones t k) \<and>
        (\<exists>x. start_time (zones t k) = Some x \<and> 0 \<le> x \<and> x < 86400)) \<and>
     (\<forall>x. start_time (zones t 0) = Some x \<longrightarrow> x \<le> S) \<and> whole_day_min t \<ge> 0"

definition sane_env :: "int \<Rightarrow> fee_env \<Rightarrow> int \<Rightarrow> bool" where
  "sane_env S env iTransType \<longleftrightarrow>
     0 \<le> S \<and> (\<forall>day. sane_tariff S (gtariff env iTransType (day_type env day))) \<and>
     S + giPEAllowance (paras env) * 60 \<le> 86400"

section \<open>One zone\<close>

lemma diffmin_le_0: "diffmin a b \<le> 0 \<longleftrightarrow> b div 60 \<le> a div 60"
  by (simp add: diffmin_def)

lemma diffmin_pos: "diffmin a b > 0 \<longleftrightarrow> a div 60 < b div 60"
  by (simp add: diffmin_def)

lemma hour_loop_returns:
  assumes "charge_time_block z > 0" and "charge_rate z \<ge> 0" and "fee \<ge> 0"
    and "nat (diffmin t cur) < fuel"
  shows "\<exists>t' fee'. hour_loop fuel z charged zend cur t fee = Some (t', fee') \<and>
     fee \<le> fee' \<and> t div 60 \<le> t' div 60 \<and>
     (t' = t \<or> t' < zend + charge_time_block z * 60) \<and>
     (diffmin t zend > 0 \<longrightarrow> t div 60 < t' div 60)"
  using assms
proof (induction fuel arbitrary: t fee)
  case (Suc fuel)
  define fee1 where "fee1 = block_fee z charged cur t fee"
  define t1 where "t1 = t + charge_time_block z * 60"
  have fee1: "fee \<le> fee1" using Suc.prems by (simp add: fee1_def block_fee_def)
  have t1: "t1 div 60 = t div 60 + charge_time_block z" by (simp add: t1_def)
  note step = hour_loop.simps(2) [of fuel z charged zend cur t fee, unfolded Let_def,
      folded fee1_def t1_def]
  show ?case
  proof (cases "diffmin t zend \<le> 0")
    case True
    then show ?thesis using step by auto
  next
    case False
    then have tz: "t < zend" "t div 60 < zend div 60"
      using diffmin_pos_less [of t zend] by (auto simp: diffmin_pos not_le)
    consider (cap) "max_charge z > 0 \<and> fee1 \<ge> max_charge z"
      | (late) "\<not> (max_charge z > 0 \<and> fee1 \<ge> max_charge z)" "diffmin t1 cur \<le> 0"
      | (more) "\<not> (max_charge z > 0 \<and> fee1 \<ge> max_charge z)" "\<not> diffmin t1 cur \<le> 0"
      by blast
    then show ?thesis
    proof cases
      case cap
      with False have "hour_loop (Suc fuel) z charged zend cur t fee = Some (zend, fee1)"
        by (simp only: step if_True if_False simp_thms)
      with fee1 tz Suc.prems(1) show ?thesis by force
    next
      case late
      with False have "hour_loop (Suc fuel) z charged zend cur t fee = Some (t1, fee1)"
        by (simp only: step if_True if_False)
      with fee1 tz Suc.prems(1) t1 show ?thesis by (force simp: t1_def)
    next
      case more
      have "nat (diffmin t1 cur) < fuel"
        using Suc.prems(1,4) more(2) t1 unfolding diffmin_def by linarith
      moreover have "fee1 \<ge> 0" using fee1 Suc.prems by simp
      ultimately obtain t' fee' where ih: "hour_loop fuel z charged zend cur t1 fee1 = Some (t', fee')"
        "fee1 \<le> fee'" "t1 div 60 \<le> t' div 60" "t' = t1 \<or> t' < zend + charge_time_block z * 60"
        using Suc.IH [of fee1 t1] Suc.prems by blast
      have "t' < zend + charge_time_block z * 60"
        using ih(4) tz by (auto simp: t1_def)
      moreover have "t div 60 < t' div 60" using ih(3) t1 Suc.prems(1) by linarith
      moreover have "hour_loop (Suc fuel) z charged zend cur t fee = Some (t', fee')"
        using more False ih(1) by (simp only: step if_False)
      ultimately show ?thesis using fee1 ih(2) by force
    qed
  qed
qed simp

text \<open>The first hours move forward, not further than their sum past the end of the zone.\<close>

lemma first_hours_bounds:
  assumes "sane_zone S z"
  shows "first_hours p z zcut zend nr cur t0 = Inl fee \<Longrightarrow> 0 \<le> fee"
    and "first_hours p z zcut zend nr cur t0 = Inr (t, fee, freed) \<Longrightarrow> diffmin t0 zend > 0 \<Longrightarrow>
      0 \<le> fee \<and> t0 div 60 \<le> t div 60 \<and>
      (t \<le> zend + (first_free z + second_free z + third_free z) * 60) \<and>
      (first_free z > 0 \<longrightarrow> t0 div 60 < t div 60)"
proof -
  show "first_hours p z zcut zend nr cur t0 = Inl fee \<Longrightarrow> 0 \<le> fee"
    using assms by (auto simp: first_hours_def sane_zone_def Let_def split: if_splits)
  assume "first_hours p z zcut zend nr cur t0 = Inr (t, fee, freed)" and "diffmin t0 zend > 0"
  then show "0 \<le> fee \<and> t0 div 60 \<le> t div 60 \<and>
      (t \<le> zend + (first_free z + second_free z + third_free z) * 60) \<and>
      (first_free z > 0 \<longrightarrow> t0 div 60 < t div 60)"
    using assms diffmin_pos_less [of t0 zend]
    by (auto simp: first_hours_def sane_zone_def Let_def diffmin_pos split: if_splits)
qed

section \<open>The zones of a day\<close>

text \<open>The arrays hold the zones of the day \<open>PD\<close>.\<close>

definition loaded :: "int \<Rightarrow> fee_state \<Rightarrow> bool" where
  "loaded S s \<longleftrightarrow>
     bGotDayInfo s \<and>
     (\<forall>k \<le> maxZone s. \<exists>z gt st. zone_data s k = Some z \<and> sane_zone S z \<and>
        rateType s k = Some (rate_type z) \<and> graceTime s k = Some gt \<and> zoneTime s k = Some st) \<and>
     (\<forall>k. 1 \<le> k \<longrightarrow> k \<le> maxZone s + 1 \<longrightarrow>
        (\<exists>e. zoneTime s k = Some e \<and> e \<le> at_day (PD s + 1) S)) \<and>
     (\<exists>e. zoneTime s (maxZone s + 1) = Some e \<and> at_day (PD s + 1) 0 \<le> e) \<and>
     0 \<le> s24HourFee s"

lemma sane_start:
  assumes "sane_tariff S t"
  shows "start_time (zones t 0) \<noteq> None" and "0 \<le> zone_tod t 0" and "zone_tod t 0 \<le> S"
    and "max_zone t \<noteq> 0" and "max_zone t \<noteq> 9"
    and "start_time (zones t (max_zone t - 1)) \<noteq> None"
    and "k < max_zone t \<Longrightarrow> 0 \<le> zone_tod t k \<and> zone_tod t k < 86400"
proof -
  have m: "0 < max_zone t" "max_zone t \<le> 8" using assms by (auto simp: sane_tariff_def)
  have st: "\<exists>x. start_time (zones t k) = Some x \<and> 0 \<le> x \<and> x < 86400" if "k < max_zone t" for k
    using assms that by (auto simp: sane_tariff_def)
  from st [OF m(1)] obtain x where x: "start_time (zones t 0) = Some x" "0 \<le> x" by auto
  then show "start_time (zones t 0) \<noteq> None" "0 \<le> zone_tod t 0" by simp_all
  show "zone_tod t 0 \<le> S" using assms x by (simp add: sane_tariff_def)
  show "max_zone t \<noteq> 0" "max_zone t \<noteq> 9" using m by auto
  show "start_time (zones t (max_zone t - 1)) \<noteq> None"
    using st [of "max_zone t - 1"] m by auto
  show "0 \<le> zone_tod t k \<and> zone_tod t k < 86400" if "k < max_zone t"
    using st [OF that] by (cases k) auto
qed

lemma set_day_fields [simp]:
  "pt (set_day t s) = pt s" "PD (set_day t s) = PD s" "charge (set_day t s) = charge s"
  "dayFee (set_day t s) = 0" "bNoGT (set_day t s) = bNoGT s" "bGotDayInfo (set_day t s)"
  "s24HourCharges (set_day t s) = s24HourCharges s" "bFirstFreed (set_day t s) = bFirstFreed s"
  "zone_data (set_day t s) = zone_data s" "rateType (set_day t s) = rateType s"
  "graceTime (set_day t s) = graceTime s" "zoneTime (set_day t s) = zoneTime s"
  "maxZone (set_day t s) = maxZone s" "iZoneCutoff (set_day t s) = zone_cutoff t"
  by (simp_all add: set_day_def Let_def)

lemma load_arrays_fields [simp]:
  "pt (load_arrays lt x t d nt s) = pt s" "PD (load_arrays lt x t d nt s) = PD s"
  "charge (load_arrays lt x t d nt s) = charge s" "bNoGT (load_arrays lt x t d nt s) = bNoGT s"
  "s24HourCharges (load_arrays lt x t d nt s) = s24HourCharges s"
  "s24HourFee (load_arrays lt x t d nt s) = s24HourFee s"
  "bFirstFreed (load_arrays lt x t d nt s) = bFirstFreed s"
  "maxZone (load_arrays lt x t d nt s) = max_zone t"
  by (simp_all add: load_arrays_def Let_def)

lemma set_day_mode:
  "whole_day_min t \<noteq> whole_day_max t \<Longrightarrow>
     \<not> b24HourBlock (set_day t s) \<and> dayMin (set_day t s) = whole_day_min t \<and>
     dayMax (set_day t s) = whole_day_max t"
  "0 \<le> s24HourFee s \<Longrightarrow> 0 \<le> s24HourFee (set_day t s)"
  by (auto simp: set_day_def Let_def trunc_rat_def)

lemma loaded_arrays:
  assumes lt: "sane_tariff S lt" and t: "sane_tariff S t" and nt: "sane_tariff S nt"
    and S: "0 \<le> S" and fee: "0 \<le> s24HourFee s" and x: "x < 86400"
  shows "loaded S (set_day t' (load_arrays lt x t (PD s) nt s))"
proof -
  let ?s = "load_arrays lt x t (PD s) nt s"
  have zl: "sane_zone S (zones lt (max_zone lt - 1))"
    using lt by (auto simp: sane_tariff_def)
  have zt: "sane_zone S (zones t k)" if "k < max_zone t" for k
    using t that by (auto simp: sane_tariff_def)
  have "\<exists>z gt st. zone_data ?s k = Some z \<and> sane_zone S z \<and> rateType ?s k = Some (rate_type z) \<and>
      graceTime ?s k = Some gt \<and> zoneTime ?s k = Some st" if "k \<le> max_zone t" for k
    using that zl zt [of "k - 1"] by (auto simp: load_arrays_def Let_def fill_def)
  moreover have "\<exists>e. zoneTime ?s k = Some e \<and> e \<le> at_day (PD s + 1) S"
    if k: "1 \<le> k" "k \<le> max_zone t + 1" for k
  proof (cases "k \<le> max_zone t")
    case True
    with k have "k - 1 < max_zone t" by simp
    then have "zone_tod t (k - 1) < 86400" using sane_start(7) [OF t] by blast
    with True k S show ?thesis by (auto simp: load_arrays_def Let_def fill_def at_day_def)
  next
    case False
    with k S sane_start(3) [OF nt] show ?thesis
      by (auto simp: load_arrays_def Let_def fill_def at_day_def)
  qed
  moreover have "\<exists>e. zoneTime ?s (max_zone t + 1) = Some e \<and> at_day (PD s + 1) 0 \<le> e"
    using sane_start(2) [OF nt] by (auto simp: load_arrays_def Let_def fill_def at_day_def)
  ultimately show ?thesis
    using set_day_mode(2) [of ?s t'] fee by (simp add: loaded_def)
qed

lemma load_day_eq:
  assumes "sane_env S env it"
  shows "\<exists>x < 86400. load_day env it s =
    Go (set_day (gtariff env it (day_type env (PD s)))
      (load_arrays (gtariff env it (day_type env (PD s - 1))) x
        (gtariff env it (day_type env (PD s))) (PD s)
        (gtariff env it (day_type env (PD s + 1))) s))"
proof -
  define lt where "lt = gtariff env it (day_type env (PD s - 1))"
  define t where "t = gtariff env it (day_type env (PD s))"
  define nt where "nt = gtariff env it (day_type env (PD s + 1))"
  have sane: "sane_tariff S lt" "sane_tariff S t" "sane_tariff S nt"
    using assms by (simp_all add: sane_env_def lt_def t_def nt_def)
  obtain x where x: "start_time (zones lt (max_zone lt - 1)) = Some x" "x < 86400"
    using sane(1) by (auto simp: sane_tariff_def dest!: spec [of _ "max_zone lt - 1"])
  have "load_day env it s = Go (set_day t (load_arrays lt x t (PD s) nt s))"
    using sane_start(1,4) [OF sane(1)] sane_start(1,4,5) [OF sane(2)] sane_start(1) [OF sane(3)] x
    unfolding load_day_def Let_def lt_def [symmetric] t_def [symmetric] nt_def [symmetric]
    by simp
  with x(2) show ?thesis unfolding lt_def t_def nt_def by blast
qed

text \<open>The zones that are loaded are those of the tariffs, each with its grace time.\<close>

lemma loaded_zone:
  assumes "k \<le> max_zone t"
  shows "\<exists>z. zone_data (load_arrays lt x t d nt s) k = Some z \<and>
     graceTime (load_arrays lt x t d nt s) k = Some (grace_time z) \<and>
     (z = zones lt (max_zone lt - 1) \<or> (\<exists>j < max_zone t. z = zones t j))"
proof (cases k)
  case (Suc j)
  with assms have "j < max_zone t" by simp
  with Suc assms show ?thesis by (auto simp: load_arrays_def Let_def fill_def)
qed (simp add: load_arrays_def Let_def fill_def)

lemma load_day_sane:
  assumes "sane_env S env it" and "0 \<le> s24HourFee s"
  obtains s1 where "load_day env it s = Go (set_day (gtariff env it (day_type env (PD s))) s1)"
    and "loaded S (set_day (gtariff env it (day_type env (PD s))) s1)"
    and "pt s1 = pt s" "PD s1 = PD s" "charge s1 = charge s" "bNoGT s1 = bNoGT s"
    and "s24HourCharges s1 = s24HourCharges s"
    and "\<And>k. k \<le> maxZone s1 \<Longrightarrow> \<exists>z day j. zone_data s1 k = Some z \<and>
      graceTime s1 k = Some (grace_time z) \<and> z = zones (gtariff env it (day_type env day)) j \<and>
      j < max_zone (gtariff env it (day_type env day))"
proof -
  define lt where "lt = gtariff env it (day_type env (PD s - 1))"
  define t where "t = gtariff env it (day_type env (PD s))"
  define nt where "nt = gtariff env it (day_type env (PD s + 1))"
  have sane: "sane_tariff S lt" "sane_tariff S t" "sane_tariff S nt" and S: "0 \<le> S"
    using assms by (simp_all add: sane_env_def lt_def t_def nt_def)
  obtain x where x: "load_day env it s = Go (set_day t (load_arrays lt x t (PD s) nt s))" "x < 86400"
    using load_day_eq [OF assms(1), of s] unfolding lt_def t_def nt_def by auto
  let ?s = "load_arrays lt x t (PD s) nt s"
  have "\<exists>z day j. zone_data ?s k = Some z \<and> graceTime ?s k = Some (grace_time z) \<and>
      z = zones (gtariff env it (day_type env day)) j \<and>
      j < max_zone (gtariff env it (day_type env day))" if k: "k \<le> maxZone ?s" for k
  proof -
    obtain z where z: "zone_data ?s k = Some z" "graceTime ?s k = Some (grace_time z)"
      and alt: "z = zones lt (max_zone lt - 1) \<or> (\<exists>j < max_zone t. z = zones t j)"
      using loaded_zone [of k t lt x "PD s" nt s] k by auto
    have "max_zone lt - 1 < max_zone lt" using sane_start(4) [OF sane(1)] by simp
    with alt have "\<exists>day j. z = zones (gtariff env it (day_type env day)) j \<and>
        j < max_zone (gtariff env it (day_type env day))"
      unfolding lt_def t_def by blast
    with z show ?thesis by blast
  qed
  moreover have "loaded S (set_day t ?s)"
    using loaded_arrays [OF sane S assms(2) x(2)] .
  ultimately show thesis using x(1) that [of ?s] by (simp add: t_def)
qed

section \<open>One round\<close>

lemma find_upt: "find P [a..<b] = Some k \<Longrightarrow> P k \<and> a \<le> k \<and> k < b"
  by (auto simp: find_Some_iff simp del: upt_Suc)

lemma find_zone_loaded:
  assumes "loaded S s" and "pt s div 86400 = PD s"
  obtains zi e where "find_zone s = Some zi" "zi \<le> maxZone s" "zoneTime s (zi + 1) = Some e"
    "diffmin (pt s) e > 0" "e \<le> at_day (PD s + 1) S"
proof -
  let ?P = "\<lambda>k. case zoneTime s k of None \<Rightarrow> False | Some e \<Rightarrow> diffmin (pt s) e > 0"
  let ?f = "find ?P [1..<maxZone s + 2]"
  obtain e where e: "zoneTime s (maxZone s + 1) = Some e" "at_day (PD s + 1) 0 \<le> e"
    using assms(1) by (auto simp: loaded_def)
  have "diffmin (pt s) (at_day (PD s + 1) 0) > 0" using assms(2) by (rule diffmin_day) simp
  then have "?P (maxZone s + 1)"
    using e diffmin_mono [of "at_day (PD s + 1) 0" e "pt s"] by simp
  then have "?f \<noteq> None" by (auto simp: find_None_iff)
  then obtain k where k: "?f = Some k" by auto
  then have kP: "?P k" "1 \<le> k" "k \<le> maxZone s + 1"
    using find_upt [OF k] by auto
  then obtain e' where "zoneTime s k = Some e'" "diffmin (pt s) e' > 0" by (auto split: option.splits)
  moreover have "find_zone s = Some (k - 1)" unfolding find_zone_def k by simp
  moreover obtain e'' where "zoneTime s k = Some e''" "e'' \<le> at_day (PD s + 1) S"
    using assms(1) kP(2,3) by (auto simp: loaded_def)
  ultimately show thesis using kP that [of "k - 1" e'] by simp
qed

text \<open>What a round leaves alone until its end.\<close>

definition kept :: "fee_state \<Rightarrow> fee_state \<Rightarrow> bool" where
  "kept s s2 \<longleftrightarrow>
     PD s2 = PD s \<and> charge s2 = charge s \<and> bGotDayInfo s2 = bGotDayInfo s \<and>
     b24HourBlock s2 = b24HourBlock s \<and> s24HourFee s2 = s24HourFee s \<and>
     s24HourCharges s2 = s24HourCharges s \<and> dayMin s2 = dayMin s \<and> dayMax s2 = dayMax s \<and>
     maxZone s2 = maxZone s \<and> zone_data s2 = zone_data s \<and> rateType s2 = rateType s \<and>
     graceTime s2 = graceTime s \<and> zoneTime s2 = zoneTime s"

lemma loaded_kept: "kept s s2 \<Longrightarrow> loaded S s2 = loaded S s"
  by (simp add: kept_def loaded_def)

lemma hourly_zone_sane:
  assumes z: "sane_zone S z" and day: "pt s div 86400 = PD s" and zend: "diffmin (pt s) zend > 0"
    and late: "zend \<le> at_day (PD s + 1) S" and fuel: "nat (diffmin (pt s) cur) < fuel"
    and S: "0 \<le> S"
  shows "(\<exists>s2 fee. hourly_zone fuel p entry cur z zend nr s = Some (Leave (s2, fee)) \<and>
            kept s s2 \<and> dayFee s \<le> dayFee s2) \<or>
    (\<exists>s2 fee. hourly_zone fuel p entry cur z zend nr s = Some (Go (s2, fee)) \<and>
            kept s s2 \<and> dayFee s2 = dayFee s \<and> 0 \<le> fee \<and> bNoGT s2 = bNoGT s \<and>
            pt s div 60 < pt s2 div 60 \<and> pt s2 < at_day (PD s + 2) 0)"
proof -
  define charged where "charged \<longleftrightarrow> charge s > 0 \<or> dayFee s > 0"
  define fresh where "fresh \<longleftrightarrow> first_free z > 0 \<and>
      (giFirstHourMode p = 0 \<or> (dayFee s = 0 \<and> charge s = 0)) \<and> \<not> bFirstFreed s \<and> giFirstHour p > 0"
  define fh where "fh = (if fresh then first_hours p z (iZoneCutoff s) zend nr cur (pt s)
                         else Inr (pt s, 0, False))"
  have ctb: "charge_time_block z > 0" "charge_rate z \<ge> 0"
    and over: "S + charge_time_block z * 60 \<le> 86400"
      "S + (first_free z + second_free z + third_free z) * 60 < 86400"
    using z by (auto simp: sane_zone_def)
  note unf = hourly_zone_def Let_def charged_def [symmetric] fresh_def [symmetric] fh_def [symmetric]
  show ?thesis
  proof (cases "allowance z > 0 \<and> charged \<and> diffmin (pt s) cur \<le> allowance z")
    case True
    then show ?thesis using ctb by (auto simp: unf kept_def)
  next
    case no_allow: False
    show ?thesis
    proof (cases fh)
      case (Inl fee)
      then have "0 \<le> fee" using first_hours_bounds(1) [OF z] by (auto simp: fh_def split: if_splits)
      then show ?thesis using no_allow ctb Inl by (auto simp: unf kept_def)
    next
      case (Inr r)
      obtain t0 fee0 freed where r: "r = (t0, fee0, freed)" by (cases r)
      have fh: "0 \<le> fee0 \<and> pt s div 60 \<le> t0 div 60 \<and>
          (t0 \<le> zend + (first_free z + second_free z + third_free z) * 60) \<and>
          (t0 = pt s \<or> pt s div 60 < t0 div 60)"
      proof (cases fresh)
        case True
        then show ?thesis
          using Inr r first_hours_bounds(2) [OF z _ zend] by (auto simp: fh_def fresh_def)
      next
        case False
        moreover have "0 \<le> (first_free z + second_free z + third_free z) * 60"
          using z by (auto simp: sane_zone_def)
        ultimately show ?thesis
          using Inr r diffmin_pos_less [OF zend] by (auto simp: fh_def)
      qed
      have "nat (diffmin t0 cur) < fuel"
        using fuel fh by (auto simp: diffmin_def)
      then obtain t1 fee1 where hl: "hour_loop fuel z charged zend cur t0 fee0 = Some (t1, fee1)"
        "fee0 \<le> fee1" "t0 div 60 \<le> t1 div 60" "t1 = t0 \<or> t1 < zend + charge_time_block z * 60"
        "diffmin t0 zend > 0 \<longrightarrow> t0 div 60 < t1 div 60"
        using hour_loop_returns [OF ctb, of fee0 t0 cur fuel charged zend] fh by blast
      define t2 where "t2 = cut_zone p (iZoneCutoff s) nr entry cur zend t1"
      define s2 where "s2 = s\<lparr>pt := t2, bFirstFreed := (bFirstFreed s \<or> freed \<and> giFirstHourMode p = 1)\<rparr>"
      have go: "hourly_zone fuel p entry cur z zend nr s = Some (Go (s2, fee1))"
        using no_allow ctb Inr r hl(1) by (auto simp: unf s2_def t2_def)
      have t1: "pt s div 60 < t1 div 60" using fh hl(3,5) zend by auto
      have bound: "zend < at_day (PD s + 2) 0" "t1 < at_day (PD s + 2) 0"
        using late over hl(4) fh S ctb(1) by (auto simp: at_day_def algebra_simps)
      have "pt s div 60 < t2 div 60 \<and> t2 < at_day (PD s + 2) 0"
        using t1 bound zend by (auto simp: t2_def cut_zone_def diffmin_pos)
      then show ?thesis
        using go fh hl(2) by (intro disjI2 exI [of _ s2] exI [of _ fee1]) (auto simp: s2_def kept_def)
    qed
  qed
qed

lemma entry_zone_result:
  fixes env it cur z zst zend s
  defines "r \<equiv> entry_zone env it cur z zst zend s"
  shows "kept s (fst r)" and "dayFee (fst r) = dayFee s" and "bNoGT (fst r) = bNoGT s"
    and "snd r = 0 \<or> snd r = charge_rate z"
    and "pt (fst r) = zend \<or>
      (0 < giPEAllowance (paras env) \<and> pt (fst r) = pt s + giPEAllowance (paras env) * 60)"
  by (simp_all add: r_def entry_zone_def Let_def kept_def)

lemma entry_zone_sane:
  assumes z: "sane_zone S z" and day: "pt s div 86400 = PD s" and zend: "diffmin (pt s) zend > 0"
    and late: "zend \<le> at_day (PD s + 1) S" and S: "0 \<le> S"
    and pe: "S + giPEAllowance (paras env) * 60 \<le> 86400"
  shows "\<exists>s2 fee. entry_zone env it cur z zst zend s = (s2, fee) \<and> kept s s2 \<and>
     dayFee s2 = dayFee s \<and> 0 \<le> fee \<and> bNoGT s2 = bNoGT s \<and> pt s div 60 < pt s2 div 60 \<and>
     pt s2 < at_day (PD s + 2) 0"
proof -
  obtain s2 fee where e: "entry_zone env it cur z zst zend s = (s2, fee)" by fastforce
  note r = entry_zone_result [where env = env and it = it and cur = cur and z = z and zst = zst and
      zend = zend and s = s, unfolded e, simplified]
  have "0 \<le> charge_rate z" "S < 86400" using z by (auto simp: sane_zone_def)
  then have "0 \<le> fee" using r(4) by auto
  moreover have "pt s < zend" using diffmin_pos_less [OF zend] .
  then have "pt s div 60 < pt s2 div 60 \<and> pt s2 < at_day (PD s + 2) 0"
    using r(5) zend late pe \<open>S < 86400\<close> by (auto simp: diffmin_pos at_day_def)
  ultimately show ?thesis using e r(1,2,3) by blast
qed

lemma zone_round_sane:
  assumes l: "loaded S s" and day: "pt s div 86400 = PD s" and fuel: "nat (diffmin (pt s) cur) < fuel"
    and S: "0 \<le> S" and pe: "S + giPEAllowance (paras env) * 60 \<le> 86400"
  shows "\<exists>r. zone_round fuel env it entry cur s = Some r \<and>
    (r = Return 0 \<or>
     (\<exists>s2. r = Leave s2 \<and> kept s s2 \<and> dayFee s \<le> dayFee s2) \<or>
     (\<exists>s2 fee. r = end_round cur fee s2 \<and> kept s s2 \<and> dayFee s2 = dayFee s \<and> 0 \<le> fee \<and>
        pt s div 60 < pt s2 div 60 \<and> pt s2 < at_day (PD s + 2) 0))"
proof -
  obtain zi zend where zi: "find_zone s = Some zi" "zi \<le> maxZone s" "zoneTime s (zi + 1) = Some zend"
    "diffmin (pt s) zend > 0" "zend \<le> at_day (PD s + 1) S"
    using find_zone_loaded [OF l day] .
  obtain z gt zst where z: "zone_data s zi = Some z" "sane_zone S z" "rateType s zi = Some (rate_type z)"
    "graceTime s zi = Some gt" "zoneTime s zi = Some zst"
    using l zi(2) by (auto simp: loaded_def)
  have rt: "\<not> (rate_type z < 1 \<or> rate_type z > 2)" "rate_type z = 1 \<or> rate_type z = 2"
    using z(2) by (auto simp: sane_zone_def)
  define s1 where "s1 = s\<lparr>currentZone := Some zi, currentMin := min_charge z,
      currentMax := max_charge z, bNoGT := True\<rparr>"
  have s1: "kept s s1" "pt s1 = pt s" "PD s1 = PD s" "dayFee s1 = dayFee s"
    by (simp_all add: s1_def kept_def)
  have trans: "kept s s2" if "kept s1 s2" for s2
    using that s1(1) by (simp add: kept_def)
  note unf = zone_round_def zi(1) zi(3) [simplified] z rt(1) Let_def
  show ?thesis
  proof (cases "\<not> bNoGT s \<and> gt > 0 \<and> diffmin (pt s) cur \<le> gt")
    case True
    then show ?thesis by (simp add: unf)
  next
    case no_grace: False
    show ?thesis
    proof (cases "rate_type z = 1")
      case True
      have step: "zone_round fuel env it entry cur s =
          (case hourly_zone fuel (paras env) entry cur z zend (rateType s1 (zi + 1)) s1 of
             None \<Rightarrow> None | Some (Go (s2, fee)) \<Rightarrow> Some (end_round cur fee s2)
           | Some (Leave (s2, fee)) \<Rightarrow> Some (Leave s2) | Some (Return r) \<Rightarrow> Some (Return r)
           | Some Undef \<Rightarrow> Some Undef)"
        using no_grace True zi(3) by (auto simp: unf s1_def)
      show ?thesis
        using hourly_zone_sane [OF z(2), where s = s1 and zend = zend and fuel = fuel and cur = cur and
            p = "paras env" and entry = entry and nr = "rateType s1 (zi + 1)"]
          day zi(4,5) fuel S s1 trans
        unfolding step by fastforce
    next
      case False
      have step: "zone_round fuel env it entry cur s =
          (case entry_zone env it cur z zst zend s1 of (s2, fee) \<Rightarrow> Some (end_round cur fee s2))"
        using no_grace False zi(3) rt by (auto simp: unf s1_def)
      show ?thesis
        using entry_zone_sane [OF z(2), where s = s1 and zend = zend and env = env and it = it and
            cur = cur and zst = zst] day zi(4,5) S pe s1 trans
        unfolding step by fastforce
    qed
  qed
qed

text \<open>The state before a round.\<close>

definition ready :: "int \<Rightarrow> fee_state \<Rightarrow> bool" where
  "ready S s \<longleftrightarrow>
     pt s div 86400 = PD s \<and> (bGotDayInfo s \<longrightarrow> loaded S s) \<and>
     0 \<le> charge s \<and> 0 \<le> dayFee s \<and> 0 \<le> s24HourCharges s \<and> 0 \<le> s24HourFee s"

definition payable :: "fee_state \<Rightarrow> bool" where
  "payable s \<longleftrightarrow> 0 \<le> charge s \<and> 0 \<le> dayFee s \<and> 0 \<le> s24HourCharges s \<and> 0 \<le> s24HourFee s"

lemma zone_price_nonneg: "0 \<le> fee \<Longrightarrow> 0 \<le> zone_price fee s"
  by (auto simp: zone_price_def Let_def)

lemma settle_day_nonneg: "0 \<le> fee \<Longrightarrow> 0 \<le> settle_day fee s"
  by (auto simp: settle_day_def Let_def)

lemma day_of:
  fixes x :: int
  assumes "d * 86400 \<le> x" and "x < (d + 1) * 86400"
  shows "x div 86400 = d"
  using assms by (intro int_div_pos_eq [where r = "x - d * 86400"]) auto

lemma end_round_ready:
  assumes l: "loaded S s" and pay: "payable s" and fee: "0 \<le> fee"
    and from_day: "PD s * 86400 \<le> pt s" and to_day: "pt s < at_day (PD s + 2) 0"
  shows "(\<exists>s2. end_round cur fee s = Leave s2 \<and> payable s2) \<or>
    (\<exists>s2. end_round cur fee s = Go s2 \<and> ready S s2 \<and> pt s2 = pt s \<and> diffmin (pt s2) cur > 0)"
proof (cases "pt s < at_day (PD s + 1) 0")
  case True
  then have "pt s div 86400 = PD s"
    using from_day by (intro day_of) (auto simp: at_day_def)
  then show ?thesis
    using l pay fee zone_price_nonneg [of fee s]
    by (auto simp: end_round_def Let_def payable_def ready_def diffday_def at_day_def loaded_def)
next
  case False
  then have "pt s div 86400 = PD s + 1"
    using to_day by (intro day_of) (auto simp: at_day_def)
  then show ?thesis
    using l pay fee zone_price_nonneg [of fee s]
      settle_day_nonneg [of "dayFee s + zone_price fee s" "s\<lparr>dayFee := dayFee s + zone_price fee s\<rparr>"]
    by (auto simp: end_round_def Let_def payable_def ready_def diffday_def at_day_def)
qed

section \<open>The whole calculation\<close>

lemma kept_payable: "kept s s2 \<Longrightarrow> payable s \<Longrightarrow> dayFee s \<le> dayFee s2 \<Longrightarrow> payable s2"
  by (auto simp: kept_def payable_def)

text \<open>A round ends the calculation with amounts that are not negative, or moves the time forward by
  at least a minute.\<close>

definition good_round :: "int \<Rightarrow> int \<Rightarrow> fee_state \<Rightarrow> fee_state outcome \<Rightarrow> bool" where
  "good_round S cur s r \<longleftrightarrow>
     r = Return 0 \<or> (\<exists>s2. r = Leave s2 \<and> payable s2) \<or>
     (\<exists>s2. r = Go s2 \<and> ready S s2 \<and> pt s div 60 < pt s2 div 60 \<and> diffmin (pt s2) cur > 0)"

lemma good_zone_round:
  assumes env: "sane_env S env it" and l: "loaded S s" and day: "pt s div 86400 = PD s"
    and pay: "payable s" and fuel: "nat (diffmin (pt s) cur) < fuel"
  shows "\<exists>r. zone_round fuel env it entry cur s = Some r \<and> good_round S cur s r"
proof -
  have S: "0 \<le> S" and pe: "S + giPEAllowance (paras env) * 60 \<le> 86400"
    using env by (simp_all add: sane_env_def)
  from zone_round_sane [OF l day fuel S pe, of it entry] obtain r where
    r: "zone_round fuel env it entry cur s = Some r"
    and alt: "r = Return 0 \<or>
     (\<exists>s2. r = Leave s2 \<and> kept s s2 \<and> dayFee s \<le> dayFee s2) \<or>
     (\<exists>s2 fee. r = end_round cur fee s2 \<and> kept s s2 \<and> dayFee s2 = dayFee s \<and> 0 \<le> fee \<and>
        pt s div 60 < pt s2 div 60 \<and> pt s2 < at_day (PD s + 2) 0)"
    by blast
  from alt have "good_round S cur s r"
  proof (elim disjE exE conjE)
    fix s2 fee
    assume e: "r = end_round cur fee s2" and k: "kept s s2" "dayFee s2 = dayFee s" and fee: "0 \<le> fee"
      and pt: "pt s div 60 < pt s2 div 60" "pt s2 < at_day (PD s + 2) 0"
    have PD: "PD s2 = PD s" using k(1) by (simp add: kept_def)
    have "pt s < pt s2" using pt(1) zdiv_mono1 [of "pt s2" "pt s" 60] by force
    then have "PD s2 * 86400 \<le> pt s2"
      using div_mult_mod_eq [of "pt s" 86400] day PD pos_mod_sign [of 86400 "pt s"] by simp
    then show ?thesis
      using end_round_ready [of S s2 fee cur] l loaded_kept [OF k(1)] kept_payable [OF k(1) pay] k(2)
        fee pt PD
      unfolding e good_round_def by auto
  qed (use pay kept_payable in \<open>auto simp: good_round_def\<close>)
  with r show ?thesis by blast
qed

lemma good_block:
  assumes l: "loaded S s" and day: "pt s div 86400 = PD s" and pay: "payable s"
  shows "good_round S cur s (end_round cur 0
     (s\<lparr>s24HourCharges := s24HourCharges s + s24HourFee s, pt := pt s + 86400, bNoGT := True\<rparr>))"
proof -
  let ?s = "s\<lparr>s24HourCharges := s24HourCharges s + s24HourFee s, pt := pt s + 86400, bNoGT := True\<rparr>"
  have "loaded S ?s" using l by (simp add: loaded_def)
  moreover have "payable ?s" using pay by (simp add: payable_def)
  moreover have "PD s * 86400 \<le> pt s" "pt s < (PD s + 1) * 86400"
    using div_mult_mod_eq [of "pt s" 86400] day pos_mod_sign [of 86400 "pt s"]
      pos_mod_bound [of 86400 "pt s"] by simp_all
  then have "PD ?s * 86400 \<le> pt ?s" "pt ?s < at_day (PD ?s + 2) 0" by (simp_all add: at_day_def)
  moreover have "pt s div 60 < pt ?s div 60" by simp
  ultimately show ?thesis
    using end_round_ready [of S ?s 0 cur] unfolding good_round_def by force
qed

lemma good_fee_round:
  assumes env: "sane_env S env it" and s: "ready S s"
    and fuel: "nat (diffmin (pt s) cur) < fuel"
  shows "\<exists>r. fee_round fuel env it entry cur s = Some r \<and> good_round S cur s r"
proof (cases "diffday (at_day (PD s) 0) cur < 0")
  case True
  then show ?thesis using s by (auto simp: fee_round_def good_round_def ready_def payable_def)
next
  case False
  have day: "pt s div 86400 = PD s" and pay: "payable s" and fee: "0 \<le> s24HourFee s"
    using s by (simp_all add: ready_def payable_def)
  obtain s1 where s1: "(if bGotDayInfo s then Go s else load_day env it s) = Go s1" "loaded S s1"
    "pt s1 = pt s" "PD s1 = PD s" "payable s1"
  proof (cases "bGotDayInfo s")
    case True
    then show thesis using that [of s] s pay by (simp add: ready_def)
  next
    case False
    obtain u where u: "load_day env it s = Go (set_day (gtariff env it (day_type env (PD s))) u)"
      "loaded S (set_day (gtariff env it (day_type env (PD s))) u)" "pt u = pt s" "PD u = PD s"
      "charge u = charge s" "s24HourCharges u = s24HourCharges s"
      using load_day_sane [OF env fee] by blast
    then show thesis
      using False pay that [of "set_day (gtariff env it (day_type env (PD s))) u"]
      by (auto simp: payable_def loaded_def)
  qed
  have good: "good_round S cur s r = good_round S cur s1 r" for r
    by (simp add: good_round_def s1(3))
  show ?thesis
    using False s1 day fuel good_zone_round [OF env s1(2) _ s1(5), of cur fuel entry]
      good_block [OF s1(2) _ s1(5), of cur]
    by (auto simp: fee_round_def good)
qed

lemma fee_loop_sane:
  assumes env: "sane_env S env it" and s: "ready S s" and fuel: "nat (diffmin (pt s) cur) + 1 < fuel"
  shows "\<exists>r. fee_loop fuel env it entry cur s = Some r \<and>
     (r = Return 0 \<or> (\<exists>s2. r = Leave s2 \<and> payable s2))"
  using s fuel
proof (induction fuel arbitrary: s)
  case (Suc fuel)
  obtain r where r: "fee_round (Suc fuel) env it entry cur s = Some r" "good_round S cur s r"
    using good_fee_round [OF env Suc.prems(1), of cur "Suc fuel" entry] Suc.prems(2) by auto
  show ?case
  proof (cases "\<exists>s2. r = Go s2")
    case True
    then obtain s2 where s2: "r = Go s2" "ready S s2" "pt s div 60 < pt s2 div 60"
      "diffmin (pt s2) cur > 0"
      using r(2) by (auto simp: good_round_def)
    have "nat (diffmin (pt s2) cur) + 1 < fuel"
      using Suc.prems(2) s2(3,4) unfolding diffmin_def by linarith
    then show ?thesis using Suc.IH [OF s2(2)] r(1) s2(1) by simp
  next
    case False
    then show ?thesis using r by (auto simp: good_round_def)
  qed
qed simp

lemma RoundIt_nonneg: "0 \<le> x \<Longrightarrow> 0 \<le> RoundIt x m"
proof -
  assume x: "0 \<le> x"
  then have "0 \<le> \<lceil>x\<rceil>" by (metis ceiling_mono ceiling_zero)
  then show "0 \<le> RoundIt x m" using x by (auto simp: RoundIt_def)
qed

lemma final_fee_nonneg: "payable s \<Longrightarrow> 0 \<le> final_fee p s"
  using settle_day_nonneg [of "dayFee s" s]
  by (auto simp: final_fee_def payable_def Let_def intro!: RoundIt_nonneg divide_nonneg_pos)

lemma fee_start_ready: "ready S (fee_start entry ng)"
  by (simp add: ready_def fee_start_def)

lemma diffmin_pay_time:
  "diffmin entry pay \<le> diffmin entry (pay_time entry pay)"
  "diffmin entry (pay_time entry pay) \<le> diffmin entry pay + 1"
  by (auto simp: pay_time_def diffmin_def)

lemma fee_loop_calc:
  assumes "sane_env S env it" and "nat (diffmin entry pay) + 2 < fuel"
  shows "\<exists>r. fee_loop fuel env it entry (pay_time entry pay) (fee_start entry ng) = Some r \<and>
     (r = Return 0 \<or> (\<exists>s2. r = Leave s2 \<and> payable s2))"
proof -
  have "nat (diffmin (pt (fee_start entry ng)) (pay_time entry pay)) + 1 < fuel"
    using assms(2) diffmin_pay_time(2) [of entry pay] by (simp add: fee_start_def)
  then show ?thesis using fee_loop_sane [OF assms(1) fee_start_ready] by blast
qed

lemma CalFeeRAM2GR_sane:
  assumes "sane_env S env it" and "nat (diffmin entry pay) + 2 < fuel"
  shows "\<exists>r \<ge> 0. CalFeeRAM2GR fuel env entry pay it ng = Some (Return r)"
proof (cases "diffmin entry pay < 0")
  case True
  then show ?thesis by (simp add: CalFeeRAM2GR_def)
next
  case False
  then show ?thesis
    using fee_loop_calc [OF assms, of ng] final_fee_nonneg
    by (fastforce simp: CalFeeRAM2GR_def)
qed

section \<open>The greatest fee of a day\<close>

definition capped_env :: "rat \<Rightarrow> fee_env \<Rightarrow> int \<Rightarrow> bool" where
  "capped_env M env iTransType \<longleftrightarrow> 0 < M \<and>
     (\<forall>day. let t = gtariff env iTransType (day_type env day)
            in whole_day_max t = M \<and> whole_day_min t \<noteq> M)"

definition capped :: "rat \<Rightarrow> int \<Rightarrow> fee_state \<Rightarrow> bool" where
  "capped M d0 s \<longleftrightarrow> charge s \<le> M * of_int (PD s - d0) \<and> \<not> b24HourBlock s \<and>
     (if bGotDayInfo s then dayMax s = M else dayFee s = 0)"

definition total :: "fee_state \<Rightarrow> rat" where
  "total s = (if dayFee s > 0 then charge s + settle_day (dayFee s) s else charge s)"

lemma settle_day_le: "dayMax s = M \<Longrightarrow> 0 < M \<Longrightarrow> settle_day f s \<le> M"
  by (auto simp: settle_day_def Let_def)

lemma total_le:
  assumes "capped M d0 s" "0 < M"
  shows "total s \<le> M * of_int (PD s - d0 + 1)" and "\<not> bGotDayInfo s \<Longrightarrow> total s \<le> M * of_int (PD s - d0)"
  using assms settle_day_le [of s M "dayFee s"]
  by (auto simp: total_def capped_def algebra_simps split: if_splits)

lemma capped_kept: "kept s s2 \<Longrightarrow> bGotDayInfo s \<Longrightarrow> capped M d0 s2 = capped M d0 s"
  by (simp add: kept_def capped_def)

lemma end_round_capped:
  assumes c: "capped M d0 s" and M: "0 < M" and info: "bGotDayInfo s"
    and r: "end_round cur fee s = Go s2 \<or> end_round cur fee s = Leave s2"
  shows "capped M d0 s2" and "total s2 \<le> M * of_int (PD s - d0 + 1)"
proof -
  define s1 where "s1 = s\<lparr>dayFee := dayFee s + zone_price fee s\<rparr>"
  define u where "u = (if diffday (at_day (PD s1) 0) (pt s1) > 0
      then s1\<lparr>charge := charge s1 + settle_day (dayFee s1) s1, dayFee := 0, bGotDayInfo := False,
              PD := PD s1 + 1\<rparr>
      else s1)"
  have u: "u = s2"
    using r unfolding end_round_def Let_def s1_def [symmetric] u_def [symmetric]
    by (auto split: if_splits)
  have c1: "capped M d0 s1" and i1: "bGotDayInfo s1" and PD: "PD s1 = PD s"
    using c info by (simp_all add: s1_def capped_def)
  have "settle_day (dayFee s1) s1 \<le> M"
    using c1 i1 M by (intro settle_day_le) (auto simp: capped_def)
  then have cu: "capped M d0 u \<and> (PD u = PD s \<or> PD u = PD s + 1 \<and> \<not> bGotDayInfo u)"
    using c1 i1 PD by (auto simp: u_def capped_def algebra_simps)
  then show "capped M d0 s2" by (simp add: u)
  show "total s2 \<le> M * of_int (PD s - d0 + 1)"
    using cu total_le [of M d0 u] M by (auto simp: u algebra_simps)
qed

definition capped_round :: "rat \<Rightarrow> int \<Rightarrow> int \<Rightarrow> fee_state outcome \<Rightarrow> bool" where
  "capped_round M d0 day r \<longleftrightarrow>
     (\<forall>s2. r = Leave s2 \<longrightarrow> \<not> b24HourBlock s2 \<and> total s2 \<le> M * of_int (day - d0 + 1)) \<and>
     (\<forall>s2. r = Go s2 \<longrightarrow> capped M d0 s2)"

lemma capped_round_mono:
  assumes "capped_round M d0 day r" "0 < M" "day \<le> day'"
  shows "capped_round M d0 day' r"
proof -
  have "M * of_int (day - d0 + 1) \<le> M * of_int (day' - d0 + 1)"
    using assms(2,3) by (intro mult_left_mono) auto
  with assms(1) show ?thesis by (auto simp: capped_round_def intro: order_trans)
qed

lemma capped_fee_round:
  assumes env: "sane_env S env it" and cenv: "capped_env M env it" and s: "ready S s"
    and c: "capped M d0 s" and fuel: "nat (diffmin (pt s) cur) < fuel"
    and day: "PD s \<le> cur div 86400"
    and r: "fee_round fuel env it entry cur s = Some r"
  shows "capped_round M d0 (PD s) r"
proof -
  have M: "0 < M" using cenv by (simp add: capped_env_def)
  have S: "0 \<le> S" and pe: "S + giPEAllowance (paras env) * 60 \<le> 86400"
    using env by (simp_all add: sane_env_def)
  have ptday: "pt s div 86400 = PD s" and fee: "0 \<le> s24HourFee s" using s by (simp_all add: ready_def)
  obtain s1 where s1: "(if bGotDayInfo s then Go s else load_day env it s) = Go s1" "loaded S s1"
    "pt s1 = pt s" "PD s1 = PD s" "capped M d0 s1" "bGotDayInfo s1"
  proof (cases "bGotDayInfo s")
    case True
    then show thesis using that [of s] s c by (simp add: ready_def)
  next
    case False
    let ?t = "gtariff env it (day_type env (PD s))"
    obtain u where u: "load_day env it s = Go (set_day ?t u)"
      "loaded S (set_day ?t u)" "pt u = pt s" "PD u = PD s" "charge u = charge s"
      using load_day_sane [OF env fee] by blast
    have "whole_day_max ?t = M" "whole_day_min ?t \<noteq> whole_day_max ?t"
      using cenv by (simp_all add: capped_env_def Let_def)
    then have "capped M d0 (set_day ?t u)"
      using c u set_day_mode(1) [of ?t u] by (simp add: capped_def)
    then show thesis using False u that [of "set_day ?t u"] by simp
  qed
  have "\<not> diffday (at_day (PD s) 0) cur < 0" using day by (simp add: diffday_def at_day_def)
  moreover have "\<not> b24HourBlock s1" using s1(5) by (simp add: capped_def)
  ultimately have z: "zone_round fuel env it entry cur s1 = Some r"
    using r s1(1) by (simp add: fee_round_def)
  have "r = Return 0 \<or>
     (\<exists>s2. r = Leave s2 \<and> kept s1 s2) \<or>
     (\<exists>s2 fee. r = end_round cur fee s2 \<and> kept s1 s2)"
    using zone_round_sane [OF s1(2) _ _ S pe, of cur fuel it entry] s1(3,4) ptday fuel z by auto
  then show ?thesis
  proof (elim disjE exE conjE)
    fix s2 assume "r = Leave s2" "kept s1 s2"
    then show ?thesis
      using s1(4,5,6) capped_kept [of s1 s2 M d0] total_le(1) [of M d0 s2] M
      by (auto simp: capped_round_def kept_def capped_def)
  next
    fix s2 fee assume e: "r = end_round cur fee s2" and k: "kept s1 s2"
    have k2: "capped M d0 s2" "bGotDayInfo s2" "PD s2 = PD s"
      using k s1(4,5,6) capped_kept [OF k] by (auto simp: kept_def)
    have "capped M d0 s3 \<and> total s3 \<le> M * of_int (PD s - d0 + 1)"
      if "r = Go s3 \<or> r = Leave s3" for s3
      using end_round_capped [OF k2(1) M k2(2), of cur fee s3] that k2(3) e by auto
    then show ?thesis by (auto simp: capped_round_def capped_def)
  qed (simp add: capped_round_def)
qed

lemma capped_fee_loop:
  assumes env: "sane_env S env it" and cenv: "capped_env M env it"
    and s: "ready S s" and c: "capped M d0 s" and fuel: "nat (diffmin (pt s) cur) + 1 < fuel"
    and day: "PD s \<le> cur div 86400"
    and r: "fee_loop fuel env it entry cur s = Some (Leave s')"
  shows "\<not> b24HourBlock s' \<and> total s' \<le> M * of_int (cur div 86400 - d0 + 1)"
  using s c fuel day r
proof (induction fuel arbitrary: s)
  case (Suc fuel)
  have M: "0 < M" using cenv by (simp add: capped_env_def)
  have f: "nat (diffmin (pt s) cur) < Suc fuel" using Suc.prems(3) by simp
  obtain q where q: "fee_round (Suc fuel) env it entry cur s = Some q" "good_round S cur s q"
    using good_fee_round [OF env Suc.prems(1) f] by blast
  have cr: "capped_round M d0 (PD s) q"
    by (rule capped_fee_round [OF env cenv Suc.prems(1,2) f Suc.prems(4) q(1)])
  show ?case
  proof (cases "\<exists>s2. q = Go s2")
    case True
    then obtain s2 where s2: "q = Go s2" "ready S s2" "pt s div 60 < pt s2 div 60"
      "diffmin (pt s2) cur > 0"
      using q(2) by (auto simp: good_round_def)
    have "nat (diffmin (pt s2) cur) + 1 < fuel"
      using Suc.prems(3) s2(3,4) unfolding diffmin_def by linarith
    moreover have "PD s2 \<le> cur div 86400"
      using s2(2) diffmin_pos_less [OF s2(4)] zdiv_mono1 [of "pt s2" cur 86400]
      by (auto simp: ready_def)
    moreover have "capped M d0 s2" using cr s2(1) by (simp add: capped_round_def)
    ultimately show ?thesis using Suc.IH [OF s2(2)] Suc.prems(5) q(1) s2(1) by simp
  next
    case False
    then have "q = Leave s'" using Suc.prems(5) q by (auto simp: good_round_def)
    then show ?thesis
      using capped_round_mono [OF cr M Suc.prems(4)] by (simp add: capped_round_def)
  qed
qed simp

section \<open>Grace\<close>

lemma fee_round_grace:
  assumes env: "sane_env S env it"
    and grace: "\<And>day k. k < max_zone (gtariff env it (day_type env day)) \<Longrightarrow>
      G \<le> grace_time (zones (gtariff env it (day_type env day)) k)"
    and G: "0 < G" "G \<le> 1380" and stay: "0 \<le> diffmin entry cur" "diffmin entry cur \<le> G"
  shows "fee_round fuel env it entry' cur (fee_start entry False) = Some (Return 0)"
proof -
  let ?s = "fee_start entry False"
  let ?t = "gtariff env it (day_type env (PD ?s))"
  have s: "pt ?s = entry" "PD ?s = entry div 86400" "\<not> bNoGT ?s" "\<not> bGotDayInfo ?s"
    "0 \<le> s24HourFee ?s"
    by (simp_all add: fee_start_def)
  obtain u where u: "load_day env it ?s = Go (set_day ?t u)" "loaded S (set_day ?t u)"
    "pt u = pt ?s" "PD u = PD ?s" "bNoGT u = bNoGT ?s"
    and zs: "\<And>k. k \<le> maxZone u \<Longrightarrow> \<exists>z day j. zone_data u k = Some z \<and>
      graceTime u k = Some (grace_time z) \<and> z = zones (gtariff env it (day_type env day)) j \<and>
      j < max_zone (gtariff env it (day_type env day))"
    using load_day_sane [OF env s(5)] by metis
  let ?u = "set_day ?t u"
  obtain zi e where zi: "find_zone ?u = Some zi" "zi \<le> maxZone ?u" "zoneTime ?u (zi + 1) = Some e"
  proof -
    have "pt ?u div 86400 = PD ?u" using u(3,4) s(1,2) by simp
    from find_zone_loaded [OF u(2) this] that show thesis by blast
  qed
  obtain z st where z: "zone_data ?u zi = Some z" "sane_zone S z" "rateType ?u zi = Some (rate_type z)"
    "zoneTime ?u zi = Some st"
    using u(2) zi(2) by (auto simp: loaded_def)
  obtain day j where g: "graceTime ?u zi = Some (grace_time z)"
    "z = zones (gtariff env it (day_type env day)) j" "j < max_zone (gtariff env it (day_type env day))"
    using zs [of zi] zi(2) z(1) by auto
  have "G \<le> grace_time z" using grace g(2,3) by simp
  then have "0 < grace_time z \<and> diffmin entry cur \<le> grace_time z" using G stay by auto
  moreover have "\<not> (rate_type z < 1 \<or> rate_type z > 2)" using z(2) by (auto simp: sane_zone_def)
  ultimately have zr: "zone_round fuel env it entry' cur ?u = Some (Return 0)"
    using u(3,5) s(1,3) zi z g(1) by (simp add: zone_round_def Let_def)
  have "diffhour entry cur \<le> 23"
  proof -
    have "entry div 60 div 60 = entry div 3600" "cur div 60 div 60 = cur div 3600"
      by (simp_all add: zdiv_zmult2_eq)
    moreover have "cur div 60 \<le> entry div 60 + 1380" using stay G by (simp add: diffmin_def)
    then have "cur div 60 div 60 \<le> (entry div 60 + 23 * 60) div 60" by (intro zdiv_mono1) auto
    then have "cur div 60 div 60 \<le> entry div 60 div 60 + 23" by (simp only: div_mult_self3)
    ultimately show ?thesis by (simp only: diffhour_def)
  qed
  then have "\<not> diffhour entry cur div 24 > 0" by simp
  moreover have "entry div 86400 \<le> cur div 86400"
  proof -
    have "entry div 60 \<le> cur div 60" using stay(1) by (simp add: diffmin_def)
    then have "entry div 60 div 1440 \<le> cur div 60 div 1440" by (rule zdiv_mono1) simp
    moreover have "x div 60 div 1440 = x div 86400" for x :: int by (simp add: zdiv_zmult2_eq)
    ultimately show ?thesis by simp
  qed
  ultimately show ?thesis
    using u(1,3) s zr by (auto simp: fee_round_def diffday_def at_day_def)
qed

section \<open>Blocks of an hourly zone\<close>

definition blocks :: "int \<Rightarrow> int \<Rightarrow> int" where
  "blocks m b = (if m \<le> b then 1 else (m + b - 1) div b)"

lemma blocks_step:
  assumes "0 < b" "b < m"
  shows "blocks m b = 1 + blocks (m - b) b"
proof -
  have "(m + b - 1) div b = (m - b + b - 1) div b + 1"
    using assms(1) div_add_self2 [of b "m - 1"] by (simp add: algebra_simps)
  moreover have "(m - 1) div b = 1" if "m - b \<le> b"
    using assms that by (intro int_div_pos_eq [where r = "m - 1 - b"]) auto
  ultimately show ?thesis using assms by (auto simp: blocks_def)
qed

lemma blocks_ge:
  assumes "0 < b"
  shows "m \<le> blocks m b * b" and "1 \<le> blocks m b"
proof -
  have "(m + b - 1) mod b < b" using assms by simp
  then have "m \<le> (m + b - 1) div b * b"
    using div_mult_mod_eq [of "m + b - 1" b] by linarith
  then show "m \<le> blocks m b * b" by (auto simp: blocks_def)
  show "1 \<le> blocks m b"
    using assms zdiv_mono1 [of b "m + b - 1" b] by (auto simp: blocks_def)
qed

lemma hour_loop_blocks:
  assumes "0 < charge_time_block z" and "allowance z \<le> 0" and "max_charge z \<le> 0"
    and "diffmin t zend > 0" and "diffmin cur zend > 0" and "nat (diffmin t cur) < fuel"
  shows "hour_loop fuel z charged zend cur t fee =
    Some (t + blocks (diffmin t cur) (charge_time_block z) * charge_time_block z * 60,
          fee + of_int (blocks (diffmin t cur) (charge_time_block z)) * charge_rate z)"
  using assms
proof (induction fuel arbitrary: t fee)
  case (Suc fuel)
  let ?b = "charge_time_block z" and ?m = "diffmin t cur"
  have b: "block_fee z charged cur t fee = fee + charge_rate z"
    using Suc.prems(2) by (simp add: block_fee_def)
  note step = hour_loop.simps(2) [of fuel z charged zend cur t fee, unfolded Let_def b]
  show ?case
  proof (cases "?m \<le> ?b")
    case True
    then show ?thesis using Suc.prems by (simp add: step b blocks_def)
  next
    case False
    let ?t = "t + ?b * 60"
    have m: "diffmin ?t cur = ?m - ?b" by simp
    have "diffmin ?t zend > 0" using False Suc.prems(5) by (simp add: diffmin_def)
    moreover have "nat (diffmin ?t cur) < fuel" using Suc.prems(1,6) False m by linarith
    ultimately show ?thesis
      using Suc.IH [of ?t "fee + charge_rate z"] Suc.prems False blocks_step [of ?b ?m]
      by (simp add: step b m algebra_simps)
  qed
qed simp

end
