(* ===== verification/Fee_Theorems.thy ===== *)
theory Fee_Theorems
  imports Fee_Correct
begin

text \<open>
  The properties of the fee calculation, over the lemmas of \<open>Fee_Correct\<close>.  The witnesses charge
  half a dollar for each half hour, at most 20 dollars a day, with ten minutes of grace.
\<close>

section \<open>A small tariff\<close>

definition demo_zone :: zone where
  "demo_zone =
     \<lparr>start_time = Some 0, end_time = Some 0, rate_type = 1, charge_time_block = 30,
      charge_rate = 1 / 2, grace_time = 10, first_free = 0, first_add = 0, second_free = 0,
      second_add = 0, third_free = 0, third_add = 0, allowance = 0, min_charge = 0,
      max_charge = 0\<rparr>"

definition demo_tariff :: "rat \<Rightarrow> tariff" where
  "demo_tariff cap =
     \<lparr>zones = (\<lambda>k. demo_zone), zone_cutoff = 0, day_cutoff = 0, whole_day_max = cap,
      whole_day_min = 0\<rparr>"

definition demo_env :: "rat \<Rightarrow> fee_env" where
  "demo_env cap =
     \<lparr>gtariff = (\<lambda>t d. demo_tariff cap), day_type = GetDayType 0 [], HasPaidWithinPeriod = (\<lambda>t. 0),
      paras = \<lparr>giTariffFeeMode = 0, giFirstHourMode = 0, giFirstHour = 0, giPEAllowance = 0,
               giHr2PEAllowance = 0, giMCyclePerDay = 0\<rparr>\<rparr>"

lemma demo_max_zone: "max_zone (demo_tariff cap) = 1"
  by (simp add: max_zone_def demo_tariff_def demo_zone_def upt_rec)

lemma demo_sel [simp]:
  "gtariff (demo_env cap) it day = demo_tariff cap" "zones (demo_tariff cap) k = demo_zone"
  "giPEAllowance (paras (demo_env cap)) = 0" "giTariffFeeMode (paras (demo_env cap)) = 0"
  "giFirstHour (paras (demo_env cap)) = 0" "start_time demo_zone = Some 0"
  "whole_day_min (demo_tariff cap) = 0" "whole_day_max (demo_tariff cap) = cap"
  "zone_cutoff (demo_tariff cap) = 0" "grace_time demo_zone = 10"
  by (simp_all add: demo_env_def demo_tariff_def demo_zone_def)

lemma demo_sane_zone: "sane_zone 0 demo_zone"
  by (simp add: sane_zone_def demo_zone_def)

lemma demo_sane: "sane_env 0 (demo_env cap) it"
  by (simp add: sane_env_def sane_tariff_def demo_max_zone demo_sane_zone)

lemma demo_capped: "capped_env 20 (demo_env 20) it"
  by (simp add: capped_env_def Let_def)

section \<open>The calculation returns\<close>

text \<open>C5: With a sane tariff the calculation of a fee returns, for every entry and payment: it reads
  no variable that was never written, its loops end after at most as many rounds as the stay has
  minutes, and the result is an amount that is not negative, never an error code.\<close>

theorem fee_returns:
  assumes "sane_env S env iTransType" and "nat (diffmin entry pay) + 2 < fuel"
  shows "\<exists>fee \<ge> 0. CalFeeRAM2GR fuel env entry pay iTransType noGrace = Some (Return fee)"
  using assms by (rule CalFeeRAM2GR_sane)

theorem fee_returns_witness:
  "\<exists>fee \<ge> 0. CalFeeRAM2GR 5000 (demo_env 20) 1000000 1100000 2 False = Some (Return fee)"
  by (rule fee_returns [OF demo_sane]) (simp add: diffmin_def)



text \<open>A stay within the grace time is free, whatever the zones of the day are, when every zone
  has at least \<open>G\<close> minutes of grace (and \<open>G\<close> is at most 23 hours).\<close>

theorem fee_grace:
  assumes "sane_env S env iTransType"
    and "\<And>day k. k < max_zone (gtariff env iTransType (day_type env day)) \<Longrightarrow>
      G \<le> grace_time (zones (gtariff env iTransType (day_type env day)) k)"
    and "0 < G" and "G \<le> 1380"
    and "0 \<le> diffmin entry pay" and "diffmin entry (pay_time entry pay) \<le> G" and "0 < fuel"
  shows "CalFeeRAM2GR fuel env entry pay iTransType False = Some (Return 0)"
proof -
  obtain n where n: "fuel = Suc n" using assms(7) by (cases fuel) auto
  have "0 \<le> diffmin entry (pay_time entry pay)"
    using assms(5) diffmin_pay_time(1) [of entry pay] by simp
  from fee_round_grace [OF assms(1,2,3,4) this assms(6)] show ?thesis
    using assms(5) by (simp add: CalFeeRAM2GR_def n)
qed

theorem fee_grace_witness:
  "CalFeeRAM2GR 1 (demo_env 20) 1000000 1000500 2 False = Some (Return 0)"
  by (rule fee_grace [OF demo_sane, where G = 10])
    (simp_all add: diffmin_def pay_time_def)



section \<open>Errors and days\<close>

text \<open>A stay over two tariff types adds the two halves whatever they are: when one half has no
  tariff, its error code -2 is added to the fee of the other as if it were an amount.\<close>

theorem fee_error_added:
  assumes "used_types i0 i1 entry pay = BothTypes"
    and "\<not> diffmin entry pay \<le> grace_time (zones (gtariff env transType 1) 0)"
    and "CalFeeRAM2GR fuel env entry (type_end i0) (transType + tariff_type i0 * 40) True =
      Some (Return (- 2))"
    and "CalFeeRAM2GR fuel env (type_start i1) pay (transType + tariff_type i1 * 40) True =
      Some (Return fee)"
  shows "CalFeeRAM2G fuel env i0 i1 entry pay transType noGrace = Some (Return (fee - 2))"
  using assms by (simp add: CalFeeRAM2G_def bind_fee_def)

definition demo_half :: fee_env where
  "demo_half = (demo_env 0)\<lparr>gtariff := (\<lambda>t d. if t < 40
     then (demo_tariff 0)\<lparr>zones := (\<lambda>k. demo_zone\<lparr>start_time := None\<rparr>)\<rparr> else demo_tariff 0)\<rparr>"

theorem fee_error_added_witness:
  "CalFeeRAM2G 200 demo_half
     \<lparr>tariff_type = 0, type_start = 0, type_end = 1003000\<rparr>
     \<lparr>tariff_type = 1, type_start = 1003000, type_end = 2000000\<rparr> 1000000 1006000 2 False =
   Some (Return (- 1))"
proof -
  let ?i0 = "\<lparr>tariff_type = 0, type_start = 0, type_end = 1003000\<rparr>"
  let ?i1 = "\<lparr>tariff_type = 1, type_start = 1003000, type_end = 2000000\<rparr>"
  have h: "used_types ?i0 ?i1 1000000 1006000 = BothTypes"
    "\<not> diffmin 1000000 1006000 \<le> grace_time (zones (gtariff demo_half 2 1) 0)"
    "CalFeeRAM2GR 200 demo_half 1000000 (type_end ?i0) (2 + tariff_type ?i0 * 40) True =
      Some (Return (- 2))"
    "CalFeeRAM2GR 200 demo_half (type_start ?i1) 1006000 (2 + tariff_type ?i1 * 40) True =
      Some (Return 1)"
    by code_simp+
  from fee_error_added [OF h, of False] show ?thesis by simp
qed


definition demo_nine :: fee_env where
  "demo_nine = (demo_env 0)\<lparr>gtariff := (\<lambda>t d. if d = 1
     then (demo_tariff 0)\<lparr>zones := (\<lambda>k. demo_zone\<lparr>end_time := (if k = 8 then Some 0 else Some 1)\<rparr>)\<rparr>
     else demo_tariff 0)\<rparr>"


text \<open>The weekday of a date, which the code finds with Zeller's congruence, is the weekday its
  day number has; it is the same for the Julian day formula of \<open>g2j\<close>, for every month and year.\<close>

theorem fee_weekday:
  assumes "1 \<le> month" and "month \<le> 12"
  shows "getweekday year month day = weekday_of (day_number year month day)"
  using assms by (rule getweekday_day_number)

theorem fee_weekday_witness: "getweekday 2026 1 1 = 4"
proof -
  have "weekday_of (day_number 2026 1 1) = 4" by code_simp
  with fee_weekday [of 1 2026 1] show ?thesis by simp
qed

end
