(* ===== verification/Ant_Packet.thy ===== *)
theory Ant_Packet
  imports Pbs_Interfaces Lcsc_Packet
begin

text \<open>
  The serial line of the vehicle antenna (src/antenna.cpp): the checksum, the frames the module
  sends, with the data-link escape doubled inside the data, and the byte-wise reception into a
  buffer of 128 bytes.  Writing past the end of the buffer is the value \<open>None\<close>.
\<close>

section \<open>The checksum\<close>

definition crc16r_bit :: "u32 \<Rightarrow> u32" where
  "crc16r_bit crc = (if crc AND 0x0001 \<noteq> 0 then drop_bit 1 crc XOR 0x8408 else drop_bit 1 crc)"

definition crc16r_byte :: "byte \<Rightarrow> u32 \<Rightarrow> u32" where
  "crc16r_byte b crc = (crc16r_bit ^^ 8) (crc XOR (ucast b AND 0xFF))"

text \<open>The length is an \<open>unsigned char\<close>.\<close>

definition CRC16R_Calculate :: "byte list \<Rightarrow> byte \<Rightarrow> u32 \<Rightarrow> u32" where
  "CRC16R_Calculate s len crc = fold crc16r_byte (take (unat len) s) crc XOR 0xFFFF"

section \<open>Frames\<close>

definition DLE :: byte where "DLE = 0x10"
definition ANT_STX :: byte where "ANT_STX = 0x02"
definition ANT_ETX :: byte where "ANT_ETX = 0x03"

definition TX_BUF_SIZE :: nat where "TX_BUF_SIZE = 128"
definition RX_BUF_SIZE :: nat where "RX_BUF_SIZE = 128"

fun stuff :: "byte list \<Rightarrow> byte list" where
  "stuff [] = []"
| "stuff (v # vs) = (if v = DLE then [DLE, v] else [v]) @ stuff vs"

definition crc_bytes :: "u32 \<Rightarrow> byte list" where
  "crc_bytes crc = [ucast (crc AND 0xFF), ucast (drop_bit 8 crc AND 0xFF)]"

definition data_crc :: "byte list \<Rightarrow> u32" where
  "data_crc d = CRC16R_Calculate (d @ [ANT_ETX]) (of_nat (length d + 1)) 0xFFFF"

text \<open>A frame around the data with a given checksum, and the frame that is sent; \<open>None\<close> when it
  does not fit the transmit buffer.\<close>

definition frame_with :: "byte list \<Rightarrow> u32 \<Rightarrow> byte list" where
  "frame_with d crc = [DLE, ANT_STX] @ stuff d @ [DLE, ANT_ETX] @ crc_bytes crc"

definition ant_frame :: "byte list \<Rightarrow> byte list option" where
  "ant_frame d =
     (let f = frame_with d (data_crc d) in if length f \<le> TX_BUF_SIZE then Some f else None)"

section \<open>Reception\<close>

datatype RX_STATE = RX_IGNORE | RX_RECEIVING | RX_ESCAPE | RX_ESCAPE2START | RXCRC1 | RXCRC2

text \<open>The filled part of the receive buffer, behind which all bytes are zero, and the first byte of
  the checksum.\<close>

record ant_rx =
  rxState :: RX_STATE
  rxBuff :: "byte list"
  rx_b :: byte

definition resetState :: "ant_rx \<Rightarrow> ant_rx" where
  "resetState r = r\<lparr>rxState := RX_IGNORE, rxBuff := []\<rparr>"

definition put_rx :: "byte \<Rightarrow> ant_rx \<Rightarrow> ant_rx option" where
  "put_rx c r =
     (if length (rxBuff r) < RX_BUF_SIZE then Some (r\<lparr>rxBuff := rxBuff r @ [c]\<rparr>) else None)"

definition handleIgnoreState :: "byte \<Rightarrow> ant_rx \<Rightarrow> ant_rx" where
  "handleIgnoreState c r = (if c = DLE then r\<lparr>rxState := RX_ESCAPE2START\<rparr> else r)"

definition handleEscape2StartState :: "byte \<Rightarrow> ant_rx \<Rightarrow> ant_rx" where
  "handleEscape2StartState c r =
     (if c = ANT_STX then r\<lparr>rxState := RX_RECEIVING, rxBuff := []\<rparr> else resetState r)"

definition handleReceivingState :: "byte \<Rightarrow> ant_rx \<Rightarrow> ant_rx option" where
  "handleReceivingState c r =
     (if c = DLE then Some (r\<lparr>rxState := RX_ESCAPE\<rparr>) else put_rx c r)"

definition handleEscapeState :: "byte \<Rightarrow> ant_rx \<Rightarrow> ant_rx option" where
  "handleEscapeState c r =
     (if c = ANT_STX then Some (r\<lparr>rxState := RX_RECEIVING, rxBuff := []\<rparr>)
      else if c = ANT_ETX then map_option (\<lambda>r1. r1\<lparr>rxState := RXCRC1\<rparr>) (put_rx c r)
      else if c = DLE then map_option (\<lambda>r1. r1\<lparr>rxState := RX_RECEIVING\<rparr>) (put_rx c r)
      else Some (resetState r))"

definition handleRXCRC1State :: "byte \<Rightarrow> ant_rx \<Rightarrow> ant_rx" where
  "handleRXCRC1State c r = r\<lparr>rx_b := c, rxState := RXCRC2\<rparr>"

definition handleRXCRC2State :: "byte \<Rightarrow> ant_rx \<Rightarrow> ant_rx \<times> nat" where
  "handleRXCRC2State c r =
     (let crc = (push_bit 8 (scast c) OR (scast (rx_b r) AND 0xFF)) AND 0xFFFF;
          rxcrc = CRC16R_Calculate (rxBuff r) (of_nat (length (rxBuff r))) 0xFFFF
      in if rxcrc = crc then (r\<lparr>rxState := RX_IGNORE\<rparr>, length (rxBuff r)) else (resetState r, 0))"

definition receiveRxDataByte :: "byte \<Rightarrow> ant_rx \<Rightarrow> (ant_rx \<times> nat) option" where
  "receiveRxDataByte c r =
     (case rxState r of
        RX_IGNORE \<Rightarrow> Some (handleIgnoreState c r, 0)
      | RX_ESCAPE2START \<Rightarrow> Some (handleEscape2StartState c r, 0)
      | RX_RECEIVING \<Rightarrow> map_option (\<lambda>r1. (r1, 0)) (handleReceivingState c r)
      | RX_ESCAPE \<Rightarrow> map_option (\<lambda>r1. (r1, 0)) (handleEscapeState c r)
      | RXCRC1 \<Rightarrow> Some (handleRXCRC1State c r, 0)
      | RXCRC2 \<Rightarrow> Some (handleRXCRC2State c r))"

text \<open>The bytes of one read, up to the first complete frame; the rest of the read is dropped.\<close>

fun responseIsComplete :: "byte list \<Rightarrow> ant_rx \<Rightarrow> (ant_rx \<times> bool) option" where
  "responseIsComplete [] r = Some (r, False)"
| "responseIsComplete (c # cs) r =
     (case receiveRxDataByte c r of
        None \<Rightarrow> None
      | Some (r1, n) \<Rightarrow> if n \<noteq> 0 then Some (r1, True) else responseIsComplete cs r1)"

text \<open>The reads of one attempt, until a frame is complete or the timer or the port ends them.\<close>

fun antennaRead :: "byte list list \<Rightarrow> ant_rx \<Rightarrow> (ant_rx \<times> byte list option) option" where
  "antennaRead [] r = Some (resetState r, None)"
| "antennaRead (cs # reads) r =
     (case responseIsComplete cs r of
        None \<Rightarrow> None
      | Some (r1, True) \<Rightarrow> Some (r1, Some (rxBuff r1))
      | Some (r1, False) \<Rightarrow> antennaRead reads r1)"

section \<open>The checksum is the reflected one\<close>

text \<open>The register in the low half of the machine word: its bit \<open>i\<close> is bit \<open>15 - i\<close> of the
  register of the reference, and the bytes enter with their bits in the opposite order.\<close>

definition reflect16 :: "u16 \<Rightarrow> u32" where
  "reflect16 y = ucast (word_reverse y)"

lemma bit_reflect16: "bit (reflect16 y) n \<longleftrightarrow> n < 16 \<and> bit y (15 - n)"
  by (auto simp: reflect16_def bit_simps)

lemma and_1_bit: "x AND 0x0001 \<noteq> 0 \<longleftrightarrow> bit x 0" for x :: u32
  by (simp add: and_one_eq odd_iff_mod_2_eq_one bit_0)

lemma bit_num_mod: "bit (0x8408 :: u32) n \<longleftrightarrow> n = 3 \<or> n = 10 \<or> n = 15" if "n < 16"
proof -
  have "n \<in> {0,1,2,3,4,5,6,7,8,9,10,11,12,13,14,15}" using less16 that by simp
  then show ?thesis by (simp only: insert_iff empty_iff) (elim disjE; simp)
qed

lemma bit_poly: "bit (0x1021 :: u16) (15 - n) \<longleftrightarrow> n = 3 \<or> n = 10 \<or> n = 15" if "n < 16"
proof -
  have "n \<in> {0,1,2,3,4,5,6,7,8,9,10,11,12,13,14,15}" using less16 that by simp
  then show ?thesis by (simp only: insert_iff empty_iff) (elim disjE; simp)
qed

lemma poly_high: "16 \<le> n \<Longrightarrow> \<not> bit (0x8408 :: u32) n"
proof -
  assume "16 \<le> n"
  moreover have "(0x8408 :: u32) = take_bit 16 0x8408" by simp
  ultimately show ?thesis by (metis bit_take_bit_iff not_less)
qed

lemma crc16r_bit_reflect: "crc16r_bit (reflect16 y) = reflect16 (crc16_bit y)"
proof (rule bit_word_eqI)
  fix n
  have sh: "bit (drop_bit 1 (reflect16 y)) n \<longleftrightarrow> n < 15 \<and> bit y (14 - n)"
    by (auto simp: bit_drop_bit_eq bit_reflect16)
  have sl: "n < 16 \<Longrightarrow> bit (shl1 y) (15 - n) \<longleftrightarrow> n < 15 \<and> bit y (14 - n)"
    by (auto simp: bit_shl1)
  show "bit (crc16r_bit (reflect16 y)) n = bit (reflect16 (crc16_bit y)) n"
  proof (cases "n < 16")
    case True
    then show ?thesis
      using sh sl [OF True] bit_num_mod [OF True] bit_poly [OF True]
      by (simp add: crc16r_bit_def and_1_bit bit_reflect16 crc16_bit_alt bit_xor_iff)
  next
    case False
    then show ?thesis
      using sh poly_high [of n]
      by (simp add: crc16r_bit_def bit_reflect16 bit_xor_iff)
  qed
qed

lemma crc16r_byte_reflect:
  "crc16r_byte b (reflect16 y) = reflect16 (crc16_byte (word_reverse b) y)"
proof -
  have "bit (reflect16 y XOR (ucast b AND 0xFF)) n =
      bit (reflect16 (y XOR push_bit 8 (ucast (word_reverse b)))) n" for n
  proof -
    have m: "(0xFF :: u32) = mask 8" by (simp add: mask_eq_exp_minus_1)
    show ?thesis
      unfolding m using byte_bit_bound [of b n]
      by (auto simp: bit_xor_iff bit_reflect16 bit_simps)
  qed
  then have "reflect16 y XOR (ucast b AND 0xFF) =
      reflect16 (y XOR push_bit 8 (ucast (word_reverse b)))"
    by (intro bit_word_eqI)
  moreover have "(crc16r_bit ^^ k) (reflect16 z) = reflect16 ((crc16_bit ^^ k) z)" for k z
    by (induction k) (simp_all add: crc16r_bit_reflect)
  ultimately show ?thesis by (simp add: crc16r_byte_def crc16_byte_def)
qed

lemma crc16r_fold_reflect:
  "fold crc16r_byte bs (reflect16 y) = reflect16 (fold crc16_byte (map word_reverse bs) y)"
  by (induction bs arbitrary: y) (simp_all add: crc16r_byte_reflect)

text \<open>The reference: the checksum of the card reader with its bits reversed and complemented.\<close>

definition crc16_x25 :: "byte list \<Rightarrow> u16" where
  "crc16_x25 bs = NOT (word_reverse (crc16_ref (map word_reverse bs)))"

lemma CRC16R_x25:
  assumes "length bs \<le> 255"
  shows "CRC16R_Calculate bs (of_nat (length bs)) 0xFFFF = ucast (crc16_x25 bs)"
proof -
  have "unat (of_nat (length bs) :: byte) = length bs"
    using assms by (simp add: unat_of_nat)
  moreover have init: "(0xFFFF :: u32) = reflect16 0xFFFF"
  proof -
    have m: "(0xFFFF :: u32) = mask 16" "(0xFFFF :: u16) = mask 16"
      by (simp_all add: mask_eq_exp_minus_1)
    show ?thesis unfolding m by (rule bit_word_eqI) (auto simp: bit_reflect16 bit_mask_iff)
  qed
  moreover have "ucast (NOT z) = ucast z XOR (0xFFFF :: u32)" for z :: u16
  proof (rule bit_word_eqI)
    fix n
    have m: "(0xFFFF :: u32) = mask 16" by (simp add: mask_eq_exp_minus_1)
    show "bit (ucast (NOT z) :: u32) n = bit (ucast z XOR (0xFFFF :: u32)) n"
      unfolding m using bit_imp_le_length [of z n] by (auto simp: bit_simps)
  qed
  moreover have "fold crc16r_byte bs 0xFFFF = reflect16 (crc16_ref (map word_reverse bs))"
    unfolding init crc16r_fold_reflect crc16_ref_def ..
  ultimately show ?thesis
    by (simp only: CRC16R_Calculate_def crc16_x25_def reflect16_def take_all order_refl)
qed

text \<open>One changed byte changes the checksum.\<close>

lemma x25_one_byte:
  assumes "b \<noteq> c"
  shows "crc16_x25 (xs @ b # ys) \<noteq> crc16_x25 (xs @ c # ys)"
proof -
  have rev_inj: "word_reverse x = word_reverse y \<Longrightarrow> x = y" for x y :: "'a :: len word"
    using word_rev_rev by metis
  have not_inj: "NOT x = NOT y \<Longrightarrow> x = y" for x y :: u16
    using bit.double_compl by metis
  have "word_reverse b \<noteq> word_reverse c" using assms rev_inj by blast
  then have "crc16_ref (map word_reverse (xs @ b # ys)) \<noteq> crc16_ref (map word_reverse (xs @ c # ys))"
    using crc_one_byte by (simp add: CRC16_CCITT_ref)
  then show ?thesis
    unfolding crc16_x25_def by (blast dest: not_inj rev_inj)
qed

end
