(* ===== verification/Ant_Reader.thy ===== *)
theory Ant_Reader
  imports Ant_Packet Byte_Codec
begin

text \<open>
  The antenna module (src/antenna.cpp, src/antenna.h): the commands with their payloads, one
  exchange with its repeats, the interpretation of the responses, the loop that asks for the number
  of the unit in the vehicle, and the coroutines on the module's own thread.  A coroutine is
  suspended while a command is on the line and while the timer of the loop runs; other handlers run
  in between.  Logging, and the opening of the port and its settings, are left out.
\<close>

section \<open>Commands\<close>

datatype AntCmdID =
    NONE_CMD | MANUAL_CMD | FORCE_GET_IU_NO_CMD | USE_OF_ANTENNA_CMD | NO_USE_OF_ANTENNA_CMD
  | SET_ANTENNA_TIME_CMD | MACHINE_CHECK_CMD | SET_ANTENNA_DATA_CMD | GET_ANTENNA_DATA_CMD
  | REQ_IO_STATUS_CMD | SET_OUTPUT_CMD

datatype AntCmdRetCode =
    AntSend_Failed | AntRecv_CmdNotFound | AntRecv_NoResp | AntRecv_ACK | AntRecv_NAK
  | AntRecv_CRCErr

text \<open>The local time, as \<open>std::tm\<close> holds it.\<close>

record tm =
  tm_sec :: int
  tm_min :: int
  tm_hour :: int
  tm_mday :: int
  tm_mon :: int
  tm_year :: int

definition cmd_header :: "byte \<Rightarrow> byte \<Rightarrow> byte \<Rightarrow> byte \<Rightarrow> byte \<Rightarrow> byte \<Rightarrow> byte list" where
  "cmd_header destID sourceID category command seqNo len =
     [destID, sourceID, category, command, seqNo, 0, len]"

definition loadSetAntennaData ::
  "byte \<Rightarrow> byte \<Rightarrow> byte \<Rightarrow> byte \<Rightarrow> byte \<Rightarrow> byte \<Rightarrow> int \<Rightarrow> byte \<Rightarrow> byte \<Rightarrow> byte \<Rightarrow> int \<Rightarrow> int \<Rightarrow> byte list" where
  "loadSetAntennaData destID sourceID category command seqNo antennaID placeID parkingNo
     antennaMode enqTimer doubleCommTimer cmdWaitTimer =
     cmd_header destID sourceID category command seqNo 0x0B @
     [antennaID, word_of_int (placeID AND 0x00FF), word_of_int (drop_bit 8 placeID AND 0xFF),
      parkingNo, antennaMode, 0, enqTimer,
      word_of_int (doubleCommTimer AND 0x00FF), word_of_int ((doubleCommTimer AND 0xFF00) div 256),
      word_of_int (cmdWaitTimer AND 0x00FF), word_of_int ((cmdWaitTimer AND 0xFF00) div 256)]"

text \<open>The commands without data: reading the antenna data, use and no use of the antenna, the machine
  check, the state of the inputs, and the request for the number.\<close>

definition loadGetAntennaData :: "byte \<Rightarrow> byte \<Rightarrow> byte \<Rightarrow> byte \<Rightarrow> byte \<Rightarrow> byte list" where
  "loadGetAntennaData destID sourceID category command seqNo =
     cmd_header destID sourceID category command seqNo 0"

definition loadNoUseOfAntenna :: "byte \<Rightarrow> byte \<Rightarrow> byte \<Rightarrow> byte \<Rightarrow> byte \<Rightarrow> byte list" where
  "loadNoUseOfAntenna destID sourceID category command seqNo =
     cmd_header destID sourceID category command seqNo 0"

definition loadUseOfAntenna :: "byte \<Rightarrow> byte \<Rightarrow> byte \<Rightarrow> byte \<Rightarrow> byte \<Rightarrow> byte list" where
  "loadUseOfAntenna destID sourceID category command seqNo =
     cmd_header destID sourceID category command seqNo 0"

definition loadSetAntennaTime :: "tm \<Rightarrow> byte \<Rightarrow> byte \<Rightarrow> byte \<Rightarrow> byte \<Rightarrow> byte \<Rightarrow> byte list" where
  "loadSetAntennaTime t destID sourceID category command seqNo =
     cmd_header destID sourceID category command seqNo 8 @
     [word_of_int (tm_mday t), word_of_int (tm_mon t + 1), word_of_int ((tm_year t + 1900) mod 256),
      word_of_int ((tm_year t + 1900) div 256), 0, word_of_int (tm_sec t), word_of_int (tm_min t),
      word_of_int (tm_hour t)]"

definition loadMachineCheck :: "byte \<Rightarrow> byte \<Rightarrow> byte \<Rightarrow> byte \<Rightarrow> byte \<Rightarrow> byte list" where
  "loadMachineCheck destID sourceID category command seqNo =
     cmd_header destID sourceID category command seqNo 0"

definition loadReqIOStatus :: "byte \<Rightarrow> byte \<Rightarrow> byte \<Rightarrow> byte \<Rightarrow> byte \<Rightarrow> byte list" where
  "loadReqIOStatus destID sourceID category command seqNo =
     cmd_header destID sourceID category command seqNo 0"

text \<open>The length of the output command stays zero although two bytes follow.\<close>

definition loadSetOutput :: "byte \<Rightarrow> byte \<Rightarrow> byte \<Rightarrow> byte \<Rightarrow> byte \<Rightarrow> byte \<Rightarrow> byte \<Rightarrow> byte list" where
  "loadSetOutput destID sourceID category command seqNo maskIO statusOfIO =
     cmd_header destID sourceID category command seqNo 0 @ [maskIO, statusOfIO]"

definition loadForceGetUINo :: "byte \<Rightarrow> byte \<Rightarrow> byte \<Rightarrow> byte \<Rightarrow> byte \<Rightarrow> byte list" where
  "loadForceGetUINo destID sourceID category command seqNo =
     cmd_header destID sourceID category command seqNo 0"

text \<open>The payload of a command, and \<open>None\<close> for a command the switch does not know.\<close>

definition ant_payload :: "int \<Rightarrow> tm \<Rightarrow> byte \<Rightarrow> AntCmdID \<Rightarrow> byte list option" where
  "ant_payload aid t seqNo cmd =
     (let antennaID = word_of_int aid; destID = 0xB0 + antennaID; sourceID = 0x00 in
      case cmd of
        MANUAL_CMD \<Rightarrow> Some []
      | SET_ANTENNA_DATA_CMD \<Rightarrow>
          Some (loadSetAntennaData destID sourceID 0x32 0x40 seqNo antennaID 0x0001 0x01 0x01 0xE1
            0x012C 0x003C)
      | GET_ANTENNA_DATA_CMD \<Rightarrow> Some (loadGetAntennaData destID sourceID 0x32 0x41 seqNo)
      | NO_USE_OF_ANTENNA_CMD \<Rightarrow> Some (loadNoUseOfAntenna destID sourceID 0x32 0x32 seqNo)
      | USE_OF_ANTENNA_CMD \<Rightarrow> Some (loadUseOfAntenna destID sourceID 0x32 0x33 seqNo)
      | SET_ANTENNA_TIME_CMD \<Rightarrow> Some (loadSetAntennaTime t destID sourceID 0x32 0x30 seqNo)
      | MACHINE_CHECK_CMD \<Rightarrow> Some (loadMachineCheck destID sourceID 0x31 0x33 seqNo)
      | REQ_IO_STATUS_CMD \<Rightarrow> Some (loadReqIOStatus destID sourceID 0x31 0x34 seqNo)
      | SET_OUTPUT_CMD \<Rightarrow> Some (loadSetOutput destID sourceID 0x32 0x31 seqNo 0x01 0x01)
      | FORCE_GET_IU_NO_CMD \<Rightarrow> Some (loadForceGetUINo destID sourceID 0x3F 0x32 seqNo)
      | NONE_CMD \<Rightarrow> None)"

section \<open>State\<close>

datatype ant_event = Evt_AntennaPower bool | Evt_AntennaFail int | Evt_AntennaIUCome string

record ant_cfg =
  antennaId :: int
  antennaIUCmdMinOKtimes :: int
  antennaCmdMaxRetry :: nat
  eps :: int
  char_signed :: bool

text \<open>The number that is being confirmed.\<close>

record iu_state =
  IUNumberPrev :: string
  IUNumber :: string
  successRecvIUCount :: int
  successRecvIUFlag :: bool

datatype ant_loop = LoopOff | LoopWaiting | LoopInCmd

datatype ant_post = StartLoop | CancelTimer | ShutdownOnIo

text \<open>\<open>initTask\<close> holds the commands of the initialisation that follow the one on the line, and
  \<open>onLine\<close> the payload of the command on the line.\<close>

record ant =
  ant_rxs :: ant_rx
  SEQUENCE_NO :: byte
  isCmdExecuting :: bool
  moduleRunning :: bool
  stopping :: bool
  ant_port_open :: bool
  ius :: iu_state
  continueReadFlag :: bool
  iuLoopRunning :: bool
  antIUCmdSendCount :: int
  initializationCompleted :: bool
  ant_loop_pc :: ant_loop
  timer_cancelled :: bool
  initTask :: "AntCmdID list option"
  onLine :: "byte list option"
  ant_posts :: "ant_post list"
  ant_events :: "ant_event list"
  ant_sent :: "byte list list"

definition ant_event :: "ant_event \<Rightarrow> ant \<Rightarrow> ant" where
  "ant_event e s = s\<lparr>ant_events := ant_events s @ [e]\<rparr>"

section \<open>Responses\<close>

definition FnIsStringNumeric :: "string \<Rightarrow> bool" where
  "FnIsStringNumeric str = list_all (\<lambda>c. CHR ''0'' \<le> c \<and> c \<le> CHR ''9'') str"

text \<open>One reading of a number.  A reading that differs from the last one only starts the count.\<close>

definition iu_reading :: "int \<Rightarrow> string \<Rightarrow> iu_state \<Rightarrow> iu_state" where
  "iu_reading minOK IUNumberStr u =
     (if IUNumberPrev u \<noteq> IUNumberStr
      then u\<lparr>IUNumberPrev := IUNumberStr, successRecvIUCount := 1\<rparr>
      else
        let n = successRecvIUCount u + 1 in
        if n = minOK
        then u\<lparr>successRecvIUFlag := True, successRecvIUCount := 0, IUNumber := IUNumberPrev u,
               IUNumberPrev := ''''\<rparr>
        else u\<lparr>successRecvIUCount := n\<rparr>)"

definition rx_byte_at :: "ant_rx \<Rightarrow> nat \<Rightarrow> byte" where
  "rx_byte_at r i = (if i < length (rxBuff r) then rxBuff r ! i else 0)"

definition iu_text :: "ant_cfg \<Rightarrow> ant_rx \<Rightarrow> string" where
  "iu_text cfg r =
     FnGetVectorCharToHexString (char_signed cfg) (rev (map (rx_byte_at r) [7,8,9,10,11]))"

definition response_id :: "ant_rx \<Rightarrow> string" where
  "response_id r = hex2 (rx_byte_at r 2) @ hex2 (rx_byte_at r 3)"

definition antennaHandleCmdResponse ::
  "ant_cfg \<Rightarrow> byte list \<Rightarrow> ant_rx \<Rightarrow> iu_state \<Rightarrow> iu_state \<times> AntCmdRetCode" where
  "antennaHandleCmdResponse cfg dataBuff r u =
     (if length dataBuff \<ge> 8 then
        (let cmdID = response_id r in
         if cmdID = ''3281'' then (u, AntRecv_ACK)
         else if cmdID = ''32c1'' then (u, AntRecv_ACK)
         else if cmdID = ''3282'' then (u, AntRecv_NAK)
         else if cmdID = ''3283'' then (u, AntRecv_NAK)
         else if cmdID = ''3fb2'' then
           (if FnIsStringNumeric (iu_text cfg r)
            then (iu_reading (antennaIUCmdMinOKtimes cfg) (iu_text cfg r) u, AntRecv_ACK)
            else (u, AntRecv_NAK))
         else if cmdID = ''3f82'' then (u, AntRecv_NAK)
         else if cmdID = ''31b3'' then (u, AntRecv_ACK)
         else if cmdID = ''31b4'' then (u, AntRecv_ACK)
         else (u, AntRecv_NoResp))
      else (u, AntRecv_NoResp))"

section \<open>One command\<close>

text \<open>What happens on the line during each attempt, and when the module is seen to be stopping.\<close>

record ant_line =
  stop_before :: "nat \<Rightarrow> bool"
  write_ok :: "nat \<Rightarrow> bool"
  att_reads :: "nat \<Rightarrow> byte list list"
  stop_after :: "nat \<Rightarrow> bool"
  stop_end :: bool

definition antennaCmdSend :: "byte list \<Rightarrow> bool \<Rightarrow> ant \<Rightarrow> ant \<times> bool" where
  "antennaCmdSend dataBuff ok s =
     (if \<not> ant_port_open s then (s, False)
      else
        (case ant_frame dataBuff of
           None \<Rightarrow> (s, False)
         | Some f \<Rightarrow> (s\<lparr>ant_sent := ant_sent s @ [f]\<rparr>, ok)))"

text \<open>The attempts from number \<open>k\<close> on, \<open>n\<close> of them left.\<close>

fun ant_attempts ::
  "ant_cfg \<Rightarrow> byte list \<Rightarrow> ant_line \<Rightarrow> nat \<Rightarrow> nat \<Rightarrow> AntCmdRetCode \<Rightarrow> ant \<Rightarrow> (ant \<times> AntCmdRetCode) option"
where
  "ant_attempts cfg data line 0 k ret s =
     Some (if \<not> stop_end line then ant_event (Evt_AntennaFail 1) s else s, ret)"
| "ant_attempts cfg data line (Suc n) k ret s =
     (if stop_before line k then Some (s, AntRecv_NoResp)
      else
        (case antennaCmdSend data (write_ok line k) (s\<lparr>ant_rxs := resetState (ant_rxs s)\<rparr>) of
           (s1, False) \<Rightarrow>
             if stop_after line k then Some (s1, AntSend_Failed)
             else ant_attempts cfg data line n (k + 1) AntSend_Failed s1
         | (s1, True) \<Rightarrow>
             (case antennaRead (att_reads line k) (ant_rxs s1) of
                None \<Rightarrow> None
              | Some (r, Some resp) \<Rightarrow>
                  (case antennaHandleCmdResponse cfg resp r (ius s1) of
                     (u, rc) \<Rightarrow> Some (s1\<lparr>ant_rxs := r, ius := u\<rparr>, rc))
              | Some (r, None) \<Rightarrow>
                  (let s2 = s1\<lparr>ant_rxs := r\<rparr> in
                   if stop_after line k then Some (s2, AntRecv_NoResp)
                   else ant_attempts cfg data line n (k + 1) AntRecv_NoResp s2))))"

text \<open>\<open>antennaCmdAsync\<close> up to its first suspension, with its return code when it returns at once, and
  from there to its end.\<close>

definition antennaCmd_begin ::
  "ant_cfg \<Rightarrow> tm \<Rightarrow> AntCmdID \<Rightarrow> ant \<Rightarrow> ant \<times> AntCmdRetCode option" where
  "antennaCmd_begin cfg t cmdID s =
     (if stopping s then (s, Some AntRecv_NoResp)
      else if isCmdExecuting s then (s, Some AntSend_Failed)
      else if \<not> ant_port_open s then (s, Some AntRecv_NoResp)
      else
        let q = SEQUENCE_NO s + 1; seqNo = (if q = 0 then 1 else q); s1 = s\<lparr>SEQUENCE_NO := seqNo\<rparr> in
        case ant_payload (antennaId cfg) t seqNo cmdID of
          None \<Rightarrow> (s1, Some AntRecv_CmdNotFound)
        | Some data \<Rightarrow> (s1\<lparr>isCmdExecuting := True, onLine := Some data\<rparr>, None))"

definition antennaCmd_end ::
  "ant_cfg \<Rightarrow> ant_line \<Rightarrow> byte list \<Rightarrow> ant \<Rightarrow> (ant \<times> AntCmdRetCode) option" where
  "antennaCmd_end cfg line data s =
     (case ant_attempts cfg data line (antennaCmdMaxRetry cfg + 1) 0 AntRecv_NoResp s of
        None \<Rightarrow> None
      | Some (s1, rc) \<Rightarrow> Some (s1\<lparr>isCmdExecuting := False, onLine := None\<rparr>, rc))"

section \<open>The coroutines\<close>

text \<open>The loop that asks for the number: its test, its end, and what follows a command.\<close>

definition loop_exit :: "ant \<Rightarrow> ant" where
  "loop_exit s = s\<lparr>iuLoopRunning := False, ant_loop_pc := LoopOff\<rparr>"

definition loop_top :: "ant \<Rightarrow> ant" where
  "loop_top s =
     (if continueReadFlag s \<and> \<not> stopping s
      then s\<lparr>ant_loop_pc := LoopWaiting, timer_cancelled := False\<rparr> else loop_exit s)"

definition loop_after :: "ant \<Rightarrow> ant" where
  "loop_after s =
     (let s1 = s\<lparr>antIUCmdSendCount := antIUCmdSendCount s + 1\<rparr> in
      if successRecvIUFlag (ius s1) then
        loop_exit (ant_event (Evt_AntennaIUCome (IUNumber (ius s1)))
          (s1\<lparr>continueReadFlag := False, ius := (ius s1)\<lparr>successRecvIUFlag := False\<rparr>\<rparr>))
      else if antIUCmdSendCount s1 \<ge> 20
      then loop_top ((ant_event (Evt_AntennaFail 2) s1)\<lparr>antIUCmdSendCount := 0\<rparr>)
      else loop_top s1)"

datatype tick = Expired | Aborted | TimerError

definition loop_resume :: "ant_cfg \<Rightarrow> tick \<Rightarrow> tm \<Rightarrow> ant \<Rightarrow> ant" where
  "loop_resume cfg k t s =
     (if \<not> continueReadFlag s then loop_exit s
      else if k = Aborted then loop_top s
      else if k = TimerError then loop_exit s
      else if isCmdExecuting s then loop_top s
      else
        (case antennaCmd_begin cfg t FORCE_GET_IU_NO_CMD s of
           (s1, Some rc) \<Rightarrow> loop_after s1
         | (s1, None) \<Rightarrow> s1\<lparr>ant_loop_pc := LoopInCmd\<rparr>))"

text \<open>The initialisation: four commands, each only after the acknowledgement of the one before.\<close>

definition init_done :: "ant_cfg \<Rightarrow> AntCmdRetCode \<Rightarrow> ant \<Rightarrow> ant" where
  "init_done cfg rc s =
     (let ok = (rc = AntRecv_ACK \<or> eps cfg = 2 \<and> rc = AntRecv_NAK)
      in ant_event (Evt_AntennaPower ok) (s\<lparr>initializationCompleted := ok, initTask := None\<rparr>))"

fun init_run :: "ant_cfg \<Rightarrow> tm \<Rightarrow> AntCmdRetCode \<Rightarrow> AntCmdID list \<Rightarrow> ant \<Rightarrow> ant" where
  "init_run cfg t rc [] s = init_done cfg rc s"
| "init_run cfg t rc (c # cs) s =
     (if rc \<noteq> AntRecv_ACK then init_done cfg rc s
      else
        (case antennaCmd_begin cfg t c s of
           (s1, None) \<Rightarrow> s1\<lparr>initTask := Some cs\<rparr>
         | (s1, Some rc1) \<Rightarrow> init_run cfg t rc1 cs s1))"

definition antennaInit :: "ant_cfg \<Rightarrow> tm \<Rightarrow> ant \<Rightarrow> ant" where
  "antennaInit cfg t s =
     init_run cfg t AntRecv_ACK
       [SET_ANTENNA_DATA_CMD, NO_USE_OF_ANTENNA_CMD, SET_ANTENNA_TIME_CMD, MACHINE_CHECK_CMD] s"

text \<open>The first run of the module: a port that does not open is an exception.\<close>

definition antennaModuleInit :: "ant_cfg \<Rightarrow> bool \<Rightarrow> tm \<Rightarrow> ant \<Rightarrow> ant" where
  "antennaModuleInit cfg opened t s =
     (if opened then antennaInit cfg t (s\<lparr>ant_port_open := True\<rparr>)
      else ant_event (Evt_AntennaPower False) (s\<lparr>initializationCompleted := False\<rparr>))"

section \<open>Requests of other threads and handlers\<close>

definition FnAntennaSendReadIUCmd :: "ant \<Rightarrow> ant" where
  "FnAntennaSendReadIUCmd s =
     (if \<not> moduleRunning s \<or> stopping s then s
      else if continueReadFlag s then s
      else s\<lparr>continueReadFlag := True, ant_posts := ant_posts s @ [StartLoop]\<rparr>)"

definition FnAntennaStopRead :: "ant \<Rightarrow> ant" where
  "FnAntennaStopRead s =
     (let s1 = s\<lparr>continueReadFlag := False\<rparr> in
      if \<not> moduleRunning s1 then s1 else s1\<lparr>ant_posts := ant_posts s1 @ [CancelTimer]\<rparr>)"

definition FnAntennaShutdown :: "ant \<Rightarrow> ant" where
  "FnAntennaShutdown s =
     (if moduleRunning s
      then s\<lparr>moduleRunning := False, stopping := True, continueReadFlag := False,
             ant_posts := ant_posts s @ [ShutdownOnIo]\<rparr>
      else s)"

definition cancel_timer :: "ant \<Rightarrow> ant" where
  "cancel_timer s = (if ant_loop_pc s = LoopWaiting then s\<lparr>timer_cancelled := True\<rparr> else s)"

definition run_post :: "ant_post \<Rightarrow> ant \<Rightarrow> ant" where
  "run_post p s =
     (case p of
        StartLoop \<Rightarrow>
          (if \<not> ant_port_open s then s\<lparr>continueReadFlag := False\<rparr>
           else if iuLoopRunning s then s
           else loop_top (s\<lparr>iuLoopRunning := True, antIUCmdSendCount := 0\<rparr>))
      | CancelTimer \<Rightarrow> cancel_timer s
      | ShutdownOnIo \<Rightarrow> (cancel_timer s)\<lparr>continueReadFlag := False, ant_port_open := False\<rparr>)"

definition line_done :: "ant_cfg \<Rightarrow> ant_line \<Rightarrow> tm \<Rightarrow> byte list \<Rightarrow> ant \<Rightarrow> ant option" where
  "line_done cfg line t data s =
     (case antennaCmd_end cfg line data s of
        None \<Rightarrow> None
      | Some (s1, rc) \<Rightarrow>
          Some (case initTask s1 of
                  Some cs \<Rightarrow> init_run cfg t rc cs (s1\<lparr>initTask := None\<rparr>)
                | None \<Rightarrow> loop_after s1))"

text \<open>The actions: requests of other threads, the first posted handler, the end of the command on the
  line, and the timer of the loop, which is only aborted after a cancellation.  \<open>None\<close> is a write past
  the end of the receive buffer.\<close>

datatype ant_action =
    SendReadIU | StopReadIU | ShutdownModule | RunPost | LineDone ant_line tm | TimerDone tick tm

definition ant_enabled :: "ant_action \<Rightarrow> ant \<Rightarrow> bool" where
  "ant_enabled a s =
     (case a of
        RunPost \<Rightarrow> ant_posts s \<noteq> []
      | LineDone line t \<Rightarrow> onLine s \<noteq> None
      | TimerDone k t \<Rightarrow> ant_loop_pc s = LoopWaiting \<and> (k = Aborted \<longrightarrow> timer_cancelled s)
      | _ \<Rightarrow> True)"

definition ant_act :: "ant_cfg \<Rightarrow> ant_action \<Rightarrow> ant \<Rightarrow> ant option" where
  "ant_act cfg a s =
     (case a of
        SendReadIU \<Rightarrow> Some (FnAntennaSendReadIUCmd s)
      | StopReadIU \<Rightarrow> Some (FnAntennaStopRead s)
      | ShutdownModule \<Rightarrow> Some (FnAntennaShutdown s)
      | RunPost \<Rightarrow>
          (case ant_posts s of
             [] \<Rightarrow> Some s | p # ps \<Rightarrow> Some (run_post p (s\<lparr>ant_posts := ps\<rparr>)))
      | LineDone line t \<Rightarrow>
          (case onLine s of None \<Rightarrow> Some s | Some data \<Rightarrow> line_done cfg line t data s)
      | TimerDone k t \<Rightarrow> Some (loop_resume cfg k t s))"

definition ant_blank :: ant where
  "ant_blank =
     \<lparr>ant_rxs = \<lparr>rxState = RX_IGNORE, rxBuff = [], rx_b = 0\<rparr>, SEQUENCE_NO = 0,
      isCmdExecuting = False, moduleRunning = True, stopping = False, ant_port_open = False,
      ius = \<lparr>IUNumberPrev = [], IUNumber = [], successRecvIUCount = 0, successRecvIUFlag = False\<rparr>,
      continueReadFlag = False, iuLoopRunning = False, antIUCmdSendCount = 0,
      initializationCompleted = False, ant_loop_pc = LoopOff, timer_cancelled = False,
      initTask = None, onLine = None, ant_posts = [], ant_events = [], ant_sent = []\<rparr>"

text \<open>The states the module reaches by allowed actions after its initialisation has begun.\<close>

inductive ant_reach :: "ant_cfg \<Rightarrow> (ant_action \<Rightarrow> bool) \<Rightarrow> ant \<Rightarrow> bool" for cfg allowed where
  ant_reach_start: "ant_reach cfg allowed (antennaModuleInit cfg opened t ant_blank)"
| ant_reach_step:
    "ant_reach cfg allowed s \<Longrightarrow> allowed a \<Longrightarrow> ant_enabled a s \<Longrightarrow> ant_act cfg a s = Some s' \<Longrightarrow>
     ant_reach cfg allowed s'"

end
