(* ===== verification/Ant_Correct.thy ===== *)
theory Ant_Correct
  imports Ant_Reader
begin

text \<open>
  The correctness of the antenna module: the reception delivers the frames the sender makes, one
  exchange is bounded, the number is reported after as many equal readings as configured, and the
  coroutines share the line and lose no request.
\<close>

section \<open>Reception of a frame\<close>

lemma dle_stx_etx [simp]: "DLE \<noteq> ANT_STX" "DLE \<noteq> ANT_ETX" "ANT_STX \<noteq> DLE" "ANT_ETX \<noteq> DLE"
  "ANT_ETX \<noteq> ANT_STX" "ANT_STX \<noteq> ANT_ETX"
  by (simp_all add: DLE_def ANT_STX_def ANT_ETX_def)

lemma receive_data:
  "rxState r = RX_RECEIVING \<Longrightarrow> length (rxBuff r) + length d \<le> RX_BUF_SIZE \<Longrightarrow>
   responseIsComplete (stuff d @ cs) r = responseIsComplete cs (r\<lparr>rxBuff := rxBuff r @ d\<rparr>)"
proof (induction d arbitrary: r)
  case (Cons v d)
  have "responseIsComplete (stuff (v # d) @ cs) r =
      responseIsComplete (stuff d @ cs) (r\<lparr>rxBuff := rxBuff r @ [v]\<rparr>)"
    using Cons.prems
    by (cases r)
      (auto simp: receiveRxDataByte_def handleReceivingState_def handleEscapeState_def put_rx_def)
  then show ?case using Cons.IH [of "r\<lparr>rxBuff := rxBuff r @ [v]\<rparr>"] Cons.prems by simp
qed simp

lemma receive_noise:
  "rxState r = RX_IGNORE \<Longrightarrow> DLE \<notin> set ns \<Longrightarrow>
   responseIsComplete (ns @ cs) r = responseIsComplete cs r"
  by (induction ns) (auto simp: receiveRxDataByte_def handleIgnoreState_def)

lemma receive_start:
  assumes "rxState r = RX_IGNORE"
  shows "responseIsComplete (DLE # ANT_STX # cs) r =
    responseIsComplete cs (r\<lparr>rxState := RX_RECEIVING, rxBuff := []\<rparr>)"
  using assms
  by (simp add: receiveRxDataByte_def handleIgnoreState_def handleEscape2StartState_def)

lemma rx_crc_value:
  "(push_bit 8 (scast hi :: u32) OR (scast lo AND 0xFF)) AND 0xFFFF = ucast (be16 hi lo)"
  for hi lo :: byte
proof (rule bit_word_eqI)
  fix n
  have m: "(0xFF :: u32) = mask 8" "(0xFFFF :: u32) = mask 16"
    by (simp_all add: mask_eq_exp_minus_1)
  have lo: "n < 8 \<Longrightarrow> bit (scast lo :: u32) n = bit lo n" and
    hi: "n < 16 \<Longrightarrow> 8 \<le> n \<Longrightarrow> bit (scast hi :: u32) (n - 8) = bit hi (n - 8)"
    by (auto simp: bit_signed_iff)
  show "bit ((push_bit 8 (scast hi :: u32) OR (scast lo AND 0xFF)) AND 0xFFFF) n =
      bit (ucast (be16 hi lo) :: u32) n"
    unfolding m
    by (cases "n < 8"; cases "n < 16")
      (simp_all add: bit_and_iff bit_or_iff bit_push_bit_iff bit_mask_iff bit_unsigned_iff bit_join
        lo hi)
qed

definition crc_lo :: "u16 \<Rightarrow> byte" where "crc_lo w = ucast (ucast w AND 0xFF :: u32)"
definition crc_hi :: "u16 \<Rightarrow> byte" where "crc_hi w = ucast (drop_bit 8 (ucast w) AND 0xFF :: u32)"

lemma crc_bytes_lo_hi: "crc_bytes (ucast w) = [crc_lo w, crc_hi w]"
  by (simp add: crc_bytes_def crc_lo_def crc_hi_def)

lemma be16_hi_lo: "be16 (crc_hi w) (crc_lo w) = w"
proof (rule bit_word_eqI)
  fix n assume n: "n < LENGTH(16)"
  have m: "(0xFF :: u32) = mask 8" by (simp add: mask_eq_exp_minus_1)
  show "bit (be16 (crc_hi w) (crc_lo w)) n = bit w n"
    unfolding crc_lo_def crc_hi_def m using n
    by (cases "n < 8")
      (auto simp: bit_join bit_unsigned_iff bit_and_iff bit_mask_iff bit_drop_bit_eq)
qed

text \<open>The end of a frame, with the data in the buffer: delivered with the checksum of the data,
  dropped with another one.\<close>

lemma receive_end:
  assumes "rxState r = RX_RECEIVING" and "length (rxBuff r) < RX_BUF_SIZE"
  shows "responseIsComplete ([DLE, ANT_ETX] @ crc_bytes (ucast w) @ cs) r =
    (if crc16_x25 (rxBuff r @ [ANT_ETX]) = w
     then Some (r\<lparr>rxBuff := rxBuff r @ [ANT_ETX], rxState := RX_IGNORE, rx_b := crc_lo w\<rparr>, True)
     else responseIsComplete cs (resetState (r\<lparr>rx_b := crc_lo w\<rparr>)))"
proof -
  let ?b = "rxBuff r @ [ANT_ETX]"
  let ?r1 = "r\<lparr>rxBuff := ?b, rx_b := crc_lo w, rxState := RXCRC2\<rparr>"
  have l: "length ?b \<le> 255" using assms(2) by (simp add: RX_BUF_SIZE_def)
  have inj: "(ucast x :: u32) = ucast w \<longleftrightarrow> x = w" for x :: u16
    by (metis be16_hi_lo crc_hi_def crc_lo_def)
  have crc: "handleRXCRC2State (crc_hi w) ?r1 =
      (if crc16_x25 ?b = w then (?r1\<lparr>rxState := RX_IGNORE\<rparr>, length ?b) else (resetState ?r1, 0))"
    using CRC16R_x25 [OF l] by (simp add: handleRXCRC2State_def rx_crc_value be16_hi_lo inj Let_def)
  have "responseIsComplete ([DLE, ANT_ETX] @ crc_bytes (ucast w) @ cs) r =
      responseIsComplete (crc_hi w # cs) ?r1"
    using assms
    by (simp add: receiveRxDataByte_def handleReceivingState_def handleEscapeState_def put_rx_def
        handleRXCRC1State_def crc_bytes_lo_hi)
  also have "\<dots> = (if crc16_x25 ?b = w then Some (?r1\<lparr>rxState := RX_IGNORE\<rparr>, True)
      else responseIsComplete cs (resetState ?r1))"
    by (simp add: receiveRxDataByte_def crc)
  finally show ?thesis by (simp add: resetState_def)
qed

text \<open>How the reads cut the bytes does not matter.\<close>

lemma responseIsComplete_append:
  "responseIsComplete (xs @ ys) r =
     (case responseIsComplete xs r of
        None \<Rightarrow> None
      | Some (r1, fin) \<Rightarrow> if fin then Some (r1, True) else responseIsComplete ys r1)"
  by (induction xs arbitrary: r) (auto split: option.splits)

lemma antennaRead_concat:
  "antennaRead reads r =
     (case responseIsComplete (concat reads) r of
        None \<Rightarrow> None
      | Some (r1, fin) \<Rightarrow>
          if fin then Some (r1, Some (rxBuff r1)) else Some (resetState r1, None))"
proof (induction reads arbitrary: r)
  case (Cons cs reads)
  then show ?case
    by (auto simp: responseIsComplete_append split: option.splits bool.splits)
qed simp

definition on_line :: "byte list \<Rightarrow> byte list list \<Rightarrow> bool" where
  "on_line f reads \<longleftrightarrow> (\<exists>ns rest. DLE \<notin> set ns \<and> concat reads = ns @ f @ rest)"

lemma receive_frame:
  assumes "rxState r = RX_IGNORE" and "DLE \<notin> set ns" and "length d < RX_BUF_SIZE"
  shows "responseIsComplete (ns @ frame_with d (ucast w) @ cs) r =
    (if crc16_x25 (d @ [ANT_ETX]) = w
     then Some (r\<lparr>rxState := RX_IGNORE, rxBuff := d @ [ANT_ETX], rx_b := crc_lo w\<rparr>, True)
     else responseIsComplete cs (resetState (r\<lparr>rx_b := crc_lo w\<rparr>)))"
proof -
  let ?r = "r\<lparr>rxState := RX_RECEIVING, rxBuff := []\<rparr>"
  have "responseIsComplete (ns @ frame_with d (ucast w) @ cs) r =
      responseIsComplete (stuff d @ [DLE, ANT_ETX] @ crc_bytes (ucast w) @ cs) ?r"
    using assms(1,2)
    by (simp add: frame_with_def receive_noise receive_start del: responseIsComplete.simps)
  also have "\<dots> = responseIsComplete ([DLE, ANT_ETX] @ crc_bytes (ucast w) @ cs) (?r\<lparr>rxBuff := d\<rparr>)"
    using assms(3) by (subst receive_data) simp_all
  also have "\<dots> = (if crc16_x25 (d @ [ANT_ETX]) = w
     then Some (r\<lparr>rxState := RX_IGNORE, rxBuff := d @ [ANT_ETX], rx_b := crc_lo w\<rparr>, True)
     else responseIsComplete cs (resetState (r\<lparr>rx_b := crc_lo w\<rparr>)))"
    using assms(3) receive_end [of "?r\<lparr>rxBuff := d\<rparr>" w cs] by (simp add: resetState_def)
  finally show ?thesis .
qed

lemma data_crc_x25: "length d < RX_BUF_SIZE \<Longrightarrow> data_crc d = ucast (crc16_x25 (d @ [ANT_ETX]))"
  using CRC16R_x25 [of "d @ [ANT_ETX]"] by (simp add: data_crc_def RX_BUF_SIZE_def)

lemma read_frame:
  assumes "rxState r = RX_IGNORE" and "length d < RX_BUF_SIZE"
    and "on_line (frame_with d (data_crc d)) reads"
  shows "\<exists>b. antennaRead reads r =
    Some (r\<lparr>rxState := RX_IGNORE, rxBuff := d @ [ANT_ETX], rx_b := b\<rparr>, Some (d @ [ANT_ETX]))"
proof -
  obtain ns rest where l: "DLE \<notin> set ns" "concat reads = ns @ frame_with d (data_crc d) @ rest"
    using assms(3) by (auto simp: on_line_def)
  let ?w = "crc16_x25 (d @ [ANT_ETX])"
  from receive_frame [OF assms(1) l(1) assms(2), of ?w rest] show ?thesis
    by (auto simp: antennaRead_concat l(2) data_crc_x25 [OF assms(2)])
qed

lemma read_corrupt:
  assumes "rxState r = RX_IGNORE" and "length (xs @ c # ys) < RX_BUF_SIZE" and "b \<noteq> c"
    and "DLE \<notin> set ns" and "concat reads = ns @ frame_with (xs @ c # ys) (data_crc (xs @ b # ys))"
  shows "\<exists>r1. antennaRead reads r = Some (r1, None)"
proof -
  let ?w = "crc16_x25 ((xs @ b # ys) @ [ANT_ETX])"
  have w: "data_crc (xs @ b # ys) = ucast ?w" using assms(2) by (intro data_crc_x25) simp
  have "crc16_x25 ((xs @ c # ys) @ [ANT_ETX]) \<noteq> ?w"
    using x25_one_byte [of b c xs "ys @ [ANT_ETX]"] assms(3) by simp
  with receive_frame [OF assms(1,4,2), of ?w "[]"] show ?thesis
    by (simp add: antennaRead_concat assms(5) w)
qed

text \<open>A frame with more data than the buffer holds.\<close>

lemma stuff_append: "stuff (xs @ ys) = stuff xs @ stuff ys"
  by (induction xs) simp_all

lemma receive_overflow:
  assumes "rxState r = RX_RECEIVING" and "length (rxBuff r) + length d \<ge> RX_BUF_SIZE"
    and "length (rxBuff r) \<le> RX_BUF_SIZE"
  shows "responseIsComplete (stuff d @ DLE # ANT_ETX # cs) r = None"
proof -
  define k where "k = RX_BUF_SIZE - length (rxBuff r)"
  let ?r = "r\<lparr>rxBuff := rxBuff r @ take k d\<rparr>"
  have full: "length (rxBuff ?r) = RX_BUF_SIZE" "rxState ?r = RX_RECEIVING"
    using assms by (simp_all add: k_def)
  have "responseIsComplete (stuff d @ DLE # ANT_ETX # cs) r =
      responseIsComplete (stuff (drop k d) @ DLE # ANT_ETX # cs) ?r"
    using receive_data [OF assms(1), of "take k d" "stuff (drop k d) @ DLE # ANT_ETX # cs"]
      assms(2,3) stuff_append [of "take k d" "drop k d"] by (simp add: k_def)
  also have "\<dots> = None"
    using full
    by (cases "drop k d")
      (auto simp: receiveRxDataByte_def handleReceivingState_def handleEscapeState_def put_rx_def)
  finally show ?thesis .
qed

lemma read_overflow:
  assumes "rxState r = RX_IGNORE" and "length d \<ge> RX_BUF_SIZE" and "on_line (frame_with d crc) reads"
  shows "antennaRead reads r = None"
proof -
  obtain ns rest where l: "DLE \<notin> set ns" "concat reads = ns @ frame_with d crc @ rest"
    using assms(3) by (auto simp: on_line_def)
  have "responseIsComplete (concat reads) r = None"
    using assms(1,2) l receive_overflow [of "r\<lparr>rxState := RX_RECEIVING, rxBuff := []\<rparr>" d]
    by (simp add: frame_with_def receive_noise receive_start del: responseIsComplete.simps)
  then show ?thesis by (simp add: antennaRead_concat)
qed

section \<open>The confirmation of a number\<close>

lemma iu_reading_flag: "successRecvIUFlag u \<Longrightarrow> successRecvIUFlag (iu_reading n x u)"
  by (simp add: iu_reading_def Let_def)

definition has_run :: "nat \<Rightarrow> string list \<Rightarrow> bool" where
  "has_run N rs \<longleftrightarrow> (\<exists>xs ys x. rs = xs @ replicate N x @ ys)"

text \<open>The run of equal readings at the end of the list, and the state while nothing is confirmed.\<close>

definition tail_run :: "nat \<Rightarrow> string list \<Rightarrow> bool" where
  "tail_run k rs \<longleftrightarrow>
     (\<exists>pre. rs = pre @ replicate k (last rs) \<and> (pre = [] \<or> last pre \<noteq> last rs))"

lemma has_run_append: "has_run N rs \<Longrightarrow> has_run N (rs @ ys)"
  unfolding has_run_def by (metis append.assoc)

lemma run_le_tail:
  assumes "tail_run k rs" and "rs = xs @ replicate m (last rs)" and "rs \<noteq> []"
  shows "m \<le> k"
proof (rule ccontr)
  assume "\<not> m \<le> k"
  then have m: "m = Suc (m - k - 1) + k" by simp
  obtain pre where pre: "rs = pre @ replicate k (last rs)" "pre = [] \<or> last pre \<noteq> last rs"
    using assms(1) by (auto simp: tail_run_def)
  have "pre @ replicate k (last rs) = (xs @ replicate (Suc (m - k - 1)) (last rs)) @ replicate k (last rs)"
    using pre(1) assms(2) m by (metis append.assoc replicate_add)
  then have "pre = xs @ replicate (Suc (m - k - 1)) (last rs)" by simp
  moreover have "replicate (Suc (m - k - 1)) (last rs) \<noteq> []" by simp
  ultimately show False using pre(2) by (metis append_is_Nil_conv last_appendR last_replicate nat.simps(3))
qed

lemma tail_run_snoc:
  assumes "tail_run k rs" and "rs \<noteq> []"
  shows "tail_run (if last rs = x then Suc k else 1) (rs @ [x])"
proof (cases "last rs = x")
  case True
  then obtain pre where "rs = pre @ replicate k x" "pre = [] \<or> last pre \<noteq> x"
    using assms(1) by (auto simp: tail_run_def)
  then show ?thesis
    using True by (auto simp: tail_run_def replicate_append_same intro!: exI [of _ pre])
next
  case False
  then show ?thesis using assms(2) by (auto simp: tail_run_def intro!: exI [of _ rs])
qed

lemma has_run_snoc:
  assumes "tail_run k rs" and "rs \<noteq> []" and "\<not> has_run N rs" and "has_run N (rs @ [x])"
  shows "N \<le> (if last rs = x then Suc k else 1)"
proof -
  obtain xs ys y where e: "rs @ [x] = xs @ replicate N y @ ys"
    using assms(4) by (auto simp: has_run_def)
  have "ys = []"
  proof (rule ccontr)
    assume "ys \<noteq> []"
    then have "rs = xs @ replicate N y @ butlast ys"
      using e by (metis append_is_Nil_conv butlast_append butlast_snoc)
    then show False using assms(3) by (auto simp: has_run_def)
  qed
  then have e: "rs @ [x] = xs @ replicate N y" using e by simp
  have t: "tail_run (if last rs = x then Suc k else 1) (rs @ [x])"
    by (rule tail_run_snoc [OF assms(1,2)])
  show ?thesis
  proof (cases N)
    case (Suc n)
    then have "y = x" using e by (metis last_appendR last_replicate last_snoc nat.simps(3) replicate_empty)
    then have "rs @ [x] = xs @ replicate N (last (rs @ [x]))" using e by simp
    then show ?thesis by (rule run_le_tail [OF t]) simp
  qed simp
qed

abbreviation iu_run :: "nat \<Rightarrow> string list \<Rightarrow> iu_state \<Rightarrow> iu_state" where
  "iu_run N rs u \<equiv> fold (iu_reading (int N)) rs u"

definition iu_clear :: "iu_state \<Rightarrow> bool" where
  "iu_clear u \<longleftrightarrow> \<not> successRecvIUFlag u \<and> IUNumberPrev u = [] \<and> successRecvIUCount u = 0"

lemma confirmation_state:
  assumes "iu_clear u" and "2 \<le> N" and "[] \<notin> set rs"
  shows "if has_run N rs then successRecvIUFlag (iu_run N rs u)
     else \<not> successRecvIUFlag (iu_run N rs u) \<and>
       (rs \<noteq> [] \<longrightarrow> (\<exists>k. tail_run k rs \<and> 0 < k \<and> k < N \<and> IUNumberPrev (iu_run N rs u) = last rs \<and>
         successRecvIUCount (iu_run N rs u) = int k))"
  using assms(3)
proof (induction rs rule: rev_induct)
  case Nil
  have "\<not> has_run N []" using assms(2) by (auto simp: has_run_def)
  then show ?case using assms(1) by (simp add: iu_clear_def)
next
  case (snoc x rs)
  let ?u = "iu_run N rs u"
  show ?case
  proof (cases "has_run N rs")
    case True
    then have "successRecvIUFlag ?u" using snoc by simp
    with True show ?thesis by (simp add: has_run_append iu_reading_flag)
  next
    case False
    then have f: "\<not> successRecvIUFlag ?u" using snoc by simp
    show ?thesis
    proof (cases "rs = []")
      case True
      have "\<not> has_run N [x]"
      proof
        assume "has_run N [x]"
        then obtain xs ys y where "[x] = xs @ replicate N y @ ys" by (auto simp: has_run_def)
        then have "length [x] \<ge> N" by (metis add_leE le_add2 length_append length_replicate)
        then show False using assms(2) by simp
      qed
      moreover have "tail_run 1 [x]" by (auto simp: tail_run_def intro: exI [of _ "[]"])
      ultimately show ?thesis
        using True assms(1,2) snoc.prems
        by (auto simp: iu_reading_def iu_clear_def intro!: exI [of _ 1])
    next
      case ne: False
      obtain k where k: "tail_run k rs" "0 < k" "k < N" "IUNumberPrev ?u = last rs"
        "successRecvIUCount ?u = int k"
        using snoc False ne by auto
      let ?k = "if last rs = x then Suc k else 1"
      have t: "tail_run ?k (rs @ [x])" using tail_run_snoc [OF k(1) ne] .
      show ?thesis
      proof (cases "?k = N")
        case True
        then have "last rs = x" "Suc k = N" using assms(2) by (auto split: if_splits)
        moreover have "has_run N (rs @ [x])"
          using t unfolding True tail_run_def has_run_def by (metis append_Nil2)
        ultimately show ?thesis using k by (auto simp: iu_reading_def Let_def)
      next
        case False2: False
        then have lt: "?k < N" using k(3) assms(2) by (auto split: if_splits)
        then have "\<not> has_run N (rs @ [x])"
          using has_run_snoc [OF k(1) ne False] by fastforce
        moreover have "\<not> successRecvIUFlag (iu_run N (rs @ [x]) u) \<and>
            IUNumberPrev (iu_run N (rs @ [x]) u) = x \<and>
            successRecvIUCount (iu_run N (rs @ [x]) u) = int ?k"
          using k f False2 by (auto simp: iu_reading_def Let_def split: if_splits)
        ultimately show ?thesis using t lt by (auto intro!: exI [of _ ?k])
      qed
    qed
  qed
qed

text \<open>A single reading, or none, is never enough.\<close>

lemma unconfirmed:
  assumes "minOK \<le> 1" and "\<not> successRecvIUFlag u" and "0 \<le> successRecvIUCount u"
    and "IUNumberPrev u \<noteq> [] \<Longrightarrow> 1 \<le> successRecvIUCount u" and "x \<noteq> []"
  shows "\<not> successRecvIUFlag (iu_reading minOK x u) \<and> 0 \<le> successRecvIUCount (iu_reading minOK x u) \<and>
    (IUNumberPrev (iu_reading minOK x u) \<noteq> [] \<longrightarrow> 1 \<le> successRecvIUCount (iu_reading minOK x u))"
  using assms by (auto simp: iu_reading_def Let_def)

section \<open>Numbers with high bytes\<close>

lemma hex_nat_step: "16 \<le> n \<Longrightarrow> hex_nat n = hex_nat (n div 16) @ [hex_digit (n mod 16)]"
  by (subst hex_nat.simps) simp

lemma signed_hex_f:
  assumes "128 \<le> uint b"
  shows "CHR ''f'' \<in> set (char_to_int_hex True b)"
proof -
  define n where "n = unat (scast b :: u32)"
  have "uint (scast b :: u32) = 4294967040 + uint b" by (rule uint_scast_byte [OF assms])
  then have n: "n = 4294967040 + unat b" 
    unfolding n_def by (metis nat_uint_eq nat_add_distrib nat_numeral uint_ge_0 zero_le_numeral)
  have b: "unat b < 256" by simp
  have big: "16 \<le> n" "16 \<le> n div 16" using n by simp_all
  have "n div 16 div 16 = (unat b + 16777215 * 256) div 256"
    unfolding n div_mult2_eq [symmetric] by simp
  also have "\<dots> = 16777215 + unat b div 256" by (rule div_mult_self1) simp
  finally have hi: "n div 16 div 16 = 16777215" using b by simp
  have f: "hex_nat 16777215 = ''ffffff''"
    by (simp add: hex_nat_step hex_nat.simps [of 15] hex_digit.simps)
  have "hex_nat n = ''ffffff'' @ [hex_digit (n div 16 mod 16)] @ [hex_digit (n mod 16)]"
    using hex_nat_step [OF big(1)] hex_nat_step [OF big(2)] by (simp add: hi f)
  then show ?thesis by (simp add: char_to_int_hex_def setw_fill_def n_def [symmetric])
qed

lemma high_byte_not_numeric:
  assumes "b \<in> set bs" and "128 \<le> uint b"
  shows "\<not> FnIsStringNumeric (FnGetVectorCharToHexString True bs)"
proof -
  have "CHR ''f'' \<in> set (FnGetVectorCharToHexString True bs)"
    using assms signed_hex_f [OF assms(2)] by (auto simp: FnGetVectorCharToHexString_def)
  moreover have "\<not> CHR ''f'' \<le> CHR ''9''" by (simp add: less_eq_char_def)
  ultimately show ?thesis unfolding FnIsStringNumeric_def list_all_iff by blast
qed

section \<open>One command\<close>

text \<open>What an exchange leaves alone.\<close>

definition control ::
  "ant \<Rightarrow> bool \<times> bool \<times> bool \<times> bool \<times> bool \<times> bool \<times> ant_loop \<times> AntCmdID list option \<times>
    byte list option \<times> ant_post list" where
  "control s =
     (isCmdExecuting s, moduleRunning s, stopping s, ant_port_open s, continueReadFlag s,
      iuLoopRunning s, ant_loop_pc s, initTask s, onLine s, ant_posts s)"

lemma control_simps [simp]:
  "control (s\<lparr>ant_rxs := r\<rparr>) = control s" "control (s\<lparr>ius := u\<rparr>) = control s"
  "control (ant_event e s) = control s" "control (s\<lparr>ant_sent := q\<rparr>) = control s"
  "control (s\<lparr>SEQUENCE_NO := n\<rparr>) = control s"
  by (simp_all add: control_def ant_event_def)

lemma antennaCmdSend_control: "control (fst (antennaCmdSend data ok s)) = control s"
  by (auto simp: antennaCmdSend_def split: option.splits)

lemma ant_attempts_control:
  "ant_attempts cfg data line n k ret s = Some (s1, rc) \<Longrightarrow> control s1 = control s"
proof (induction n arbitrary: k ret s)
  case (Suc n)
  let ?s = "s\<lparr>ant_rxs := resetState (ant_rxs s)\<rparr>"
  obtain s2 ok where send: "antennaCmdSend data (write_ok line k) ?s = (s2, ok)" by fastforce
  then have c: "control s2 = control s"
    using antennaCmdSend_control [of data "write_ok line k" ?s] by simp
  show ?case
    using Suc.prems c send Suc.IH
    by (cases ok)
      (fastforce simp: Let_def split: if_splits option.splits prod.splits)+
qed (auto split: if_splits)

lemma antennaCmd_end_control:
  assumes "antennaCmd_end cfg line data s = Some (s1, rc)"
  shows "control s1 = control (s\<lparr>isCmdExecuting := False, onLine := None\<rparr>)"
proof -
  obtain s2 where s2: "ant_attempts cfg data line (antennaCmdMaxRetry cfg + 1) 0 AntRecv_NoResp s =
      Some (s2, rc)" "s1 = s2\<lparr>isCmdExecuting := False, onLine := None\<rparr>"
    using assms by (auto simp: antennaCmd_end_def split: option.splits)
  from ant_attempts_control [OF s2(1)] show ?thesis by (simp add: s2(2) control_def)
qed

text \<open>A command that nobody answers is sent once and repeated as often as configured; then it is
  reported once.\<close>

definition unanswered :: "ant_cfg \<Rightarrow> ant_line \<Rightarrow> bool" where
  "unanswered cfg line \<longleftrightarrow>
     (\<forall>k \<le> antennaCmdMaxRetry cfg. \<not> stop_before line k \<and> write_ok line k \<and> \<not> stop_after line k \<and>
        DLE \<notin> set (concat (att_reads line k))) \<and> \<not> stop_end line"

lemma read_noise:
  "rxState r = RX_IGNORE \<Longrightarrow> DLE \<notin> set (concat reads) \<Longrightarrow> antennaRead reads r = Some (resetState r, None)"
  using receive_noise [of r "concat reads" "[]"] by (simp add: antennaRead_concat del: set_concat)

lemma unanswered_attempts:
  assumes "unanswered cfg line" and "ant_frame data = Some f"
  shows "n + k = antennaCmdMaxRetry cfg + 1 \<Longrightarrow> ant_port_open s \<Longrightarrow> ret = AntRecv_NoResp \<Longrightarrow>
    \<exists>s1. ant_attempts cfg data line n k ret s = Some (s1, AntRecv_NoResp) \<and>
      ant_sent s1 = ant_sent s @ replicate n f \<and> ant_events s1 = ant_events s @ [Evt_AntennaFail 1]"
proof (induction n arbitrary: k s ret)
  case 0
  then show ?case using assms(1) by (simp add: unanswered_def ant_event_def)
next
  case (Suc n)
  then have k: "k \<le> antennaCmdMaxRetry cfg" by simp
  have l: "\<not> stop_before line k" "write_ok line k" "\<not> stop_after line k"
    "DLE \<notin> set (concat (att_reads line k))"
    using assms(1) k by (auto simp: unanswered_def)
  let ?r = "resetState (ant_rxs s)"
  let ?s = "s\<lparr>ant_rxs := ?r, ant_sent := ant_sent s @ [f]\<rparr>"
  have send: "antennaCmdSend data (write_ok line k) (s\<lparr>ant_rxs := ?r\<rparr>) = (?s, True)"
    using assms(2) Suc.prems(2) l(2) by (simp add: antennaCmdSend_def)
  have "rxState ?r = RX_IGNORE" by (simp add: resetState_def)
  then have "antennaRead (att_reads line k) (ant_rxs ?s) = Some (resetState ?r, None)"
    using read_noise l(4) by simp
  then have "ant_attempts cfg data line (Suc n) k ret s =
      ant_attempts cfg data line n (k + 1) AntRecv_NoResp (?s\<lparr>ant_rxs := resetState ?r\<rparr>)"
    using l send by simp
  with Suc.IH [of "k + 1" "?s\<lparr>ant_rxs := resetState ?r\<rparr>"] Suc.prems show ?case
    by (simp add: replicate_append_same)
qed

text \<open>A command whose first attempt is answered.\<close>

definition answers :: "byte list \<Rightarrow> ant_line \<Rightarrow> bool" where
  "answers d line \<longleftrightarrow> \<not> stop_before line 0 \<and> write_ok line 0 \<and> length d < RX_BUF_SIZE \<and>
     on_line (frame_with d (data_crc d)) (att_reads line 0)"

definition rx_of :: "byte list \<Rightarrow> ant_rx" where
  "rx_of d = \<lparr>rxState = RX_IGNORE, rxBuff = d @ [ANT_ETX], rx_b = 0\<rparr>"

lemma response_of:
  assumes "rxBuff r = rxBuff r'"
  shows "antennaHandleCmdResponse cfg d r u = antennaHandleCmdResponse cfg d r' u"
proof -
  have "rx_byte_at r = rx_byte_at r'" using assms by (simp add: rx_byte_at_def fun_eq_iff)
  then have "response_id r = response_id r'" "iu_text cfg r = iu_text cfg r'"
    by (simp_all add: response_id_def iu_text_def)
  then show ?thesis unfolding antennaHandleCmdResponse_def by (simp only:)
qed

lemma answered_cmd:
  assumes "answers d line" and "ant_port_open s" and "ant_frame data = Some f"
    and "antennaHandleCmdResponse cfg (d @ [ANT_ETX]) (rx_of d) (ius s) = (u, rc)"
  shows "\<exists>r. antennaCmd_end cfg line data s =
    Some (s\<lparr>ant_sent := ant_sent s @ [f], ant_rxs := r, ius := u, isCmdExecuting := False,
            onLine := None\<rparr>, rc)"
proof -
  let ?r = "resetState (ant_rxs s)"
  have "rxState ?r = RX_IGNORE" by (simp add: resetState_def)
  then obtain b where b: "antennaRead (att_reads line 0) ?r =
      Some (?r\<lparr>rxState := RX_IGNORE, rxBuff := d @ [ANT_ETX], rx_b := b\<rparr>, Some (d @ [ANT_ETX]))"
    using read_frame assms(1) unfolding answers_def by blast
  let ?r1 = "?r\<lparr>rxState := RX_IGNORE, rxBuff := d @ [ANT_ETX], rx_b := b\<rparr>"
  have "antennaHandleCmdResponse cfg (d @ [ANT_ETX]) ?r1 (ius s) = (u, rc)"
    using assms(4) response_of [of ?r1 "rx_of d"] by (simp add: rx_of_def)
  then show ?thesis
    using assms(1-3) b by (auto simp: antennaCmd_end_def answers_def antennaCmdSend_def)
qed

section \<open>The coroutines share the line\<close>

definition ant_inv :: "ant \<Rightarrow> bool" where
  "ant_inv s \<longleftrightarrow>
     (isCmdExecuting s \<longleftrightarrow> onLine s \<noteq> None) \<and>
     (iuLoopRunning s \<longleftrightarrow> ant_loop_pc s \<noteq> LoopOff) \<and>
     (onLine s \<noteq> None \<longleftrightarrow> initTask s \<noteq> None \<or> ant_loop_pc s = LoopInCmd) \<and>
     (initTask s = None \<or> ant_loop_pc s \<noteq> LoopInCmd)"

text \<open>A request for the number is held by the loop or by the handler that starts it.\<close>

definition request_held :: "ant \<Rightarrow> bool" where
  "request_held s \<longleftrightarrow> \<not> stopping s \<and> moduleRunning s \<and>
     (continueReadFlag s \<longrightarrow> iuLoopRunning s \<or> StartLoop \<in> set (ant_posts s))"

definition line_free :: "ant \<Rightarrow> bool" where
  "line_free s \<longleftrightarrow> \<not> isCmdExecuting s \<and> onLine s = None \<and> initTask s = None \<and>
     ant_loop_pc s \<noteq> LoopInCmd \<and> (iuLoopRunning s \<longleftrightarrow> ant_loop_pc s \<noteq> LoopOff)"

lemma line_free_inv: "line_free s \<Longrightarrow> ant_inv s"
  by (auto simp: line_free_def ant_inv_def)

lemma ant_event_sel [simp]:
  "isCmdExecuting (ant_event e s) = isCmdExecuting s" "onLine (ant_event e s) = onLine s"
  "initTask (ant_event e s) = initTask s" "ant_loop_pc (ant_event e s) = ant_loop_pc s"
  "iuLoopRunning (ant_event e s) = iuLoopRunning s" "ant_posts (ant_event e s) = ant_posts s"
  "continueReadFlag (ant_event e s) = continueReadFlag s" "stopping (ant_event e s) = stopping s"
  "moduleRunning (ant_event e s) = moduleRunning s" "ius (ant_event e s) = ius s"
  "ant_events (ant_event e s) = ant_events s @ [e]"
  "ant_port_open (ant_event e s) = ant_port_open s" "ant_sent (ant_event e s) = ant_sent s"
  by (simp_all add: ant_event_def)

lemma begin_cases:
  assumes "antennaCmd_begin cfg t c s = (s1, r)"
  shows "(r \<noteq> None \<and> r \<noteq> Some AntRecv_ACK \<and> control s1 = control s) \<or>
    (r = None \<and> \<not> isCmdExecuting s \<and>
      (\<exists>d. control s1 = control (s\<lparr>isCmdExecuting := True, onLine := Some d\<rparr>)))"
  using assms by (auto simp: antennaCmd_begin_def Let_def control_def split: if_splits option.splits)

lemma line_free_control: "control s1 = control s \<Longrightarrow> line_free s1 = line_free s"
  by (simp add: line_free_def control_def)

lemma init_run_inv: "line_free s \<Longrightarrow> ant_inv (init_run cfg t rc cs s)"
proof (induction cs arbitrary: rc s)
  case Nil
  then show ?case
    by (intro line_free_inv) (auto simp: init_done_def Let_def line_free_def)
next
  case (Cons c cs)
  have stopd: "ant_inv (init_done cfg rc s)"
    using Cons.prems by (intro line_free_inv) (auto simp: init_done_def Let_def line_free_def)
  obtain s1 r where b: "antennaCmd_begin cfg t c s = (s1, r)" by fastforce
  show ?case
  proof (cases r)
    case None
    then show ?thesis
      using begin_cases [OF b] Cons.prems stopd b
      by (auto simp: ant_inv_def line_free_def control_def)
  next
    case (Some rc1)
    then have "line_free s1"
      using begin_cases [OF b] Cons.prems line_free_control [of s1 s] by auto
    then show ?thesis using Some b stopd Cons.IH by simp
  qed
qed

lemma init_run_held:
  "continueReadFlag (init_run cfg t rc cs s) = continueReadFlag s \<and>
   ant_posts (init_run cfg t rc cs s) = ant_posts s \<and>
   iuLoopRunning (init_run cfg t rc cs s) = iuLoopRunning s \<and>
   stopping (init_run cfg t rc cs s) = stopping s \<and>
   moduleRunning (init_run cfg t rc cs s) = moduleRunning s"
proof (induction cs arbitrary: rc s)
  case (Cons c cs)
  obtain s1 r where b: "antennaCmd_begin cfg t c s = (s1, r)" by fastforce
  then show ?case
    using begin_cases [OF b] Cons.IH
    by (auto simp: init_done_def Let_def control_def split: option.splits)
qed (simp add: init_done_def Let_def)

lemmas loop_defs = loop_exit_def loop_top_def loop_after_def Let_def

lemma loop_after_inv:
  assumes "\<not> isCmdExecuting s" "onLine s = None" "initTask s = None" "iuLoopRunning s"
  shows "ant_inv (loop_after s)"
  using assms by (auto simp: ant_inv_def loop_defs)

lemma loop_after_held:
  "request_held s \<Longrightarrow> iuLoopRunning s \<Longrightarrow> request_held (loop_after s)"
  by (auto simp: request_held_def loop_defs)

lemma line_done_inv:
  assumes "line_done cfg line t data s = Some s'" and "ant_inv s" and "onLine s = Some data"
  shows "ant_inv s'" and "request_held s \<Longrightarrow> request_held s'"
proof -
  obtain s1 rc where e: "antennaCmd_end cfg line data s = Some (s1, rc)"
    and s': "s' = (case initTask s1 of Some cs \<Rightarrow> init_run cfg t rc cs (s1\<lparr>initTask := None\<rparr>)
       | None \<Rightarrow> loop_after s1)"
    using assms(1) by (auto simp: line_done_def split: option.splits)
  have c: "control s1 = control (s\<lparr>isCmdExecuting := False, onLine := None\<rparr>)"
    by (rule antennaCmd_end_control [OF e])
  have free: "initTask s1 \<noteq> None \<Longrightarrow> line_free (s1\<lparr>initTask := None\<rparr>)"
    using c assms(2) by (auto simp: line_free_def ant_inv_def control_def)
  show "ant_inv s'"
  proof (cases "initTask s1")
    case None
    then have "ant_inv (loop_after s1)"
      using c assms(2,3) by (intro loop_after_inv) (auto simp: ant_inv_def control_def)
    then show ?thesis using s' None by simp
  next
    case (Some cs)
    then show ?thesis using s' init_run_inv [OF free] by simp
  qed
  show "request_held s'" if "request_held s"
  proof -
    have h: "request_held s1" using that c by (auto simp: request_held_def control_def)
    show ?thesis
    proof (cases "initTask s1")
      case None
      then have "iuLoopRunning s1" using c assms(2,3) by (auto simp: ant_inv_def control_def)
      then show ?thesis using s' None loop_after_held [OF h] by simp
    next
      case (Some cs)
      then show ?thesis using s' h by (simp add: request_held_def init_run_held)
    qed
  qed
qed

lemma loop_resume_inv:
  assumes "ant_inv s" and "ant_loop_pc s = LoopWaiting"
  shows "ant_inv (loop_resume cfg k t s)"
    and "request_held s \<Longrightarrow> k \<noteq> TimerError \<Longrightarrow> request_held (loop_resume cfg k t s)"
proof -
  obtain s1 r where b: "antennaCmd_begin cfg t FORCE_GET_IU_NO_CMD s = (s1, r)" by fastforce
  note cases = begin_cases [OF b]
  have "\<not> isCmdExecuting s \<Longrightarrow> r \<noteq> None \<Longrightarrow> ant_inv (loop_after s1)"
    using cases assms by (intro loop_after_inv) (auto simp: ant_inv_def control_def)
  then show "ant_inv (loop_resume cfg k t s)"
    using assms cases b
    by (cases r) (auto simp: loop_resume_def ant_inv_def loop_exit_def loop_top_def control_def)
  assume h: "request_held s" and k: "k \<noteq> TimerError"
  have "r \<noteq> None \<Longrightarrow> request_held (loop_after s1)"
    using h assms cases
    by (intro loop_after_held) (auto simp: request_held_def control_def ant_inv_def)
  then show "request_held (loop_resume cfg k t s)"
    using h k assms cases b
    by (cases r)
      (auto simp: loop_resume_def request_held_def ant_inv_def loop_exit_def loop_top_def control_def)
qed

lemma run_post_inv:
  assumes "ant_inv s"
  shows "ant_inv (run_post p s)"
  using assms
  by (cases p) (auto simp: run_post_def ant_inv_def loop_exit_def loop_top_def cancel_timer_def)

lemma run_post_held:
  assumes "request_held s" "ant_posts s = p # ps" "p \<noteq> ShutdownOnIo" "ant_inv s"
  shows "request_held (run_post p (s\<lparr>ant_posts := ps\<rparr>))"
  using assms
  by (cases p)
    (auto simp: run_post_def request_held_def loop_exit_def loop_top_def cancel_timer_def ant_inv_def)

lemma ant_inv_posts [simp]: "ant_inv (s\<lparr>ant_posts := ps\<rparr>) = ant_inv s"
  by (simp add: ant_inv_def)

lemma request_inv:
  "ant_inv (FnAntennaSendReadIUCmd s) = ant_inv s" "ant_inv (FnAntennaStopRead s) = ant_inv s"
  "ant_inv (FnAntennaShutdown s) = ant_inv s"
  by (simp_all add: ant_inv_def FnAntennaSendReadIUCmd_def FnAntennaStopRead_def
      FnAntennaShutdown_def Let_def)

lemma request_posts:
  "\<exists>qs. ant_posts (FnAntennaSendReadIUCmd s) = ant_posts s @ qs \<and> set qs \<subseteq> {StartLoop}"
  "\<exists>qs. ant_posts (FnAntennaStopRead s) = ant_posts s @ qs \<and> set qs \<subseteq> {CancelTimer}"
  by (simp_all add: FnAntennaSendReadIUCmd_def FnAntennaStopRead_def Let_def)

lemma request_kept_held:
  "request_held s \<Longrightarrow> request_held (FnAntennaSendReadIUCmd s)"
  "request_held s \<Longrightarrow> request_held (FnAntennaStopRead s)"
  by (simp_all add: request_held_def FnAntennaSendReadIUCmd_def FnAntennaStopRead_def Let_def)

lemma run_head:
  assumes "ant_act cfg RunPost s = Some s'" and "ant_enabled RunPost s"
  obtains p ps where "ant_posts s = p # ps" "s' = run_post p (s\<lparr>ant_posts := ps\<rparr>)"
  using assms by (auto simp: ant_act_def ant_enabled_def split: list.splits)

lemma run_post_posts: "ant_posts (run_post p s) = ant_posts s"
  by (cases p) (simp_all add: run_post_def loop_exit_def loop_top_def cancel_timer_def)

lemma line_done_posts: "line_done cfg line t data s = Some s' \<Longrightarrow> ant_posts s' = ant_posts s"
proof -
  assume "line_done cfg line t data s = Some s'"
  then obtain s1 rc where e: "antennaCmd_end cfg line data s = Some (s1, rc)"
    and s': "s' = (case initTask s1 of Some cs \<Rightarrow> init_run cfg t rc cs (s1\<lparr>initTask := None\<rparr>)
       | None \<Rightarrow> loop_after s1)"
    by (auto simp: line_done_def split: option.splits)
  have "ant_posts s1 = ant_posts s"
    using antennaCmd_end_control [OF e] by (simp add: control_def)
  then show ?thesis
    using s' by (cases "initTask s1") (simp_all add: init_run_held loop_defs)
qed

lemma loop_resume_posts: "ant_posts (loop_resume cfg k t s) = ant_posts s"
proof -
  obtain s1 r where b: "antennaCmd_begin cfg t FORCE_GET_IU_NO_CMD s = (s1, r)" by fastforce
  then have "ant_posts s1 = ant_posts s" using begin_cases [OF b] by (auto simp: control_def)
  then show ?thesis using b by (cases r) (simp_all add: loop_resume_def loop_defs)
qed

lemma ant_act_inv:
  assumes "ant_act cfg a s = Some s'" and "ant_enabled a s" and "ant_inv s"
  shows "ant_inv s'"
proof (cases a)
  case RunPost
  then show ?thesis using assms run_head run_post_inv by (metis ant_inv_posts)
next
  case (LineDone line t)
  then show ?thesis
    using assms line_done_inv(1) by (auto simp: ant_act_def split: option.splits)
next
  case (TimerDone k t)
  then show ?thesis
    using assms loop_resume_inv(1) [of s] by (auto simp: ant_act_def ant_enabled_def)
qed (use assms in \<open>auto simp: ant_act_def request_inv\<close>)

lemma blank_free: "line_free ant_blank" "request_held ant_blank"
  by (simp_all add: line_free_def request_held_def ant_blank_def)

lemma module_init_inv:
  "ant_inv (antennaModuleInit cfg opened t ant_blank)"
  "request_held (antennaModuleInit cfg opened t ant_blank)"
proof -
  have f: "line_free (ant_blank\<lparr>ant_port_open := p\<rparr>)" "line_free (ant_blank\<lparr>initializationCompleted := p\<rparr>)"
    for p
    using blank_free(1) by (simp_all add: line_free_def)
  have "ant_inv (antennaInit cfg t (ant_blank\<lparr>ant_port_open := True\<rparr>))"
    unfolding antennaInit_def by (rule init_run_inv) (rule f)
  moreover have "ant_inv (ant_event e (ant_blank\<lparr>initializationCompleted := p\<rparr>))" for e p
    using line_free_inv [OF f(2) [of p]] by (simp add: ant_inv_def)
  ultimately show "ant_inv (antennaModuleInit cfg opened t ant_blank)"
    by (simp add: antennaModuleInit_def)
  show "request_held (antennaModuleInit cfg opened t ant_blank)"
    using blank_free(2)
    by (auto simp: antennaModuleInit_def antennaInit_def request_held_def init_run_held
        simp del: init_run.simps)
qed

lemma reach_inv: "ant_reach cfg allowed s \<Longrightarrow> ant_inv s"
  by (induction rule: ant_reach.induct) (auto intro: module_init_inv ant_act_inv)

definition patient :: "ant_action \<Rightarrow> bool" where
  "patient a \<longleftrightarrow> a \<noteq> ShutdownModule \<and> (\<forall>t. a \<noteq> TimerDone TimerError t)"

lemma ant_act_held:
  assumes "ant_act cfg a s = Some s'" and "ant_enabled a s" and "ant_inv s" and "patient a"
    and "request_held s" and "ShutdownOnIo \<notin> set (ant_posts s)"
  shows "request_held s' \<and> ShutdownOnIo \<notin> set (ant_posts s')"
proof -
  have ns: "ShutdownOnIo \<notin> set (ant_posts s')"
  proof (cases a)
    case (LineDone line t)
    then have "ant_posts s' = ant_posts s"
      using assms(1,2) line_done_posts
      by (auto simp: ant_act_def ant_enabled_def split: option.splits)
    then show ?thesis using assms(6) by simp
  next
    case (TimerDone k t)
    then show ?thesis using assms(1,6) loop_resume_posts by (auto simp: ant_act_def)
  next
    case RunPost
    then obtain p ps where "ant_posts s = p # ps" "s' = run_post p (s\<lparr>ant_posts := ps\<rparr>)"
      using assms(1,2) run_head by metis
    then show ?thesis using assms(6) by (simp add: run_post_posts)
  next
    case SendReadIU
    then show ?thesis using assms(1,6) request_posts(1) [of s] by (auto simp: ant_act_def)
  next
    case StopReadIU
    then show ?thesis using assms(1,6) request_posts(2) [of s] by (auto simp: ant_act_def)
  qed (use assms(4) in \<open>simp add: patient_def\<close>)
  have "request_held s'"
  proof (cases a)
    case RunPost
    then obtain p ps where p: "ant_posts s = p # ps" "s' = run_post p (s\<lparr>ant_posts := ps\<rparr>)"
      using assms(1,2) run_head by metis
    then show ?thesis using run_post_held [OF assms(5) p(1) _ assms(3)] assms(6) by auto
  next
    case (LineDone line t)
    then show ?thesis
      using assms line_done_inv(2) by (auto simp: ant_act_def ant_enabled_def split: option.splits)
  next
    case (TimerDone k t)
    then show ?thesis
      using assms loop_resume_inv(2) [of s] by (auto simp: ant_act_def ant_enabled_def patient_def)
  qed (use assms request_kept_held in \<open>auto simp: ant_act_def patient_def\<close>)
  then show ?thesis using ns by simp
qed

lemma reach_held:
  "ant_reach cfg patient s \<Longrightarrow> request_held s \<and> ShutdownOnIo \<notin> set (ant_posts s)"
proof (induction rule: ant_reach.induct)
  case (ant_reach_start opened t)
  have "ant_posts (antennaModuleInit cfg opened t ant_blank) = []"
    by (simp add: antennaModuleInit_def antennaInit_def init_run_held ant_blank_def
        del: init_run.simps)
  then show ?case using module_init_inv(2) by simp
next
  case (ant_reach_step s a s')
  then show ?case using ant_act_held reach_inv by blast
qed

section \<open>Polling\<close>

definition polling :: "ant \<Rightarrow> bool" where
  "polling s \<longleftrightarrow> ant_port_open s \<and> \<not> stopping s \<and> continueReadFlag s \<and> iuLoopRunning s \<and>
     ant_loop_pc s = LoopWaiting \<and> \<not> isCmdExecuting s \<and> onLine s = None \<and> initTask s = None"

fun ant_run :: "ant_cfg \<Rightarrow> ant_action list \<Rightarrow> ant \<Rightarrow> ant option" where
  "ant_run cfg [] s = Some s"
| "ant_run cfg (a # as) s =
     (if ant_enabled a s
      then (case ant_act cfg a s of None \<Rightarrow> None | Some s1 \<Rightarrow> ant_run cfg as s1) else None)"

text \<open>Rounds of the loop: the timer, and the answer to the command.\<close>

fun poll_rounds :: "(tm \<times> ant_line \<times> tm) list \<Rightarrow> ant_action list" where
  "poll_rounds [] = []"
| "poll_rounds ((t1, line, t2) # rs) = TimerDone Expired t1 # LineDone line t2 # poll_rounds rs"

definition number_reply :: "ant_cfg \<Rightarrow> byte list \<Rightarrow> string \<Rightarrow> bool" where
  "number_reply cfg d x \<longleftrightarrow> 7 \<le> length d \<and> response_id (rx_of d) = ''3fb2'' \<and>
     iu_text cfg (rx_of d) = x \<and> FnIsStringNumeric x"

lemma length_stuff: "length (stuff d) \<le> 2 * length d"
  by (induction d) auto

lemma short_frame: "length d \<le> 60 \<Longrightarrow> \<exists>f. ant_frame d = Some f"
  using length_stuff [of d]
  by (auto simp: ant_frame_def frame_with_def crc_bytes_def TX_BUF_SIZE_def Let_def)

lemma number_reply_response:
  "number_reply cfg d x \<Longrightarrow>
   antennaHandleCmdResponse cfg (d @ [ANT_ETX]) (rx_of d) u =
     (iu_reading (antennaIUCmdMinOKtimes cfg) x u, AntRecv_ACK)"
  by (simp add: number_reply_def antennaHandleCmdResponse_def)

lemma poll_round:
  assumes "polling s" and "answers d line" and "number_reply cfg d x"
  shows "\<exists>s1. (\<forall>as. ant_run cfg (TimerDone Expired t1 # LineDone line t2 # as) s =
      ant_run cfg as (loop_after s1)) \<and>
    ius s1 = iu_reading (antennaIUCmdMinOKtimes cfg) x (ius s) \<and> ant_port_open s1 \<and>
    \<not> stopping s1 \<and> continueReadFlag s1 \<and> iuLoopRunning s1 \<and> \<not> isCmdExecuting s1 \<and>
    onLine s1 = None \<and> initTask s1 = None \<and> ant_events s1 = ant_events s"
proof -
  let ?seq = "if SEQUENCE_NO s + 1 = 0 then 1 else SEQUENCE_NO s + 1"
  define data where
    "data = loadForceGetUINo (0xB0 + word_of_int (antennaId cfg)) 0x00 0x3F 0x32 ?seq"
  let ?s = "s\<lparr>SEQUENCE_NO := ?seq, isCmdExecuting := True, onLine := Some data,
      ant_loop_pc := LoopInCmd\<rparr>"
  have step1: "ant_act cfg (TimerDone Expired t1) s = Some ?s"
    "ant_enabled (TimerDone Expired t1) s"
    using assms(1)
    by (simp_all add: ant_act_def ant_enabled_def loop_resume_def polling_def
        antennaCmd_begin_def Let_def ant_payload_def data_def)
  have "length data \<le> 60" by (simp add: data_def loadForceGetUINo_def cmd_header_def)
  then obtain f where f: "ant_frame data = Some f" using short_frame by blast
  obtain r where r: "antennaCmd_end cfg line data ?s =
      Some (?s\<lparr>ant_sent := ant_sent ?s @ [f], ant_rxs := r,
        ius := iu_reading (antennaIUCmdMinOKtimes cfg) x (ius ?s), isCmdExecuting := False,
        onLine := None\<rparr>, AntRecv_ACK)"
    using answered_cmd [OF assms(2) _ f number_reply_response [OF assms(3)], of ?s] assms(1)
    by (auto simp: polling_def)
  let ?s1 = "?s\<lparr>ant_sent := ant_sent ?s @ [f], ant_rxs := r,
      ius := iu_reading (antennaIUCmdMinOKtimes cfg) x (ius ?s), isCmdExecuting := False,
      onLine := None\<rparr>"
  have step2: "ant_act cfg (LineDone line t2) ?s = Some (loop_after ?s1)"
    "ant_enabled (LineDone line t2) ?s"
    using assms(1) r by (simp_all add: ant_act_def ant_enabled_def line_done_def polling_def)
  show ?thesis
    using step1 step2 assms(1) by (intro exI [of _ ?s1]) (simp add: polling_def)
qed

end
