(* ===== verification/Ant_Theorems.thy ===== *)
theory Ant_Theorems
  imports Ant_Correct
begin

text \<open>
  The properties of the antenna module, over the lemmas of \<open>Ant_Correct\<close>, with the receiver as an
  instance of the framed receivers.
\<close>

section \<open>The receiver as a framed receiver\<close>

text \<open>One byte: \<open>None\<close> after a write past the buffer, and the content of the buffer when a frame is
  complete.\<close>

definition ant_recv :: "ant_rx option \<Rightarrow> byte \<Rightarrow> ant_rx option \<times> byte list option" where
  "ant_recv r c =
     (case r of
        None \<Rightarrow> (None, None)
      | Some r0 \<Rightarrow>
          (case receiveRxDataByte c r0 of
             None \<Rightarrow> (None, None)
           | Some (r1, n) \<Rightarrow> (Some r1, if n \<noteq> 0 then Some (rxBuff r1) else None)))"

lemma feed_incomplete:
  "responseIsComplete cs r = Some (r1, False) \<Longrightarrow> feed ant_recv (Some r) cs = (Some r1, [])"
  by (induction cs arbitrary: r) (auto simp: ant_recv_def split: option.splits prod.splits if_splits)

lemma feed_complete:
  assumes "responseIsComplete cs r = Some (q, False)" and "responseIsComplete (cs @ [c]) r = Some (r1, True)"
  shows "feed ant_recv (Some r) (cs @ [c]) = (Some r1, [rxBuff r1])"
proof -
  have "responseIsComplete [c] q = Some (r1, True)"
    using assms by (simp add: responseIsComplete_append)
  then have "ant_recv (Some q) c = (Some r1, Some (rxBuff r1))"
    by (auto simp: ant_recv_def split: option.splits if_splits)
  then show ?thesis using feed_incomplete [OF assms(1)] by (simp add: feed_append)
qed

definition ant_ready :: "ant_rx option \<Rightarrow> bool" where
  "ant_ready r \<longleftrightarrow> (\<exists>r0. r = Some r0 \<and> rxState r0 = RX_IGNORE)"

definition sent_frame :: "byte list \<Rightarrow> byte list" where
  "sent_frame d = frame_with d (data_crc d)"

lemma ant_feed_frame:
  assumes "rxState r = RX_IGNORE" and "length d < RX_BUF_SIZE"
  shows "\<exists>r1. feed ant_recv (Some r) (sent_frame d) = (Some r1, [d @ [ANT_ETX]]) \<and> rxState r1 = RX_IGNORE"
proof -
  define w where "w = crc16_x25 (d @ [ANT_ETX])"
  let ?init = "[DLE, ANT_STX] @ stuff d @ [DLE, ANT_ETX, crc_lo w]"
  have f: "sent_frame d = ?init @ [crc_hi w]"
    using data_crc_x25 [OF assms(2)] by (simp add: sent_frame_def frame_with_def crc_bytes_lo_hi w_def)
  let ?r = "r\<lparr>rxState := RX_RECEIVING, rxBuff := []\<rparr>"
  have "responseIsComplete ?init r = responseIsComplete [DLE, ANT_ETX, crc_lo w] (?r\<lparr>rxBuff := d\<rparr>)"
    using assms receive_start [OF assms(1)] receive_data [of ?r d]
    by (simp del: responseIsComplete.simps)
  also have "\<exists>q. \<dots> = Some (q, False)"
    using assms(2)
    by (simp add: receiveRxDataByte_def handleReceivingState_def handleEscapeState_def put_rx_def
        handleRXCRC1State_def)
  finally obtain q where q: "responseIsComplete ?init r = Some (q, False)" by blast
  let ?r1 = "r\<lparr>rxState := RX_IGNORE, rxBuff := d @ [ANT_ETX], rx_b := crc_lo w\<rparr>"
  have "responseIsComplete (?init @ [crc_hi w]) r = Some (?r1, True)"
    using receive_frame [OF assms(1) _ assms(2), of "[]" w "[]"] f
    by (simp add: sent_frame_def data_crc_x25 [OF assms(2)] w_def [symmetric]
        del: responseIsComplete.simps)
  then show ?thesis using feed_complete [OF q] f by simp
qed

interpretation ant: framed_receiver ant_recv ant_ready sent_frame "\<lambda>d. length d < RX_BUF_SIZE"
  "\<lambda>b. b \<noteq> DLE" "\<lambda>d. d @ [ANT_ETX]"
proof
  fix r d assume "ant_ready r" and "length (d :: byte list) < RX_BUF_SIZE"
  then show "\<exists>r'. feed ant_recv r (sent_frame d) = (r', [d @ [ANT_ETX]]) \<and> ant_ready r'"
    using ant_feed_frame by (fastforce simp: ant_ready_def)
next
  fix r b assume "ant_ready r" and "b \<noteq> DLE"
  then show "\<exists>r'. ant_recv r b = (r', None) \<and> ant_ready r'"
    by (auto simp: ant_ready_def ant_recv_def receiveRxDataByte_def handleIgnoreState_def)
qed

section \<open>Frames\<close>

text \<open>C23: Whatever data the module may send in its frame buffer comes back out of its receiver:
  between bytes without the escape, frames are delivered, all of them, in order, with the escape bytes
  removed, and nothing else is.\<close>

theorem ant_line_received:
  assumes "rxState r = RX_IGNORE"
    and "line_ok (\<lambda>d. length d < RX_BUF_SIZE) (\<lambda>b. b \<noteq> DLE) xs"
  shows "\<exists>r1. feed ant_recv (Some r) (line_bytes sent_frame xs) =
      (Some r1, map (\<lambda>d. d @ [ANT_ETX]) (line_frames xs)) \<and> rxState r1 = RX_IGNORE"
proof -
  have "ant_ready (Some r)" using assms(1) by (simp add: ant_ready_def)
  from ant.line_received [OF this assms(2)] show ?thesis by (auto simp: ant_ready_def)
qed

definition ant_idle :: ant_rx where
  "ant_idle = \<lparr>rxState = RX_IGNORE, rxBuff = [], rx_b = 0\<rparr>"

theorem ant_line_received_witness:
  "\<exists>r1. feed ant_recv (Some ant_idle)
      (line_bytes sent_frame [Noise 7, Frame [1, 0x10, 2], Noise 3, Frame [0x10]]) =
      (Some r1, [[1, 0x10, 2, 3], [0x10, 3]]) \<and> rxState r1 = RX_IGNORE"
  using ant_line_received [of ant_idle "[Noise 7, Frame [1, 0x10, 2], Noise 3, Frame [0x10]]"]
  by (simp add: ant_idle_def RX_BUF_SIZE_def DLE_def ANT_ETX_def)

text \<open>How the operating system cuts a frame into reads does not matter, and one changed byte is
  always noticed: the reads of an exchange deliver the data of an intact frame, and none when a data
  byte differs from the one the checksum was made for.\<close>

theorem ant_corruption_detected:
  assumes "rxState r = RX_IGNORE" and "length (xs @ c # ys) < RX_BUF_SIZE" and "DLE \<notin> set ns"
    and "concat reads = ns @ frame_with (xs @ c # ys) (data_crc (xs @ b # ys))"
  shows "\<exists>r1. antennaRead reads r = Some (r1, if b = c then Some (xs @ c # ys @ [ANT_ETX]) else None)"
proof (cases "b = c")
  case True
  have "on_line (frame_with (xs @ c # ys) (data_crc (xs @ c # ys))) reads"
    using assms(3,4) True by (auto simp: on_line_def)
  from read_frame [OF assms(1,2) this] True show ?thesis by auto
next
  case False
  from read_corrupt [OF assms(1,2) False assms(3,4)] False show ?thesis by simp
qed

theorem ant_corruption_detected_witness:
  "\<exists>r1. antennaRead [[9, 0x10], [2, 5, 0x10, 0x10], [0x10, 3] @ crc_bytes (data_crc [6, 0x10])]
     ant_idle = Some (r1, None)"
  using ant_corruption_detected [of ant_idle "[]" 5 "[0x10]" "[9]"
      "[[9, 0x10], [2, 5, 0x10, 0x10], [0x10, 3] @ crc_bytes (data_crc [6, 0x10])]" 6]
  by (simp add: ant_idle_def RX_BUF_SIZE_def DLE_def ANT_ETX_def ANT_STX_def frame_with_def)

text \<open>The checksum routine computes the checksum of X.25: the register of the CCITT polynomial
  with its bits, and those of the bytes, in the opposite order, and the result complemented.\<close>

theorem ant_crc_reference:
  assumes "length bs \<le> 255"
  shows "CRC16R_Calculate bs (of_nat (length bs)) 0xFFFF =
    ucast (NOT (word_reverse (crc16_ref (map word_reverse bs))))"
  using CRC16R_x25 [OF assms] by (simp only: crc16_x25_def)

theorem ant_crc_reference_witness: "CRC16R_Calculate [0x31, 0x32, 0x33] 3 0xFFFF =
    ucast (NOT (word_reverse (crc16_ref (map word_reverse [0x31, 0x32, 0x33]))))"
  using ant_crc_reference [of "[0x31, 0x32, 0x33]"] by simp

text \<open>C34: A frame with 128 or more data bytes makes the reception write past the end of the receive
  buffer, whatever its checksum and however it is cut into reads: the states that store a byte do not
  look at the length.\<close>

theorem ant_receive_overflow:
  assumes "rxState r = RX_IGNORE" and "RX_BUF_SIZE \<le> length d" and "on_line (frame_with d crc) reads"
  shows "antennaRead reads r = None"
  using read_overflow [OF assms] .

theorem ant_receive_overflow_witness:
  "antennaRead [frame_with (replicate 128 7) 0] ant_idle = None"
proof (rule ant_receive_overflow [where d = "replicate 128 7" and crc = 0])
  show "on_line (frame_with (replicate 128 7) 0) [frame_with (replicate 128 7) 0]"
    unfolding on_line_def by (intro exI [of _ "[]"]) simp
qed (simp_all add: ant_idle_def RX_BUF_SIZE_def)

section \<open>One command\<close>

text \<open>A command that nobody answers is written once and then as often as repeats are configured,
  always the same frame; the module then reports one failure, and the line is free again.\<close>

theorem ant_unanswered:
  assumes "unanswered cfg line" and "ant_frame data = Some f" and "ant_port_open s"
  shows "\<exists>s1. antennaCmd_end cfg line data s = Some (s1, AntRecv_NoResp) \<and>
    ant_sent s1 = ant_sent s @ replicate (antennaCmdMaxRetry cfg + 1) f \<and>
    ant_events s1 = ant_events s @ [Evt_AntennaFail 1] \<and> \<not> isCmdExecuting s1"
proof -
  obtain s1 where "ant_attempts cfg data line (antennaCmdMaxRetry cfg + 1) 0 AntRecv_NoResp s =
      Some (s1, AntRecv_NoResp)"
    "ant_sent s1 = ant_sent s @ replicate (antennaCmdMaxRetry cfg + 1) f"
    "ant_events s1 = ant_events s @ [Evt_AntennaFail 1]"
    using unanswered_attempts [OF assms(1,2) _ assms(3) refl, of "antennaCmdMaxRetry cfg + 1" 0]
    by auto
  then show ?thesis by (simp add: antennaCmd_end_def)
qed

definition demo_ant_cfg :: ant_cfg where
  "demo_ant_cfg =
     \<lparr>antennaId = 1, antennaIUCmdMinOKtimes = 2, antennaCmdMaxRetry = 3, eps = 1, char_signed = True\<rparr>"

definition demo_open :: ant where
  "demo_open = ant_blank\<lparr>ant_port_open := True, continueReadFlag := True, iuLoopRunning := True,
     ant_loop_pc := LoopWaiting\<rparr>"

definition silent_line :: ant_line where
  "silent_line = \<lparr>stop_before = (\<lambda>k. False), write_ok = (\<lambda>k. True), att_reads = (\<lambda>k. [[1, 2]]),
     stop_after = (\<lambda>k. False), stop_end = False\<rparr>"

theorem ant_unanswered_witness:
  "\<exists>s1 f. antennaCmd_end demo_ant_cfg silent_line [1, 2] demo_open = Some (s1, AntRecv_NoResp) \<and>
    ant_sent s1 = replicate 4 f \<and> ant_events s1 = [Evt_AntennaFail 1]"
proof -
  have u: "unanswered demo_ant_cfg silent_line" and p: "ant_port_open demo_open"
    by (auto simp: unanswered_def silent_line_def demo_ant_cfg_def demo_open_def DLE_def)
  obtain f where f: "ant_frame [1, 2] = Some f" using short_frame [of "[1, 2]"] by auto
  have "ant_sent demo_open = []" "ant_events demo_open = []" "antennaCmdMaxRetry demo_ant_cfg = 3"
    by (simp_all add: demo_open_def ant_blank_def demo_ant_cfg_def)
  then show ?thesis using ant_unanswered [OF u f p] by (auto simp: eval_nat_numeral)
qed

section \<open>The number of the unit\<close>

text \<open>When a number is confirmed.  With \<open>N\<close> required readings, at least two, the flag that
  reports a number is set exactly when some number was read \<open>N\<close> times in a row, with no other number
  between; what was read before does not count.\<close>

theorem ant_confirmation:
  assumes "iu_clear u" and "2 \<le> N" and "[] \<notin> set rs"
  shows "successRecvIUFlag (fold (iu_reading (int N)) rs u) \<longleftrightarrow>
    (\<exists>before after x. rs = before @ replicate N x @ after)"
  using confirmation_state [OF assms] by (auto simp: has_run_def [symmetric] split: if_splits)

theorem ant_confirmation_witness:
  "successRecvIUFlag (fold (iu_reading (int 2)) [''10'', ''11'', ''11'', ''12''] (ius ant_blank))"
proof -
  have "\<exists>before after x. [''10'', ''11'', ''11'', ''12''] = before @ replicate 2 x @ after"
    by (rule exI [of _ "[''10'']"], rule exI [of _ "[''12'']"], rule exI [of _ "''11''"])
      (simp add: numeral_2_eq_2)
  then show ?thesis
    using ant_confirmation [of "ius ant_blank" 2 "[''10'', ''11'', ''11'', ''12'']"]
    by (simp add: iu_clear_def ant_blank_def)
qed

lemma poll_rounds_readings:
  assumes "\<forall>(t1, line, t2) \<in> set rounds. \<exists>d. answers d line \<and> number_reply cfg d x"
    and "length rounds < N" and "antennaIUCmdMinOKtimes cfg = int N"
  shows "polling s \<Longrightarrow> \<not> successRecvIUFlag (ius s) \<Longrightarrow> IUNumberPrev (ius s) = x \<Longrightarrow>
    successRecvIUCount (ius s) = int k \<Longrightarrow> k + length rounds < N \<Longrightarrow>
    \<exists>s1. (\<forall>as. ant_run cfg (poll_rounds rounds @ as) s = ant_run cfg as s1) \<and> polling s1 \<and>
      \<not> successRecvIUFlag (ius s1) \<and> IUNumberPrev (ius s1) = x \<and>
      successRecvIUCount (ius s1) = int (k + length rounds)"
  using assms(1)
proof (induction rounds arbitrary: s k)
  case (Cons rd rounds)
  obtain t1 line t2 where rd: "rd = (t1, line, t2)" by (cases rd) auto
  obtain d where d: "answers d line" "number_reply cfg d x" using Cons.prems(6) rd by auto
  let ?u = "(ius s)\<lparr>successRecvIUCount := int k + 1\<rparr>"
  have u: "iu_reading (antennaIUCmdMinOKtimes cfg) x (ius s) = ?u"
    using Cons.prems assms(3) by (simp add: iu_reading_def Let_def)
  obtain s1 where s1: "\<And>as. ant_run cfg (TimerDone Expired t1 # LineDone line t2 # as) s =
      ant_run cfg as (loop_after s1)" "ius s1 = ?u" "ant_port_open s1" "\<not> stopping s1"
    "continueReadFlag s1" "iuLoopRunning s1" "\<not> isCmdExecuting s1" "onLine s1 = None"
    "initTask s1 = None"
    using poll_round [OF Cons.prems(1) d, of t1 t2] unfolding u by blast
  let ?s2 = "loop_after s1"
  have p: "polling ?s2" "ius ?s2 = ?u"
    using s1 Cons.prems(2) by (auto simp: polling_def loop_defs)
  obtain s3 where s3: "\<And>as. ant_run cfg (poll_rounds rounds @ as) ?s2 = ant_run cfg as s3" "polling s3"
    "\<not> successRecvIUFlag (ius s3)" "IUNumberPrev (ius s3) = x"
    "successRecvIUCount (ius s3) = int (k + 1 + length rounds)"
    using Cons.IH [OF p(1), of "k + 1"] p(2) Cons.prems by (auto simp: add.commute)
  then show ?case using s1(1) by (intro exI [of _ s3]) (simp add: rd)
qed (auto intro: exI)

lemma poll_rounds_append: "poll_rounds (xs @ ys) = poll_rounds xs @ poll_rounds ys"
  by (induction xs rule: poll_rounds.induct) simp_all

text \<open>C22: Reading a number.  When the loop polls, nothing has been read yet, and each of the next
  \<open>N\<close> commands, as many as are required and at least two, is answered by a frame with the same number,
  then the number is reported and the loop ends.\<close>

theorem ant_reads_number:
  assumes "polling s" and "iu_clear (ius s)" and "2 \<le> N" and "antennaIUCmdMinOKtimes cfg = int N"
    and "length rounds = N" and "x \<noteq> []"
    and "\<forall>(t1, line, t2) \<in> set rounds. \<exists>d. answers d line \<and> number_reply cfg d x"
  shows "\<exists>s1. ant_run cfg (poll_rounds rounds) s = Some s1 \<and>
    last (ant_events s1) = Evt_AntennaIUCome x \<and> \<not> continueReadFlag s1 \<and> \<not> iuLoopRunning s1"
proof -
  obtain r0 rest where "rounds = r0 # rest" using assms(3,5) by (cases rounds) auto
  moreover obtain mid rl where "rest = mid @ [rl]"
    using assms(3,5) calculation by (cases rest rule: rev_cases) auto
  ultimately have rounds: "rounds = r0 # mid @ [rl]" by simp
  obtain t1 l1 t2 where r0: "r0 = (t1, l1, t2)" by (cases r0) auto
  obtain t3 l2 t4 where rl: "rl = (t3, l2, t4)" by (cases rl) auto
  obtain d1 d2 where d1: "answers d1 l1" "number_reply cfg d1 x"
    and d2: "answers d2 l2" "number_reply cfg d2 x"
    using assms(7) rounds r0 rl by auto
  have mid: "\<forall>(t1, line, t2) \<in> set mid. \<exists>d. answers d line \<and> number_reply cfg d x"
    using assms(7) rounds by simp
  have len: "1 + length mid < N" "N = length mid + 2" using assms(5) rounds by simp_all
  let ?u = "(ius s)\<lparr>IUNumberPrev := x, successRecvIUCount := 1\<rparr>"
  have u: "iu_reading (antennaIUCmdMinOKtimes cfg) x (ius s) = ?u"
    using assms(2,6) by (auto simp: iu_reading_def iu_clear_def)
  obtain s1 where s1: "\<And>as. ant_run cfg (TimerDone Expired t1 # LineDone l1 t2 # as) s =
      ant_run cfg as (loop_after s1)" "ius s1 = ?u" "ant_port_open s1" "\<not> stopping s1"
    "continueReadFlag s1" "iuLoopRunning s1" "\<not> isCmdExecuting s1" "onLine s1 = None"
    "initTask s1 = None"
    using poll_round [OF assms(1) d1, of t1 t2] unfolding u by blast
  have p: "polling (loop_after s1)" "ius (loop_after s1) = ?u"
    using s1 assms(2) by (auto simp: polling_def loop_defs iu_clear_def)
  note middle = poll_rounds_readings [OF mid _ assms(4) p(1), of 1]
  obtain s2 where s2: "\<And>as. ant_run cfg (poll_rounds mid @ as) (loop_after s1) = ant_run cfg as s2"
    "polling s2" "\<not> successRecvIUFlag (ius s2)" "IUNumberPrev (ius s2) = x"
    "successRecvIUCount (ius s2) = int (1 + length mid)"
    using middle p(2) assms(2) len by (auto simp: iu_clear_def)
  let ?v = "(ius s2)\<lparr>successRecvIUFlag := True, successRecvIUCount := 0, IUNumber := x,
      IUNumberPrev := []\<rparr>"
  have v: "iu_reading (antennaIUCmdMinOKtimes cfg) x (ius s2) = ?v"
    using s2 assms(4) len(2) by (simp add: iu_reading_def Let_def)
  obtain s3 where s3: "\<And>as. ant_run cfg (TimerDone Expired t3 # LineDone l2 t4 # as) s2 =
      ant_run cfg as (loop_after s3)" "ius s3 = ?v"
    using poll_round [OF s2(2) d2, of t3 t4] unfolding v by blast
  have "ant_run cfg (poll_rounds rounds) s = Some (loop_after s3)"
    using s1(1) s2(1) s3(1) by (simp add: rounds r0 rl poll_rounds_append)
  moreover have "last (ant_events (loop_after s3)) = Evt_AntennaIUCome x"
    "\<not> continueReadFlag (loop_after s3)" "\<not> iuLoopRunning (loop_after s3)"
    using s3(2) by (simp_all add: loop_defs)
  ultimately show ?thesis by blast
qed

definition demo_reply :: "byte list" where
  "demo_reply = [0x00, 0xB1, 0x3F, 0xB2, 1, 0, 5, 0x56, 0x34, 0x12, 0x10, 0x10]"

definition reply_line :: ant_line where
  "reply_line = silent_line\<lparr>att_reads := (\<lambda>k. [sent_frame demo_reply])\<rparr>"

definition demo_tm :: tm where
  "demo_tm = \<lparr>tm_sec = 0, tm_min = 0, tm_hour = 0, tm_mday = 1, tm_mon = 0, tm_year = 126\<rparr>"

theorem ant_reads_number_witness:
  "\<exists>s1. ant_run demo_ant_cfg (poll_rounds [(demo_tm, reply_line, demo_tm), (demo_tm, reply_line, demo_tm)])
      demo_open = Some s1 \<and> last (ant_events s1) = Evt_AntennaIUCome ''1010123456'' \<and>
    \<not> continueReadFlag s1 \<and> \<not> iuLoopRunning s1"
proof -
  have h: "polling demo_open" "iu_clear (ius demo_open)" "(2 :: nat) \<le> 2"
    "antennaIUCmdMinOKtimes demo_ant_cfg = int 2"
    "length [(demo_tm, reply_line, demo_tm), (demo_tm, reply_line, demo_tm)] = 2"
    "''1010123456'' \<noteq> []"
    by (simp_all add: polling_def demo_open_def ant_blank_def iu_clear_def demo_ant_cfg_def)
  have "number_reply demo_ant_cfg demo_reply ''1010123456''" by code_simp
  moreover have "answers demo_reply reply_line"
    unfolding answers_def on_line_def
    by (intro conjI exI [of _ "[]"])
      (simp_all add: reply_line_def silent_line_def demo_reply_def RX_BUF_SIZE_def sent_frame_def)
  ultimately show ?thesis by (intro ant_reads_number [OF h]) auto
qed

text \<open>C35: Where \<open>char\<close> is signed, the answer to a request is refused as soon as one of the five bytes
  of the number is 0x80 or more, that is one of its decimal pairs starts with 8 or 9: the byte prints as
  eight hexadecimal digits of a negative number, which are not all decimal.\<close>

theorem ant_high_number_refused:
  assumes "char_signed cfg" and "response_id r = ''3fb2''" and "8 \<le> length d"
    and "i \<in> {7, 8, 9, 10, 11}" and "128 \<le> uint (rx_byte_at r i)"
  shows "antennaHandleCmdResponse cfg d r u = (u, AntRecv_NAK)"
proof -
  have "rx_byte_at r i \<in> set (rev (map (rx_byte_at r) [7, 8, 9, 10, 11]))" using assms(4) by auto
  from high_byte_not_numeric [OF this assms(5)] show ?thesis
    using assms(1-3) by (simp add: antennaHandleCmdResponse_def iu_text_def)
qed

theorem ant_high_number_refused_witness:
  "antennaHandleCmdResponse demo_ant_cfg [0, 0xB1, 0x3F, 0xB2, 1, 0, 5, 0x56, 0x99, 0x12, 0x10, 0x10]
     (rx_of [0, 0xB1, 0x3F, 0xB2, 1, 0, 5, 0x56, 0x99, 0x12, 0x10, 0x10]) (ius ant_blank) =
   (ius ant_blank, AntRecv_NAK)"
proof (rule ant_high_number_refused [where i = 8])
  show "char_signed demo_ant_cfg" by (simp add: demo_ant_cfg_def)
  show "response_id (rx_of [0, 0xB1, 0x3F, 0xB2, 1, 0, 5, 0x56, 0x99, 0x12, 0x10, 0x10]) = ''3fb2''"
    by code_simp
  show "128 \<le> uint (rx_byte_at (rx_of [0, 0xB1, 0x3F, 0xB2, 1, 0, 5, 0x56, 0x99, 0x12, 0x10, 0x10]) 8)"
    by code_simp
qed simp_all

section \<open>The coroutines\<close>

text \<open>One command at a time.  In every state the module reaches, by any interleaving of requests,
  posted handlers, timers and answers, the flag that guards the line is set exactly while a command is
  on the line, the command belongs to the initialisation or to the loop and never to both, and the flag
  of the loop says whether it runs.\<close>

theorem ant_line_shared:
  assumes "ant_reach cfg allowed s"
  shows "(isCmdExecuting s \<longleftrightarrow> onLine s \<noteq> None) \<and> (iuLoopRunning s \<longleftrightarrow> ant_loop_pc s \<noteq> LoopOff) \<and>
    (onLine s \<noteq> None \<longleftrightarrow> initTask s \<noteq> None \<or> ant_loop_pc s = LoopInCmd) \<and>
    \<not> (initTask s \<noteq> None \<and> ant_loop_pc s = LoopInCmd)"
  using reach_inv [OF assms] by (auto simp: ant_inv_def)

theorem ant_line_shared_witness:
  "isCmdExecuting (antennaModuleInit demo_ant_cfg True demo_tm ant_blank) \<longleftrightarrow>
     onLine (antennaModuleInit demo_ant_cfg True demo_tm ant_blank) \<noteq> None"
  using ant_line_shared [OF ant_reach_start [of demo_ant_cfg "\<lambda>a. True" True demo_tm]] by blast

text \<open>C21: No request is lost.  Without a failure of the timer or a shutdown, whenever the number is
  wanted the module can move by itself: a handler is posted, the timer of the loop runs, or a command
  is on the line.\<close>

theorem ant_request_kept:
  assumes "ant_reach cfg patient s" and "continueReadFlag s"
  shows "ant_enabled RunPost s \<or> ant_enabled (TimerDone Expired t) s \<or> ant_enabled (LineDone line t) s"
proof -
  have "iuLoopRunning s \<or> StartLoop \<in> set (ant_posts s)"
    using reach_held [OF assms(1)] assms(2) by (auto simp: request_held_def)
  moreover have "ant_posts s \<noteq> []" if "StartLoop \<in> set (ant_posts s)" using that by auto
  ultimately show ?thesis
    using reach_inv [OF assms(1)] by (cases "ant_loop_pc s") (auto simp: ant_inv_def ant_enabled_def)
qed

theorem ant_request_kept_witness:
  "\<exists>s. continueReadFlag s \<and> (ant_enabled RunPost s \<or> ant_enabled (TimerDone Expired demo_tm) s \<or>
     ant_enabled (LineDone silent_line demo_tm) s)"
proof -
  let ?s = "antennaModuleInit demo_ant_cfg True demo_tm ant_blank"
  have "ant_reach demo_ant_cfg patient (FnAntennaSendReadIUCmd ?s)"
    by (rule ant_reach_step [OF ant_reach_start, where a = SendReadIU])
      (simp_all add: patient_def ant_enabled_def ant_act_def)
  moreover have "continueReadFlag (FnAntennaSendReadIUCmd ?s)" by code_simp
  ultimately show ?thesis using ant_request_kept by blast
qed

end
