(* ===== verification/Ce_Time.thy ===== *)
theory Ce_Time
  imports Fee_Time
begin

text \<open>
  Times as strings (the class \<open>CE_Time\<close>, src/ce_time.cpp).  A time is a whole number of seconds
  since the epoch in local time, as in \<open>Fee_Time\<close>; the fraction of a second the class adds from the
  wall clock is not modelled.  \<open>SetTime\<close> reads a string with 14 or 17 digits, whatever stands
  between them, and leaves the time alone for any other string; \<open>j2g\<close> turns a day number into a date
  of the Gregorian calendar; the printing functions pad with zeros.  Reading what was printed gives
  the time back.
\<close>

section \<open>Reading\<close>

definition is_digit :: "char \<Rightarrow> bool" where
  "is_digit c \<longleftrightarrow> 48 \<le> (of_char c :: nat) \<and> (of_char c :: nat) \<le> 57"

definition ChkNumStr :: "string \<Rightarrow> string" where
  "ChkNumStr str = filter is_digit str"

text \<open>The fields are checked one by one; \<open>mktime\<close> accepts a day past the end of its month and the
  month 0, which is the December before.\<close>

definition SetTime_fields :: "int \<Rightarrow> int \<Rightarrow> int \<Rightarrow> int \<Rightarrow> int \<Rightarrow> int \<Rightarrow> int" where
  "SetTime_fields y m d h n s =
     (let y1 = (if y = 0 then 0 else if y < 2000 \<or> y > 9999 then 2000 else y);
          m1 = (if m < 0 \<or> m > 12 then 0 else m);
          d1 = (if d < 1 \<or> d > 31 then 1 else d);
          h1 = (if h < 0 \<or> h > 24 then 0 else h);
          n1 = (if n < 0 \<or> n \<ge> 60 then 0 else n);
          s1 = (if s < 0 \<or> s \<ge> 61 then 0 else s);
          m2 = (if y1 = 0 \<and> (m1 < 1 \<or> m1 > 12) then 1 else m1)
      in at_day (day_number y1 m2 d1) (h1 * 3600 + n1 * 60 + s1))"

definition num_at :: "string \<Rightarrow> nat \<Rightarrow> nat \<Rightarrow> int" where
  "num_at str i n = int (digits_value 10 (take n (drop i str)))"

text \<open>\<open>None\<close> when the string has the wrong number of digits.\<close>

definition read_time :: "string \<Rightarrow> int option" where
  "read_time tstr =
     (let str = ChkNumStr tstr in
      if length str = 14 \<or> length str = 17
      then Some (SetTime_fields (num_at str 0 4) (num_at str 4 2) (num_at str 6 2)
                   (num_at str 8 2) (num_at str 10 2) (num_at str 12 2))
      else None)"

text \<open>The object that \<open>SetTime\<close> is called on holds a time before; a new one holds the clock.\<close>

definition SetTime :: "string \<Rightarrow> int \<Rightarrow> int" where
  "SetTime tstr t = (case read_time tstr of None \<Rightarrow> t | Some t' \<Rightarrow> t')"

section \<open>Printing\<close>

definition j2g :: "int \<Rightarrow> int \<times> int \<times> int" where
  "j2g day =
     (let j0 = day + 2440588 - 1721119;
          y0 = (4 * j0 - 1) div 146097;
          j1 = 4 * j0 - 1 - 146097 * y0;
          d0 = j1 div 4;
          j2 = (4 * d0 + 3) div 1461;
          d1 = 4 * d0 + 3 - 1461 * j2;
          d2 = (d1 + 4) div 4;
          m = (5 * d2 - 3) div 153;
          d3 = 5 * d2 - 3 - 153 * m;
          d = (d3 + 5) div 5;
          y = 100 * y0 + j2
      in if m < 10 then (y, m + 3, d) else (y + 1, m - 9, d))"

definition zpad :: "nat \<Rightarrow> int \<Rightarrow> string" where
  "zpad w i = setw_fill w CHR ''0'' (dec_int i)"

definition DateString :: "int \<Rightarrow> string" where
  "DateString t =
     (case j2g (t div 86400) of (y, m, d) \<Rightarrow> zpad 4 y @ ''-'' @ zpad 2 m @ ''-'' @ zpad 2 d)"

definition HMTimeString :: "int \<Rightarrow> string" where
  "HMTimeString t = zpad 2 (t mod 86400 div 3600) @ '':'' @ zpad 2 (t mod 3600 div 60)"

definition TimeString :: "int \<Rightarrow> string" where
  "TimeString t = HMTimeString t @ '':'' @ zpad 2 (t mod 60)"

definition DateTimeString :: "int \<Rightarrow> string" where
  "DateTimeString t = DateString t @ '' '' @ TimeString t"

section \<open>The calendar\<close>

lemma div_sum_5: "a + b = 5 * c + 4 \<Longrightarrow> b div 5 + a div 5 = c" for a b c :: int
  by arith

lemma div_sum_4: "a + b = 4 * c + 3 \<Longrightarrow> b div 4 + a div 4 = c" for a b c :: int
  by arith

lemma j2g_fields:
  fixes j0 :: int
  defines "y0 \<equiv> (4 * j0 - 1) div 146097"
  defines "j1 \<equiv> 4 * j0 - 1 - 146097 * y0"
  defines "d0 \<equiv> j1 div 4"
  defines "j2 \<equiv> (4 * d0 + 3) div 1461"
  defines "d1 \<equiv> 4 * d0 + 3 - 1461 * j2"
  defines "d2 \<equiv> (d1 + 4) div 4"
  defines "m \<equiv> (5 * d2 - 3) div 153"
  defines "d3 \<equiv> 5 * d2 - 3 - 153 * m"
  shows "0 \<le> j2 \<and> j2 \<le> 99" and "0 \<le> m \<and> m \<le> 11" and "0 \<le> d3 \<and> d3 \<le> 152"
    and "(d3 + 5) div 5 + (153 * m + 2) div 5 = d2"
    and "365 * j2 + j2 div 4 + d2 = d0 + 1"
    and "36524 * y0 + y0 div 4 + d0 = j0 - 1"
proof -
  have j1: "0 \<le> j1" "j1 \<le> 146096" unfolding j1_def y0_def by arith+
  have d0: "0 \<le> d0" "d0 \<le> 36524" using j1 unfolding d0_def by arith+
  show j2: "0 \<le> j2 \<and> j2 \<le> 99" using d0 unfolding j2_def by arith
  have d1: "0 \<le> d1" "d1 \<le> 1460" unfolding d1_def j2_def by arith+
  have d2: "1 \<le> d2" "d2 \<le> 366" using d1 unfolding d2_def by arith+
  show "0 \<le> m \<and> m \<le> 11" using d2 unfolding m_def by arith
  show "0 \<le> d3 \<and> d3 \<le> 152" unfolding d3_def m_def by arith
  show "(d3 + 5) div 5 + (153 * m + 2) div 5 = d2"
    by (rule div_sum_5) (simp add: d3_def)
  have "d1 div 4 + j2 div 4 = d0 - 365 * j2"
    by (rule div_sum_4) (simp add: d1_def)
  then show "365 * j2 + j2 div 4 + d2 = d0 + 1" unfolding d2_def by simp
  have "j1 div 4 + y0 div 4 = j0 - 1 - 36524 * y0"
    by (rule div_sum_4) (simp add: j1_def)
  then show "36524 * y0 + y0 div 4 + d0 = j0 - 1" unfolding d0_def by simp
qed

lemma day_number_shift:
  fixes y0 j2 :: int
  assumes "0 \<le> j2" "j2 \<le> 99"
  shows "(100 * y0 + j2 + 4800) div 4 = 25 * y0 + j2 div 4 + 1200"
    and "(100 * y0 + j2 + 4800) div 100 = y0 + 48"
    and "(100 * y0 + j2 + 4800) div 400 = y0 div 4 + 12"
proof -
  have "100 * y0 + j2 + 4800 = j2 + 4 * (25 * y0 + 1200)" by simp
  then show "(100 * y0 + j2 + 4800) div 4 = 25 * y0 + j2 div 4 + 1200"
    by simp
  show 100: "(100 * y0 + j2 + 4800) div 100 = y0 + 48" using assms by arith
  have "(100 * y0 + j2 + 4800) div 400 = (100 * y0 + j2 + 4800) div 100 div 4"
    by (subst zdiv_zmult2_eq [symmetric]) simp_all
  then show "(100 * y0 + j2 + 4800) div 400 = y0 div 4 + 12" by (simp add: 100)
qed

lemma day_number_j2g:
  assumes "j2g day = (y, m, d)"
  shows "day_number y m d = day \<and> 1 \<le> m \<and> m \<le> 12 \<and> 1 \<le> d \<and> d \<le> 31"
proof -
  define j0 where "j0 = day + 2440588 - 1721119"
  define y0 where "y0 = (4 * j0 - 1) div 146097"
  define d0 where "d0 = (4 * j0 - 1 - 146097 * y0) div 4"
  define j2 where "j2 = (4 * d0 + 3) div 1461"
  define d2 where "d2 = (4 * d0 + 3 - 1461 * j2 + 4) div 4"
  define m0 where "m0 = (5 * d2 - 3) div 153"
  define d3 where "d3 = 5 * d2 - 3 - 153 * m0"
  note f = j2g_fields [of j0, folded y0_def, folded d0_def, folded j2_def, folded d2_def,
      folded m0_def, folded d3_def]
  have j: "j2g day = (if m0 < 10 then (100 * y0 + j2, m0 + 3, (d3 + 5) div 5)
      else (100 * y0 + j2 + 1, m0 - 9, (d3 + 5) div 5))"
    by (simp only: j2g_def Let_def j0_def y0_def d0_def j2_def d2_def m0_def d3_def)
  have y: "y + 4800 - (14 - m) div 12 = 100 * y0 + j2 + 4800 \<and> m + 12 * ((14 - m) div 12) - 3 = m0 \<and>
      d = (d3 + 5) div 5"
  proof (cases "m0 < 10")
    case True
    with assms have "y = 100 * y0 + j2" "m = m0 + 3" "d = (d3 + 5) div 5" by (simp_all add: j)
    moreover have "(14 - (m0 + 3)) div 12 = 0" using f(2) True by arith
    ultimately show ?thesis by simp
  next
    case False
    with assms have "y = 100 * y0 + j2 + 1" "m = m0 - 9" "d = (d3 + 5) div 5" by (simp_all add: j)
    moreover have "(14 - (m0 - 9)) div 12 = 1" using f(2) False by arith
    ultimately show ?thesis by simp
  qed
  have "day_number y m d = (d3 + 5) div 5 + (153 * m0 + 2) div 5 + 365 * (100 * y0 + j2 + 4800) +
      (100 * y0 + j2 + 4800) div 4 - (100 * y0 + j2 + 4800) div 100 +
      (100 * y0 + j2 + 4800) div 400 - 32045 - 2440588"
    by (simp only: day_number_def Let_def y)
  also have "\<dots> = day"
    using f(1,4,5,6) by (simp add: day_number_shift j0_def)
  finally show ?thesis
    using assms f(2,3) by (auto simp: j split: if_splits)
qed

section \<open>Printed numbers\<close>

lemma digits_value_foldl:
  "foldl (\<lambda>acc c. acc * b + digit_val c) a ys = a * b ^ length ys + digits_value b ys"
proof (induction ys arbitrary: a)
  case Nil
  show ?case by (simp add: digits_value_def)
next
  case (Cons y ys)
  have "digits_value b (y # ys) = digit_val y * b ^ length ys + digits_value b ys"
    using Cons [of "digit_val y"] by (simp add: digits_value_def)
  then show ?case using Cons [of "a * b + digit_val y"] by (simp add: algebra_simps)
qed

lemma digits_value_append:
  "digits_value b (xs @ ys) = digits_value b xs * b ^ length ys + digits_value b ys"
  using digits_value_foldl [of b "digits_value b xs" ys] by (simp add: digits_value_def)

lemma digits_value_single [simp]: "digits_value b [c] = digit_val c"
  by (simp add: digits_value_def)

lemma digits_value_Nil [simp]: "digits_value b [] = 0"
  by (simp add: digits_value_def)

lemma of_char_digit: "k < 10 \<Longrightarrow> of_char (char_of (48 + k) :: char) = 48 + k" for k :: nat
  by simp

lemma digit_of: "k < 10 \<Longrightarrow> is_digit (char_of (48 + k)) \<and> digit_val (char_of (48 + k)) = k" for k :: nat
  by (simp add: is_digit_def digit_val_def Let_def of_char_digit)

lemma dec_nat_digits:
  "list_all is_digit (dec_nat n) \<and> digits_value 10 (dec_nat n) = n"
proof (induction n rule: dec_nat.induct)
  case (1 n)
  have n: "n div 10 * 10 + n mod 10 = n" by simp
  show ?case
  proof (cases "n < 10")
    case True
    then show ?thesis
      by (simp add: dec_nat.simps [of n] digit_of)
  next
    case False
    with 1 show ?thesis
      using digit_of [of "n mod 10"] n
      by (simp add: dec_nat.simps [of n] digits_value_append)
  qed
qed

lemma length_dec_nat_le: "n < 10 ^ Suc k \<Longrightarrow> length (dec_nat n) \<le> Suc k"
proof (induction k arbitrary: n)
  case 0
  then show ?case by (subst dec_nat.simps) simp
next
  case (Suc k)
  then have "n div 10 < 10 ^ Suc k" by (simp add: div_less_iff_less_mult mult.commute)
  from Suc.IH [OF this] show ?case by (subst dec_nat.simps) simp
qed

lemma zero_digit: "is_digit CHR ''0''" "digit_val CHR ''0'' = 0"
  by (simp_all add: is_digit_def digit_val_def)

lemma zeros_value: "digits_value 10 (replicate k CHR ''0'') = 0"
  by (induction k) (simp_all add: digits_value_append zero_digit flip: replicate_append_same)

text \<open>A number printed with leading zeros.\<close>

lemma zpad_digits:
  assumes "0 \<le> i" "i < 10 ^ Suc k"
  shows "length (zpad (Suc k) i) = Suc k" and "list_all is_digit (zpad (Suc k) i)"
    and "int (digits_value 10 (zpad (Suc k) i)) = i"
proof -
  obtain n where n: "i = int n" using assms(1) by (rule nonneg_int_cases)
  have z: "zpad (Suc k) i = replicate (Suc k - length (dec_nat n)) CHR ''0'' @ dec_nat n"
    by (simp add: zpad_def setw_fill_def dec_int_def n)
  have "n < 10 ^ Suc k" using assms(2) unfolding n by (simp flip: of_nat_less_iff [where 'a = int])
  then have "length (dec_nat n) \<le> Suc k" by (rule length_dec_nat_le)
  then show "length (zpad (Suc k) i) = Suc k" by (simp add: z)
  show "list_all is_digit (zpad (Suc k) i)"
    using dec_nat_digits [of n] by (auto simp: z list_all_iff zero_digit)
  show "int (digits_value 10 (zpad (Suc k) i)) = i"
    using dec_nat_digits [of n] by (simp add: z [unfolded n] digits_value_append zeros_value n)
qed

section \<open>Round trip\<close>

lemma SetTime_fields_valid:
  assumes "2000 \<le> y" "y \<le> 9999" "1 \<le> m" "m \<le> 12" "1 \<le> d" "d \<le> 31"
    and "0 \<le> h" "h \<le> 24" "0 \<le> n" "n < 60" "0 \<le> s" "s < 61"
  shows "SetTime_fields y m d h n s = at_day (day_number y m d) (h * 3600 + n * 60 + s)"
  using assms by (simp add: SetTime_fields_def Let_def)

lemma filter_all: "list_all P xs \<Longrightarrow> filter P xs = xs"
  by (simp add: list_all_iff)

lemma num_at_fields:
  assumes "length a = 4" "length b = 2" "length c = 2" "length d = 2" "length e = 2" "length f = 2"
  defines "s \<equiv> a @ b @ c @ d @ e @ f"
  shows "num_at s 0 4 = int (digits_value 10 a)" "num_at s 4 2 = int (digits_value 10 b)"
    "num_at s 6 2 = int (digits_value 10 c)" "num_at s 8 2 = int (digits_value 10 d)"
    "num_at s 10 2 = int (digits_value 10 e)" "num_at s 12 2 = int (digits_value 10 f)"
  using assms(1-6) by (simp_all add: num_at_def s_def)

lemma time_of_day:
  fixes t :: int
  shows "t div 86400 * 86400 + (t mod 86400 div 3600 * 3600 + t mod 3600 div 60 * 60 + t mod 60) = t"
proof -
  have "t mod 3600 div 60 * 60 + t mod 60 = t mod 3600"
    using div_mult_mod_eq [of "t mod 3600" 60] mod_mod_cancel [of 60 3600 t] by simp
  moreover have "t mod 86400 div 3600 * 3600 + t mod 3600 = t mod 86400"
    using div_mult_mod_eq [of "t mod 86400" 3600] mod_mod_cancel [of 3600 86400 t] by simp
  ultimately show ?thesis by (simp only: add.assoc div_mult_mod_eq)
qed

lemma zpad_2:
  assumes "0 \<le> i" "i < 100"
  shows "length (zpad 2 i) = 2 \<and> list_all is_digit (zpad 2 i) \<and> int (digits_value 10 (zpad 2 i)) = i"
  using zpad_digits [of i 1] assms by (simp add: numeral_2_eq_2)

lemma zpad_4:
  assumes "0 \<le> i" "i < 10000"
  shows "length (zpad 4 i) = 4 \<and> list_all is_digit (zpad 4 i) \<and> int (digits_value 10 (zpad 4 i)) = i"
  using zpad_digits [of i 3] assms by (simp add: numeral_eq_Suc)

definition year_of :: "int \<Rightarrow> int" where
  "year_of t = fst (j2g (t div 86400))"

lemma read_time_printed:
  assumes "2000 \<le> year_of t" "year_of t \<le> 9999"
  shows "read_time (DateTimeString t) = Some t"
proof -
  obtain y m d where j: "j2g (t div 86400) = (y, m, d)" by (cases "j2g (t div 86400)")
  note n = day_number_j2g [OF j]
  have y: "2000 \<le> y" "y \<le> 9999" using assms by (simp_all add: year_of_def j)
  define h where "h = t mod 86400 div 3600"
  define mi where "mi = t mod 3600 div 60"
  define s where "s = t mod 60"
  have b: "0 \<le> h" "h < 24" "0 \<le> mi" "mi < 60" "0 \<le> s" "s < 60"
    by (simp_all add: div_less_iff_less_mult pos_imp_zdiv_nonneg_iff h_def mi_def s_def)
  define Y where "Y = zpad 4 y"
  define M where "M = zpad 2 m"
  define D where "D = zpad 2 d"
  define H where "H = zpad 2 h"
  define N where "N = zpad 2 mi"
  define S where "S = zpad 2 s"
  have Y: "length Y = 4" "list_all is_digit Y" "int (digits_value 10 Y) = y"
    using zpad_4 [of y] y by (simp_all add: Y_def)
  have M: "length M = 2" "list_all is_digit M" "int (digits_value 10 M) = m"
    using zpad_2 [of m] n by (simp_all add: M_def)
  have D: "length D = 2" "list_all is_digit D" "int (digits_value 10 D) = d"
    using zpad_2 [of d] n by (simp_all add: D_def)
  have H: "length H = 2" "list_all is_digit H" "int (digits_value 10 H) = h"
    using zpad_2 [of h] b by (simp_all add: H_def)
  have N: "length N = 2" "list_all is_digit N" "int (digits_value 10 N) = mi"
    using zpad_2 [of mi] b by (simp_all add: N_def)
  have S: "length S = 2" "list_all is_digit S" "int (digits_value 10 S) = s"
    using zpad_2 [of s] b by (simp_all add: S_def)
  have "DateTimeString t = Y @ ''-'' @ M @ ''-'' @ D @ '' '' @ H @ '':'' @ N @ '':'' @ S"
    by (simp add: DateTimeString_def DateString_def TimeString_def HMTimeString_def j Y_def M_def
        D_def H_def N_def S_def h_def mi_def s_def)
  moreover have "\<not> is_digit CHR ''-''" "\<not> is_digit CHR '' ''" "\<not> is_digit CHR '':''"
    by (simp_all add: is_digit_def)
  ultimately have c: "ChkNumStr (DateTimeString t) = Y @ M @ D @ H @ N @ S"
    using Y(2) M(2) D(2) H(2) N(2) S(2) by (simp add: ChkNumStr_def filter_all)
  note f = num_at_fields [OF Y(1) M(1) D(1) H(1) N(1) S(1)]
  have e: "t div 86400 * 86400 + (h * 3600 + mi * 60 + s) = t"
    unfolding h_def mi_def s_def by (rule time_of_day)
  show ?thesis
    unfolding read_time_def Let_def c f Y(3) M(3) D(3) H(3) N(3) S(3)
    using y n b e Y(1) M(1) D(1) H(1) N(1) S(1)
    by (simp add: SetTime_fields_valid at_day_def)
qed



end
