(* ===== verification/Exit_State.thy ===== *)
theory Exit_State
  imports Ce_Time Fee_Tariff Byte_Codec
begin

text \<open>
  The state of an exit station (src/operation.cpp, src/structuredata.h) and the functions its control
  logic is built from.  The singletons of the C++ are one record \<open>exit_st\<close>; what the station does to
  the outside world is appended to \<open>out\<close>: texts for the displays and for the server, commands for the
  payment devices, the barrier, and the rows stored.  A handler reads the clock, the sensors, the
  tariff tables and the answers of the databases from an \<open>xin\<close> record.  Amounts are exact rational
  numbers of dollars where the code has \<open>float\<close>.  Fields of the record of an exit that no function
  here reads or writes other than by clearing it are left out, and so are waits that only delay; a
  wait that ends early when a ticket or a card is seen reads \<open>ticket_seen\<close>.  The cases \<open>None\<close> of an
  operation are the ones that do not return: a number that cannot be parsed, which throws, a fee that
  reads a variable never written, and calls that nest without end.
\<close>

section \<open>Amounts\<close>

text \<open>\<open>GfeeFormat\<close> rounds to cents, halves away from zero.\<close>

definition round_half_up :: "rat \<Rightarrow> int" where
  "round_half_up x = (if 0 \<le> x then \<lfloor>x + 1 / 2\<rfloor> else - \<lfloor>1 / 2 - x\<rfloor>)"

definition GfeeFormat :: "rat \<Rightarrow> rat" where
  "GfeeFormat value = of_int (round_half_up (value * 100)) / 100"

text \<open>Printing with two digits rounds halves to even; the text is minus, dollars, point, cents.\<close>

definition round_half_even :: "rat \<Rightarrow> int" where
  "round_half_even x =
     (let f = \<lfloor>x\<rfloor>; r = x - of_int f in
      if r < 1 / 2 then f else if r > 1 / 2 then f + 1 else if even f then f else f + 1)"

definition SetFeeFormat :: "rat \<Rightarrow> string" where
  "SetFeeFormat fee =
     (let c = \<bar>round_half_even (fee * 100)\<bar> in
      (if fee < 0 then ''-'' else []) @ dec_int (c div 100) @ ''.'' @ zpad 2 (c mod 100))"

text \<open>\<open>stof\<close> of that text.\<close>

definition fee_read :: "rat \<Rightarrow> rat" where
  "fee_read fee = of_int (round_half_even (fee * 100)) / 100"

text \<open>\<open>std::to_string\<close> of a number prints six digits after the point.\<close>

definition to_string_float :: "rat \<Rightarrow> string" where
  "to_string_float x =
     (let c = \<bar>round_half_even (x * 1000000)\<bar> in
      (if x < 0 then ''-'' else []) @ dec_int (c div 1000000) @ ''.'' @ zpad 6 (c mod 1000000))"

text \<open>Conversion to an integer drops the fraction.\<close>

definition to_long :: "rat \<Rightarrow> int" where
  "to_long x = trunc_rat x"

definition whole_cents :: "rat \<Rightarrow> bool" where
  "whole_cents x \<longleftrightarrow> of_int \<lfloor>x * 100\<rfloor> = x * 100"

section \<open>Enumerations\<close>

datatype TransType =
    FreeParking | SeasonParking | GracePeriod | DeductionOK | Complimentary | AXSParking
  | EZPayParking | DeductionFail | Manualopen | BalanceChange | RejectCode7 | UpdateCHUTrans

fun trans_no :: "TransType \<Rightarrow> nat" where
  "trans_no FreeParking = 0" | "trans_no SeasonParking = 1" | "trans_no GracePeriod = 2"
| "trans_no DeductionOK = 3" | "trans_no Complimentary = 4" | "trans_no AXSParking = 5"
| "trans_no EZPayParking = 6" | "trans_no DeductionFail = 7" | "trans_no Manualopen = 8"
| "trans_no BalanceChange = 9" | "trans_no RejectCode7 = 10" | "trans_no UpdateCHUTrans = 11"

datatype DeviceType = PMSEntrytime | Ant | CHU | EEP | LCSC | UPOS

datatype eProcessStatus =
    init | WaitingCard | Doingdeduction | DeductionSuccessed | Deductionfailed | CardExpired
  | CardFault | InsufficientBalance

datatype eUPOSStatus = UposInit | UposLogin | UposEnable | UposDisable | UposReadCardTimeout

datatype eep_cmd =
    EEP_idle | GET_OBU_INFO_REQ_CMD | DEDUCT_REQ_CMD | TRANSACTION_REQ_CMD
  | CARPARK_PROCESS_COMPLETE_NOTIFICATION_REQ_CMD | CPO_INFO_DISPLAY_REQ_CMD
  | DSRC_PROCESS_COMPLETE_NOTIFICATION_REQ_CMD

datatype DBError =
    iCentralFail | iLocalFail | iDBSuccess | iNoData | iCentralSuccess | iLocalSuccess

text \<open>The commands of the CHU by their numbers; no command is 0 (\<open>iInit\<close>).\<close>

definition iInit :: int where "iInit = 0"
definition iEntryInq :: int where "iEntryInq = 100"
definition iRes_EntryInq :: int where "iRes_EntryInq = 101"
definition iDebit :: int where "iDebit = 102"
definition iRes_Debit :: int where "iRes_Debit = 103"

section \<open>The record of an exit\<close>

record exit_trans =
  xsid :: string
  sIUNo :: string
  sCardNo :: string
  iTransType :: int
  iCardType :: int
  iVehicleType :: int
  iEntryID :: int
  sEntryTime :: string
  sExitTime :: string
  lParkedTime :: int
  sFee :: rat
  sPaidAmt :: rat
  sOweAmt :: rat
  sGSTAmt :: rat
  sReceiptNo :: string
  iflag4Receipt :: int
  iStatus :: int
  sRedeemAmt :: rat
  iRedeemTime :: int
  sRedeemNo :: string
  sRebateAmt :: rat
  sCHUDebitCode :: string
  sTopupAmt :: rat
  uposbatchno :: string
  feefrom :: string
  lpn :: string
  bNoEntryRecord :: int
  sLPN0 :: string
  sLPN1 :: string
  iCardStatus :: int
  iBackendAccount :: int
  iBackendSetting :: int
  iBFunctionStatus :: int
  iOBUType :: int
  sDSerialNo :: string
  iEEPTransRoute :: int
  iEEPPaymentResult :: int
  sEEPpaymentTime :: string
  giDeductionStatus :: eProcessStatus
  gbPaid :: bool
  bPayByEZPay :: bool
  bPayByAXS :: bool
  VCC :: string
  iUsedTicketBy :: int

section \<open>Rows and answers of the databases\<close>

text \<open>A field that must be a number is \<open>None\<close> when its text is not one.  Times are numbers of
  seconds.\<close>

record entry_row =
  er_entry_time :: string
  er_trans_type :: "int option"
  er_owe_amt :: "rat option"
  er_station :: "int option"

record ticket_row =
  tr_valid_from :: int
  tr_valid_to :: int
  tr_used :: string
  tr_redeem_amt :: "rat option"
  tr_redeem_time :: "int option"

record valid_ticket =
  vt_redeem_no :: string
  vt_redeem_amt :: "rat option"
  vt_redeem_time :: "int option"

record x_tariff =
  day_index :: string
  xt_autocharge :: "nat \<Rightarrow> int option"
  xt_fee :: "nat \<Rightarrow> rat option"
  xt_time :: "nat \<Rightarrow> string"

record season_data =
  date_from :: string
  date_to :: string
  season_rate :: int

text \<open>The queries: \<open>None\<close> for a statement that failed, otherwise the rows.\<close>

record xdb =
  entry_rows_central :: "string \<Rightarrow> entry_row list option"
  entry_rows_local :: "string \<Rightarrow> entry_row list option"
  master_rows :: "string \<Rightarrow> (int \<times> int) list option"
  complimentary_rows :: "string \<Rightarrow> string list option"
  ticket_rows :: "bool \<Rightarrow> string \<Rightarrow> ticket_row list option"
  valid_complimentary :: "string \<Rightarrow> string \<Rightarrow> string list option"
  valid_redemption :: "string \<Rightarrow> string \<Rightarrow> valid_ticket list option"
  holder_rows :: "string \<Rightarrow> int option list option"
  central_state :: int
  central_connects :: bool
  exit_insert_ok :: bool
  local_state :: int
  local_connects :: bool
  local_insert_ok :: bool
  movement_update :: "nat option"
  movement_insert_ok :: bool
  ticket_update_ok :: bool
  eep_update_tmp :: "nat option"
  eep_update_exit :: "nat option"

text \<open>What a handler reads.  \<open>blacklist\<close>, \<open>vehicle_type\<close>, \<open>season\<close>, \<open>partial_msg\<close>, \<open>ezpay\<close>, \<open>axs\<close> and
  \<open>iu_of_plate\<close> are the answers of functions of src/db.cpp that the entry station uses too
  (\<open>Lane_State\<close>); \<open>unset\<close> is what two local variables hold that are not initialised.\<close>

record xin =
  wall :: int
  steady :: int
  xdb :: xdb
  fee_env :: fee_env
  type0 :: tariff_type_info
  type1 :: tariff_type_info
  x_tariffs :: "x_tariff list"
  holidays :: "int list"
  blacklist :: "string \<Rightarrow> int"
  vehicle_type :: "string \<Rightarrow> int"
  season :: "string \<Rightarrow> season_data \<Rightarrow> int \<times> season_data"
  partial_msg :: "int \<Rightarrow> string"
  ezpay :: "string \<Rightarrow> int"
  axs :: "string \<Rightarrow> int"
  iu_of_plate :: "string \<Rightarrow> string"
  loopA_on :: bool
  loopB_on :: bool
  lorry_on :: bool
  ticket_seen :: bool
  unset :: "int \<times> rat"

datatype exit_msg =
    MsgExit_BlackList | MsgExit_RedemptionTicket | MsgExit_InvalidTicket | MsgExit_SystemError
  | MsgExit_Complimentary | MsgExit_XLoopA | Msg_authorizedvehicle | Msg_CardReadingError
  | SeasonMsg int

record xcfg =
  iSID :: int
  iAntID :: int
  giEPS :: int
  giSeasonCharge :: int
  giNeedCard4Complimentary :: int
  giExitTicketRedemption :: int
  giMaxTransInterval :: int
  giProcessReversedCMD :: int
  giHasHolidayEve :: int
  gfGSTRate :: rat
  gsDefaultIU :: string
  BlockIUPrefix :: string
  gscarparkcode :: string
  LPRIP4Front :: string
  giCommPortAntenna :: int
  giCommPortLCSC :: int
  giCommPortKDEReader :: int
  giCommPortUPOS :: int
  xMsg :: "exit_msg \<Rightarrow> string \<times> string"

section \<open>The state of the station\<close>

datatype exit_table = Central_exit_trans_tmp | Local_Exit_Trans

datatype exit_effect =
    Led "string \<times> string" | LcdBacklight int | ToServer string string
  | ToOBU string int "string list"
  | SetOpenBarrier int
  | InsertExit exit_table exit_trans string | UpdateMovement exit_trans | InsertMovement exit_trans
  | UpdateTicket bool string exit_trans | LocalEntryLeft string
  | UpdateEEPTrans string string string rat rat int int | UpdateExitPlate string string
  | RemoteControl string
  | PrintTR
  | EepGetOBUInfo | EepGetOBUInfoStop | EepStopDistribution string | EepDeduct string string string string | EepTransaction string int
  | EepCarparkComplete string string string | EepDSRCComplete string
  | ChuMsg int string
  | UptPay int | UptCancel | UptCardDetect
  | LcscDeduct int | LcscGetCardID | LcscStopRead
  | KsmEnable bool | KsmEjectToFront
  | BarcodeStartRead | BarcodeStopRead
  | AntennaStopRead | AntennaSendReadIU | SendTransIDToLPR string bool
  | LoopATimer bool

record exit_st =
  tExit :: exit_trans
  tExit1 :: exit_trans
  tSeason :: season_data
  gbLoopApresent :: bool
  gbsavedtrans :: bool
  gbBarrierOpened :: bool
  giBarrierContinueOpened :: int
  giShowType :: int
  giCardIsIn :: int
  sEnableReader :: bool
  gbUPOSStatus :: eUPOSStatus
  fiLastEEPCmd :: eep_cmd
  fiLastCHUCmd :: int
  gsTransID :: string
  gsTailgateOBU :: string
  gsLastIUNo :: string
  gsLastPaidTrans :: string
  gbLastPaidStatus :: bool
  gsLastCardNo :: string
  gfLastCardBal :: rat
  lastTransTime :: int
  loopATimerArmed :: bool
  giSystemOnline :: int
  glNoofOfflineData :: int
  iDB_error :: int
  iPrinter_error :: int
  iLCSC_error :: int
  iReader_error :: int
  iAntenna_error :: int
  entry_sIUTKNo :: string
  out :: "exit_effect list"

definition emit :: "exit_effect \<Rightarrow> exit_st \<Rightarrow> exit_st" where
  "emit e s = s\<lparr>out := out s @ [e]\<rparr>"

definition on_exit :: "(exit_trans \<Rightarrow> exit_trans) \<Rightarrow> exit_st \<Rightarrow> exit_st" where
  "on_exit f s = s\<lparr>tExit := f (tExit s)\<rparr>"

definition ShowLEDMsg :: "string \<times> string \<Rightarrow> exit_st \<Rightarrow> exit_st" where
  "ShowLEDMsg m = emit (Led m)"

definition Show :: "string \<Rightarrow> exit_st \<Rightarrow> exit_st" where
  "Show t = ShowLEDMsg (t, t)"

definition SendMsg2Server :: "string \<Rightarrow> string \<Rightarrow> exit_st \<Rightarrow> exit_st" where
  "SendMsg2Server cmdcode dstr = emit (ToServer cmdcode dstr)"

definition set_deduction :: "eProcessStatus \<Rightarrow> exit_st \<Rightarrow> exit_st" where
  "set_deduction d = on_exit (\<lambda>x. x\<lparr>giDeductionStatus := d\<rparr>)"

definition time_text :: "xin \<Rightarrow> string" where
  "time_text i = DateTimeString (wall i)"

section \<open>The fee\<close>

text \<open>The parking fee of \<open>Fee_Tariff\<close>, between two times that are read from strings; an unreadable
  string leaves the clock in the object.  The result may be the number of an error.\<close>

definition fee_fuel :: "int \<Rightarrow> int \<Rightarrow> nat" where
  "fee_fuel e p = nat (diffmin e p) + 3"

definition CalFeeRAM2G_text :: "xin \<Rightarrow> string \<Rightarrow> string \<Rightarrow> int \<Rightarrow> rat option" where
  "CalFeeRAM2G_text i eTime payTime transType =
     (let e = SetTime eTime (wall i); p = SetTime payTime (wall i) in
      case CalFeeRAM2G (fee_fuel e p) (fee_env i) (type0 i) (type1 i) e p transType False of
        Some (Return f) \<Rightarrow> Some f
      | _ \<Rightarrow> None)"

end
