(* ===== verification/Exit_Db.thy ===== *)
theory Exit_Db
  imports Exit_State Season_Type
begin

text \<open>
  The questions an exit station asks of its databases and the rows it stores (src/db.cpp).  The SQL
  servers are outside the model: their answers are fields of \<open>xdb\<close>, and a statement that changes a
  table is an effect that carries the record it was built from.
\<close>

section \<open>The entry of a vehicle\<close>

definition first_entry :: "entry_row \<Rightarrow> exit_trans \<Rightarrow> exit_trans option" where
  "first_entry r x =
     (case (er_trans_type r, er_owe_amt r, er_station r) of
        (Some t, Some owe, Some k) \<Rightarrow>
          Some (x\<lparr>sEntryTime := er_entry_time r, iTransType := t, sOweAmt := owe, iEntryID := k\<rparr>)
      | _ \<Rightarrow> None)"

text \<open>The central server first; the local table when it fails or knows no entry.  A row with a field
  that is no number ends the search with an error.\<close>

definition FetchEntryinfo :: "xin \<Rightarrow> string \<Rightarrow> exit_trans \<Rightarrow> int \<times> exit_trans" where
  "FetchEntryinfo i iuNo x =
     (let use_row = (\<lambda>r. case first_entry r x of None \<Rightarrow> (- 1, x) | Some x' \<Rightarrow> (0, x'));
          use_local = (case entry_rows_local (xdb i) iuNo of
                         None \<Rightarrow> (- 1, x) | Some [] \<Rightarrow> (3, x) | Some (r # rs) \<Rightarrow> use_row r)
      in case entry_rows_central (xdb i) iuNo of
           Some (r # rs) \<Rightarrow> use_row r
         | _ \<Rightarrow> use_local)"

section \<open>Cards and tickets\<close>

text \<open>5 for a master card within its dates, 2 for a complimentary card that was not used.\<close>

definition CheckCardOK :: "xin \<Rightarrow> string \<Rightarrow> int" where
  "CheckCardOK i cardNo =
     (case master_rows (xdb i) cardNo of
        None \<Rightarrow> 0
      | Some rows \<Rightarrow>
          if (case rows of (from, to) # rs \<Rightarrow> wall i - from > 0 \<and> wall i - to < 0 | [] \<Rightarrow> False)
          then 5
          else (case complimentary_rows (xdb i) cardNo of
                  Some (c # cs) \<Rightarrow> 2 | _ \<Rightarrow> 0))"

text \<open>0 expired, 1 valid, 2 used, 4 not found, 6 not started, -1 error.  A valid redemption ticket
  has an amount and a number of minutes.\<close>

definition isValidBarCodeTicket :: "xin \<Rightarrow> bool \<Rightarrow> string \<Rightarrow> int \<times> rat \<times> int" where
  "isValidBarCodeTicket i isRedemptionTicket barcodeTicket =
     (case ticket_rows (xdb i) isRedemptionTicket barcodeTicket of
        None \<Rightarrow> (- 1, 0, 0)
      | Some [] \<Rightarrow> (4, 0, 0)
      | Some (r # rs) \<Rightarrow>
          (let code = (if tr_used r = [] \<or> tr_used r = ''NULL''
                       then (if wall i - tr_valid_from r < 0 then 6
                             else if wall i - tr_valid_to r > 0 then 0 else 1)
                       else 2)
           in if code = 1 \<and> isRedemptionTicket
              then (case (tr_redeem_amt r, tr_redeem_time r) of
                      (Some a, Some t) \<Rightarrow> (1, a, t) | (Some a, None) \<Rightarrow> (- 1, a, 0)
                    | (None, _) \<Rightarrow> (- 1, 0, 0))
              else (code, 0, 0)))"

text \<open>A ticket issued to a number or a plate: 0 when there is one, which goes into the record of the
  exit, -1 otherwise.\<close>

definition HasValidTicket :: "xin \<Rightarrow> string \<Rightarrow> string \<Rightarrow> exit_trans \<Rightarrow> int \<times> exit_trans" where
  "HasValidTicket i iuNo plate x =
     (case valid_complimentary (xdb i) iuNo plate of
        None \<Rightarrow> (- 1, x)
      | Some (c # cs) \<Rightarrow> (0, x\<lparr>iTransType := 10, sPaidAmt := 0, sCardNo := c\<rparr>)
      | Some [] \<Rightarrow>
          (case valid_redemption (xdb i) iuNo plate of
             Some (r # rs) \<Rightarrow>
               (case (vt_redeem_amt r, vt_redeem_time r) of
                  (Some a, Some t) \<Rightarrow>
                    (0, x\<lparr>sRedeemNo := vt_redeem_no r, sRedeemAmt := a, iRedeemTime := t\<rparr>)
                | _ \<Rightarrow> (- 1, x))
           | _ \<Rightarrow> (- 1, x)))"

text \<open>The type of the holder of a season.\<close>

definition GetSeasonHolder :: "xin \<Rightarrow> string \<Rightarrow> int" where
  "GetSeasonHolder i iuNo =
     (case holder_rows (xdb i) iuNo of
        None \<Rightarrow> - 1 | Some [] \<Rightarrow> 0 | Some (t # ts) \<Rightarrow> (case t of None \<Rightarrow> - 1 | Some v \<Rightarrow> v))"

section \<open>The charge without an entry record\<close>

text \<open>The first row for the type of the day whose time slots reach the present time; a number that
  cannot be read ends the search.\<close>

definition x_slot :: "x_tariff \<Rightarrow> string \<Rightarrow> nat option" where
  "x_slot t time = find (\<lambda>slot. time \<le> xt_time t (slot + 1)) [0, 1, 2, 3]"

fun search_x_tariffs :: "string \<Rightarrow> string \<Rightarrow> x_tariff list \<Rightarrow> (int \<times> rat) option" where
  "search_x_tariffs target time [] = None"
| "search_x_tariffs target time (t # ts) =
     (if \<not> contains_str ('','' @ day_index t @ '','') target then search_x_tariffs target time ts
      else
        (case x_slot t time of
           None \<Rightarrow> search_x_tariffs target time ts
         | Some k \<Rightarrow>
             (case (xt_autocharge t k, xt_fee t k) of
                (Some a, Some f) \<Rightarrow> Some (a, f) | _ \<Rightarrow> None)))"

text \<open>\<open>None\<close>: the function returns 0 and leaves the variables of its caller alone.\<close>

definition GetXTariff :: "xcfg \<Rightarrow> xin \<Rightarrow> int \<Rightarrow> (int \<times> rat) option" where
  "GetXTariff c i vehicleType =
     (let dayType = GetDayType (giHasHolidayEve c) (holidays i) (wall i div 86400) in
      if dayType < 0 then None
      else search_x_tariffs ('','' @ dec_int (dayType + vehicleType * 3) @ '','')
             (HMTimeString (wall i)) (x_tariffs i))"

section \<open>Storing the exit\<close>

definition rounded_exit :: "exit_trans \<Rightarrow> exit_trans" where
  "rounded_exit x =
     x\<lparr>sFee := GfeeFormat (sFee x), sPaidAmt := GfeeFormat (sPaidAmt x),
       sRedeemAmt := GfeeFormat (sRedeemAmt x), sGSTAmt := GfeeFormat (sGSTAmt x)\<rparr>"

definition insertexittrans :: "xin \<Rightarrow> string \<Rightarrow> exit_trans \<Rightarrow> exit_st \<Rightarrow> DBError \<times> exit_trans \<times> exit_st" where
  "insertexittrans i transId x s =
     (let x1 = rounded_exit x; db = xdb i in
      if central_state db \<noteq> - 1 \<and> \<not> central_connects db then
        (let s1 = s\<lparr>giSystemOnline := 1\<rparr> in
         if local_state db \<noteq> 1 \<and> \<not> local_connects db then (iLocalFail, x1, s1)
         else if \<not> local_insert_ok db then (iLocalFail, x1, s1)
         else (iLocalSuccess, x1,
               (emit (InsertExit Local_Exit_Trans x1 transId) s1)
                 \<lparr>glNoofOfflineData := glNoofOfflineData s1 + 1\<rparr>))
      else
        (let s1 = s\<lparr>giSystemOnline := 0\<rparr>;
             x2 = (if lParkedTime x1 \<ge> 32000 then x1\<lparr>lParkedTime := 32000\<rparr> else x1)
         in if exit_insert_ok db
            then (iCentralSuccess, x2, emit (InsertExit Central_exit_trans_tmp x2 transId) s1)
            else (iCentralFail, x2, s1)))"

text \<open>The plate of the exit: the rear camera for motor cycles and their seasons.\<close>

definition exit_plate :: "exit_trans \<Rightarrow> string" where
  "exit_plate x =
     (if sLPN0 x \<noteq> [] \<or> sLPN1 x \<noteq> []
      then if iTransType x = 7 \<or> iTransType x = 8 \<or> iTransType x = 22 then sLPN1 x else sLPN0 x
      else [])"

definition insert2movementtrans :: "xin \<Rightarrow> exit_trans \<Rightarrow> exit_st \<Rightarrow> DBError \<times> exit_trans \<times> exit_st" where
  "insert2movementtrans i x s =
     (let x1 = rounded_exit x in
      if movement_insert_ok (xdb i) then (iCentralSuccess, x1, emit (InsertMovement x1) s)
      else (iCentralFail, x1, s))"

text \<open>The number of rows an update touches decides whether the movement is inserted instead.\<close>

definition updatemovementtrans :: "xin \<Rightarrow> exit_trans \<Rightarrow> exit_st \<Rightarrow> DBError \<times> exit_trans \<times> exit_st" where
  "updatemovementtrans i x s =
     (let x1 = rounded_exit x in
      case movement_update (xdb i) of
        None \<Rightarrow> (iCentralFail, x1, s)
      | Some n \<Rightarrow>
          if n > 0 then (iCentralSuccess, x1, emit (UpdateMovement x1) s)
          else (case insert2movementtrans i x1 s of (r, x2, s1) \<Rightarrow> (iCentralSuccess, x2, s1)))"

definition updateUsedTicket :: "xin \<Rightarrow> exit_trans \<Rightarrow> exit_st \<Rightarrow> DBError \<times> exit_trans \<times> exit_st" where
  "updateUsedTicket i x s =
     (let x1 = (if iUsedTicketBy x = 0 then x\<lparr>iUsedTicketBy := 1\<rparr> else x);
          compl = (iTransType x1 = 10);
          ticketNo = (if compl then sCardNo x1 else sRedeemNo x1)
      in if ticket_update_ok (xdb i) then (iCentralSuccess, x1, emit (UpdateTicket compl ticketNo x1) s)
         else (iCentralFail, x1, s))"

definition UpdateLocalEntry :: "string \<Rightarrow> exit_st \<Rightarrow> exit_st" where
  "UpdateLocalEntry iuTkNo = emit (LocalEntryLeft iuTkNo)"

text \<open>A payment that is reported after the exit was stored; the table of the day first.\<close>

definition UpdateEEPExitTrans ::
  "xin \<Rightarrow> string \<Rightarrow> string \<Rightarrow> string \<Rightarrow> rat \<Rightarrow> rat \<Rightarrow> int \<Rightarrow> int \<Rightarrow> exit_st \<Rightarrow> exit_st" where
  "UpdateEEPExitTrans i obu dSerialNo cardNo fee topupAmt transRoute result s =
     (let s1 = emit (UpdateEEPTrans obu dSerialNo cardNo fee topupAmt transRoute result) s in
      case eep_update_tmp (xdb i) of
        None \<Rightarrow> s
      | Some n \<Rightarrow>
          if n > 0 then s1
          else (case eep_update_exit (xdb i) of None \<Rightarrow> s | Some k \<Rightarrow> if k > 0 then s1 else s))"

end
