(* ===== verification/Exit_Close.thy ===== *)
theory Exit_Close
  imports Exit_Db
begin

text \<open>
  Closing an exit (src/operation.cpp): the messages to the on-board unit, the barrier, the record
  that is stored, and what a payment that was confirmed does.  Nothing here waits for an answer of a
  payment device.
\<close>

section \<open>Clearing the station\<close>

definition exit_cleared :: "xcfg \<Rightarrow> exit_trans \<Rightarrow> exit_trans" where
  "exit_cleared c x =
     x\<lparr>xsid := dec_int (iSID c), sIUNo := [], sCardNo := [], iTransType := 0, iCardType := 0,
       iVehicleType := 0, iEntryID := 0, sEntryTime := [], sExitTime := [], lParkedTime := 0,
       sFee := 0, sPaidAmt := 0, sOweAmt := 0, sGSTAmt := 0, sReceiptNo := [], iflag4Receipt := 0,
       iStatus := 0, sRedeemAmt := 0, iRedeemTime := 0, sRedeemNo := [], sRebateAmt := 0,
       sCHUDebitCode := [], sTopupAmt := 0, uposbatchno := [], feefrom := ''EPS'', lpn := [],
       bNoEntryRecord := - 1, sLPN0 := [], sLPN1 := [], iCardStatus := 1, iBackendAccount := 0,
       iBackendSetting := 0, iBFunctionStatus := 0, iOBUType := 0, sDSerialNo := [],
       iEEPTransRoute := 0, iEEPPaymentResult := 0, sEEPpaymentTime := [],
       giDeductionStatus := init, gbPaid := False, bPayByEZPay := False, bPayByAXS := False,
       VCC := [], iUsedTicketBy := 0\<rparr>"

definition Clearme :: "xcfg \<Rightarrow> exit_st \<Rightarrow> exit_st" where
  "Clearme c s =
     s\<lparr>giShowType := 1, giCardIsIn := 0, gbsavedtrans := False, sEnableReader := False,
       gbBarrierOpened := False, fiLastEEPCmd := EEP_idle, fiLastCHUCmd := iInit, gsTransID := [],
       tExit := exit_cleared c (tExit s), tExit1 := exit_cleared c (tExit s)\<rparr>"

section \<open>The on-board unit\<close>

definition SendMsg2OBU :: "string \<Rightarrow> int \<Rightarrow> string list \<Rightarrow> exit_st \<Rightarrow> exit_st" where
  "SendMsg2OBU obu DType lines s =
     (emit (ToOBU obu DType lines) s)\<lparr>fiLastEEPCmd := CPO_INFO_DISPLAY_REQ_CMD\<rparr>"

text \<open>With a delay the inquiry is given up when a ticket or a card is seen first.\<close>

definition EEPInq :: "xin \<Rightarrow> int \<Rightarrow> exit_st \<Rightarrow> exit_st" where
  "EEPInq i delay s =
     (if \<not> gbLoopApresent s then s
      else if giDeductionStatus (tExit s) = Doingdeduction then s
      else if fiLastEEPCmd s = GET_OBU_INFO_REQ_CMD then s
      else if delay > 0 \<and> ticket_seen i then s
      else (emit EepGetOBUInfo s)\<lparr>fiLastEEPCmd := GET_OBU_INFO_REQ_CMD\<rparr>)"

text \<open>What the unit displays at the end of the exit.\<close>

definition end_text :: "xin \<Rightarrow> string \<Rightarrow> exit_trans \<Rightarrow> string list" where
  "end_text i sFeeText x =
     (if iTransType x \<noteq> 1 \<and> iTransType x \<noteq> 4 \<and> iTransType x \<noteq> 7 \<and> sPaidAmt x = 0 \<and>
         iTransType x \<noteq> 10
      then (if GetSeasonHolder i (sIUNo x) \<in> {11, 9, 1} then [''Authorised'', ''Parking'']
            else [''Season Parking''])
      else if sPaidAmt x = 0 then
        (if sFee x = 0 then [''Grace Period'']
         else if iEEPPaymentResult x = 7 then [''Have a Nice Day!'']
         else if iTransType x = 10 then [''Complimentary'']
         else if iOBUType x = 0 then [''Ticket Accepted.'', ''Fee Paid $'' @ sFeeText]
         else [''Fee Paid'', ''$'' @ sFeeText])
      else if iOBUType x = 1 then [''Have A'', ''Nice Day'']
      else [''Have A Nice Day''])"

definition EndEEPprocess :: "xcfg \<Rightarrow> xin \<Rightarrow> int \<Rightarrow> exit_st \<Rightarrow> exit_st" where
  "EndEEPprocess c i ProcessingResult s =
     (let x = tExit s; iu = sIUNo x; fee = to_string_float (sPaidAmt x * 100);
          s1 = (emit (EepCarparkComplete iu (dec_int ProcessingResult) fee) s)
                 \<lparr>fiLastEEPCmd := CARPARK_PROCESS_COMPLETE_NOTIFICATION_REQ_CMD\<rparr>;
          s2 = (if ProcessingResult = 0 then SendMsg2OBU iu 0 (end_text i fee x) s1
                else if ProcessingResult < 2
                then SendMsg2OBU iu 0 [''No Deduction, Pls pay by OBU''] s1 else s1);
          s3 = (emit (EepDSRCComplete iu) s2)
                 \<lparr>fiLastEEPCmd := DSRC_PROCESS_COMPLETE_NOTIFICATION_REQ_CMD\<rparr>
      in if gsTailgateOBU s3 \<noteq> [] then EEPInq i 0 (Clearme c s3) else s3)"

section \<open>The barrier\<close>

definition stopLoopAPeriodicTimer :: "exit_st \<Rightarrow> exit_st" where
  "stopLoopAPeriodicTimer s = (emit (LoopATimer False) s)\<lparr>loopATimerArmed := False\<rparr>"

definition Openbarrier :: "xcfg \<Rightarrow> xin \<Rightarrow> int \<Rightarrow> exit_st \<Rightarrow> exit_st" where
  "Openbarrier c i iReason s =
     (let s1 = stopLoopAPeriodicTimer s in
      if giCardIsIn s1 = 1 then ShowLEDMsg (''Please Take^CashCard.'', ''Please Take^Cashcard.'') s1
      else if giBarrierContinueOpened s1 = 1 then s1
      else
        (let s2 = emit (SetOpenBarrier 0) (emit (SetOpenBarrier 1) (s1\<lparr>gbBarrierOpened := True\<rparr>))
         in if giEPS c = 3 then EndEEPprocess c i iReason s2 else s2))"

section \<open>Storing the exit\<close>

text \<open>The whole fee less the reductions; a redemption is cut to what is owed.\<close>

definition settle_amounts :: "xcfg \<Rightarrow> exit_trans \<Rightarrow> exit_trans" where
  "settle_amounts c x =
     (let due = GfeeFormat (sFee x - sRebateAmt x + sOweAmt x);
          x1 = (if GfeeFormat (sRedeemAmt x) > due then x\<lparr>sRedeemAmt := due\<rparr> else x);
          x2 = x1\<lparr>sPaidAmt := GfeeFormat (sFee x1 - sRebateAmt x1 - sRedeemAmt x1 + sOweAmt x1)\<rparr>
      in x2)"

definition parked_time :: "xin \<Rightarrow> string \<Rightarrow> string \<Rightarrow> int" where
  "parked_time i eTime xTime = diffmin (SetTime eTime (wall i)) (SetTime xTime (wall i))"

definition gst_of :: "xcfg \<Rightarrow> exit_trans \<Rightarrow> exit_trans" where
  "gst_of c x = x\<lparr>sGSTAmt := GfeeFormat (sPaidAmt x * gfGSTRate c / (1 + gfGSTRate c))\<rparr>"

definition PrintReceipt :: "exit_st \<Rightarrow> exit_st" where
  "PrintReceipt s =
     (if iflag4Receipt (tExit s) = 0 then s
      else if iPrinter_error s \<noteq> 0
      then ShowLEDMsg (''Printer Error^Press Intercom '', ''Printer Error^Press Intercom'') s
      else if iflag4Receipt (tExit s) = 1 \<and> gbPaid (tExit s) \<and> sPaidAmt (tExit s) > 0
      then on_exit (\<lambda>x. x\<lparr>iflag4Receipt := 2\<rparr>) (emit PrintTR s)
      else s)"

text \<open>The row of the exit, the movement and the ticket; the result of the last statement that ran.\<close>

definition store_rows :: "xin \<Rightarrow> exit_st \<Rightarrow> DBError \<times> exit_st" where
  "store_rows i s =
     (case insertexittrans i (gsTransID s) (tExit s) s of
        (r0, x0, s0) \<Rightarrow>
          (if r0 = iCentralSuccess then
             (case (if bNoEntryRecord x0 = 0 then updatemovementtrans i x0 s0
                    else insert2movementtrans i x0 s0) of
                (r1, x1, s1) \<Rightarrow>
                  (if sRedeemAmt x1 > 0 \<or> iTransType x1 = 10
                   then (case updateUsedTicket i x1 s1 of (r2, x2, s2) \<Rightarrow> (r2, s2\<lparr>tExit := x2\<rparr>))
                   else (r1, s1\<lparr>tExit := x1\<rparr>)))
           else (r0, s0\<lparr>tExit := x0\<rparr>)))"

definition saved :: "DBError \<Rightarrow> bool" where
  "saved r \<longleftrightarrow> r = iCentralSuccess \<or> r = iLocalSuccess"

definition save_result :: "DBError \<Rightarrow> string" where
  "save_result r =
     (if saved r then ''Exit OK'' else if r = iCentralFail then ''Exit Central Failed''
      else ''Exit Local Failed'')"

definition SaveExit :: "xcfg \<Rightarrow> xin \<Rightarrow> exit_st \<Rightarrow> exit_st" where
  "SaveExit c i s0 =
     (if sIUNo (tExit s0) = [] then s0
      else
        (let x1 = settle_amounts c (tExit s0);
             x2 = (if lParkedTime x1 \<le> 0 \<and> sEntryTime x1 \<noteq> []
                   then x1\<lparr>lParkedTime := parked_time i (sEntryTime x1) (sExitTime x1)\<rparr> else x1)
         in case store_rows i (s0\<lparr>tExit := gst_of c x2\<rparr>) of
           (r, s1) \<Rightarrow>
             (let s2 = UpdateLocalEntry (sIUNo (tExit s1)) s1;
                  x = tExit s2;
                  s3 = (if saved r
                        then s2\<lparr>gsLastIUNo := sIUNo x, gsLastPaidTrans := sIUNo x,
                                lastTransTime := steady i\<rparr>
                        else s2);
                  s4 = s3\<lparr>iDB_error := (if saved r then 0 else if r = iCentralFail then - 1 else - 2)\<rparr>;
                  msg = sIUNo x @ '','' @ sCardNo x @ '','' @ SetFeeFormat (sPaidAmt x) @ '','' @
                    exit_plate x @ '','' @ dec_int (giShowType s4) @ '','' @ save_result r;
                  s5 = (if iStatus x = 0 then SendMsg2Server ''90'' msg s4 else s4);
                  s6 = on_exit (\<lambda>x. x\<lparr>gbPaid := True\<rparr>) (s5\<lparr>gbsavedtrans := True\<rparr>);
                  s7 = (if sPaidAmt x = 0
                        then s6\<lparr>gsLastCardNo := sCardNo x, gbLastPaidStatus := True\<rparr> else s6)
              in PrintReceipt s7)))"

section \<open>Closing\<close>

definition paid_text :: "exit_trans \<Rightarrow> string" where
  "paid_text x = ''Paid Amt: $'' @ SetFeeFormat (sPaidAmt x) @ ''^ Have A Nice Day!''"

definition close_msg :: "TransType \<Rightarrow> exit_trans \<Rightarrow> string \<times> string" where
  "close_msg t x =
     (case t of
        FreeParking \<Rightarrow> (''Fee = $0.00 ^ Have A Nice Day!'', ''Fee = $0.00 ^ Have A Nice Day!'')
      | SeasonParking \<Rightarrow>
          (''Season Parking ^ Have A Nice Day!'', ''Season parking ^ Have A Nice Day!'')
      | GracePeriod \<Rightarrow> (''Grace Period ^ Have A Nice Day!'', ''Grace period ^ Have A Nice Day!'')
      | DeductionOK \<Rightarrow> (paid_text x, paid_text x)
      | BalanceChange \<Rightarrow> (paid_text x, paid_text x)
      | RejectCode7 \<Rightarrow> (''Have A Nice Day!'', ''Have A Nice Day!'')
      | Manualopen \<Rightarrow> (''Please process^ Have A Nice Day!'', ''Please Process^ Have A Nice Day!'')
      | Complimentary \<Rightarrow>
          (''Complimentary Ticket^ Have A Nice Day!'', ''Complimentary Ticket ^ Have A Nice Day!'')
      | _ \<Rightarrow> ([], []))"

text \<open>The case of EZPay falls through to the case of AXS, so both set the card type 4.\<close>

definition close_marks :: "TransType \<Rightarrow> exit_trans \<Rightarrow> exit_trans" where
  "close_marks t x =
     (let x1 = (if trans_no t < 7 then x\<lparr>iStatus := 0\<rparr> else x) in
      case t of
        BalanceChange \<Rightarrow> x1\<lparr>iStatus := 3\<rparr>
      | RejectCode7 \<Rightarrow> x1\<lparr>iStatus := 3\<rparr>
      | Manualopen \<Rightarrow> x1\<lparr>iStatus := 4\<rparr>
      | Complimentary \<Rightarrow> x1\<lparr>iStatus := 0\<rparr>
      | EZPayParking \<Rightarrow> x1\<lparr>iCardType := 5, iCardType := 4\<rparr>
      | AXSParking \<Rightarrow> x1\<lparr>iCardType := 4\<rparr>
      | _ \<Rightarrow> x1)"

definition CloseExitOperation :: "xcfg \<Rightarrow> xin \<Rightarrow> TransType \<Rightarrow> exit_st \<Rightarrow> exit_st" where
  "CloseExitOperation c i t s =
     (let s1 = on_exit (close_marks t) s;
          m = close_msg t (tExit s1);
          s2 = SaveExit c i (if fst m \<noteq> [] then ShowLEDMsg m s1 else s1)
      in if t \<noteq> UpdateCHUTrans \<and> t \<noteq> EZPayParking \<and> t \<noteq> AXSParking then Openbarrier c i 0 s2 else s2)"

text \<open>A payment that was confirmed.  An amount is \<open>None\<close> where the text is empty.\<close>

definition DebitOK ::
  "xcfg \<Rightarrow> xin \<Rightarrow> string \<Rightarrow> string \<Rightarrow> rat option \<Rightarrow> rat option \<Rightarrow> int \<Rightarrow> rat option \<Rightarrow> DeviceType \<Rightarrow>
   exit_st \<Rightarrow> exit_st" where
  "DebitOK c i iu cardNo paid bal cardType topup dev s =
     (let x = tExit s;
          x1 = x\<lparr>gbPaid := True, sCardNo := cardNo,
                 sPaidAmt := (case paid of None \<Rightarrow> sPaidAmt x | Some a \<Rightarrow> GfeeFormat (fee_read a)),
                 iCardType := cardType,
                 sTopupAmt := (case topup of None \<Rightarrow> sTopupAmt x | Some a \<Rightarrow> GfeeFormat (fee_read a)),
                 giDeductionStatus := DeductionSuccessed\<rparr>;
          s1 = s\<lparr>tExit := x1, gsLastPaidTrans := sIUNo x, gbLastPaidStatus := True,
                 gsLastCardNo := cardNo,
                 gfLastCardBal := (case bal of None \<Rightarrow> 0 | Some b \<Rightarrow> GfeeFormat (fee_read b))\<rparr>
      in if iu \<noteq> [] \<and> sIUNo x \<noteq> iu \<and> dev = CHU
         then CloseExitOperation c i UpdateCHUTrans (on_exit (\<lambda>x. x\<lparr>sIUNo := iu\<rparr>) s1)
         else CloseExitOperation c i DeductionOK s1)"

end
