(* ===== verification/Exit_Fee.thy ===== *)
theory Exit_Fee
  imports Exit_Close "HOL-Library.Monad_Syntax" "HOL-Library.Signed_Division"
begin

text \<open>
  What is owed at the exit (src/operation.cpp): the season of the vehicle, the fee with the tickets
  issued to its number or plate, a redemption given in minutes, and what the driver is shown.
\<close>

section \<open>The season at the exit\<close>

definition season_texts :: "xcfg \<Rightarrow> int \<Rightarrow> string \<times> string" where
  "season_texts c r =
     (if r = 8 then (''Wrong Season Type'', ''Wrong Season Type'')
      else if r = 9 then (''Complimentary'', ''Complimentary'')
      else if r \<in> {0, 1, 2, 3, 4, 5, 6, 7, 10, 11, 12, 13} then xMsg c (SeasonMsg r)
      else ([], []))"

definition FormatSeasonMsg :: "xcfg \<Rightarrow> xin \<Rightarrow> int \<Rightarrow> exit_st \<Rightarrow> exit_st" where
  "FormatSeasonMsg c i iReturn s =
     (let rate = season_rate (tSeason s);
          t = GetSeasonTransType (iVehicleType (tExit s)) rate (iTransType (tExit s));
          s1 = (on_exit (\<lambda>x. x\<lparr>iTransType := t\<rparr>) s)\<lparr>giShowType := 0\<rparr>;
          p = (if t > 49 then partial_msg i t else []);
          name = (if p = [] then ''Season'' else p);
          m = season_texts c iReturn
      in ShowLEDMsg
           (if iReturn = 1 \<and> rate \<noteq> 0 then (name, name)
            else (replace_first ''Season'' name (fst m), replace_first ''Season'' name (snd m))) s1)"

definition CheckSeason :: "xcfg \<Rightarrow> xin \<Rightarrow> string \<Rightarrow> exit_st \<Rightarrow> int \<times> exit_st" where
  "CheckSeason c i sIU s =
     (case season i sIU (tSeason s) of
        (iRet, d) \<Rightarrow>
          (let s1 = s\<lparr>tSeason := d\<rparr> in
           (iRet, if iRet \<noteq> 8 then FormatSeasonMsg c i iRet s1 else s1)))"

definition GetVTypeFromLoop :: "xin \<Rightarrow> int" where
  "GetVTypeFromLoop i = (if lorry_on i then 4 else if loopB_on i \<and> loopA_on i then 1 else 7)"

section \<open>The fee and its tickets\<close>

text \<open>A ticket is looked for when there is a fee and no redemption yet; first by the number, then by
  the plate.\<close>

definition look_for_ticket :: "xin \<Rightarrow> exit_trans \<Rightarrow> exit_trans" where
  "look_for_ticket i x =
     (if length (sIUNo x) = 10 then
        (case HasValidTicket i (sIUNo x) [] x of
           (r, x1) \<Rightarrow>
             (if r = 0 then x1\<lparr>iUsedTicketBy := 2\<rparr>
              else if sLPN0 x1 \<noteq> [] \<and> sLPN0 x1 \<noteq> ''0000000000'' then
                (case HasValidTicket i [] (sLPN0 x1) x1 of
                   (r', x2) \<Rightarrow> if r' = 0 then x2\<lparr>iUsedTicketBy := 3\<rparr> else x2)
              else x1))
      else x)"

definition CalFeeRAM :: "xin \<Rightarrow> string \<Rightarrow> string \<Rightarrow> int \<Rightarrow> exit_st \<Rightarrow> (rat \<times> exit_st) option" where
  "CalFeeRAM i eTime payTime t s =
     map_option
       (\<lambda>fee. (fee,
          if fee \<ge> 1 / 100 \<and> sRedeemAmt (tExit s) = 0 \<and> iRedeemTime (tExit s) = 0
          then on_exit (look_for_ticket i) s else s))
       (CalFeeRAM2G_text i eTime payTime t)"

text \<open>Minutes become an amount: without an entry record the fee of the last minutes, otherwise the fee
  of the first ones, less what the rest of the stay would cost alone when the first minutes already
  cost the whole fee.\<close>

definition shifted :: "xin \<Rightarrow> string \<Rightarrow> int \<Rightarrow> string" where
  "shifted i t seconds = DateTimeString (SetTime t (wall i) + seconds)"

definition set_redeem :: "rat \<Rightarrow> exit_st \<Rightarrow> exit_st" where
  "set_redeem a = on_exit (\<lambda>x. x\<lparr>sRedeemAmt := a\<rparr>)"

definition RedeemTime2Amt :: "xin \<Rightarrow> exit_st \<Rightarrow> exit_st option" where
  "RedeemTime2Amt i s =
     (let x = tExit s in
      if sRedeemAmt x > 0 then Some s
      else if iRedeemTime x \<le> 0 then Some s
      else
        (let sTmpTime = (if sExitTime x = [] then time_text i else sExitTime x) in
         if bNoEntryRecord x \<noteq> 0 then
           do {
             (a, s1) \<leftarrow> CalFeeRAM i (shifted i sTmpTime (- (iRedeemTime x * 60))) sTmpTime (iVehicleType x) s;
             Some (set_redeem a s1)
           }
         else
           (let s1 = (if lParkedTime x = 0
                      then on_exit (\<lambda>x. x\<lparr>lParkedTime := parked_time i (sEntryTime x) sTmpTime\<rparr>) s
                      else s);
                x1 = tExit s1;
                mid = shifted i (sEntryTime x1) (iRedeemTime x1 * 60)
            in if iRedeemTime x1 \<ge> lParkedTime x1 then Some (set_redeem (sFee x1) s1)
               else
                 do {
                   (a, s2) \<leftarrow> CalFeeRAM i (sEntryTime x1) mid (iVehicleType x1) s1;
                   let s3 = set_redeem a s2;
                   if GfeeFormat (sFee (tExit s3) - sRedeemAmt (tExit s3)) = 0 then
                     do {
                       (add, s4) \<leftarrow> CalFeeRAM i mid sTmpTime (iVehicleType (tExit s3)) s3;
                       Some (if add > 0
                             then (let a' = GfeeFormat (sRedeemAmt (tExit s4) - add)
                                   in set_redeem (if a' < 0 then 0 else a') s4)
                             else s4)
                     }
                   else Some s3
                 })))"

section \<open>What the driver is shown\<close>

definition CalParkedTime :: "int \<Rightarrow> string" where
  "CalParkedTime m =
     (if m < 0 then ''N/A''
      else
        (let days = m div 1440; r = m mod 1440; hours = r div 60; minutes = r mod 60 in
         if days > 0 then dec_int days @ ''D '' @ zpad 2 hours @ '':'' @ zpad 2 minutes
         else dec_int hours @ '':'' @ zpad 2 minutes))"

text \<open>The hour and the minute of a time in the form \<open>yyyy-mm-dd hh:mm:ss\<close>.\<close>

definition hour_minute :: "string \<Rightarrow> string" where
  "hour_minute t =
     (if length t \<ge> 19 \<and> t ! 4 = CHR ''-'' \<and> t ! 7 = CHR ''-'' \<and> t ! 10 = CHR '' '' \<and>
         t ! 13 = CHR '':'' \<and> t ! 16 = CHR '':''
      then take 5 (drop 11 t) else [])"

definition still_due :: "exit_trans \<Rightarrow> rat" where
  "still_due x = sFee x - sRedeemAmt x - sRebateAmt x + sOweAmt x"

definition showFee2User :: "xcfg \<Rightarrow> exit_st \<Rightarrow> exit_st" where
  "showFee2User c s =
     (let x = tExit s;
          fee0 = GfeeFormat (still_due x);
          fee = (if fee0 < 0 then 0 else fee0);
          s1 = Show (if fee > 0 then ''Fee:$'' @ SetFeeFormat fee @ ''^Please Wait....''
                     else ''Free parking^Have a nice day!'') s;
          hm = (if sEntryTime x = [] then ''00:00'' else hour_minute (sEntryTime x));
          s2 = SendMsg2Server ''90''
                 (sIUNo x @ '', E='' @ hm @ ''~T='' @ CalParkedTime (lParkedTime x) @ '','' @
                  SetFeeFormat fee @ '','' @ '','' @ dec_int (giShowType s1) @ '','' @ ''Fee OK'') s1;
          s3 = (if giEPS c = 3
                then SendMsg2OBU (sIUNo x) 0 [''Parking Fee'', ''$'' @ SetFeeFormat (sPaidAmt x)] s2
                else s2)
      in on_exit (\<lambda>x. x\<lparr>sPaidAmt := GfeeFormat fee\<rparr>) s3)"

text \<open>What is owed after the reductions, not below zero.\<close>

definition set_paid :: "exit_st \<Rightarrow> exit_st" where
  "set_paid = on_exit (\<lambda>x.
     (let a = GfeeFormat (sFee x - sRebateAmt x - sRedeemAmt x + sOweAmt x)
      in x\<lparr>sPaidAmt := (if a < 0 then 0 else a)\<rparr>))"

end
