(* ===== verification/Exit_Station.thy ===== *)
theory Exit_Station
  imports Exit_Fee
begin

text \<open>
  A vehicle or a card at the exit (src/operation.cpp): the payment devices, the decision what has to
  be paid and by which device (\<open>PBSExit\<close>), and what another card or another reading of the same number
  does (\<open>CheckIUorCardStatus\<close>).  Switching the card readers can identify the vehicle by its plate,
  which calls these functions again; they take the switch as the argument \<open>cc\<close>, and \<open>EnableCashcard\<close>
  ties the knot with a bound on the depth of the calls.  \<open>None\<close> is a call that does not return.
\<close>

type_synonym switch = "bool \<Rightarrow> exit_st \<Rightarrow> exit_st option"

section \<open>The payment devices\<close>

definition EnableLCSC :: "xcfg \<Rightarrow> bool \<Rightarrow> exit_st \<Rightarrow> exit_st" where
  "EnableLCSC c bEnable s =
     (if giCommPortLCSC c = 0 then s
      else if iLCSC_error s \<noteq> 0 then s
      else emit (if bEnable then LcscGetCardID else LcscStopRead) s)"

definition EnableKDE :: "xcfg \<Rightarrow> bool \<Rightarrow> exit_st \<Rightarrow> exit_st" where
  "EnableKDE c bEnable s =
     (if giCommPortKDEReader c = 0 then s
      else if iReader_error s \<noteq> 0 then s
      else if \<not> bEnable \<and> giCardIsIn s = 1 then emit KsmEjectToFront s
      else emit (KsmEnable bEnable) s)"

definition EnableUPOS :: "xcfg \<Rightarrow> bool \<Rightarrow> exit_st \<Rightarrow> exit_st" where
  "EnableUPOS c bEnable s =
     (if giCommPortUPOS c = 0 then s
      else if gbUPOSStatus s = UposInit then s
      else if bEnable then
        (if gbUPOSStatus s = UposEnable then s
         else (emit UptCardDetect s)\<lparr>gbUPOSStatus := UposEnable\<rparr>)
      else if gbUPOSStatus s = UposDisable then s
      else (emit UptCancel s)\<lparr>gbUPOSStatus := UposDisable\<rparr>)"

definition switch_readers :: "xcfg \<Rightarrow> bool \<Rightarrow> exit_st \<Rightarrow> exit_st" where
  "switch_readers c bEnable s =
     emit (if bEnable then BarcodeStartRead else BarcodeStopRead)
       (if \<not> bPayByAXS (tExit s) \<and> \<not> bPayByEZPay (tExit s)
        then EnableUPOS c bEnable (EnableKDE c bEnable (EnableLCSC c bEnable s)) else s)"

section \<open>Starting a deduction\<close>

text \<open>A deduction is never started while another one is under way.\<close>

definition remember_card :: "string \<Rightarrow> rat \<Rightarrow> exit_st \<Rightarrow> exit_st" where
  "remember_card n bal s = s\<lparr>gsLastCardNo := n, gfLastCardBal := GfeeFormat bal\<rparr>"

definition begin_deduction :: "exit_st \<Rightarrow> exit_st" where
  "begin_deduction s = (set_deduction Doingdeduction s)\<lparr>gbLastPaidStatus := False\<rparr>"

definition debitfromReader ::
  "xcfg \<Rightarrow> string \<Rightarrow> rat \<Rightarrow> DeviceType \<Rightarrow> int \<Rightarrow> rat \<Rightarrow> exit_st \<Rightarrow> exit_st" where
  "debitfromReader c CardNo fee dev cardType bal s =
     (if giDeductionStatus (tExit s) = Doingdeduction then s
      else
        (let s1 = on_exit (\<lambda>x. x\<lparr>sCardNo := CardNo, iCardType := cardType\<rparr>)
                    (remember_card CardNo bal (begin_deduction s));
             amount = to_long (fee * 100)
         in if dev = UPOS
            then EnableLCSC c False ((emit (UptPay amount) s1)\<lparr>gbUPOSStatus := UposEnable\<rparr>)
            else emit (LcscDeduct amount) ((emit UptCancel s1)\<lparr>gbUPOSStatus := UposDisable\<rparr>)))"

definition EEPDebit :: "xin \<Rightarrow> switch \<Rightarrow> string \<Rightarrow> rat \<Rightarrow> string \<Rightarrow> string \<Rightarrow> exit_st \<Rightarrow> exit_st option" where
  "EEPDebit i cc OBU fee entryTime exitTime s =
     (if \<not> gbLoopApresent s then Some s
      else if giDeductionStatus (tExit s) = Doingdeduction then Some s
      else
        do {
          s1 \<leftarrow> cc False s;
          let s2 = begin_deduction s1;
          let from = (if entryTime = [] then time_text i else entryTime);
          Some ((emit (EepDeduct OBU (dec_int (to_long (fee * 100))) from exitTime) s2)
                  \<lparr>fiLastEEPCmd := DEDUCT_REQ_CMD\<rparr>)
        })"

definition SendMsg2CHU :: "int \<Rightarrow> string \<Rightarrow> exit_st \<Rightarrow> exit_st" where
  "SendMsg2CHU cmd data s =
     (if \<not> gbLoopApresent s then s else (emit (ChuMsg cmd data) s)\<lparr>fiLastCHUCmd := cmd\<rparr>)"

definition CHUInq :: "xcfg \<Rightarrow> xin \<Rightarrow> int \<Rightarrow> exit_st \<Rightarrow> exit_st" where
  "CHUInq c i delay s =
     (if fiLastCHUCmd s = iEntryInq then s
      else if delay > 0 \<and> ticket_seen i then s
      else SendMsg2CHU iEntryInq (dec_int (iAntID c)) s)"

definition CHUDebit :: "xcfg \<Rightarrow> string \<Rightarrow> rat \<Rightarrow> string \<Rightarrow> rat \<Rightarrow> exit_st \<Rightarrow> exit_st" where
  "CHUDebit c OBU fee cardNo bal s =
     (if giDeductionStatus (tExit s) = Doingdeduction then s
      else
        (let amount = to_long ((if fee = 0 then sFee (tExit s) - sRedeemAmt (tExit s) else fee) * 100) in
         if amount = 0 then s
         else
           SendMsg2CHU iDebit (dec_int (iAntID c) @ '','' @ OBU @ '','' @ dec_int amount)
             (on_exit (\<lambda>x. x\<lparr>sCardNo := cardNo\<rparr>) (remember_card cardNo bal (begin_deduction s)))))"

section \<open>What the vehicle owes\<close>

text \<open>The first part of \<open>PBSExit\<close> either ends the handling of the vehicle or leaves the amount to pay in
  the record.\<close>

datatype exit_decision = Handled exit_st | ToPay exit_st

definition blocked :: "xcfg \<Rightarrow> string \<Rightarrow> bool" where
  "blocked c sIU \<longleftrightarrow> contains_str (BlockIUPrefix c) (take 3 sIU) \<and> length sIU = 10"

definition fetch_entry :: "xin \<Rightarrow> string \<Rightarrow> exit_trans \<Rightarrow> exit_trans" where
  "fetch_entry i sIU x =
     (if bNoEntryRecord x = - 1 then
        (let x1 = snd (FetchEntryinfo i sIU x) in
         if sEntryTime x1 = [] then x1\<lparr>bNoEntryRecord := 1, lParkedTime := - 1\<rparr>
         else x1\<lparr>bNoEntryRecord := 0\<rparr>)
      else x)"

definition exit_vehicle :: "xcfg \<Rightarrow> xin \<Rightarrow> string \<Rightarrow> exit_trans \<Rightarrow> int" where
  "exit_vehicle c i sIU x =
     (if length sIU = 10
      then vehicle_type i (take 3 (if giEPS c = 3 \<and> VCC x \<noteq> [] then VCC x else sIU))
      else GetVTypeFromLoop i)"

definition press_intercom :: "xcfg \<Rightarrow> string \<Rightarrow> exit_st \<Rightarrow> exit_st" where
  "press_intercom c sIU s =
     (let s1 = Show ''No Entry Record^Press Intercom'' (SendMsg2Server ''07'' sIU s) in
      if giEPS c = 3 then
        SendMsg2OBU (sIUNo (tExit s)) 0
          (if iOBUType (tExit s) = 0 then [''No Entry Record'', ''Pls Press Intercom'', ''For Assist'']
           else [''Press Intercom'', ''For Assist'']) s1
      else s1)"

definition complimentary_ticket :: "exit_trans \<Rightarrow> bool" where
  "complimentary_ticket x \<longleftrightarrow> sRedeemNo x \<noteq> [] \<and> sRedeemAmt x = 0"

definition as_complimentary :: "exit_trans \<Rightarrow> exit_trans" where
  "as_complimentary x = x\<lparr>iTransType := 10, sPaidAmt := 0, sCardNo := sRedeemNo x\<rparr>"

definition no_entry_fee :: "xcfg \<Rightarrow> xin \<Rightarrow> switch \<Rightarrow> string \<Rightarrow> exit_st \<Rightarrow> exit_decision option" where
  "no_entry_fee c i cc sIU s =
     (if complimentary_ticket (tExit s) then
        map_option Handled
          (cc False (CloseExitOperation c i FreeParking
             (Show ''No Entry Record^Compl Ticket'' (on_exit as_complimentary s))))
      else
        (case (case GetXTariff c i 0 of None \<Rightarrow> unset i | Some r \<Rightarrow> r) of
           (iAutoDebit, amt) \<Rightarrow>
             if iAutoDebit > 0
             then Some (ToPay (on_exit (\<lambda>x. x\<lparr>sFee := GfeeFormat amt, sExitTime := time_text i\<rparr>) s))
             else Some (Handled (press_intercom c sIU s))))"

definition set_fee :: "(rat \<times> exit_st) option \<Rightarrow> exit_st option" where
  "set_fee m = map_option (\<lambda>(f, s). on_exit (\<lambda>x. x\<lparr>sFee := f\<rparr>) s) m"

text \<open>The fee of a stay whose entry is known; \<open>iRet\<close> is the answer about the season, which becomes 8
  when the stay began before the season.\<close>

definition stay_fee :: "xin \<Rightarrow> int \<Rightarrow> exit_st \<Rightarrow> (int \<times> exit_st) option" where
  "stay_fee i iRet s =
     (let x = tExit s; d = tSeason s; v = iVehicleType x; e = sEntryTime x; p = sExitTime x in
      if iRet = 1 then
        (if season_rate d \<noteq> 0 then map_option (Pair iRet) (set_fee (CalFeeRAM i e p (season_rate d) s))
         else if e < date_from d then
           map_option (\<lambda>s1. (8, Show (''Season Start On^'' @ take 16 (date_from d)) s1))
             (set_fee (CalFeeRAM i e (date_from d) v s))
         else map_option (Pair iRet) (set_fee (CalFeeRAM i e p v s)))
      else if iRet = 2 \<and> date_to d > e then
        map_option (\<lambda>s1. (iRet, Show (''Season Expire On^'' @ take 16 (date_to d)) s1))
          (set_fee (CalFeeRAM i (date_to d) p v s))
      else map_option (Pair iRet) (set_fee (CalFeeRAM i e p v s)))"

definition with_entry_fee :: "xcfg \<Rightarrow> xin \<Rightarrow> int \<Rightarrow> exit_st \<Rightarrow> exit_decision option" where
  "with_entry_fee c i iRet0 s =
     (let s1 = on_exit (\<lambda>x. x\<lparr>sExitTime := time_text i,
                 lParkedTime := parked_time i (sEntryTime x) (time_text i)\<rparr>) s in
      do {
        (iRet, s2) \<leftarrow> stay_fee i iRet0 s1;
        Some
          (if (iRet = 1 \<and> season_rate (tSeason s2) = 0) \<or> iRet = 9 \<or> iRet = 12 then
             Handled (CloseExitOperation c i SeasonParking
               (on_exit (\<lambda>x. x\<lparr>iTransType := (if iRet = 9 then 10 else iTransType x), sPaidAmt := 0\<rparr>) s2))
           else if iTransType (tExit s2) = 10 then Handled (CloseExitOperation c i Complimentary s2)
           else ToPay s2)
      })"

definition free_season :: "int \<Rightarrow> bool" where
  "free_season r \<longleftrightarrow> r = 1 \<or> r = 12 \<or> r = 9"

definition owed :: "xcfg \<Rightarrow> xin \<Rightarrow> switch \<Rightarrow> string \<Rightarrow> exit_st \<Rightarrow> exit_decision option" where
  "owed c i cc sIU s0 =
     (let s1 = on_exit (\<lambda>x. x\<lparr>sIUNo := sIU\<rparr>) s0;
          black = blacklist i sIU;
          s2 = (if black \<ge> 0
                then SendMsg2Server ''90'' (sIU @ '',,,,,Blacklist IU'')
                       (ShowLEDMsg (xMsg c MsgExit_BlackList) s1)
                else s1)
      in if black = 0 then Some (Handled s2)
         else if blocked c sIU then
           Some (Handled (SendMsg2Server ''90'' (sIU @ '',,,,,Block IU'')
             (Show ''Lorry No Exit^Pls Reverse'' s2)))
         else
           (let s3 = on_exit (fetch_entry i sIU) s2;
                s4 = on_exit (\<lambda>x. x\<lparr>iTransType := exit_vehicle c i sIU x\<rparr>) s3
            in if iTransType (tExit s4) = 9 then
                 Some (Handled (CloseExitOperation c i FreeParking
                   (ShowLEDMsg (xMsg c Msg_authorizedvehicle) s4)))
               else
                 (case CheckSeason c i sIU
                     (on_exit (\<lambda>x. x\<lparr>iVehicleType := (iTransType x - 1) sdiv 3\<rparr>) s4) of
                    (iRet, s5) \<Rightarrow>
                      if free_season iRet \<and> (giSeasonCharge c = 0 \<or> bNoEntryRecord (tExit s5) = 1) then
                        Some (Handled (CloseExitOperation c i SeasonParking
                          (on_exit (\<lambda>x. x\<lparr>iTransType := (if iRet = 9 then 10 else iTransType x),
                             sFee := 0, sPaidAmt := 0, sExitTime := time_text i\<rparr>) s5)))
                      else if bNoEntryRecord (tExit s5) = 1 then no_entry_fee c i cc sIU s5
                      else with_entry_fee c i iRet s5)))"

section \<open>Paying\<close>

definition fee_msg :: "exit_trans \<Rightarrow> string \<Rightarrow> string" where
  "fee_msg x t = ''Fee: $'' @ SetFeeFormat (sPaidAmt x) @ t"

text \<open>A number registered for payment by EZPay or AXS: the barrier opens at once; the exit is stored
  now when a ticket was redeemed, otherwise when the vehicle leaves loop A.\<close>

definition redeemed_msg :: "exit_trans \<Rightarrow> string" where
  "redeemed_msg x =
     ''Redeemed: $'' @ SetFeeFormat (sRedeemAmt x) @ ''^ Fee: $'' @ SetFeeFormat (sPaidAmt x)"

definition too_high :: "exit_st \<Rightarrow> exit_st" where
  "too_high s =
     SendMsg2Server ''90''
       (sIUNo (tExit s) @ '',,'' @ SetFeeFormat (sPaidAmt (tExit s)) @ '',,,Fee To High'')
       (Show ''Press Intercom^To Verify Fee'' s)"

definition pay_registered ::
  "xcfg \<Rightarrow> xin \<Rightarrow> switch \<Rightarrow> TransType \<Rightarrow> string \<Rightarrow> string \<Rightarrow> exit_st \<Rightarrow> exit_st option" where
  "pay_registered c i cc t paid_msg scan_msg s =
     (if sPaidAmt (tExit s) > 500 then Some (too_high s)
      else
        (let s1 = on_exit (\<lambda>x. if t = EZPayParking then x\<lparr>bPayByEZPay := True\<rparr> else x\<lparr>bPayByAXS := True\<rparr>) s
         in map_option (Openbarrier c i 0)
              (if sRedeemAmt (tExit s1) = 0
               then cc True (Show scan_msg (Show (fee_msg (tExit s1) paid_msg) s1))
               else Some (CloseExitOperation c i t (Show (redeemed_msg (tExit s1)) s1)))))"

text \<open>The on-board unit pays when its account or its card is valid.\<close>

definition obu_can_pay :: "exit_trans \<Rightarrow> bool" where
  "obu_can_pay x \<longleftrightarrow> iBackendAccount x = 1 \<or> (sCardNo x \<noteq> [] \<and> iCardStatus x = 0)"

definition obu_debit :: "xin \<Rightarrow> switch \<Rightarrow> string \<Rightarrow> rat \<Rightarrow> exit_st \<Rightarrow> exit_st option" where
  "obu_debit i cc cardNo bal s =
     (let s1 = (if cardNo \<noteq> [] then remember_card cardNo bal s else s); x = tExit s1
      in EEPDebit i cc (sIUNo x) (sPaidAmt x) (sEntryTime x) (sExitTime x) s1)"

definition fee_or :: "exit_trans \<Rightarrow> string \<Rightarrow> string" where
  "fee_or x t = ''Fee:$'' @ SetFeeFormat (sPaidAmt x) @ t"

definition pay_by_obu :: "xin \<Rightarrow> switch \<Rightarrow> string \<Rightarrow> rat \<Rightarrow> exit_st \<Rightarrow> exit_st option" where
  "pay_by_obu i cc cardNo bal s =
     (if iBFunctionStatus (tExit s) = 1 then
        (if obu_can_pay (tExit s) then obu_debit i cc cardNo bal s
         else
           (let s1 = set_deduction WaitingCard s in
            Some (EEPInq i 1 (Show (fee_or (tExit s1) ''^Tap/Insert Card'') s1))))
      else cc True (Show ''OBU Cannot Debit^Tap/Insert Card'' (set_deduction WaitingCard s)))"

definition pay_by_card ::
  "xcfg \<Rightarrow> switch \<Rightarrow> DeviceType \<Rightarrow> int \<Rightarrow> rat \<Rightarrow> exit_st \<Rightarrow> exit_st option" where
  "pay_by_card c cc dev cardType bal s =
     (if GfeeFormat (sPaidAmt (tExit s)) \<le> GfeeFormat bal
      then Some (debitfromReader c (sIUNo (tExit s)) (sPaidAmt (tExit s)) dev cardType bal s)
      else cc True (Show (fee_msg (tExit s) ''^Insufficient Balance'') (set_deduction WaitingCard s)))"

definition pay ::
  "xcfg \<Rightarrow> xin \<Rightarrow> switch \<Rightarrow> DeviceType \<Rightarrow> string \<Rightarrow> int \<Rightarrow> rat \<Rightarrow> exit_st \<Rightarrow> exit_st option" where
  "pay c i cc dev cardNo cardType bal s =
     (let iu = sIUNo (tExit s); registered = (giEPS c \<noteq> 3 \<and> length iu = 10) in
      if registered \<and> ezpay i iu = 1
      then pay_registered c i cc EZPayParking '' EZL^Motoring Service''
             ''Pls Insert Tix^Complimentary'' s
      else if registered \<and> axs i iu = 1
      then pay_registered c i cc AXSParking ''^AXS Drive'' ''Fee Paid.^OR Scan Ticket'' s
      else if dev = Ant then Some (CHUDebit c iu (sPaidAmt (tExit s)) cardNo bal s)
      else if dev = EEP then pay_by_obu i cc cardNo bal s
      else if dev = LCSC \<or> dev = UPOS then pay_by_card c cc dev cardType bal s
      else Some s)"

definition redeem_minutes :: "xin \<Rightarrow> exit_st \<Rightarrow> exit_st option" where
  "redeem_minutes i s = (if iRedeemTime (tExit s) > 0 then RedeemTime2Amt i s else Some s)"

definition PBSExit ::
  "xcfg \<Rightarrow> xin \<Rightarrow> switch \<Rightarrow> string \<Rightarrow> DeviceType \<Rightarrow> string \<Rightarrow> int \<Rightarrow> rat \<Rightarrow> exit_st \<Rightarrow> exit_st option" where
  "PBSExit c i cc sIU dev cardNo cardType bal s =
     (if sIU = sIUNo (tExit s) then Some s
      else
        do {
          d \<leftarrow> owed c i cc sIU s;
          (case d of
             Handled t \<Rightarrow> Some t
           | ToPay t \<Rightarrow>
               do {
                 t1 \<leftarrow> redeem_minutes i t;
                 let t2 = showFee2User c (set_paid t1);
                 (if complimentary_ticket (tExit t2) then
                    (let t3 = on_exit as_complimentary t2 in
                     cc False (CloseExitOperation c i FreeParking
                       (Show (fee_msg (tExit t3) ''^Compl Ticket'') t3)))
                  else if sPaidAmt (tExit t2) > 0 then pay c i cc dev cardNo cardType bal t2
                  else Some (CloseExitOperation c i FreeParking t2))
               })
        })"

section \<open>A number or a card is presented\<close>

definition card_failed :: "eProcessStatus \<Rightarrow> bool" where
  "card_failed d \<longleftrightarrow> d = CardExpired \<or> d = CardFault \<or> d = InsufficientBalance"

text \<open>While a valid card is waited for: master and complimentary cards leave free, others pay.\<close>

definition free_card :: "int \<Rightarrow> string \<Rightarrow> int \<Rightarrow> exit_trans \<Rightarrow> exit_trans" where
  "free_card r cardNo cardType x =
     x\<lparr>iTransType := (if r = 5 then 2 else 10), sCardNo := cardNo, iCardType := cardType, sPaidAmt := 0\<rparr>"

definition waited_card ::
  "xcfg \<Rightarrow> xin \<Rightarrow> switch \<Rightarrow> DeviceType \<Rightarrow> string \<Rightarrow> int \<Rightarrow> rat \<Rightarrow> exit_st \<Rightarrow> exit_st option" where
  "waited_card c i cc dev cardNo cardType bal s =
     (let iRet = CheckCardOK i cardNo; x = tExit s in
      if iRet > 0 then
        Some (CloseExitOperation c i FreeParking (on_exit (free_card iRet cardNo cardType)
          (Show (if iRet = 5 then ''Master Card!'' else ''Complimentary!'') s)))
      else if iCardStatus x = 0 \<and> cardNo \<noteq> [] then
        (if dev = EEP then
           EEPDebit i cc (sIUNo x) (sPaidAmt x) (sEntryTime x) (sExitTime x)
             (remember_card cardNo bal (on_exit (\<lambda>x. x\<lparr>sCardNo := cardNo\<rparr>) s))
         else if dev = CHU \<and> cardType = 1 then Some (CHUDebit c (sIUNo x) (sPaidAmt x) cardNo bal s)
         else if GfeeFormat (sPaidAmt x) \<le> GfeeFormat bal then
           Some (if dev = CHU then CHUDebit c (sIUNo x) (sPaidAmt x) cardNo bal s
                 else debitfromReader c (sIUNo x) (sPaidAmt x) dev cardType bal s)
         else cc True (Show (fee_msg x ''^Insufficient Bal'') s))
      else cc True (if dev = EEP then EEPInq i 1 s else CHUInq c i 1 s))"

text \<open>The number that was presented last, again and within the time allowed.\<close>

definition again_obu :: "xin \<Rightarrow> switch \<Rightarrow> string \<Rightarrow> rat \<Rightarrow> exit_st \<Rightarrow> exit_st option" where
  "again_obu i cc cardNo bal s =
     (if iBFunctionStatus (tExit s) = 1 then
        (if obu_can_pay (tExit s) then obu_debit i cc cardNo bal s
         else cc True (EEPInq i 1 (set_deduction WaitingCard s)))
      else cc True (set_deduction WaitingCard s))"

definition same_number ::
  "xcfg \<Rightarrow> xin \<Rightarrow> switch \<Rightarrow> string \<Rightarrow> DeviceType \<Rightarrow> string \<Rightarrow> int \<Rightarrow> rat \<Rightarrow> exit_st \<Rightarrow> exit_st option" where
  "same_number c i cc sCheckNo dev cardNo cardType bal s =
     (let x = tExit s in
      if gbLastPaidStatus s then
        map_option (\<lambda>s1. Show ''Have A Nice Day'' (Openbarrier c i 2 s1))
          (cc False (Show (if dev = Ant then ''Same as last^Paid IU'' else ''Same as last^Paid Card'') s))
      else if sPaidAmt x > 0 then
        (if dev = Ant then Some (CHUDebit c (sIUNo x) (sPaidAmt x) cardNo bal s)
         else if dev = EEP then again_obu i cc cardNo bal s
         else if dev = CHU then
           Some (if cardNo = [] then CHUInq c i 1 s
                 else CHUDebit c (sIUNo x) (sPaidAmt x) cardNo bal s)
         else Some (debitfromReader c (sIUNo x) (sPaidAmt x) dev cardType bal s))
      else PBSExit c i cc sCheckNo dev cardNo cardType bal s)"

definition balance_changed :: "string \<Rightarrow> rat \<Rightarrow> exit_st \<Rightarrow> bool" where
  "balance_changed cardNo bal s \<longleftrightarrow>
     cardNo \<noteq> [] \<and> GfeeFormat bal \<noteq> GfeeFormat (gfLastCardBal s) \<and> cardNo = gsLastCardNo s \<and>
     \<not> gbLastPaidStatus s"

definition after_failure ::
  "xcfg \<Rightarrow> xin \<Rightarrow> switch \<Rightarrow> string \<Rightarrow> DeviceType \<Rightarrow> string \<Rightarrow> int \<Rightarrow> rat \<Rightarrow> exit_st \<Rightarrow> exit_st option" where
  "after_failure c i cc sCheckNo dev cardNo cardType bal s =
     (let x = tExit s in
      if gbPaid x then
        map_option (Openbarrier c i 2)
          (cc False (ShowLEDMsg (''Paid already^Have a nice Day!'', ''Paid already^Have a nice day!'') s))
      else if balance_changed cardNo bal s then
        map_option (\<lambda>s1. if sPaidAmt (tExit s1) = 0 then Openbarrier c i 2 s1
                          else CloseExitOperation c i BalanceChange s1)
          (cc False (s\<lparr>gfLastCardBal := GfeeFormat bal\<rparr>))
      else if giDeductionStatus x = WaitingCard \<and> iCardStatus x \<noteq> 0 then
        map_option (\<lambda>s1. if dev = EEP then EEPInq i 2 s1 else if dev = CHU then CHUInq c i 2 s1 else s1)
          (cc True (Show (fee_or x (if iCardStatus x = 1 then ''^Tap/Insert Card''
                                    else ''^Invalid Card!'')) s))
      else if giDeductionStatus x = WaitingCard then waited_card c i cc dev cardNo cardType bal s
      else if sCheckNo = gsLastPaidTrans s \<and> steady i - lastTransTime s \<le> giMaxTransInterval c
      then same_number c i cc sCheckNo dev cardNo cardType bal s
      else PBSExit c i cc sCheckNo dev cardNo cardType bal s)"

definition CheckIUorCardStatus ::
  "xcfg \<Rightarrow> xin \<Rightarrow> switch \<Rightarrow> string \<Rightarrow> DeviceType \<Rightarrow> string \<Rightarrow> int \<Rightarrow> rat \<Rightarrow> exit_st \<Rightarrow> exit_st option" where
  "CheckIUorCardStatus c i cc sCheckNo dev cardNo cardType bal s =
     (let d = giDeductionStatus (tExit s) in
      if card_failed d \<and> gsLastCardNo s = sCheckNo then
        map_option (EEPInq i 2)
          (cc True (Show (if d = InsufficientBalance then ''Insufficient Bal'' else ''Card Fault!'') s))
      else
        after_failure c i cc sCheckNo dev cardNo cardType bal
          (if card_failed d then set_deduction WaitingCard s else s))"

section \<open>The switch of the readers\<close>

definition VehicleCome_at :: "xcfg \<Rightarrow> xin \<Rightarrow> switch \<Rightarrow> string \<Rightarrow> exit_st \<Rightarrow> exit_st option" where
  "VehicleCome_at c i cc sNo s =
     (if sNo = [] then Some s
      else
        (let isIU = (length sNo = 10); s1 = (if isIU then s else emit AntennaStopRead s) in
         if isIU \<and> sNo = gsDefaultIU c
         then Some (SendMsg2Server ''90'' (sNo @ '',,,,,Default IU'') s1)
         else
           do {
             s2 \<leftarrow> (if isIU then cc False s1 else Some s1);
             CheckIUorCardStatus c i cc sNo Ant [] 0 0 s2
           }))"

definition plate_iu :: "xin \<Rightarrow> exit_st \<Rightarrow> string" where
  "plate_iu i s =
     (let plate = sLPN0 (tExit s);
          iu = (if plate \<noteq> [] \<and> plate \<noteq> ''0000000000'' then iu_of_plate i plate else [])
      in if gsTransID s \<noteq> [] \<and> sIUNo (tExit s) = [] \<and> length iu = 10 then iu else [])"

fun EnableCashcard :: "nat \<Rightarrow> xcfg \<Rightarrow> xin \<Rightarrow> bool \<Rightarrow> exit_st \<Rightarrow> exit_st option" where
  "EnableCashcard 0 c i bEnable s = None"
| "EnableCashcard (Suc n) c i bEnable s =
     (if bEnable = sEnableReader s then Some s
      else
        (let s1 = s\<lparr>sEnableReader := bEnable\<rparr>; iu = plate_iu i s1 in
         if iu \<noteq> [] then VehicleCome_at c i (EnableCashcard n c i) iu s1
         else Some (switch_readers c bEnable s1)))"

declare EnableCashcard.simps [simp del]

end
