(* ===== verification/Exit_Events.thy ===== *)
theory Exit_Events
  imports Exit_Station
begin

text \<open>
  The events of an exit station (src/operation.cpp): the vehicle on loop A and its departure, the
  answers of the card readers, of the payment terminal, of the CHU and of the on-board unit, a
  ticket, the operator.  A handler that is given \<open>n\<close> may nest that many calls of \<open>EnableCashcard\<close>.
\<close>

section \<open>The fields of an event\<close>

text \<open>An event of the LCSC reader or of the terminal is a list of \<open>key=value\<close>; the last value of a key
  counts.\<close>

definition event_values :: "string \<Rightarrow> string \<Rightarrow> string list" where
  "event_values data key =
     map snd (filter (\<lambda>p. fst p = key)
       (map (\<lambda>p. FnBiteString p CHR ''='') (FnParseString data CHR '','')))"

definition event_value :: "string \<Rightarrow> string \<Rightarrow> string" where
  "event_value data key = (case rev (event_values data key) of [] \<Rightarrow> [] | v # vs \<Rightarrow> v)"

text \<open>\<open>stof\<close> on a decimal number without exponent.\<close>

definition stof_opt :: "string \<Rightarrow> rat option" where
  "stof_opt t =
     (let s = dropWhile is_space t;
          neg = (take 1 s = ''-'');
          s1 = (if neg \<or> take 1 s = ''+'' then drop 1 s else s);
          whole = takeWhile is_digit s1;
          rest = dropWhile is_digit s1;
          frac = (if take 1 rest = ''.'' then takeWhile is_digit (drop 1 rest) else []);
          v = of_nat (digits_value 10 (whole @ frac)) / 10 ^ length frac
      in if whole = [] \<and> frac = [] then None else Some (if neg then - v else v))"

section \<open>The vehicle\<close>

abbreviation cashcard :: "nat \<Rightarrow> xcfg \<Rightarrow> xin \<Rightarrow> switch" where
  "cashcard n c i \<equiv> EnableCashcard n c i"

definition VehicleCome :: "nat \<Rightarrow> xcfg \<Rightarrow> xin \<Rightarrow> string \<Rightarrow> exit_st \<Rightarrow> exit_st option" where
  "VehicleCome n c i = VehicleCome_at c i (cashcard n c i)"

definition trans_id :: "xcfg \<Rightarrow> xin \<Rightarrow> string" where
  "trans_id c i =
     gscarparkcode c @ ''-'' @ dec_int (iSID c) @ ''-'' @ ChkNumStr (time_text i)"

definition AntennaOK :: "xcfg \<Rightarrow> bool" where
  "AntennaOK c \<longleftrightarrow> giEPS c \<noteq> 0 \<and> giEPS c \<noteq> 3 \<and> giCommPortAntenna c \<noteq> 0"

definition LoopACome :: "nat \<Rightarrow> xcfg \<Rightarrow> xin \<Rightarrow> exit_st \<Rightarrow> exit_st option" where
  "LoopACome n c i s =
     (let s1 = (emit (LoopATimer True) s)\<lparr>loopATimerArmed := True\<rparr>;
          s2 = Clearme c (ShowLEDMsg (xMsg c MsgExit_XLoopA) s1);
          s3 = emit (LcdBacklight 1) (s2\<lparr>gsTailgateOBU := []\<rparr>);
          s4 = emit (SendTransIDToLPR (trans_id c i) (LPRIP4Front c \<noteq> ''1.1.1.1''))
                 (s3\<lparr>gsTransID := trans_id c i\<rparr>)
      in if giEPS c = 3 then Some (Show ''Reading OBU...^Please wait'' (EEPInq i 0 s4))
         else if giEPS c = 0 then map_option (Show ''Insert/Tap Card'') (cashcard n c i True s4)
         else if AntennaOK c then
           Some (Show ''Reading IU...^Please wait'' (emit AntennaSendReadIU s4))
         else map_option (Show ''Antenna Error!^Insert/Tap Card'') (cashcard n c i True s4))"

text \<open>A vehicle that pays by EZPay or AXS and redeemed nothing is stored when it leaves the loop.\<close>

definition LoopAGone :: "nat \<Rightarrow> xcfg \<Rightarrow> xin \<Rightarrow> exit_st \<Rightarrow> exit_st option" where
  "LoopAGone n c i s =
     (let s1 = emit (LcdBacklight 0) (stopLoopAPeriodicTimer s);
          s2 = (if sIUNo (tExit s1) = [] then emit AntennaStopRead s1 else s1);
          x = tExit s2;
          close = (if sRedeemAmt x = 0 \<and> \<not> gbsavedtrans s2
                   then if bPayByEZPay x then Some EZPayParking
                        else if bPayByAXS x then Some AXSParking else None
                   else None)
      in do {
           s3 \<leftarrow> (case close of
                    None \<Rightarrow> Some s2
                  | Some t \<Rightarrow> map_option (CloseExitOperation c i t) (cashcard n c i False s2));
           s4 \<leftarrow> cashcard n c i False s3;
           Some (if giEPS c = 3 then emit EepGetOBUInfoStop s4 else s4)
         })"

text \<open>Loop C is free: the vehicle is gone, and the next one may stand on loop A already.\<close>

definition LoopCGone :: "nat \<Rightarrow> xcfg \<Rightarrow> xin \<Rightarrow> exit_st \<Rightarrow> exit_st option" where
  "LoopCGone n c i s =
     (if \<not> gbsavedtrans s \<and> gbLoopApresent s then Some s
      else
        (let s1 = Clearme c s in
         if gbLoopApresent s1
         then LoopACome n c i (if giEPS c = 3 then emit (EepStopDistribution (gsLastIUNo s1)) s1 else s1)
         else Some s1))"

definition loopATimeoutHandler :: "nat \<Rightarrow> xcfg \<Rightarrow> xin \<Rightarrow> exit_st \<Rightarrow> exit_st option" where
  "loopATimeoutHandler n c i s =
     do {
       s1 \<leftarrow> cashcard n c i False (emit AntennaStopRead s);
       (if gbLoopApresent s1 then LoopACome n c i s1 else Some s1)
     }"

definition ReceivedLPR :: "string \<Rightarrow> string \<Rightarrow> exit_st \<Rightarrow> exit_st" where
  "ReceivedLPR plate sTransid s =
     (let s1 = (if gsTransID s = sTransid \<and> gbLoopApresent s \<and> \<not> gbsavedtrans s
                then on_exit (\<lambda>x. x\<lparr>sLPN0 := plate, sLPN1 := plate\<rparr>) s
                else emit (UpdateExitPlate plate sTransid) s)
      in if entry_sIUTKNo s1 \<noteq> []
         then SendMsg2Server ''90'' (entry_sIUTKNo s1 @ '',,,'' @ plate @ '',,Entry OK'') s1 else s1)"

section \<open>The operator and the server\<close>

definition ManualOpenBarrier :: "xcfg \<Rightarrow> xin \<Rightarrow> exit_st \<Rightarrow> exit_st" where
  "ManualOpenBarrier c i s =
     (if entry_sIUTKNo s \<noteq> [] \<and> gbLoopApresent s then
        (let s1 = on_exit (\<lambda>x. if sExitTime x = [] then x\<lparr>sExitTime := time_text i\<rparr> else x) s
         in CloseExitOperation c i Manualopen
              (emit (RemoteControl (''Auto save for IU:'' @ sIUNo (tExit s1))) s1))
      else Openbarrier c i 0 s)"

text \<open>The server supplies the time of entry of the vehicle on the loop.\<close>

definition ReceivedEntryRecord :: "nat \<Rightarrow> xcfg \<Rightarrow> xin \<Rightarrow> exit_st \<Rightarrow> exit_st option" where
  "ReceivedEntryRecord n c i s =
     (let s1 = on_exit (\<lambda>x. x\<lparr>sExitTime := time_text i\<rparr>) s; x = tExit s1 in
      do {
        s2 \<leftarrow> set_fee (CalFeeRAM i (sEntryTime x) (sExitTime x) (iVehicleType x) s1);
        s3 \<leftarrow> redeem_minutes i s2;
        let s4 = showFee2User c (set_paid s3);
        (if sPaidAmt (tExit s4) > 0 then cashcard n c i True (set_deduction WaitingCard s4)
         else Some (CloseExitOperation c i FreeParking s4))
      })"

definition TimeForNoEntry :: "nat \<Rightarrow> xcfg \<Rightarrow> xin \<Rightarrow> string \<Rightarrow> exit_st \<Rightarrow> exit_st option" where
  "TimeForNoEntry n c i t s =
     (if gbLoopApresent s
      then ReceivedEntryRecord n c i
             (on_exit (\<lambda>x. x\<lparr>sEntryTime := t, bNoEntryRecord := 0\<rparr>) s)
      else Some s)"

definition receipt_button :: "exit_st \<Rightarrow> exit_st" where
  "receipt_button s = PrintReceipt (on_exit (\<lambda>x. x\<lparr>iflag4Receipt := 1\<rparr>) s)"

section \<open>The card reader and the payment terminal\<close>

definition lcsc_ok :: "exit_st \<Rightarrow> exit_st" where
  "lcsc_ok s =
     (if iLCSC_error s < 0 then SendMsg2Server ''70'' ''LCSC OK'' (s\<lparr>iLCSC_error := 0\<rparr>)
      else s\<lparr>iLCSC_error := 0\<rparr>)"

definition lcsc_balance :: "nat \<Rightarrow> xcfg \<Rightarrow> xin \<Rightarrow> string \<Rightarrow> exit_st \<Rightarrow> exit_st option" where
  "lcsc_balance n c i data s =
     (let s1 = lcsc_ok s; cardNo = event_value data ''CAN'' in
      if length cardNo \<noteq> 16 then
        Some (EnableLCSC c True (SendMsg2Server ''90'' (cardNo @ '',,,,,Wrong Card No'')
          (ShowLEDMsg (xMsg c Msg_CardReadingError) s1)))
      else
        do {
          s2 \<leftarrow> cashcard n c i False s1;
          bal \<leftarrow> stof_opt (event_value data ''cardBalance'');
          CheckIUorCardStatus c i (cashcard n c i) cardNo LCSC cardNo 1 (bal / 100)
            (on_exit (\<lambda>x. x\<lparr>iCardStatus := 0\<rparr>) (emit AntennaStopRead s2))
        })"

definition lcsc_deducted :: "xcfg \<Rightarrow> xin \<Rightarrow> string \<Rightarrow> exit_st \<Rightarrow> exit_st option" where
  "lcsc_deducted c i data s =
     map_option
       (\<lambda>bal. DebitOK c i [] (event_value data ''CAN'') None (Some (bal / 100)) 1 None LCSC (lcsc_ok s))
       (stof_opt (event_value data ''BalanceAfterTrans''))"

text \<open>A card that failed: the driver is told and the readers are switched on again.\<close>

definition failed_card ::
  "nat \<Rightarrow> xcfg \<Rightarrow> xin \<Rightarrow> eProcessStatus \<Rightarrow> string \<Rightarrow> string \<Rightarrow> exit_st \<Rightarrow> exit_st option" where
  "failed_card n c i d led report s =
     cashcard n c i True
       (SendMsg2Server ''90'' (gsLastCardNo s @ '',,,,,'' @ report) (Show led (set_deduction d s)))"

definition RetryLCSCLastCommand :: "nat \<Rightarrow> xcfg \<Rightarrow> xin \<Rightarrow> exit_st \<Rightarrow> exit_st option" where
  "RetryLCSCLastCommand n c i s =
     (if gbLoopApresent s then
        (let deducting = (giDeductionStatus (tExit s) = Doingdeduction);
             sMsg = (if deducting then ''Deduction Error'' else ''Reading Card^Error'');
             s1 = set_deduction WaitingCard
                    (SendMsg2Server ''90'' (gsLastCardNo s @ '',,,,,'' @ sMsg) (Show sMsg s));
             s2 = (if deducting then showFee2User c s1 else s1)
         in map_option
              (\<lambda>s3. if giEPS c = 3 then EEPInq i 3 s3 else if giEPS c = 2 then CHUInq c i 3 s3 else s3)
              (cashcard n c i True s2))
      else cashcard n c i False s)"

datatype upt_status =
    UptSuccess | UptTimeout | UptInvalidCard | UptExpired | UptFault | UptOther | UptParseFailed

definition upt_status_of :: "nat \<Rightarrow> upt_status" where
  "upt_status_of m =
     (if m = 8 then UptParseFailed
      else if m = 0 then UptSuccess
      else if m = 2 then UptTimeout
      else if m = 0x40000000 then UptInvalidCard
      else if m = 0x20000004 then UptExpired
      else if m > 0x20000000 \<and> m \<le> 0x2000000E then UptFault
      else UptOther)"

definition upt_detected :: "nat \<Rightarrow> xcfg \<Rightarrow> xin \<Rightarrow> nat \<Rightarrow> string \<Rightarrow> exit_st \<Rightarrow> exit_st option" where
  "upt_detected n c i m data s0 =
     (let s = s0\<lparr>gbUPOSStatus := UposDisable\<rparr>; x = tExit s in
      case upt_status_of m of
        UptSuccess \<Rightarrow>
          (let balance = (if event_values data ''cardBalance'' = [] then Some 0
                          else stof_opt (event_value data ''cardBalance''));
               s1 = on_exit (\<lambda>x. x\<lparr>iCardStatus := 0\<rparr>) (emit AntennaStopRead (EnableLCSC c False s));
               can = event_value data ''cardCan''
           in case balance of
                None \<Rightarrow> Some s
              | Some bal \<Rightarrow>
                  (case stoi_opt 10 (event_value data ''cardType'') of
                     None \<Rightarrow> Some s1
                   | Some t \<Rightarrow>
                       CheckIUorCardStatus c i (cashcard n c i) can UPOS can (t + 6)
                         (of_int (round_half_up bal) / 100) s1))
      | UptTimeout \<Rightarrow>
          Some (if gbLoopApresent s \<and> \<not> gbPaid x
                then EnableUPOS c True (s\<lparr>gbUPOSStatus := UposReadCardTimeout\<rparr>) else s)
      | UptInvalidCard \<Rightarrow>
          Some (if gbLoopApresent s \<and> \<not> gbPaid x \<and> sPaidAmt x > 0 \<and>
                   giDeductionStatus x = WaitingCard
                then debitfromReader c [] (sPaidAmt x) UPOS 0 0 s else s)
      | _ \<Rightarrow> Some s)"

text \<open>The answer to a deduction.  A credit card has no card number; the reference number stands for it
  and the amount is what was asked for.  A number that cannot be read ends the handler.\<close>

definition upt_number :: "string \<Rightarrow> int option" where
  "upt_number t = (if t = [] then Some 0 else strtol_opt 10 t)"

definition upt_paid :: "xcfg \<Rightarrow> xin \<Rightarrow> string \<Rightarrow> exit_st \<Rightarrow> exit_st option" where
  "upt_paid c i data s =
     (case (upt_number (event_value data ''cardFee''), upt_number (event_value data ''cardBalance''),
            stoi_opt 10 (event_value data ''cardType'')) of
        (Some fee, Some bal, Some t) \<Rightarrow>
          (let can = event_value data ''cardCan'';
               x = tExit s;
               can1 = (if can = [] then zpad 2 (iSID c) @ ''20'' @ event_value data ''cardReferenceNo''
                       else can);
               fee1 = (if can = [] then to_long (sPaidAmt x * 100) else fee)
           in Some (DebitOK c i [] can1 (Some (of_int fee1 / 100)) (Some (of_int bal / 100)) (t + 6) None
                      UPOS s))
      | _ \<Rightarrow> Some s)"

definition upt_payment :: "nat \<Rightarrow> xcfg \<Rightarrow> xin \<Rightarrow> nat \<Rightarrow> string \<Rightarrow> exit_st \<Rightarrow> exit_st option" where
  "upt_payment n c i m data s0 =
     (let s = s0\<lparr>gbUPOSStatus := UposDisable\<rparr>; x = tExit s in
      case upt_status_of m of
        UptSuccess \<Rightarrow> upt_paid c i data s
      | UptTimeout \<Rightarrow>
          (if gbLoopApresent s \<and> (\<not> gbPaid x \<or> giDeductionStatus x = Doingdeduction)
           then cashcard n c i True (set_deduction WaitingCard s) else Some s)
      | UptExpired \<Rightarrow> failed_card n c i CardExpired ''Card Expired!'' ''Card Expired'' s
      | UptFault \<Rightarrow> failed_card n c i CardFault ''Card Fault!'' ''Card Fault'' s
      | _ \<Rightarrow> failed_card n c i WaitingCard ''Deduction Error!'' ''Deduction Error'' s)"

end
