(* ===== verification/Exit_Terminals.thy ===== *)
theory Exit_Terminals
  imports Exit_Events
begin

text \<open>
  The on-board unit and the CHU at the exit (src/operation.cpp): what they report about a vehicle, the
  result of a deduction, and a ticket that is scanned.
\<close>

section \<open>The on-board unit\<close>

text \<open>The label of a unit is printed in two ways: with lower-case digits and no leading zeros in the
  notification, with upper-case digits and ten places in the transaction.\<close>

definition longToHex :: "nat \<Rightarrow> string" where
  "longToHex v = hex_nat v"

definition upper_char :: "char \<Rightarrow> char" where
  "upper_char ch =
     (let n = (of_char ch :: nat) in if 97 \<le> n \<and> n \<le> 122 then char_of (n - 32) else ch)"

definition FnToUpper :: "string \<Rightarrow> string" where
  "FnToUpper str = map upper_char str"

definition FnDecimalIntToHexString :: "nat \<Rightarrow> nat \<Rightarrow> string" where
  "FnDecimalIntToHexString v byteSize = setw_fill (byteSize * 2) CHR ''0'' (FnToUpper (hex_nat v))"

definition FnStringConvertDBTime :: "string \<Rightarrow> string" where
  "FnStringConvertDBTime t =
     (if length t < 14 then []
      else take 4 t @ ''-'' @ take 2 (drop 4 t) @ ''-'' @ take 2 (drop 6 t) @ '' '' @
           take 2 (drop 8 t) @ '':'' @ take 2 (drop 10 t) @ '':'' @ take 2 (drop 12 t))"

definition no_can :: string where "no_can = ''0000000000000000''"

record obu_info =
  ob_label :: nat
  ob_type :: int
  ob_vcc :: string
  ob_plate :: string
  ob_validity :: int
  ob_can :: string
  ob_balance :: int
  ob_account :: int
  ob_setting :: int
  ob_function :: int

definition obu_seen :: "obu_info \<Rightarrow> exit_trans \<Rightarrow> exit_trans" where
  "obu_seen ob x =
     x\<lparr>iBackendAccount := ob_account ob, iBackendSetting := ob_setting ob,
       iBFunctionStatus := ob_function ob, iOBUType := ob_type ob, lpn := ob_plate ob,
       sLPN0 := ob_plate ob, sLPN1 := ob_plate ob, VCC := ob_vcc ob,
       sCardNo := (if ob_can ob \<noteq> no_can then ob_can ob else []), iCardStatus := ob_validity ob\<rparr>"

definition ProcessOUBInformation ::
  "nat \<Rightarrow> xcfg \<Rightarrow> xin \<Rightarrow> obu_info \<Rightarrow> exit_st \<Rightarrow> exit_st option" where
  "ProcessOUBInformation n c i ob s =
     (if giDeductionStatus (tExit s) = Doingdeduction then Some s
      else
        (let obu = longToHex (ob_label ob);
             s1 = on_exit (obu_seen ob) (if gsTailgateOBU s = obu then s\<lparr>gsTailgateOBU := []\<rparr> else s);
             x = tExit s1
         in if iEEPPaymentResult x = 5 \<and> sDSerialNo x \<noteq> []
            then Some (emit (EepTransaction obu (atoi (sDSerialNo x) mod 65536)) s1)
            else CheckIUorCardStatus c i (cashcard n c i) obu EEP (sCardNo x) 1 (of_int (ob_balance ob)) s1))"

record obu_trans =
  tr_label :: nat
  tr_serial :: int
  tr_result :: int
  tr_can :: string
  tr_fee :: int
  tr_last_auto_load :: int
  tr_auto_load :: int
  tr_route :: int
  tr_fep_time :: nat
  tr_bep_time :: string
  tr_fep_violation :: int
  tr_bep_violation :: int
  tr_balance_after :: int

definition can_or_none :: "string \<Rightarrow> string" where
  "can_or_none t = (if t \<noteq> no_can then t else [])"

definition deducted :: "obu_trans \<Rightarrow> exit_trans \<Rightarrow> exit_trans" where
  "deducted t x =
     x\<lparr>sCardNo := can_or_none (tr_can t), sPaidAmt := of_int (tr_fee t) / 100,
       sDSerialNo := dec_int (tr_serial t), iEEPPaymentResult := tr_result t,
       sTopupAmt := (if tr_last_auto_load t > 0 then of_int (tr_auto_load t) / 100 else sTopupAmt x),
       iEEPTransRoute := tr_route t,
       sEEPpaymentTime := FnStringConvertDBTime
         (if tr_result t = 1 then longToHex (tr_fep_time t)
          else if tr_result t = 2 then tr_bep_time t else [])\<rparr>"

definition obu_deducted :: "xcfg \<Rightarrow> xin \<Rightarrow> obu_trans \<Rightarrow> exit_st \<Rightarrow> exit_st" where
  "obu_deducted c i t s =
     (let obu = FnDecimalIntToHexString (tr_label t) 5 in
      if obu = sIUNo (tExit s) \<and> gbLoopApresent s then
        (let s1 = on_exit (deducted t) s; x = tExit s1 in
         DebitOK c i (sIUNo x) (sCardNo x) (Some (sPaidAmt x)) (Some (of_int (tr_balance_after t) / 100)) 1
           (Some (sTopupAmt x)) EEP s1)
      else
        UpdateEEPExitTrans i obu (dec_int (tr_serial t)) (tr_can t) (of_int (tr_fee t) / 100)
          (of_int (tr_auto_load t) / 100) (tr_route t) (tr_result t) s)"

definition obu_double :: "xcfg \<Rightarrow> xin \<Rightarrow> obu_trans \<Rightarrow> exit_st \<Rightarrow> exit_st" where
  "obu_double c i t s =
     CloseExitOperation c i RejectCode7
       (on_exit (\<lambda>x. x\<lparr>sIUNo := FnDecimalIntToHexString (tr_label t) 5, iEEPPaymentResult := 7,
           sCardNo := can_or_none (tr_can t),
           iCardType := (if tr_can t \<noteq> no_can then 1 else iCardType x)\<rparr>) s)"

text \<open>The unit could not pay: what the driver is told, and the state to wait in.\<close>

definition obu_refused :: "obu_trans \<Rightarrow> exit_st \<Rightarrow> exit_st" where
  "obu_refused t s =
     (let x = tExit s; iu = sIUNo x; amt = SetFeeFormat (sPaidAmt x) in
      if tr_fep_violation t = 8 then
        set_deduction InsufficientBalance
          (SendMsg2OBU iu 0
             (if iOBUType x = 1 then [''Bal $'' @ amt, ''Pls Top UP'']
              else [''Card Bal $'' @ amt, ''Insufficient Bal'', ''Pls Top UP''])
             (Show ''Insufficient Bal^Pls Top Up''
               (SendMsg2Server ''90'' (iu @ '',,,,,Insufficient Balance'') s)))
      else if tr_fep_violation t \<noteq> 0 then
        set_deduction CardFault
          (SendMsg2OBU iu 0
             (if iOBUType x = 1 then [''Invalid Card'']
              else [''Invalid Card'', ''Pls Present'', ''Valid Payment''])
             (Show ''Invalid Card ^ Pls Present Valid Payment''
               (SendMsg2Server ''90'' (iu @ '',,,,,Invalid card'') s)))
      else
        set_deduction WaitingCard
          (SendMsg2OBU iu 0
             (if iOBUType x = 1 then [''Pls Present'', ''Valid Payment'']
              else [''Fee: $'' @ amt, ''Pls Present'', ''Valid Payment''])
             (Show (''Fee: $'' @ amt @ ''pls^Present Valid Payment'')
               (SendMsg2Server ''90'' (iu @ '',,,,,Invalid Backend Payment'') s))))"

definition processEEPTransData ::
  "nat \<Rightarrow> xcfg \<Rightarrow> xin \<Rightarrow> obu_trans \<Rightarrow> exit_st \<Rightarrow> exit_st option" where
  "processEEPTransData n c i t s =
     (if tr_result t = 1 \<or> tr_result t = 2 \<or> tr_result t = 8 then Some (obu_deducted c i t s)
      else if tr_result t = 7 then Some (obu_double c i t s)
      else if tr_result t = 9 then map_option (EEPInq i 2) (cashcard n c i True s)
      else if tr_result t = 5 then
        Some ((on_exit (\<lambda>x. x\<lparr>iEEPPaymentResult := 5\<rparr>) s)\<lparr>fiLastEEPCmd := GET_OBU_INFO_REQ_CMD\<rparr>)
      else if tr_result t = 0 \<and> (tr_fep_violation t \<noteq> 0 \<or> tr_bep_violation t \<noteq> 0) then
        map_option (EEPInq i 2) (cashcard n c i True (obu_refused t s))
      else Some s)"

section \<open>The CHU\<close>

text \<open>The fields between brackets, separated by bars; without a closing bracket the text runs to its
  end.  A text without opening bracket or with nothing in the brackets has no field.\<close>

fun split_at_char :: "char \<Rightarrow> string \<Rightarrow> string list" where
  "split_at_char sep [] = [[]]"
| "split_at_char sep (x # xs) =
     (if x = sep then [] # split_at_char sep xs
      else (case split_at_char sep xs of [] \<Rightarrow> [[x]] | f # fs \<Rightarrow> (x # f) # fs))"

definition ParseData :: "char \<Rightarrow> char \<Rightarrow> char \<Rightarrow> string \<Rightarrow> string list" where
  "ParseData startChar endChar sep t =
     (case dropWhile (\<lambda>x. x \<noteq> startChar) t of
        [] \<Rightarrow> []
      | _ # body \<Rightarrow>
          (let payload = takeWhile (\<lambda>x. x \<noteq> endChar) body in
           if payload = [] then [] else split_at_char sep payload))"

definition Field :: "string list \<Rightarrow> nat \<Rightarrow> string" where
  "Field fs k = (if k < length fs then fs ! k else [])"

definition ChuRC_ACK :: int where "ChuRC_ACK = 1"
definition ChuRC_NAK :: int where "ChuRC_NAK = 2"
definition ChuRC_DebitOk :: int where "ChuRC_DebitOk = 12"
definition ChuRC_DebitFail :: int where "ChuRC_DebitFail = 13"
definition ChuRC_EntryWithCashcard :: int where "ChuRC_EntryWithCashcard = 14"
definition ChuRC_EntryWithoutCashcard :: int where "ChuRC_EntryWithoutCashcard = 15"
definition ChuRC_CNNBroken :: int where "ChuRC_CNNBroken = 24"

text \<open>\<open>stoi\<close> of a field; reading past the last field is undefined and has no value here.\<close>

definition fld :: "string list \<Rightarrow> nat \<Rightarrow> string option" where
  "fld = nth_opt"

definition num :: "string list \<Rightarrow> nat \<Rightarrow> int option" where
  "num ds k = Option.bind (fld ds k) (stoi_opt 10)"

definition dollars :: "string list \<Rightarrow> nat \<Rightarrow> rat option" where
  "dollars ds k = map_option (\<lambda>v. of_int v / 100) (num ds k)"

text \<open>A vehicle found by the CHU: antenna, number, card, balance in cents and type of the card.\<close>

definition chu_seen :: "string \<Rightarrow> string \<Rightarrow> bool \<Rightarrow> exit_trans \<Rightarrow> exit_trans" where
  "chu_seen iu cd with_card x =
     x\<lparr>sIUNo := iu, sCardNo := cd, iCardStatus := (if with_card then 0 else 1)\<rparr>"

definition chu_found :: "nat \<Rightarrow> xcfg \<Rightarrow> xin \<Rightarrow> bool \<Rightarrow> string list \<Rightarrow> exit_st \<Rightarrow> exit_st option" where
  "chu_found n c i with_card ds s =
     do {
       iu \<leftarrow> fld ds 2;
       cd \<leftarrow> (if with_card then fld ds 3 else Some []);
       cardType \<leftarrow> num ds 5;
       bal \<leftarrow> Option.bind (fld ds 4) stof_opt;
       CheckIUorCardStatus c i (cashcard n c i) iu CHU cd cardType (bal / 100)
         (on_exit (chu_seen iu cd with_card) s)
     }"

definition chu_vehicle ::
  "nat \<Rightarrow> xcfg \<Rightarrow> xin \<Rightarrow> int \<Rightarrow> string list \<Rightarrow> exit_st \<Rightarrow> exit_st option" where
  "chu_vehicle n c i rc ds s =
     (if giDeductionStatus (tExit s) = Doingdeduction then Some s
      else if rc = ChuRC_EntryWithCashcard \<or> rc = ChuRC_EntryWithoutCashcard then
        do {
          ant \<leftarrow> num ds 1;
          (if ant \<noteq> iAntID c then Some (CHUInq c i 3 s)
           else chu_found n c i (rc = ChuRC_EntryWithCashcard) ds s)
        }
      else Some (CHUInq c i 2 s))"

text \<open>A confirmed deduction: number, amount, card, balance, type and top-up.\<close>

definition chu_debit_ok :: "xcfg \<Rightarrow> xin \<Rightarrow> string list \<Rightarrow> exit_st \<Rightarrow> exit_st option" where
  "chu_debit_ok c i ds s =
     do {
       iu \<leftarrow> fld ds 2;
       cd \<leftarrow> fld ds 4;
       paid \<leftarrow> dollars ds 3;
       bal \<leftarrow> dollars ds 5;
       cardType \<leftarrow> num ds 7;
       topup \<leftarrow> dollars ds 8;
       Some (DebitOK c i iu cd (Some paid) (Some bal) cardType (Some topup) CHU s)
     }"

text \<open>A deduction that failed; the code of the failure is a text of eight digits, of which the branches
  look at the parts \<open>substr(1,4)\<close> and \<open>substr(5,8)\<close>.  \<open>None\<close>: a position past the end of the code.\<close>

datatype chu_fault = NoCardInUnit | ReversedCommand | LowBalance | NoBalance | IuProblem | OtherFault

definition substr :: "string \<Rightarrow> nat \<Rightarrow> nat \<Rightarrow> string option" where
  "substr t pos len = (if pos \<le> length t then Some (take len (drop pos t)) else None)"

definition chu_fault_of :: "string \<Rightarrow> chu_fault option" where
  "chu_fault_of code =
     (if code = ''00000001'' then Some NoCardInUnit
      else
        do {
          L4 \<leftarrow> substr code 1 4;
          R4 \<leftarrow> substr code 5 8;
          (if R4 = ''0004'' then Some ReversedCommand
           else if R4 = [] then None
           else if drop (length R4 - 1) R4 = ''8'' then Some LowBalance
           else if L4 = ''0004'' \<or> R4 = ''0010'' then Some NoBalance
           else if R4 = ''0020'' \<or> R4 = ''0040'' \<or> R4 = ''00C0'' \<or> L4 > ''0400'' then Some IuProblem
           else Some OtherFault)
        })"

definition chu_failed ::
  "nat \<Rightarrow> xcfg \<Rightarrow> xin \<Rightarrow> chu_fault \<Rightarrow> string \<Rightarrow> string \<Rightarrow> string list \<Rightarrow> exit_st \<Rightarrow> exit_st option" where
  "chu_failed n c i f iu cd ds s =
     (case f of
        ReversedCommand \<Rightarrow>
          (if giProcessReversedCMD c = 0
           then map_option (\<lambda>t. DebitOK c i iu cd None None t None CHU s) (num ds 7)
           else cashcard n c i True s)
      | NoBalance \<Rightarrow>
          cashcard n c i True (Show ''Deduction Error^Check bal By TS''
            ((set_deduction InsufficientBalance s)\<lparr>gsLastCardNo := []\<rparr>))
      | IuProblem \<Rightarrow> cashcard n c i True (Show ''IU Problem^Insert/Tap Card'' s)
      | _ \<Rightarrow> cashcard n c i True (Show ''Deduction Error^Check bal By TS'' s))"

definition chu_debit_failed ::
  "nat \<Rightarrow> xcfg \<Rightarrow> xin \<Rightarrow> string list \<Rightarrow> exit_st \<Rightarrow> exit_st option" where
  "chu_debit_failed n c i ds s =
     do {
       code \<leftarrow> fld ds 6;
       f \<leftarrow> chu_fault_of code;
       (if f = NoCardInUnit then
          map_option (CHUInq c i 2)
            (cashcard n c i True (set_deduction WaitingCard
              (Show (fee_or (tExit s) ''^Tap/Insert Card'') s)))
        else
          do {
            iu \<leftarrow> fld ds 2;
            cd \<leftarrow> fld ds 4;
            chu_failed n c i f iu cd ds
              (set_deduction WaitingCard
                (SendMsg2Server ''90'' (iu @ '','' @ cd @ '',,,1, Debit Fail: '' @ code)
                  (on_exit (\<lambda>x. x\<lparr>sCHUDebitCode := code\<rparr>) s)))
          })
     }"

definition chu_debit_answer ::
  "nat \<Rightarrow> xcfg \<Rightarrow> xin \<Rightarrow> int \<Rightarrow> string list \<Rightarrow> exit_st \<Rightarrow> exit_st option" where
  "chu_debit_answer n c i rc ds s =
     (if rc = ChuRC_DebitOk then
        do {
          ant \<leftarrow> num ds 1;
          iu \<leftarrow> (if ant \<noteq> iAntID c then Some [] else fld ds 2);
          (if ant \<noteq> iAntID c \<or> sIUNo (tExit s) \<noteq> iu then Some (CHUInq c i 2 s)
           else Option.bind (fld ds 9) (\<lambda>time. chu_debit_ok c i ds s))
        }
      else if rc = ChuRC_DebitFail then chu_debit_failed n c i ds s
      else if rc = ChuRC_NAK then
        map_option (CHUInq c i 3) (cashcard n c i True (set_deduction WaitingCard s))
      else
        cashcard n c i True (set_deduction WaitingCard (Show ''Deduction Error^Check bal By TS'' s)))"

text \<open>A confirmation nobody waits for: of the vehicle at the station, or of one that has left, which is
  stored apart.\<close>

definition UpdateExit :: "xcfg \<Rightarrow> xin \<Rightarrow> exit_st \<Rightarrow> exit_st" where
  "UpdateExit c i s =
     (if sIUNo (tExit1 s) = [] then s
      else
        (let x = tExit1 s;
             x1 = x\<lparr>sGSTAmt := sPaidAmt x * gfGSTRate c / (1 + gfGSTRate c)\<rparr>
         in case insertexittrans i (gsTransID s) x1 s of (r, x2, s1) \<Rightarrow> s1\<lparr>tExit1 := x2\<rparr>))"

definition chu_late :: "xcfg \<Rightarrow> xin \<Rightarrow> string list \<Rightarrow> exit_st \<Rightarrow> exit_st option" where
  "chu_late c i ds s =
     do {
       time \<leftarrow> map_option FnStringConvertDBTime (fld ds 9);
       iu \<leftarrow> fld ds 2;
       (if sIUNo (tExit s) = iu then chu_debit_ok c i ds s
        else
          do {
            cd \<leftarrow> fld ds 4;
            paid \<leftarrow> dollars ds 3;
            cardType \<leftarrow> num ds 7;
            topup \<leftarrow> dollars ds 8;
            let x1 = (tExit1 s)\<lparr>sIUNo := iu, sCardNo := cd, sPaidAmt := paid, sFee := paid,
                       iCardType := cardType, sTopupAmt := topup, sExitTime := time, sEntryTime := time\<rparr>;
            Some (CHUInq c i 2 ((UpdateExit c i (s\<lparr>tExit1 := x1\<rparr>))\<lparr>fiLastCHUCmd := iInit\<rparr>))
          })
     }"

definition chu_answer :: "nat \<Rightarrow> xcfg \<Rightarrow> xin \<Rightarrow> int \<Rightarrow> int \<Rightarrow> string list \<Rightarrow> exit_st \<Rightarrow> exit_st option" where
  "chu_answer n c i rxcmd rc ds s =
     (let s1 = s\<lparr>fiLastCHUCmd := iInit\<rparr> in
      if rc = ChuRC_CNNBroken
      then Some (SendMsg2Server ''90'' '',,,,,CHU Connection Down'' s1)
      else if fiLastCHUCmd s + 1 = rxcmd then
        (if rxcmd = iRes_EntryInq then chu_vehicle n c i rc ds s1
         else if rxcmd = iRes_Debit then chu_debit_answer n c i rc ds s1
         else Some s1)
      else if rxcmd = iRes_Debit \<and> rc = ChuRC_DebitOk then chu_late c i ds s
      else Some s)"

definition processCHU :: "nat \<Rightarrow> xcfg \<Rightarrow> xin \<Rightarrow> string \<Rightarrow> exit_st \<Rightarrow> exit_st option" where
  "processCHU n c i eventData s =
     (let fs = ParseData CHR ''['' CHR '']'' CHR ''|'' eventData;
          ds = split_at_char CHR '','' (Field fs 3)
      in if gbBarrierOpened s \<or> length fs < 4 then Some s
         else
           do {
             rxcmd \<leftarrow> stoi_opt 10 (Field fs 2);
             rc \<leftarrow> num ds 0;
             chu_answer n c i rxcmd rc ds s
           })"

end
