(* ===== verification/Exit_Ticket.thy ===== *)
theory Exit_Ticket
  imports Exit_Terminals
begin

text \<open>
  A complimentary or redemption ticket that is scanned at the exit (src/operation.cpp,
  \<open>ticketScan\<close>), and the events of the station as one step function.
\<close>

section \<open>The number of a ticket\<close>

text \<open>The number that is looked at: the first twelve characters of a number with the prefix SC or SR,
  otherwise all of a number with nine or fifteen characters, whose eighth character is the type.\<close>

datatype ticket_class = WrongLength | RedemptionOff string | Ticket bool string

definition typed_ticket :: "xcfg \<Rightarrow> string \<Rightarrow> ticket_class" where
  "typed_ticket c t =
     (let TT = take 1 (drop 7 t); redemption = (TT = ''V'' \<or> TT = ''W'') in
      if redemption \<and> giExitTicketRedemption c = 0 then RedemptionOff t else Ticket redemption t)"

definition classify :: "xcfg \<Rightarrow> string \<Rightarrow> ticket_class" where
  "classify c keyed =
     (let up = FnToUpper keyed; pre = take 2 up in
      if length keyed \<ge> 12 then
        (if pre = ''SC'' \<or> pre = ''SR'' then Ticket (pre = ''SR'') (take 12 up)
         else if length keyed = 15 then typed_ticket c up
         else WrongLength)
      else if length keyed = 9 then typed_ticket c up
      else WrongLength)"

section \<open>Using a ticket\<close>

definition ticketOK :: "xcfg \<Rightarrow> xin \<Rightarrow> exit_st \<Rightarrow> exit_st" where
  "ticketOK c i s =
     CloseExitOperation c i FreeParking
       (on_exit (\<lambda>x. if complimentary_ticket x
                      then x\<lparr>sPaidAmt := 0, iTransType := 10, sCardNo := sRedeemNo x\<rparr>
                      else x\<lparr>sPaidAmt := 0\<rparr>) s)"

definition inquire_again :: "xcfg \<Rightarrow> xin \<Rightarrow> exit_st \<Rightarrow> exit_st" where
  "inquire_again c i s =
     (if giEPS c = 3 then EEPInq i 2 s else if giEPS c = 2 then CHUInq c i 1 s else s)"

text \<open>What follows a ticket that cannot be used.\<close>

definition ticket_refused :: "xcfg \<Rightarrow> xin \<Rightarrow> switch \<Rightarrow> exit_st \<Rightarrow> exit_st option" where
  "ticket_refused c i cc s =
     (let s1 = showFee2User c s;
          s2 = (if bPayByEZPay (tExit s1) then ShowLEDMsg (''You may scan^Compl Ticket'', []) s1 else s1)
      in map_option (inquire_again c i) (cc True s2))"

definition registered_ticket :: "xcfg \<Rightarrow> xin \<Rightarrow> string \<Rightarrow> string \<Rightarrow> exit_st \<Rightarrow> exit_st" where
  "registered_ticket c i axs_msg ez_msg s =
     (if bPayByAXS (tExit s) then CloseExitOperation c i AXSParking (Show axs_msg s)
      else CloseExitOperation c i EZPayParking (Show ez_msg s))"

definition registered :: "exit_trans \<Rightarrow> bool" where
  "registered x \<longleftrightarrow> bPayByAXS x \<or> bPayByEZPay x"

definition money :: "rat \<Rightarrow> string" where
  "money a = ''$'' @ SetFeeFormat a"

text \<open>The driver pays what the ticket leaves.\<close>

definition pay_balance :: "xcfg \<Rightarrow> xin \<Rightarrow> switch \<Rightarrow> exit_st \<Rightarrow> exit_st option" where
  "pay_balance c i cc s =
     (let x = tExit s; r = money (sRedeemAmt x);
          s1 = (if giEPS c = 3
                then SendMsg2OBU (sIUNo x) 0
                       (if iOBUType x = 0
                        then [''Ticket Accepted.'', ''Fee Paid:'' @ r, ''Present Payment'']
                        else [''Fee Paid'', r]) s
                else s)
      in map_option
           (\<lambda>s2. inquire_again c i
              (Show (''Fee Paid $'' @ SetFeeFormat (sRedeemAmt (tExit s2)) @ ''^ Present Payment'') s2))
           (cc True s1))"

definition clamp_redeem :: "exit_trans \<Rightarrow> exit_trans" where
  "clamp_redeem x =
     (if GfeeFormat (sFee x) < GfeeFormat (sRedeemAmt x + sRebateAmt x)
      then x\<lparr>sRedeemAmt := GfeeFormat (sFee x - sRebateAmt x)\<rparr> else x)"

definition use_redemption ::
  "xcfg \<Rightarrow> xin \<Rightarrow> switch \<Rightarrow> string \<Rightarrow> rat \<Rightarrow> int \<Rightarrow> exit_st \<Rightarrow> exit_st option" where
  "use_redemption c i cc tkNo amount minutes s0 =
     (let s = on_exit (\<lambda>x. x\<lparr>sRedeemNo := tkNo\<rparr>) s0 in
      do {
        s1 \<leftarrow> (if minutes > 0 then
                (let s' = on_exit (\<lambda>x. x\<lparr>iRedeemTime := minutes\<rparr>) s
                 in if sPaidAmt (tExit s') > 0 then RedeemTime2Amt i s' else Some s')
              else Some (on_exit (\<lambda>x. x\<lparr>sRedeemAmt := GfeeFormat amount\<rparr>) s));
        let s2 = Show (if minutes > 0 then ''Redemption: ^'' @ dec_int minutes @ '' Mins''
                       else ''Redemption: ^$'' @ SetFeeFormat (sRedeemAmt (tExit s1))) s1;
        (if registered (tExit s2) then
           (let s3 = on_exit clamp_redeem s2; r = money (sRedeemAmt (tExit s3)) in
            Some (registered_ticket c i (''Redemption^Redeemed: '' @ r)
              (''Redeemed: '' @ r @ ''^Refunded to EZpay'') s3))
         else if sIUNo (tExit s2) = [] \<and> sCardNo (tExit s2) = [] then
           cc True (SendMsg2Server ''90'' (tkNo @ '',,,,,Redemption. Ticket Wait for Card'') s2)
         else
           (let s3 = showFee2User c s2 in
            if fee_read (still_due (tExit s3)) \<le> 0 then Some (ticketOK c i s3)
            else pay_balance c i cc s3))
      })"

definition use_complimentary ::
  "xcfg \<Rightarrow> xin \<Rightarrow> switch \<Rightarrow> string \<Rightarrow> exit_st \<Rightarrow> exit_st option" where
  "use_complimentary c i cc tkNo s0 =
     (let s = on_exit (\<lambda>x. x\<lparr>sRedeemNo := tkNo\<rparr>) s0 in
      if registered (tExit s) then
        (let s1 = on_exit (\<lambda>x. x\<lparr>sRedeemAmt := GfeeFormat (sFee x - sRebateAmt x), iTransType := 10,
                    sCardNo := sRedeemNo x\<rparr>) s
         in Some (registered_ticket c i (''Complimentary^Redeemed: '' @ money (sFee (tExit s1)))
              ''Complimentary^Refunded'' s1))
      else if giNeedCard4Complimentary c = 0 then
        (let s1 = ShowLEDMsg (xMsg c MsgExit_Complimentary) s
         in Some (ticketOK c i
              (on_exit (\<lambda>x. if sIUNo x = [] then x\<lparr>sIUNo := ''N/A''\<rparr> else x) s1)))
      else if sIUNo (tExit s) = [] then
        cc True (SendMsg2Server ''90'' (tkNo @ '',,,,,Compl. Ticket Wait for Card'')
          (ShowLEDMsg (xMsg c MsgExit_Complimentary) s))
      else Some (ticketOK c i s))"

section \<open>Scanning\<close>

definition ticket_report :: "bool \<Rightarrow> int \<Rightarrow> string" where
  "ticket_report isRedemption code =
     (if code = - 1 then ''Central DB Error''
      else if code = 0 then (if isRedemption then ''Redemption Expired'' else ''Complimentary Expired'')
      else if code = 2 then ''Used Ticket''
      else if code = 4 then ''Ticket Not Found''
      else ''Ticket Not Start'')"

definition ticket_invalid ::
  "xcfg \<Rightarrow> xin \<Rightarrow> switch \<Rightarrow> bool \<Rightarrow> string \<Rightarrow> int \<Rightarrow> exit_st \<Rightarrow> exit_st option" where
  "ticket_invalid c i cc isRedemption tkNo code s =
     (let x = tExit s;
          s1 = (if giEPS c = 3
                then SendMsg2OBU (sIUNo x) 0
                       (if iOBUType x = 0 then [''Invalid Ticket'', ''Pls Present'', ''Valid Payment'']
                        else [''Invalid Ticket'']) s
                else s);
          s2 = Show ''Invalid Ticket'' s1;
          s3 = (if code = - 1 then ShowLEDMsg (xMsg c MsgExit_SystemError) s2 else s2)
      in ticket_refused c i cc
           (SendMsg2Server ''90'' (tkNo @ '',,,,,'' @ ticket_report isRedemption code) s3))"

definition ticket_used_already :: "xcfg \<Rightarrow> xin \<Rightarrow> exit_st \<Rightarrow> exit_st" where
  "ticket_used_already c i s =
     (let x = tExit s in
      if sFee x \<ge> 1 / 100 then
        (if still_due x \<le> 0 then ticketOK c i s
         else showFee2User c
                (ShowLEDMsg (''Amount Redeem,^Pls Pay Bal!'', ''Amount Redeem^Pls Pay Bal!'') s))
      else showFee2User c
             (ShowLEDMsg (''Amount Redeem,^Insert/Tap Card'', ''Amount Redeem^Insert/Tap Card'') s))"

definition ticketScan :: "nat \<Rightarrow> xcfg \<Rightarrow> xin \<Rightarrow> string \<Rightarrow> exit_st \<Rightarrow> exit_st option" where
  "ticketScan n c i skeyedNo s =
     (if sRedeemAmt (tExit s) > 0 then Some (ticket_used_already c i s)
      else
        do {
          s1 \<leftarrow> cashcard n c i False s;
          (case classify c skeyedNo of
             WrongLength \<Rightarrow>
               ticket_refused c i (cashcard n c i)
                 (ShowLEDMsg (xMsg c MsgExit_InvalidTicket)
                   (SendMsg2Server ''90'' (skeyedNo @ '',,,,,Invalid Ticket (Wrong Len)'') s1))
           | RedemptionOff t \<Rightarrow>
               ticket_refused c i (cashcard n c i) (ShowLEDMsg (xMsg c MsgExit_RedemptionTicket) s1)
           | Ticket isRedemption t \<Rightarrow>
               (case isValidBarCodeTicket i isRedemption skeyedNo of
                  (code, amount, minutes) \<Rightarrow>
                    if code \<noteq> 1 then ticket_invalid c i (cashcard n c i) isRedemption t code s1
                    else if isRedemption then use_redemption c i (cashcard n c i) t amount minutes s1
                    else use_complimentary c i (cashcard n c i) t s1))
        })"

section \<open>The events of the station\<close>

datatype exit_event =
    LoopAOn | LoopAOff | LoopCOff | LoopATimeout | Number string | ObuInfo obu_info | ObuTrans obu_trans | ChuData string
  | LcscBalance string | LcscDeducted string | LcscExpired | LcscFailure
  | UptDetected nat string | UptPayment nat string
  | TicketScanned string | PlateRead string string | EntryTimeSent string | OperatorOpens
  | ReceiptButton

fun exit_act :: "nat \<Rightarrow> xcfg \<Rightarrow> xin \<Rightarrow> exit_event \<Rightarrow> exit_st \<Rightarrow> exit_st option" where
  "exit_act n c i LoopAOn s = LoopACome n c i (s\<lparr>gbLoopApresent := True\<rparr>)"
| "exit_act n c i LoopAOff s = LoopAGone n c i (s\<lparr>gbLoopApresent := False\<rparr>)"
| "exit_act n c i LoopCOff s = LoopCGone n c i s"
| "exit_act n c i LoopATimeout s = loopATimeoutHandler n c i s"
| "exit_act n c i (Number sNo) s = VehicleCome n c i sNo s"
| "exit_act n c i (ObuInfo ob) s = ProcessOUBInformation n c i ob s"
| "exit_act n c i (ObuTrans t) s = processEEPTransData n c i t s"
| "exit_act n c i (ChuData d) s = processCHU n c i d s"
| "exit_act n c i (LcscBalance d) s = lcsc_balance n c i d s"
| "exit_act n c i (LcscDeducted d) s = lcsc_deducted c i d s"
| "exit_act n c i LcscExpired s = failed_card n c i CardExpired ''Card Expired!'' ''Card Expired'' s"
| "exit_act n c i LcscFailure s = RetryLCSCLastCommand n c i s"
| "exit_act n c i (UptDetected m d) s = upt_detected n c i m d s"
| "exit_act n c i (UptPayment m d) s = upt_payment n c i m d s"
| "exit_act n c i (TicketScanned t) s = ticketScan n c i t s"
| "exit_act n c i (PlateRead p t) s = Some (ReceivedLPR p t s)"
| "exit_act n c i (EntryTimeSent t) s = TimeForNoEntry n c i t s"
| "exit_act n c i OperatorOpens s = Some (ManualOpenBarrier c i s)"
| "exit_act n c i ReceiptButton s = Some (receipt_button s)"

end
