(* ===== verification/Exit_Correct.thy ===== *)
theory Exit_Correct
  imports Exit_Ticket
begin

text \<open>
  Lemmas on the exit station: amounts of whole cents, what a closed exit stores, which operations
  store an exit or start a deduction, and the calls of \<open>EnableCashcard\<close>.
\<close>

named_theorems exit_simps "what the small operations change"

section \<open>Amounts\<close>

lemma whole_centsE: "whole_cents x \<Longrightarrow> (\<And>k. x = of_int k / 100 \<Longrightarrow> thesis) \<Longrightarrow> thesis"
  unfolding whole_cents_def by (metis nonzero_eq_divide_eq zero_neq_numeral)

lemma whole_cents_of_int [simp]: "whole_cents (of_int k / 100)"
  by (simp add: whole_cents_def)

lemma round_half_up_of_int [simp]: "round_half_up (of_int k) = k"
proof -
  have "\<lfloor>of_int k + 1 / 2 :: rat\<rfloor> = k" by (rule floor_unique) simp_all
  moreover have "\<lfloor>1 / 2 - of_int k :: rat\<rfloor> = - k" by (rule floor_unique) simp_all
  ultimately show ?thesis by (simp add: round_half_up_def)
qed

lemma round_half_even_of_int [simp]: "round_half_even (of_int k) = k"
  by (simp add: round_half_even_def)

lemma GfeeFormat_whole [simp]: "whole_cents x \<Longrightarrow> GfeeFormat x = x"
  by (erule whole_centsE) (simp add: GfeeFormat_def)

lemma fee_read_whole [simp]: "whole_cents x \<Longrightarrow> fee_read x = x"
  by (erule whole_centsE) (simp add: fee_read_def)

lemma whole_GfeeFormat [simp]: "whole_cents (GfeeFormat x)"
  by (simp add: GfeeFormat_def)

lemma whole_cents_arith:
  assumes "whole_cents x" "whole_cents y"
  shows "whole_cents (x + y)" "whole_cents (x - y)"
proof -
  obtain k l where "x = of_int k / 100" "y = of_int l / 100"
    using assms by (auto elim!: whole_centsE)
  then have "x + y = of_int (k + l) / 100" "x - y = of_int (k - l) / 100"
    by (simp_all add: add_divide_distrib diff_divide_distrib)
  then show "whole_cents (x + y)" "whole_cents (x - y)" by (simp_all only: whole_cents_of_int)
qed

lemma whole_cents_0 [simp]: "whole_cents 0"
  by (simp add: whole_cents_def)

definition whole_exit :: "exit_trans \<Rightarrow> bool" where
  "whole_exit x \<longleftrightarrow>
     whole_cents (sFee x) \<and> whole_cents (sRebateAmt x) \<and> whole_cents (sRedeemAmt x) \<and>
     whole_cents (sOweAmt x)"

text \<open>What the vehicle owes before a redemption, and what is stored as paid.\<close>

definition due :: "exit_trans \<Rightarrow> rat" where
  "due x = sFee x - sRebateAmt x + sOweAmt x"

definition cut_redeem :: "exit_trans \<Rightarrow> rat" where
  "cut_redeem x = min (sRedeemAmt x) (due x)"

lemma due_update [simp]: "due (x\<lparr>sRedeemAmt := r\<rparr>) = due x" "due (x\<lparr>sPaidAmt := p\<rparr>) = due x"
  by (simp_all add: due_def)

lemma settle_amounts_whole:
  assumes "whole_exit x"
  shows "settle_amounts c x = x\<lparr>sRedeemAmt := cut_redeem x, sPaidAmt := due x - cut_redeem x\<rparr>"
proof -
  have w: "whole_cents (due x)"
    using assms by (simp add: due_def whole_exit_def whole_cents_arith)
  have u: "y - r - z + w = y - r + w - z" for y r z w :: rat by simp
  show ?thesis
    using assms w
    by (auto simp: settle_amounts_def Let_def cut_redeem_def whole_exit_def u due_def [symmetric]
        whole_cents_arith)
qed

text \<open>In any case nothing negative is stored as paid when the amounts are whole cents.\<close>

lemma paid_not_negative: "0 \<le> due x - cut_redeem x"
  by (simp add: cut_redeem_def)

section \<open>The effects that matter\<close>

fun is_store :: "exit_effect \<Rightarrow> bool" where
  "is_store (InsertExit t x k) = True"
| "is_store e = False"

fun is_deduct :: "exit_effect \<Rightarrow> bool" where
  "is_deduct (EepDeduct a b d e) = True"
| "is_deduct (ChuMsg cmd d) = (cmd = iDebit)"
| "is_deduct (UptPay a) = True"
| "is_deduct (LcscDeduct a) = True"
| "is_deduct e = False"

abbreviation stores :: "exit_st \<Rightarrow> exit_effect list" where
  "stores s \<equiv> filter is_store (out s)"

abbreviation deducts :: "exit_st \<Rightarrow> exit_effect list" where
  "deducts s \<equiv> filter is_deduct (out s)"

lemma iDebit_codes [simp]: "iEntryInq \<noteq> iDebit" "iDebit \<noteq> iEntryInq"
  by (simp_all add: iEntryInq_def iDebit_def)

lemmas show_defs = ShowLEDMsg_def Show_def SendMsg2Server_def emit_def on_exit_def

section \<open>The key of a state\<close>

text \<open>The part of the state that decides whether a plate can be looked up, whether the exit is paid
  and stored, whether a deduction is under way, and the deductions that were sent.\<close>

record exit_key =
  k_iu :: string
  k_plate :: string
  k_paid :: bool
  k_status :: eProcessStatus
  k_saved :: bool
  k_deducts :: "exit_effect list"

definition key :: "exit_st \<Rightarrow> exit_key" where
  "key s =
     \<lparr>k_iu = sIUNo (tExit s), k_plate = sLPN0 (tExit s), k_paid = gbPaid (tExit s),
      k_status = giDeductionStatus (tExit s), k_saved = gbsavedtrans s, k_deducts = deducts s\<rparr>"

definition paid_key :: "exit_key \<Rightarrow> exit_key" where
  "paid_key k = (if k_iu k = [] then k else k\<lparr>k_paid := True, k_saved := True\<rparr>)"

definition cleared_key :: "exit_key \<Rightarrow> exit_key" where
  "cleared_key k =
     k\<lparr>k_iu := [], k_plate := [], k_paid := False, k_status := init, k_saved := False\<rparr>"

text \<open>The small operations leave the key alone.\<close>

lemma key_EEPInq [simp]: "key (EEPInq i d s) = key s"
  by (simp add: show_defs key_def EEPInq_def)

lemma key_SendMsg2OBU [simp]: "key (SendMsg2OBU o' d l s) = key s"
  by (simp add: show_defs key_def SendMsg2OBU_def)

lemma key_CHUInq [simp]: "key (CHUInq c i d s) = key s"
  by (simp add: show_defs key_def CHUInq_def SendMsg2CHU_def)

lemma key_EnableLCSC [simp]: "key (EnableLCSC c b s) = key s"
  by (simp add: show_defs key_def EnableLCSC_def)

lemma key_EnableKDE [simp]: "key (EnableKDE c b s) = key s"
  by (simp add: show_defs key_def EnableKDE_def)

lemma key_EnableUPOS [simp]: "key (EnableUPOS c b s) = key s"
  by (simp add: show_defs key_def EnableUPOS_def)

lemma key_emit: "\<not> is_deduct e \<Longrightarrow> key (emit e s) = key s"
  by (simp add: show_defs key_def)

lemma key_switch_readers [simp]: "key (switch_readers c b s) = key s"
  unfolding switch_readers_def by (simp add: key_emit)

lemma key_show [simp]:
  "key (ShowLEDMsg m s) = key s" "key (Show t s) = key s" "key (SendMsg2Server a b s) = key s"
  by (simp_all add: show_defs key_def)

lemma key_showFee2User [simp]: "key (showFee2User c s) = key s"
  by (simp add: show_defs key_def showFee2User_def Let_def SendMsg2OBU_def)

lemma key_set_paid [simp]: "key (set_paid s) = key s"
  by (simp add: show_defs key_def set_paid_def Let_def)

lemma key_PrintReceipt [simp]: "key (PrintReceipt s) = key s"
  by (simp add: show_defs key_def PrintReceipt_def)

lemma key_remember_card [simp]: "key (remember_card n b s) = key s"
  by (simp add: show_defs key_def remember_card_def)

lemma key_too_high [simp]: "key (too_high s) = key s"
  by (simp add: show_defs key_def too_high_def)

lemma key_press_intercom [simp]: "key (press_intercom c sIU s) = key s"
  by (simp add: show_defs key_def press_intercom_def SendMsg2OBU_def Let_def)

lemma key_CheckSeason: "CheckSeason c i sIU s = (r, t) \<Longrightarrow> key t = key s"
  by (auto simp: show_defs key_def CheckSeason_def FormatSeasonMsg_def Let_def split: prod.splits if_splits)

definition exit_key_of :: "exit_trans \<Rightarrow> string \<times> string \<times> bool \<times> eProcessStatus" where
  "exit_key_of x = (sIUNo x, sLPN0 x, gbPaid x, giDeductionStatus x)"

lemma key_exitI:
  "exit_key_of (tExit t) = exit_key_of (tExit s) \<Longrightarrow> gbsavedtrans t = gbsavedtrans s \<Longrightarrow>
   deducts t = deducts s \<Longrightarrow> key t = key s"
  by (simp add: key_def exit_key_of_def)

lemma exit_key_of_update [simp]:
  "exit_key_of (x\<lparr>iUsedTicketBy := n\<rparr>) = exit_key_of x" "exit_key_of (x\<lparr>sRedeemAmt := a\<rparr>) = exit_key_of x"
  "exit_key_of (x\<lparr>lParkedTime := n\<rparr>) = exit_key_of x" "exit_key_of (x\<lparr>sPaidAmt := a\<rparr>) = exit_key_of x"
  "exit_key_of (x\<lparr>sFee := a\<rparr>) = exit_key_of x" "exit_key_of (x\<lparr>iTransType := n\<rparr>) = exit_key_of x"
  "exit_key_of (x\<lparr>sExitTime := t\<rparr>) = exit_key_of x" "exit_key_of (x\<lparr>sEntryTime := t\<rparr>) = exit_key_of x"
  "exit_key_of (x\<lparr>bNoEntryRecord := n\<rparr>) = exit_key_of x" "exit_key_of (x\<lparr>sCardNo := t\<rparr>) = exit_key_of x"
  "exit_key_of (x\<lparr>iCardType := n\<rparr>) = exit_key_of x" "exit_key_of (x\<lparr>iVehicleType := n\<rparr>) = exit_key_of x"
  "exit_key_of (x\<lparr>sRedeemNo := t\<rparr>) = exit_key_of x" "exit_key_of (x\<lparr>iRedeemTime := n\<rparr>) = exit_key_of x"
  "exit_key_of (x\<lparr>bPayByEZPay := b\<rparr>) = exit_key_of x" "exit_key_of (x\<lparr>bPayByAXS := b\<rparr>) = exit_key_of x"
  "exit_key_of (x\<lparr>iCardStatus := n\<rparr>) = exit_key_of x" "exit_key_of (x\<lparr>iStatus := n\<rparr>) = exit_key_of x"
  "exit_key_of (x\<lparr>sCHUDebitCode := t\<rparr>) = exit_key_of x" "exit_key_of (x\<lparr>sOweAmt := a\<rparr>) = exit_key_of x"
  "exit_key_of (x\<lparr>iEEPPaymentResult := n\<rparr>) = exit_key_of x" "exit_key_of (x\<lparr>iEntryID := n\<rparr>) = exit_key_of x"
  "exit_key_of (x\<lparr>sGSTAmt := a\<rparr>) = exit_key_of x" "exit_key_of (x\<lparr>iflag4Receipt := n\<rparr>) = exit_key_of x"
  "exit_key_of (x\<lparr>sTopupAmt := a\<rparr>) = exit_key_of x"
  by (simp_all add: exit_key_of_def)

lemma key_on_exit:
  "exit_key_of (f (tExit s)) = exit_key_of (tExit s) \<Longrightarrow> key (on_exit f s) = key s"
  by (auto intro!: key_exitI simp: on_exit_def)

lemma HasValidTicket_key: "HasValidTicket i iu p x = (r, y) \<Longrightarrow> exit_key_of y = exit_key_of x"
  by (auto simp: HasValidTicket_def split: option.splits list.splits)

lemma look_for_ticket_key: "exit_key_of (look_for_ticket i x) = exit_key_of x"
  by (auto simp: look_for_ticket_def split: prod.splits dest!: HasValidTicket_key)

lemma key_CalFeeRAM: "CalFeeRAM i e p v s = Some (f, t) \<Longrightarrow> key t = key s"
  by (auto simp: CalFeeRAM_def look_for_ticket_key key_on_exit split: if_splits)

lemma key_set_redeem [simp]: "key (set_redeem a s) = key s"
  by (simp add: set_redeem_def key_on_exit)

lemma key_RedeemTime2Amt:
  assumes "RedeemTime2Amt i s = Some t"
  shows "key t = key s"
proof -
  define s1 where "s1 = (if lParkedTime (tExit s) = 0 then on_exit (\<lambda>x. x\<lparr>lParkedTime := parked_time i
      (sEntryTime x) (if sExitTime (tExit s) = [] then time_text i else sExitTime (tExit s))\<rparr>) s else s)"
  have 1: "key s1 = key s" by (simp add: s1_def key_on_exit)
  show ?thesis
    using assms unfolding RedeemTime2Amt_def Let_def s1_def [symmetric]
    by (auto simp: 1 bind_eq_Some_conv split: if_splits dest!: key_CalFeeRAM)
qed

lemma key_redeem_minutes: "redeem_minutes i s = Some t \<Longrightarrow> key t = key s"
  by (auto simp: redeem_minutes_def key_RedeemTime2Amt split: if_splits)

section \<open>Closing an exit\<close>

lemma exit_key_rounded [simp]: "exit_key_of (rounded_exit x) = exit_key_of x"
  by (simp add: rounded_exit_def exit_key_of_def)

lemma exit_key_settle [simp]: "exit_key_of (settle_amounts c x) = exit_key_of x"
  by (simp add: settle_amounts_def Let_def)

lemma exit_key_gst [simp]: "exit_key_of (gst_of c x) = exit_key_of x"
  by (simp add: gst_of_def)

lemma insertexittrans_key:
  "insertexittrans i k x s = (r, y, t) \<Longrightarrow> exit_key_of y = exit_key_of x \<and> tExit t = tExit s \<and>
     gbsavedtrans t = gbsavedtrans s \<and> deducts t = deducts s"
  by (auto simp: insertexittrans_def Let_def emit_def split: if_splits)

lemma insert2movementtrans_key:
  "insert2movementtrans i x s = (r, y, t) \<Longrightarrow> exit_key_of y = exit_key_of x \<and> tExit t = tExit s \<and>
     gbsavedtrans t = gbsavedtrans s \<and> deducts t = deducts s"
  by (auto simp: insert2movementtrans_def Let_def emit_def split: if_splits)

lemma updatemovementtrans_key:
  "updatemovementtrans i x s = (r, y, t) \<Longrightarrow> exit_key_of y = exit_key_of x \<and> tExit t = tExit s \<and>
     gbsavedtrans t = gbsavedtrans s \<and> deducts t = deducts s"
  by (auto simp: updatemovementtrans_def Let_def emit_def
      split: if_splits option.splits prod.splits dest!: insert2movementtrans_key)

lemma updateUsedTicket_key:
  "updateUsedTicket i x s = (r, y, t) \<Longrightarrow> exit_key_of y = exit_key_of x \<and> tExit t = tExit s \<and>
     gbsavedtrans t = gbsavedtrans s \<and> deducts t = deducts s"
  by (auto simp: updateUsedTicket_def Let_def emit_def split: if_splits)

lemma key_store_rows: "store_rows i s = (r, t) \<Longrightarrow> key t = key s"
  by (rule key_exitI)
    (auto simp: store_rows_def split: if_splits prod.splits
      dest!: insertexittrans_key insert2movementtrans_key updatemovementtrans_key
        updateUsedTicket_key)

lemma key_tExit: "exit_key_of x = exit_key_of (tExit s) \<Longrightarrow> key (s\<lparr>tExit := x\<rparr>) = key s"
  by (rule key_exitI) simp_all

lemma key_SaveExit: "key (SaveExit c i s) = paid_key (key s)"
proof (cases "sIUNo (tExit s) = []")
  case True
  then show ?thesis by (simp add: SaveExit_def paid_key_def key_def)
next
  case False
  define x1 where "x1 = settle_amounts c (tExit s)"
  define x2 where "x2 = (if lParkedTime x1 \<le> 0 \<and> sEntryTime x1 \<noteq> []
      then x1\<lparr>lParkedTime := parked_time i (sEntryTime x1) (sExitTime x1)\<rparr> else x1)"
  obtain r s1 where s1: "store_rows i (s\<lparr>tExit := gst_of c x2\<rparr>) = (r, s1)" by fastforce
  have "exit_key_of x2 = exit_key_of (tExit s)" by (simp add: x2_def x1_def)
  then have "key s1 = key s" using key_store_rows [OF s1] by (simp add: key_tExit)
  then have e: "exit_key_of (tExit s1) = exit_key_of (tExit s)" "deducts s1 = deducts s"
    by (simp_all add: key_def exit_key_of_def)
  show ?thesis
    using False e
    by (simp add: SaveExit_def Let_def x1_def [symmetric] x2_def [symmetric] s1)
      (simp add: key_def paid_key_def exit_key_of_def show_defs UpdateLocalEntry_def)
qed

lemma key_close_marks [simp]: "exit_key_of (close_marks t x) = exit_key_of x"
  by (cases t) (simp_all add: close_marks_def Let_def)

lemma key_stop [simp]: "key (stopLoopAPeriodicTimer s) = key s"
  by (simp add: stopLoopAPeriodicTimer_def key_def emit_def)

lemma key_Clearme [simp]: "key (Clearme c s) = cleared_key (key s)"
  by (simp add: Clearme_def key_def cleared_key_def exit_cleared_def)

lemma key_EndEEPprocess:
  "key (EndEEPprocess c i r s) = (if gsTailgateOBU s \<noteq> [] then cleared_key (key s) else key s)"
proof -
  have s: "key (s\<lparr>out := out s @ xs, fiLastEEPCmd := e\<rparr>) = key s" if "filter is_deduct xs = []" for e xs
    using that by (simp add: key_def)
  show ?thesis
    by (simp add: EndEEPprocess_def Let_def SendMsg2OBU_def emit_def s)
qed

lemma key_Openbarrier: "key (Openbarrier c i r s) = key s \<or> key (Openbarrier c i r s) = cleared_key (key s)"
proof -
  have o: "key (emit (SetOpenBarrier 0) (emit (SetOpenBarrier 1) (u\<lparr>gbBarrierOpened := True\<rparr>))) = key u" for u
    by (simp add: key_def emit_def)
  show ?thesis
    by (simp add: Openbarrier_def Let_def key_EndEEPprocess o)
qed

lemma key_CloseExitOperation:
  "key (CloseExitOperation c i t s) = paid_key (key s) \<or>
   key (CloseExitOperation c i t s) = cleared_key (paid_key (key s))"
proof -
  define s1 where "s1 = on_exit (close_marks t) s"
  define s2 where "s2 = (if fst (close_msg t (tExit s1)) \<noteq> [] then ShowLEDMsg (close_msg t (tExit s1)) s1 else s1)"
  have "key s2 = key s" by (simp add: s1_def s2_def key_on_exit)
  then have "key (SaveExit c i s2) = paid_key (key s)" by (simp add: key_SaveExit)
  then show ?thesis
    using key_Openbarrier [of c i 0 "SaveExit c i s2"]
    by (auto simp: CloseExitOperation_def Let_def s1_def [symmetric] s2_def [symmetric])
qed

section \<open>Starting a deduction\<close>

lemma k_status_key: "k_status (key s) = giDeductionStatus (tExit s)"
  by (simp add: key_def)

lemma key_set_deduction [simp]: "key (set_deduction d s) = (key s)\<lparr>k_status := d\<rparr>"
  by (simp add: set_deduction_def on_exit_def key_def)

lemma key_begin_deduction [simp]: "key (begin_deduction s) = (key s)\<lparr>k_status := Doingdeduction\<rparr>"
proof -
  have "key (begin_deduction s) = key (set_deduction Doingdeduction s)"
    by (simp add: begin_deduction_def key_def)
  then show ?thesis by simp
qed

lemma busy_no_deduction:
  assumes "giDeductionStatus (tExit s) = Doingdeduction"
  shows "debitfromReader c n f dev ct b s = s" "EEPDebit i cc n f e x s = Some s" "CHUDebit c n f cn b s = s"
  using assms by (simp_all add: debitfromReader_def EEPDebit_def CHUDebit_def)

text \<open>A deduction that is sent is the last effect of its kind, and the station is busy from then on.\<close>

definition began :: "exit_key \<Rightarrow> exit_key \<Rightarrow> bool" where
  "began k l \<longleftrightarrow> (\<exists>d. l = k\<lparr>k_status := Doingdeduction, k_deducts := d\<rparr>)"

lemma debitfromReader_key:
  "key (debitfromReader c n f dev ct b s) = key s \<or> began (key s) (key (debitfromReader c n f dev ct b s))"
proof -
  have "key (EnableLCSC c False u) = key u" for u by simp
  moreover have "began (key s) (key (on_exit (\<lambda>x. x\<lparr>sCardNo := n, iCardType := ct\<rparr>)
      (remember_card n b (begin_deduction s)))\<lparr>k_deducts := d\<rparr>)" for d
    by (auto simp: began_def key_on_exit)
  moreover have "key ((emit e u)\<lparr>gbUPOSStatus := st\<rparr>) = (key u)\<lparr>k_deducts := deducts (emit e u)\<rparr>" for e u st
    by (simp add: key_def emit_def)
  moreover have "key (emit (LcscDeduct a) ((emit UptCancel u)\<lparr>gbUPOSStatus := st\<rparr>)) =
      (key u)\<lparr>k_deducts := deducts u @ [LcscDeduct a]\<rparr>" for a u st
    by (simp add: key_def emit_def)
  ultimately show ?thesis by (simp add: debitfromReader_def Let_def)
qed

lemma key_SendMsg2CHU:
  "key (SendMsg2CHU cmd d s) = (key s)\<lparr>k_deducts := deducts (SendMsg2CHU cmd d s)\<rparr>"
  by (simp add: SendMsg2CHU_def key_def emit_def)

lemma CHUDebit_key:
  "key (CHUDebit c n f cn b s) = key s \<or> began (key s) (key (CHUDebit c n f cn b s))"
  by (auto simp: CHUDebit_def Let_def key_SendMsg2CHU key_on_exit began_def)

section \<open>Working out the fee\<close>

lemma key_set_fee:
  assumes "set_fee m = Some t" and "\<And>f u. m = Some (f, u) \<Longrightarrow> key u = key s"
  shows "key t = key s"
  using assms by (auto simp: set_fee_def key_on_exit)

lemma key_stay_fee: "stay_fee i r s = Some (r', t) \<Longrightarrow> key t = key s"
  by (auto simp: stay_fee_def Let_def split: if_splits intro: key_set_fee dest!: key_CalFeeRAM
      elim!: key_set_fee)

lemma key_fetch_entry [simp]: "exit_key_of (fetch_entry i sIU x) = exit_key_of x"
proof -
  have "exit_key_of y = exit_key_of x" if "first_entry r x = Some y" for r y
    using that by (auto simp: first_entry_def split: option.splits)
  then have "exit_key_of (snd (FetchEntryinfo i sIU x)) = exit_key_of x"
    by (auto simp: FetchEntryinfo_def Let_def split: option.splits list.splits)
  then show ?thesis by (simp add: fetch_entry_def Let_def)
qed

lemma key_with_number: "key (on_exit (\<lambda>x. x\<lparr>sIUNo := n\<rparr>) s) = (key s)\<lparr>k_iu := n\<rparr>"
  by (simp add: key_def on_exit_def)

text \<open>The steps before the fee is worked out.\<close>

definition arrival :: "xcfg \<Rightarrow> xin \<Rightarrow> string \<Rightarrow> exit_st \<Rightarrow> exit_st" where
  "arrival c i sIU s =
     (let s1 = on_exit (\<lambda>x. x\<lparr>sIUNo := sIU\<rparr>) s in
      if blacklist i sIU \<ge> 0
      then SendMsg2Server ''90'' (sIU @ '',,,,,Blacklist IU'') (ShowLEDMsg (xMsg c MsgExit_BlackList) s1)
      else s1)"

lemma key_arrival [simp]: "key (arrival c i sIU s) = (key s)\<lparr>k_iu := sIU\<rparr>"
  by (simp add: arrival_def Let_def key_with_number)

definition looked_up :: "xcfg \<Rightarrow> xin \<Rightarrow> string \<Rightarrow> exit_st \<Rightarrow> exit_st" where
  "looked_up c i sIU s =
     on_exit (\<lambda>x. x\<lparr>iTransType := exit_vehicle c i sIU x\<rparr>) (on_exit (fetch_entry i sIU) s)"

lemma key_looked_up [simp]: "key (looked_up c i sIU s) = key s"
  by (simp add: looked_up_def key_on_exit)

lemma owed_split:
  "owed c i cc sIU s =
     (if blacklist i sIU = 0 then Some (Handled (arrival c i sIU s))
      else if blocked c sIU then
        Some (Handled (SendMsg2Server ''90'' (sIU @ '',,,,,Block IU'')
          (Show ''Lorry No Exit^Pls Reverse'' (arrival c i sIU s))))
      else
        (let s4 = looked_up c i sIU (arrival c i sIU s) in
         if iTransType (tExit s4) = 9 then
           Some (Handled (CloseExitOperation c i FreeParking (ShowLEDMsg (xMsg c Msg_authorizedvehicle) s4)))
         else
           (case CheckSeason c i sIU (on_exit (\<lambda>x. x\<lparr>iVehicleType := (iTransType x - 1) sdiv 3\<rparr>) s4) of
              (iRet, s5) \<Rightarrow>
                if free_season iRet \<and> (giSeasonCharge c = 0 \<or> bNoEntryRecord (tExit s5) = 1) then
                  Some (Handled (CloseExitOperation c i SeasonParking
                    (on_exit (\<lambda>x. x\<lparr>iTransType := (if iRet = 9 then 10 else iTransType x),
                       sFee := 0, sPaidAmt := 0, sExitTime := time_text i\<rparr>) s5)))
                else if bNoEntryRecord (tExit s5) = 1 then no_entry_fee c i cc sIU s5
                else with_entry_fee c i iRet s5)))"
  unfolding owed_def arrival_def looked_up_def Let_def ..

section \<open>Relations that every handler keeps\<close>

text \<open>
  A reflexive and transitive relation on keys that the small operations and the switch of the readers
  keep is kept by the handlers of the station.  \<open>allow\<close> says that deductions are among the operations;
  where they are not, the station must be busy already.
\<close>

locale key_steps =
  fixes R :: "exit_key \<Rightarrow> exit_key \<Rightarrow> bool" and cc :: switch and allow :: bool
  assumes same: "R k k"
    and chain: "R k l \<Longrightarrow> R l m \<Longrightarrow> R k m"
    and paid: "R k (paid_key k)"
    and cleared: "R k (cleared_key k)"
    and waits: "st \<noteq> DeductionSuccessed \<Longrightarrow> R k (k\<lparr>k_status := st\<rparr>)"
    and numbers: "allow \<or> iu \<noteq> [] \<Longrightarrow> R k (k\<lparr>k_iu := iu\<rparr>)"
    and plates: "allow \<or> k_iu k \<noteq> [] \<Longrightarrow> R k (k\<lparr>k_plate := p\<rparr>)"
    and succeeds: "R k (k\<lparr>k_paid := True, k_status := DeductionSuccessed\<rparr>)"
    and switches: "cc b s = Some t \<Longrightarrow> R (key s) (key t)"
    and starts: "allow \<Longrightarrow> R k (k\<lparr>k_status := Doingdeduction, k_deducts := d\<rparr>)"
begin

lemma from_key: "key u = key s \<Longrightarrow> R (key u) k \<Longrightarrow> R (key s) k"
  by simp

lemma closes: "R (key s) (key (CloseExitOperation c i t s))"
  using key_CloseExitOperation [of c i t s] paid chain cleared by metis

lemma opens: "R (key s) (key (Openbarrier c i r s))"
  using key_Openbarrier [of c i r s] same cleared by metis

lemma began_allowed: "allow \<Longrightarrow> began k l \<Longrightarrow> R k l"
  by (auto simp: began_def starts)

lemma reader_debits:
  assumes "allow \<or> k_status (key s) = Doingdeduction"
  shows "R (key s) (key (debitfromReader c n f dev ct b s))"
  using assms debitfromReader_key [of c n f dev ct b s]
    busy_no_deduction(1) [of s c n f dev ct b] began_allowed same by (auto simp: key_def)

lemma chu_debits:
  assumes "allow \<or> k_status (key s) = Doingdeduction"
  shows "R (key s) (key (CHUDebit c n f cn b s))"
  using assms CHUDebit_key [of c n f cn b s] busy_no_deduction(3) [of s c n f cn b] began_allowed same
  by (auto simp: key_def)

lemma obu_debits:
  assumes "allow \<or> k_status (key s) = Doingdeduction" and "EEPDebit i cc n f e x s = Some t"
  shows "R (key s) (key t)"
proof (cases "\<not> gbLoopApresent s \<or> giDeductionStatus (tExit s) = Doingdeduction")
  case True
  with assms(2) show ?thesis by (auto simp: EEPDebit_def same split: if_splits)
next
  case False
  with assms(1) have a: allow by (simp add: key_def)
  from False assms(2) obtain s1 where s1: "cc False s = Some s1"
    and t: "t = (emit (EepDeduct n (dec_int (to_long (f * 100)))
        (if e = [] then time_text i else e) x) (begin_deduction s1))\<lparr>fiLastEEPCmd := DEDUCT_REQ_CMD\<rparr>"
    by (auto simp: EEPDebit_def bind_eq_Some_conv)
  have "key t = (key (begin_deduction s1))\<lparr>k_deducts := deducts t\<rparr>"
    unfolding t by (simp add: key_def emit_def)
  then have "began (key s1) (key t)" by (auto simp: began_def)
  then show ?thesis using switches [OF s1] began_allowed [OF a] chain by blast
qed

end

context key_steps
begin

lemma switched: "map_option f (cc b s) = Some t \<Longrightarrow> (\<And>u. R (key u) (key (f u))) \<Longrightarrow> R (key s) (key t)"
  using switches chain by (auto, metis)

lemma closes_after: "key u = key s \<Longrightarrow> R (key s) (key (CloseExitOperation c i t u))"
  by (metis closes)

lemma no_entry_fee_keeps:
  assumes "no_entry_fee c i cc sIU s = Some d"
  shows "(\<forall>t. d = Handled t \<longrightarrow> R (key s) (key t)) \<and> (\<forall>t. d = ToPay t \<longrightarrow> key t = key s)"
proof (cases "complimentary_ticket (tExit s)")
  case True
  let ?u = "CloseExitOperation c i FreeParking
    (Show ''No Entry Record^Compl Ticket'' (on_exit as_complimentary s))"
  from True assms obtain t where t: "cc False ?u = Some t" "d = Handled t"
    by (auto simp: no_entry_fee_def)
  have "R (key s) (key ?u)" by (rule closes_after) (simp add: key_on_exit as_complimentary_def)
  then show ?thesis using t switches chain by blast
next
  case False
  then show ?thesis
    using assms by (auto simp: no_entry_fee_def key_on_exit same split: if_splits prod.splits)
qed

lemma with_entry_fee_keeps:
  assumes "with_entry_fee c i r s = Some d"
  shows "(\<forall>t. d = Handled t \<longrightarrow> R (key s) (key t)) \<and> (\<forall>t. d = ToPay t \<longrightarrow> key t = key s)"
  using assms
  by (auto simp: with_entry_fee_def Let_def bind_eq_Some_conv key_on_exit split: if_splits
      dest!: key_stay_fee intro!: closes_after)

lemma owed_keeps:
  assumes "owed c i cc sIU s = Some d" and "allow \<or> sIU \<noteq> []"
  shows "(\<forall>t. d = Handled t \<longrightarrow> R (key s) (key t)) \<and>
    (\<forall>t. d = ToPay t \<longrightarrow> key t = (key s)\<lparr>k_iu := sIU\<rparr>)"
proof -
  let ?k = "(key s)\<lparr>k_iu := sIU\<rparr>"
  define s4 where "s4 = looked_up c i sIU (arrival c i sIU s)"
  obtain r s5 where r: "CheckSeason c i sIU (on_exit (\<lambda>x. x\<lparr>iVehicleType := (iTransType x - 1) sdiv 3\<rparr>) s4) = (r, s5)"
    by fastforce
  have k4: "key s4 = ?k" by (simp add: s4_def)
  have k5: "key s5 = ?k" using key_CheckSeason [OF r] k4 by (simp add: key_on_exit)
  have n: "R (key s) ?k" by (rule numbers) (rule assms)
  have h: "R (key s) (key t)" if "R ?k (key t)" for t using n that chain by blast
  have c: "R ?k (key (CloseExitOperation c i t u))" if "key u = ?k" for t u
    using closes [of u] that by metis
  show ?thesis
    using assms(1) no_entry_fee_keeps [of c i sIU s5 d] with_entry_fee_keeps [of c i r s5 d]
    unfolding owed_split s4_def [symmetric] Let_def r prod.case
    by (auto simp: k4 k5 key_on_exit same intro!: h c split: if_splits)
qed

lemma pay_registered_keeps:
  assumes "pay_registered c i cc t m1 m2 s = Some u"
  shows "R (key s) (key u)"
proof -
  define s1 where "s1 = on_exit (\<lambda>x. if t = EZPayParking then x\<lparr>bPayByEZPay := True\<rparr> else x\<lparr>bPayByAXS := True\<rparr>) s"
  have k: "key s1 = key s" by (simp add: s1_def key_on_exit)
  have c: "R (key s) (key (CloseExitOperation c i t (Show m s1)))" for m
    by (rule closes_after) (simp add: k)
  show ?thesis
    using assms unfolding pay_registered_def Let_def s1_def [symmetric]
    by (auto simp: same k dest!: switches split: if_splits intro: chain [OF _ opens] c)
qed

lemma obu_debit_keeps:
  assumes "allow \<or> k_status (key s) = Doingdeduction" and "obu_debit i cc n b s = Some t"
  shows "R (key s) (key t)"
proof -
  define u where "u = (if n \<noteq> [] then remember_card n b s else s)"
  have k: "key u = key s" by (simp add: u_def)
  show ?thesis
    using obu_debits [of u] assms unfolding obu_debit_def Let_def u_def [symmetric] k by blast
qed

lemma waiting: "R (key s) ((key s)\<lparr>k_status := WaitingCard\<rparr>)"
  by (rule waits) simp

lemma pay_by_obu_keeps:
  assumes "allow \<or> k_status (key s) = Doingdeduction" and "pay_by_obu i cc n b s = Some t"
  shows "R (key s) (key t)"
  using assms obu_debit_keeps
  by (auto simp: pay_by_obu_def Let_def waiting split: if_splits dest!: switches
      intro: chain [OF waiting])

lemma pay_by_card_keeps:
  assumes "allow \<or> k_status (key s) = Doingdeduction" and "pay_by_card c cc dev ct b s = Some t"
  shows "R (key s) (key t)"
  using assms reader_debits
  by (auto simp: pay_by_card_def split: if_splits dest!: switches intro: chain [OF waiting])

lemma pay_keeps:
  assumes "allow \<or> k_status (key s) = Doingdeduction" and "pay c i cc dev n ct b s = Some t"
  shows "R (key s) (key t)"
  using assms chu_debits pay_by_obu_keeps pay_by_card_keeps pay_registered_keeps
  by (auto simp: pay_def Let_def same split: if_splits)

lemma PBSExit_keeps:
  assumes "allow \<or> k_status (key s) = Doingdeduction" and "allow \<or> sIU \<noteq> []"
    and "PBSExit c i cc sIU dev n ct b s = Some t"
  shows "R (key s) (key t)"
proof (cases "sIU = sIUNo (tExit s)")
  case True
  with assms(3) show ?thesis by (simp add: PBSExit_def same)
next
  case False
  with assms(3) obtain d where d: "owed c i cc sIU s = Some d"
    by (auto simp: PBSExit_def bind_eq_Some_conv)
  show ?thesis
  proof (cases d)
    case (Handled u)
    with assms(3) False d show ?thesis using owed_keeps [OF d assms(2)] by (simp add: PBSExit_def)
  next
    case (ToPay u)
    with assms(3) False d obtain u1 where u1: "redeem_minutes i u = Some u1"
      by (auto simp: PBSExit_def bind_eq_Some_conv)
    define t2 where "t2 = showFee2User c (set_paid u1)"
    have k: "key t2 = (key s)\<lparr>k_iu := sIU\<rparr>"
      using key_redeem_minutes [OF u1] owed_keeps [OF d assms(2)] ToPay by (simp add: t2_def)
    have n: "R (key s) (key t2)" unfolding k by (rule numbers) (rule assms)
    have a: "allow \<or> k_status (key t2) = Doingdeduction" using assms(1) by (simp add: k)
    have c: "R (key t2) (key (CloseExitOperation c i FreeParking (Show m (on_exit as_complimentary t2))))" for m
      by (rule closes_after) (simp add: key_on_exit as_complimentary_def)
    have "R (key t2) (key t)"
      using assms(3) False d ToPay u1 pay_keeps [OF a] closes [of t2]
      by (auto simp: PBSExit_def Let_def t2_def [symmetric] split: if_splits
          dest!: switches intro: chain [OF c])
    with n show ?thesis by (rule chain)
  qed
qed

end

context key_steps
begin

lemma waited_card_keeps:
  assumes "allow" and "waited_card c i cc dev n ct b s = Some t"
  shows "R (key s) (key t)"
proof -
  have a: "allow \<or> k_status (key s) = Doingdeduction" using assms(1) ..
  have c: "R (key s) (key (CloseExitOperation c i FreeParking (on_exit (free_card r n ct) (Show m s))))" for r m
    by (rule closes_after) (simp add: key_on_exit free_card_def)
  have e: "R (key s) (key t)"
    if "EEPDebit i cc iu f e x (remember_card n b (on_exit (\<lambda>x. x\<lparr>sCardNo := n\<rparr>) s)) = Some t" for iu f e x
    using obu_debits [OF _ that] a by (simp add: key_on_exit)
  show ?thesis
    using assms(2) c e chu_debits [OF a] reader_debits [OF a]
    by (auto simp: waited_card_def Let_def split: if_splits dest!: switches)
qed

lemma again_obu_keeps:
  assumes "allow \<or> k_status (key s) = Doingdeduction" and "again_obu i cc n b s = Some t"
  shows "R (key s) (key t)"
  using assms obu_debit_keeps
  by (auto simp: again_obu_def split: if_splits dest!: switches intro: chain [OF waiting])

lemma same_number_keeps:
  assumes "allow \<or> k_status (key s) = Doingdeduction" and "allow \<or> iu \<noteq> []"
    and "same_number c i cc iu dev n ct b s = Some t"
  shows "R (key s) (key t)"
  using assms(3) chu_debits [OF assms(1)] reader_debits [OF assms(1)] again_obu_keeps [OF assms(1)]
    PBSExit_keeps [OF assms(1,2)]
  by (auto simp: same_number_def Let_def same split: if_splits dest!: switches
      intro: chain [OF _ opens])

lemma after_failure_keeps:
  assumes "allow \<or> k_status (key s) = Doingdeduction" and "allow \<or> iu \<noteq> []"
    and "after_failure c i cc iu dev n ct b s = Some t"
  shows "R (key s) (key t)"
proof -
  have g: "key (s\<lparr>gfLastCardBal := x\<rparr>) = key s" for x by (simp add: key_def)
  have c: "R (key s) (key (CloseExitOperation c i BalanceChange u))" if "R (key s) (key u)" for u
    using that closes chain by blast
  have w: "R (key s) (key t)" if "waited_card c i cc dev n ct b s = Some t"
    "giDeductionStatus (tExit s) = WaitingCard"
    using waited_card_keeps [OF _ that(1)] assms(1) that(2) by (auto simp: key_def)
  show ?thesis
    using assms(3) same_number_keeps [OF assms(1,2)] PBSExit_keeps [OF assms(1,2)] w
    by (auto simp: after_failure_def Let_def g split: if_splits dest!: switches
        intro: chain [OF _ opens] c)
qed

lemma CheckIUorCardStatus_keeps:
  assumes "allow \<or> k_status (key s) = Doingdeduction" and "allow \<or> iu \<noteq> []"
    and "CheckIUorCardStatus c i cc iu dev n ct b s = Some t"
  shows "R (key s) (key t)"
proof -
  define u where "u = (if card_failed (giDeductionStatus (tExit s)) then set_deduction WaitingCard s else s)"
  have r: "R (key s) (key u)" by (simp add: u_def waiting same)
  have a: "allow \<or> k_status (key u) = Doingdeduction"
    using assms(1) by (auto simp: u_def key_def card_failed_def)
  show ?thesis
    using assms(3) after_failure_keeps [OF a assms(2), THEN chain [OF r]]
    unfolding CheckIUorCardStatus_def Let_def u_def [symmetric]
    by (auto split: if_splits dest!: switches)
qed

lemma VehicleCome_at_keeps:
  assumes "allow \<or> k_status (key s) = Doingdeduction" and "VehicleCome_at c i cc iu s = Some t"
    and busy: "\<And>u. cc False s = Some u \<Longrightarrow> k_status (key u) = Doingdeduction \<or> allow"
  shows "R (key s) (key t)"
proof (cases "iu = []")
  case True
  with assms(2) show ?thesis by (simp add: VehicleCome_at_def same)
next
  case ne: False
  have k: "key (emit AntennaStopRead s) = key s" by (simp add: key_emit)
  show ?thesis
  proof (cases "length iu = 10")
    case True
    show ?thesis
      using assms(2) ne True busy CheckIUorCardStatus_keeps [OF _ disjI2 [OF ne]] chain [OF switches]
      by (auto simp: VehicleCome_at_def Let_def same bind_eq_Some_conv split: if_splits)
  next
    case False
    then show ?thesis
      using assms(1,2) ne CheckIUorCardStatus_keeps [of "emit AntennaStopRead s", OF _ disjI2 [OF ne]]
      by (simp add: VehicleCome_at_def Let_def k)
  qed
qed

end

section \<open>The events\<close>

lemma key_fields:
  "key (s\<lparr>gbLoopApresent := b\<rparr>) = key s" "key (s\<lparr>gsTransID := t\<rparr>) = key s"
  "key (s\<lparr>gsTailgateOBU := t\<rparr>) = key s" "key (s\<lparr>loopATimerArmed := b\<rparr>) = key s"
  "key (s\<lparr>fiLastCHUCmd := n\<rparr>) = key s" "key (s\<lparr>gbUPOSStatus := u\<rparr>) = key s"
  "key (s\<lparr>iLCSC_error := n\<rparr>) = key s" "key (s\<lparr>gsLastCardNo := t\<rparr>) = key s"
  "key (s\<lparr>tExit1 := x\<rparr>) = key s" "key (s\<lparr>fiLastEEPCmd := e\<rparr>) = key s"
  "key (s\<lparr>sEnableReader := b\<rparr>) = key s"
  by (simp_all add: key_def)

lemma key_lcsc_ok [simp]: "key (lcsc_ok s) = key s"
  by (simp add: lcsc_ok_def key_fields)

lemma key_UpdateExit [simp]: "key (UpdateExit c i s) = key s"
proof -
  have "key (t\<lparr>tExit1 := y\<rparr>) = key s" if "insertexittrans i k x s = (r, y', t)" for y y' t r x k
    using insertexittrans_key [OF that] by (simp add: key_def)
  then show ?thesis by (simp add: UpdateExit_def Let_def split: prod.split)
qed

context key_steps
begin

lemma DebitOK_keeps: "R (key s) (key (DebitOK c i iu n pa ba ct tu dev s))"
proof -
  let ?k = "(key s)\<lparr>k_paid := True, k_status := DeductionSuccessed\<rparr>"
  obtain s1 where k: "key s1 = ?k" and d: "DebitOK c i iu n pa ba ct tu dev s =
      (if iu \<noteq> [] \<and> sIUNo (tExit s) \<noteq> iu \<and> dev = CHU
       then CloseExitOperation c i UpdateCHUTrans (on_exit (\<lambda>x. x\<lparr>sIUNo := iu\<rparr>) s1)
       else CloseExitOperation c i DeductionOK s1)"
    by (rule that [of "s\<lparr>tExit := (tExit s)\<lparr>gbPaid := True, sCardNo := n,
         sPaidAmt := (case pa of None \<Rightarrow> sPaidAmt (tExit s) | Some a \<Rightarrow> GfeeFormat (fee_read a)),
         iCardType := ct,
         sTopupAmt := (case tu of None \<Rightarrow> sTopupAmt (tExit s) | Some a \<Rightarrow> GfeeFormat (fee_read a)),
         giDeductionStatus := DeductionSuccessed\<rparr>,
         gsLastPaidTrans := sIUNo (tExit s), gbLastPaidStatus := True, gsLastCardNo := n,
         gfLastCardBal := (case ba of None \<Rightarrow> 0 | Some b \<Rightarrow> GfeeFormat (fee_read b))\<rparr>"])
      (simp_all add: key_def DebitOK_def Let_def)
  have 1: "R (key s) (key s1)" unfolding k by (rule succeeds)
  have 2: "R (key s1) (key (on_exit (\<lambda>x. x\<lparr>sIUNo := iu\<rparr>) s1))" if "iu \<noteq> []"
    unfolding key_with_number by (rule numbers) (simp add: that)
  show ?thesis
  proof (cases "iu \<noteq> [] \<and> sIUNo (tExit s) \<noteq> iu \<and> dev = CHU")
    case True
    then show ?thesis unfolding d using chain [OF 1 chain [OF 2 closes]] by simp
  next
    case False
    then show ?thesis unfolding d using chain [OF 1 closes] by auto
  qed
qed

lemma LoopACome_keeps:
  assumes "LoopACome n c i s = Some t" and "cc = EnableCashcard n c i"
  shows "R (key s) (key t)"
proof -
  let ?u = "emit (SendTransIDToLPR (trans_id c i) (LPRIP4Front c \<noteq> ''1.1.1.1''))
    ((emit (LcdBacklight 1) ((Clearme c (ShowLEDMsg (xMsg c MsgExit_XLoopA)
       ((emit (LoopATimer True) s)\<lparr>loopATimerArmed := True\<rparr>)))\<lparr>gsTailgateOBU := []\<rparr>))\<lparr>gsTransID := trans_id c i\<rparr>)"
  have k: "key ?u = cleared_key (key s)" by (simp add: key_emit key_fields)
  have u: "R (key s) (key ?u)" unfolding k by (rule cleared)
  show ?thesis
    using assms(1) u unfolding LoopACome_def Let_def assms(2) [symmetric]
    by (auto simp: key_emit split: if_splits dest!: switches intro: chain [OF u])
qed

lemma LoopAGone_keeps:
  assumes "LoopAGone n c i s = Some t" and "cc = EnableCashcard n c i"
  shows "R (key s) (key t)"
proof -
  define s1 where "s1 = emit (LcdBacklight 0) (stopLoopAPeriodicTimer s)"
  define s2 where "s2 = (if sIUNo (tExit s1) = [] then emit AntennaStopRead s1 else s1)"
  have k: "key s2 = key s" by (simp add: s2_def s1_def key_emit)
  define e where "e = (if sRedeemAmt (tExit s2) = 0 \<and> \<not> gbsavedtrans s2
    then if bPayByEZPay (tExit s2) then Some EZPayParking
         else if bPayByAXS (tExit s2) then Some AXSParking else None else None)"
  have eq: "LoopAGone n c i s =
      Option.bind (case e of None \<Rightarrow> Some s2
                   | Some tt \<Rightarrow> map_option (CloseExitOperation c i tt) (cc False s2))
        (\<lambda>s3. Option.bind (cc False s3)
           (\<lambda>s4. Some (if giEPS c = 3 then emit EepGetOBUInfoStop s4 else s4)))"
    unfolding LoopAGone_def Let_def e_def s2_def s1_def assms(2) ..
  from assms(1) [unfolded this] obtain s3 s4 where s3: "(case e of None \<Rightarrow> Some s2
      | Some tt \<Rightarrow> map_option (CloseExitOperation c i tt) (cc False s2)) = Some s3"
    and s4: "cc False s3 = Some s4" and t: "key t = key s4"
    by (auto simp: bind_eq_Some_conv key_emit split: if_splits)
  have "R (key s) (key s3)"
  proof (cases e)
    case None
    with s3 have "s3 = s2" by simp
    then show ?thesis by (simp add: k same)
  next
    case (Some tt)
    with s3 obtain u where u: "cc False s2 = Some u" "s3 = CloseExitOperation c i tt u" by auto
    show ?thesis using switches [OF u(1)] closes chain unfolding u(2) k by blast
  qed
  then show ?thesis using switches [OF s4] chain unfolding t by blast
qed

end

context key_steps
begin

lemma LoopCGone_keeps:
  assumes "LoopCGone n c i s = Some t" and "cc = EnableCashcard n c i"
  shows "R (key s) (key t)"
proof (cases "\<not> gbsavedtrans s \<and> gbLoopApresent s")
  case True
  with assms(1) show ?thesis by (simp add: LoopCGone_def same)
next
  case False
  have c: "R (key s) (key (Clearme c s))" by (simp add: cleared)
  have l: "R (key u) (key t)" if "LoopACome n c i u = Some t" for u
    using that assms(2) by (rule LoopACome_keeps)
  define u where "u = (if giEPS c = 3 then emit (EepStopDistribution (gsLastIUNo (Clearme c s))) (Clearme c s)
    else Clearme c s)"
  have "key u = key (Clearme c s)" by (simp add: u_def key_emit)
  with c have u: "R (key s) (key u)" by simp
  have "(if gbLoopApresent (Clearme c s) then LoopACome n c i u else Some (Clearme c s)) = Some t"
    using assms(1) False unfolding LoopCGone_def Let_def u_def by (simp split: if_splits)
  then show ?thesis using c chain [OF u l] by (auto split: if_splits)
qed

lemma loopATimeoutHandler_keeps:
  assumes "loopATimeoutHandler n c i s = Some t" and "cc = EnableCashcard n c i"
  shows "R (key s) (key t)"
proof -
  obtain u where u: "cc False (emit AntennaStopRead s) = Some u"
    "(if gbLoopApresent u then LoopACome n c i u else Some u) = Some t"
    using assms by (auto simp: loopATimeoutHandler_def bind_eq_Some_conv)
  have "R (key s) (key u)" using switches [OF u(1)] by (simp add: key_emit)
  then show ?thesis
    using u(2) LoopACome_keeps [OF _ assms(2)] chain by (auto split: if_splits)
qed

lemma operator_keeps: "R (key s) (key (ManualOpenBarrier c i s))"
proof -
  have "R (key s) (key (CloseExitOperation c i Manualopen (emit (RemoteControl m)
      (on_exit (\<lambda>x. if sExitTime x = [] then x\<lparr>sExitTime := time_text i\<rparr> else x) s))))" for m
    by (rule closes_after) (simp add: key_emit key_on_exit)
  then show ?thesis by (simp add: ManualOpenBarrier_def Let_def opens)
qed

lemma ReceivedEntryRecord_keeps:
  assumes "ReceivedEntryRecord n c i s = Some t" and "cc = EnableCashcard n c i"
  shows "R (key s) (key t)"
proof -
  define s1 where "s1 = on_exit (\<lambda>x. x\<lparr>sExitTime := time_text i\<rparr>) s"
  obtain s2 s3 where s2: "set_fee (CalFeeRAM i (sEntryTime (tExit s1)) (sExitTime (tExit s1))
      (iVehicleType (tExit s1)) s1) = Some s2" and s3: "redeem_minutes i s2 = Some s3"
    and t: "(if sPaidAmt (tExit (showFee2User c (set_paid s3))) > 0
      then cc True (set_deduction WaitingCard (showFee2User c (set_paid s3)))
      else Some (CloseExitOperation c i FreeParking (showFee2User c (set_paid s3)))) = Some t"
    using assms(1) unfolding ReceivedEntryRecord_def Let_def s1_def assms(2)
    by (auto simp: bind_eq_Some_conv)
  have "key s2 = key s1" using s2 by (rule key_set_fee) (rule key_CalFeeRAM)
  then have k: "key s3 = key s" using key_redeem_minutes [OF s3] by (simp add: s1_def key_on_exit)
  show ?thesis
    using t by (auto split: if_splits dest!: switches
        intro: chain [OF waiting] closes_after simp: k)
qed

lemma TimeForNoEntry_keeps:
  assumes "TimeForNoEntry n c i tt s = Some t" and "cc = EnableCashcard n c i"
  shows "R (key s) (key t)"
proof -
  have "key (on_exit (\<lambda>x. x\<lparr>sEntryTime := tt, bNoEntryRecord := 0\<rparr>) s) = key s"
    by (simp add: key_on_exit)
  then show ?thesis
    using assms(1) ReceivedEntryRecord_keeps [OF _ assms(2)]
    by (auto simp: TimeForNoEntry_def same split: if_splits) (metis)+
qed

lemma failed_card_keeps:
  assumes "failed_card n c i d a b s = Some t" and "cc = EnableCashcard n c i"
    and "d \<noteq> DeductionSuccessed"
  shows "R (key s) (key t)"
proof -
  have "cc True (SendMsg2Server ''90'' (gsLastCardNo s @ '',,,,,'' @ b) (Show a (set_deduction d s))) = Some t"
    using assms(1,2) by (simp add: failed_card_def)
  from switches [OF this] show ?thesis using chain [OF waits [OF assms(3)]] by simp
qed

lemma RetryLCSCLastCommand_keeps:
  assumes "RetryLCSCLastCommand n c i s = Some t" and "cc = EnableCashcard n c i"
  shows "R (key s) (key t)"
proof -
  have w: "R (key s) (key u)" if "cc True v = Some u" "key v = (key s)\<lparr>k_status := WaitingCard\<rparr>" for u v
    using switches [OF that(1)] chain [OF waiting] that(2) by simp
  have "key (set_deduction WaitingCard (SendMsg2Server a b (Show m s))) = (key s)\<lparr>k_status := WaitingCard\<rparr>"
    "key (showFee2User c (set_deduction WaitingCard (SendMsg2Server a b (Show m s)))) =
       (key s)\<lparr>k_status := WaitingCard\<rparr>" for a b m
    by simp_all
  note k = this
  show ?thesis
    using assms(1) unfolding RetryLCSCLastCommand_def Let_def assms(2) [symmetric]
    by (auto split: if_splits dest!: switches simp: chain [OF waiting])
qed

end

context key_steps
begin

lemma lcsc_balance_keeps:
  assumes "lcsc_balance n c i d s = Some t" and "cc = EnableCashcard n c i"
    and busy: "\<And>u. cc False (lcsc_ok s) = Some u \<Longrightarrow> k_status (key u) = Doingdeduction \<or> allow"
  shows "R (key s) (key t)"
proof (cases "length (event_value d ''CAN'') = 16")
  case False
  with assms(1) show ?thesis by (auto simp: lcsc_balance_def Let_def same)
next
  case True
  then obtain u b where u: "cc False (lcsc_ok s) = Some u"
    and t: "CheckIUorCardStatus c i cc (event_value d ''CAN'') LCSC (event_value d ''CAN'') 1 b
      (on_exit (\<lambda>x. x\<lparr>iCardStatus := 0\<rparr>) (emit AntennaStopRead u)) = Some t"
    using assms(1,2) by (auto simp: lcsc_balance_def Let_def bind_eq_Some_conv)
  have k: "key (on_exit (\<lambda>x. x\<lparr>iCardStatus := 0\<rparr>) (emit AntennaStopRead u)) = key u"
    by (simp add: key_on_exit key_emit)
  have ne: "allow \<or> event_value d ''CAN'' \<noteq> []" using True by auto
  have "R (key u) (key t)"
    using CheckIUorCardStatus_keeps [OF _ ne t] busy [OF u] by (auto simp: k)
  then show ?thesis using switches [OF u] chain by auto
qed

lemma lcsc_deducted_keeps: "lcsc_deducted c i d s = Some t \<Longrightarrow> R (key s) (key t)"
  using DebitOK_keeps [of "lcsc_ok s"] by (auto simp: lcsc_deducted_def)

lemma upt_paid_keeps: "upt_paid c i d s = Some t \<Longrightarrow> R (key s) (key t)"
  using DebitOK_keeps by (auto simp: upt_paid_def Let_def same split: option.splits)

lemma upt_payment_keeps:
  assumes "upt_payment n c i m d s = Some t" and "cc = EnableCashcard n c i"
  shows "R (key s) (key t)"
proof -
  let ?u = "s\<lparr>gbUPOSStatus := UposDisable\<rparr>"
  have k: "key ?u = key s" by (simp add: key_fields)
  have w: "R (key s) (key v)" if "cc True (set_deduction WaitingCard ?u) = Some v" for v
    using chain [OF waiting [of ?u]] switches [OF that] by (simp add: k)
  show ?thesis
    using assms(1) upt_paid_keeps [of c i d ?u t] failed_card_keeps [OF _ assms(2), of _ _ _ ?u t] w
    unfolding assms(2) [symmetric]
    by (auto simp: upt_payment_def Let_def k same assms(2) [symmetric] split: upt_status.splits if_splits)
qed

lemma upt_detected_keeps:
  assumes "upt_detected n c i m d s = Some t" and "cc = EnableCashcard n c i"
    and "allow \<or> k_status (key s) = Doingdeduction"
    and "allow \<or> event_value d ''cardCan'' \<noteq> []"
  shows "R (key s) (key t)"
proof -
  let ?u = "s\<lparr>gbUPOSStatus := UposDisable\<rparr>"
  let ?v = "on_exit (\<lambda>x. x\<lparr>iCardStatus := 0\<rparr>) (emit AntennaStopRead (EnableLCSC c False ?u))"
  have k: "key ?u = key s" "key ?v = key s" by (simp_all add: key_fields key_on_exit key_emit)
  have a: "allow \<or> k_status (key ?u) = Doingdeduction" "allow \<or> k_status (key ?v) = Doingdeduction"
    using assms(3) by (simp_all add: k)
  have p: "R (key s) (key t)"
    if "CheckIUorCardStatus c i cc (event_value d ''cardCan'') UPOS (event_value d ''cardCan'') x b ?v = Some t" for x b
    using CheckIUorCardStatus_keeps [OF a(2) assms(4) that] by (simp only: k)
  have r: "R (key s) (key (debitfromReader c [] f UPOS 0 0 ?u))" for f
    using reader_debits [OF a(1)] by (simp only: k)
  have l: "key (EnableUPOS c True (?u\<lparr>gbUPOSStatus := UposReadCardTimeout\<rparr>)) = key s"
    by (simp add: key_fields)
  show ?thesis
    using assms(1) p r l unfolding upt_detected_def Let_def assms(2) [symmetric]
    by (auto simp: k same split: upt_status.splits if_splits option.splits)
qed

lemma ProcessOUBInformation_keeps:
  assumes "ProcessOUBInformation n c i ob s = Some t" and "cc = EnableCashcard n c i"
  shows "k_status (key s) = Doingdeduction \<or> allow \<Longrightarrow> R (key s) (key t)"
proof (cases "giDeductionStatus (tExit s) = Doingdeduction")
  case True
  with assms(1) show ?thesis by (simp add: ProcessOUBInformation_def same)
next
  case False
  assume "k_status (key s) = Doingdeduction \<or> allow"
  with False have a: allow by (simp add: key_def)
  let ?obu = "longToHex (ob_label ob)"
  define s1 where "s1 = on_exit (obu_seen ob) (if gsTailgateOBU s = ?obu then s\<lparr>gsTailgateOBU := []\<rparr> else s)"
  have "key s1 = (key s)\<lparr>k_plate := ob_plate ob\<rparr>"
    by (simp add: s1_def on_exit_def key_def obu_seen_def)
  then have r: "R (key s) (key s1)" by (simp add: plates a)
  have "(if iEEPPaymentResult (tExit s1) = 5 \<and> sDSerialNo (tExit s1) \<noteq> []
     then Some (emit (EepTransaction ?obu (atoi (sDSerialNo (tExit s1)) mod 65536)) s1)
     else CheckIUorCardStatus c i cc ?obu EEP (sCardNo (tExit s1)) 1 (of_int (ob_balance ob)) s1) = Some t"
    using assms(1) False unfolding ProcessOUBInformation_def Let_def s1_def assms(2)
    by (simp only: if_False if_True)
  then show ?thesis
    using CheckIUorCardStatus_keeps [of s1] a r chain
    by (auto simp: key_emit split: if_splits)
qed

end

lemma label_text_nonempty [simp]:
  "longToHex v \<noteq> []" "FnDecimalIntToHexString v k \<noteq> []"
  by (simp_all add: longToHex_def FnDecimalIntToHexString_def setw_fill_def FnToUpper_def)

lemma key_obu_refused: "\<exists>d. d \<noteq> DeductionSuccessed \<and> key (obu_refused t s) = (key s)\<lparr>k_status := d\<rparr>"
  by (simp add: obu_refused_def Let_def) blast

lemma key_UpdateEEPExitTrans [simp]: "key (UpdateEEPExitTrans i a b d e f g h s) = key s"
  by (simp add: UpdateEEPExitTrans_def Let_def key_emit split: option.split)

context key_steps
begin

lemma processEEPTransData_keeps:
  assumes "processEEPTransData n c i tr s = Some t" and "cc = EnableCashcard n c i"
  shows "R (key s) (key t)"
proof -
  have 1: "R (key s) (key (obu_deducted c i tr s))"
  proof -
    have "key (on_exit (deducted tr) s) = key s" by (simp add: key_on_exit deducted_def exit_key_of_def)
    then show ?thesis
      using DebitOK_keeps [of "on_exit (deducted tr) s"] by (simp add: obu_deducted_def Let_def same)
  qed
  have 2: "R (key s) (key (obu_double c i tr s))"
  proof -
    define u where "u = on_exit (\<lambda>x. x\<lparr>sIUNo := FnDecimalIntToHexString (tr_label tr) 5, iEEPPaymentResult := 7,
           sCardNo := can_or_none (tr_can tr),
           iCardType := (if tr_can tr \<noteq> no_can then 1 else iCardType x)\<rparr>) s"
    have "key u = (key s)\<lparr>k_iu := FnDecimalIntToHexString (tr_label tr) 5\<rparr>"
      by (simp add: u_def on_exit_def key_def)
    then have "R (key s) (key u)" by (simp add: numbers)
    then show ?thesis unfolding obu_double_def u_def [symmetric] using closes chain by blast
  qed
  have 3: "R (key s) (key (obu_refused tr s))"
    using key_obu_refused [of tr s] waits by metis
  have 4: "key ((on_exit (\<lambda>x. x\<lparr>iEEPPaymentResult := 5\<rparr>) s)\<lparr>fiLastEEPCmd := e\<rparr>) = key s" for e
    by (simp add: key_fields key_on_exit)
  show ?thesis
    using assms(1) 1 2 4 unfolding processEEPTransData_def assms(2) [symmetric]
    by (auto simp: same split: if_splits dest!: switches intro: chain [OF 3])
qed

lemma chu_debit_ok_keeps: "chu_debit_ok c i ds s = Some t \<Longrightarrow> R (key s) (key t)"
  using DebitOK_keeps by (auto simp: chu_debit_ok_def bind_eq_Some_conv)

lemma chu_failed_keeps:
  assumes "chu_failed n c i f iu cd ds s = Some t" and "cc = EnableCashcard n c i"
  shows "R (key s) (key t)"
proof -
  have insufficient: "R (key s) ((key s)\<lparr>k_status := InsufficientBalance\<rparr>)" by (rule waits) simp
  show ?thesis
    using assms(1) DebitOK_keeps unfolding chu_failed_def assms(2) [symmetric]
    by (auto simp: key_fields split: chu_fault.splits if_splits dest!: switches
        intro: chain [OF insufficient])
qed

lemma chu_debit_failed_keeps:
  assumes "chu_debit_failed n c i ds s = Some t" and "cc = EnableCashcard n c i"
  shows "R (key s) (key t)"
proof -
  obtain code f where f: "(if f = NoCardInUnit
      then map_option (CHUInq c i 2) (cc True (set_deduction WaitingCard
              (Show (fee_or (tExit s) ''^Tap/Insert Card'') s)))
      else Option.bind (fld ds 2) (\<lambda>iu. Option.bind (fld ds 4) (\<lambda>cd.
            chu_failed n c i f iu cd ds
              (set_deduction WaitingCard
                (SendMsg2Server ''90'' (iu @ '','' @ cd @ '',,,1, Debit Fail: '' @ code)
                  (on_exit (\<lambda>x. x\<lparr>sCHUDebitCode := code\<rparr>) s)))))) = Some t"
    using assms(1) unfolding chu_debit_failed_def assms(2) [symmetric] bind_eq_Some_conv by blast
  have k: "key (set_deduction WaitingCard (SendMsg2Server a b
      (on_exit (\<lambda>x. x\<lparr>sCHUDebitCode := e\<rparr>) s))) = (key s)\<lparr>k_status := WaitingCard\<rparr>" for a b e
    by (simp add: key_on_exit)
  show ?thesis
    using f by (auto simp: bind_eq_Some_conv k key_on_exit split: if_splits
        dest!: switches chu_failed_keeps [OF _ assms(2)] intro: chain [OF waiting])
qed

lemma chu_debit_answer_keeps:
  assumes "chu_debit_answer n c i rc ds s = Some t" and "cc = EnableCashcard n c i"
  shows "R (key s) (key t)"
proof -
  have w: "R (key s) (key u)" if "cc True v = Some u" "key v = (key s)\<lparr>k_status := WaitingCard\<rparr>" for u v
    using switches [OF that(1)] chain [OF waiting] that(2) by simp
  show ?thesis
    using assms(1) chu_debit_ok_keeps chu_debit_failed_keeps [OF _ assms(2)]
    unfolding chu_debit_answer_def assms(2) [symmetric]
    by (auto simp: bind_eq_Some_conv same split: if_splits dest!: w)
qed

lemma chu_late_keeps:
  assumes "chu_late c i ds s = Some t"
  shows "R (key s) (key t)"
  using assms chu_debit_ok_keeps
  by (auto simp: chu_late_def Let_def bind_eq_Some_conv key_fields same split: if_splits)

lemma chu_found_keeps:
  assumes "chu_found n c i w ds s = Some t" and "cc = EnableCashcard n c i" and "allow"
  shows "R (key s) (key t)"
proof -
  obtain iu cd ct b where p: "CheckIUorCardStatus c i cc iu CHU cd ct b (on_exit (chu_seen iu cd w) s) = Some t"
    using assms(1,2) by (auto simp: chu_found_def bind_eq_Some_conv)
  have k: "key (on_exit (chu_seen iu cd w) s) = (key s)\<lparr>k_iu := iu\<rparr>"
    by (simp add: key_def on_exit_def chu_seen_def)
  have "R (key s) ((key s)\<lparr>k_iu := iu\<rparr>)" by (rule numbers) (simp add: assms(3))
  moreover have "R (key (on_exit (chu_seen iu cd w) s)) (key t)"
    by (rule CheckIUorCardStatus_keeps [OF _ _ p]) (simp_all add: assms(3))
  ultimately show ?thesis unfolding k by (rule chain)
qed

lemma chu_vehicle_keeps:
  assumes "chu_vehicle n c i rc ds s = Some t" and "cc = EnableCashcard n c i"
    and "allow \<or> k_status (key s) = Doingdeduction"
  shows "R (key s) (key t)"
proof (cases "giDeductionStatus (tExit s) = Doingdeduction")
  case True
  with assms(1) show ?thesis by (simp add: chu_vehicle_def same)
next
  case False
  with assms(3) have a: allow by (simp add: k_status_key)
  have f: "R (key s) (key t)" if "chu_found n c i w ds s = Some t" for w
    by (rule chu_found_keeps) (fact that assms(2) a)+
  show ?thesis
    using assms(1) False
    by (auto simp: chu_vehicle_def bind_eq_Some_conv same split: if_split_asm intro: f)
qed

lemma chu_answer_keeps:
  assumes "chu_answer n c i rx rc ds s = Some t" and "cc = EnableCashcard n c i"
    and "allow \<or> k_status (key s) = Doingdeduction"
  shows "R (key s) (key t)"
proof -
  let ?u = "s\<lparr>fiLastCHUCmd := iInit\<rparr>"
  have k: "key ?u = key s" by (simp add: key_fields)
  have a: "allow \<or> k_status (key ?u) = Doingdeduction" using assms(3) by (simp add: k)
  show ?thesis
    using assms(1) chu_vehicle_keeps [OF _ assms(2) a] chu_debit_answer_keeps [OF _ assms(2), of rc ds ?u]
      chu_late_keeps [of c i ds s]
    by (auto simp: chu_answer_def Let_def k same split: if_splits)
qed

lemma processCHU_keeps:
  assumes "processCHU n c i d s = Some t" and "cc = EnableCashcard n c i"
    and "allow \<or> k_status (key s) = Doingdeduction"
  shows "R (key s) (key t)"
  using assms(1) chu_answer_keeps [OF _ assms(2,3)]
  by (auto simp: processCHU_def Let_def bind_eq_Some_conv same split: if_splits)

end

end
