(* ===== verification/Exit_Steps.thy ===== *)
theory Exit_Steps
  imports Exit_Correct
begin

text \<open>
  Every event of an exit station keeps a relation that satisfies \<open>key_steps\<close>, and the two relations
  used here: what a well-formed station keeps, and that a busy station sends no second deduction.
\<close>

section \<open>A ticket\<close>

lemma key_inquire_again [simp]: "key (inquire_again c i s) = key s"
  by (simp add: inquire_again_def)

lemma key_ReceivedLPR:
  "key (ReceivedLPR p t s) = (if gsTransID s = t \<and> gbLoopApresent s \<and> \<not> gbsavedtrans s
     then (key s)\<lparr>k_plate := p\<rparr> else key s)"
proof -
  have e: "key (on_exit (\<lambda>x. x\<lparr>sLPN0 := p, sLPN1 := p\<rparr>) s) = (key s)\<lparr>k_plate := p\<rparr>"
    by (simp add: key_def on_exit_def)
  show ?thesis by (simp add: ReceivedLPR_def Let_def e key_emit)
qed

lemma key_receipt_button [simp]: "key (receipt_button s) = key s"
  by (simp add: receipt_button_def key_on_exit)

context key_steps
begin

lemma ticketOK_keeps: "R (key s) (key (ticketOK c i s))"
  unfolding ticketOK_def by (rule closes_after) (simp add: key_on_exit)

lemma registered_ticket_keeps: "R (key s) (key (registered_ticket c i a b s))"
  unfolding registered_ticket_def by (simp add: closes_after)

lemma ticket_refused_keeps:
  assumes "ticket_refused c i cc s = Some t"
  shows "R (key s) (key t)"
proof -
  have "R (key u) (key v)" if "cc True w = Some v" "key w = key u" for u v w
    using switches [OF that(1)] that(2) by simp
  from this [of _ _ s] show ?thesis
    using assms by (auto simp: ticket_refused_def Let_def split: if_splits)
qed

lemma ticket_invalid_keeps:
  assumes "ticket_invalid c i cc r tk code s = Some t"
  shows "R (key s) (key t)"
  using ticket_refused_keeps [OF assms [unfolded ticket_invalid_def Let_def]]
  by (simp split: if_splits)

lemma ticket_used_already_keeps: "R (key s) (key (ticket_used_already c i s))"
  by (simp add: ticket_used_already_def Let_def ticketOK_keeps same)

lemma pay_balance_keeps:
  assumes "pay_balance c i cc s = Some t"
  shows "R (key s) (key t)"
  using assms by (auto simp: pay_balance_def Let_def split: if_splits dest!: switches)

lemma use_redemption_keeps:
  assumes "use_redemption c i cc tk a m s = Some t"
  shows "R (key s) (key t)"
proof -
  obtain s1 where s1: "(if m > 0 then
       (let s' = on_exit (\<lambda>x. x\<lparr>iRedeemTime := m\<rparr>) (on_exit (\<lambda>x. x\<lparr>sRedeemNo := tk\<rparr>) s)
        in if sPaidAmt (tExit s') > 0 then RedeemTime2Amt i s' else Some s')
     else Some (on_exit (\<lambda>x. x\<lparr>sRedeemAmt := GfeeFormat a\<rparr>) (on_exit (\<lambda>x. x\<lparr>sRedeemNo := tk\<rparr>) s))) = Some s1"
    using assms by (auto simp: use_redemption_def Let_def bind_eq_Some_conv)
  have 1: "key s1 = key s"
    using s1 by (auto simp: Let_def key_on_exit split: if_splits dest!: key_RedeemTime2Amt)
  define s2 where "s2 = Show (if m > 0 then ''Redemption: ^'' @ dec_int m @ '' Mins''
       else ''Redemption: ^$'' @ SetFeeFormat (sRedeemAmt (tExit s1))) s1"
  have 2: "key s2 = key s" by (simp add: s2_def 1)
  have c: "key (on_exit clamp_redeem u) = key u" for u by (simp add: key_on_exit clamp_redeem_def)
  have r: "R (key s) (key (registered_ticket c i x y (on_exit clamp_redeem s2)))" for x y
    using registered_ticket_keeps [of "on_exit clamp_redeem s2"] by (simp add: c 2)
  have k: "R (key s) (key (ticketOK c i (showFee2User c s2)))"
    using ticketOK_keeps [of "showFee2User c s2"] by (simp add: 2)
  have p: "R (key s) (key t)" if "pay_balance c i cc (showFee2User c s2) = Some t"
    using pay_balance_keeps [OF that] by (simp add: 2)
  have w: "R (key s) (key t)" if "cc True (SendMsg2Server x y s2) = Some t" for x y
    using switches [OF that] by (simp add: 2)
  have "(if registered (tExit s2) then
           Some (registered_ticket c i (''Redemption^Redeemed: '' @ money (sRedeemAmt (tExit (on_exit clamp_redeem s2))))
              (''Redeemed: '' @ money (sRedeemAmt (tExit (on_exit clamp_redeem s2))) @ ''^Refunded to EZpay'')
              (on_exit clamp_redeem s2))
         else if sIUNo (tExit s2) = [] \<and> sCardNo (tExit s2) = [] then
           cc True (SendMsg2Server ''90'' (tk @ '',,,,,Redemption. Ticket Wait for Card'') s2)
         else if fee_read (still_due (tExit (showFee2User c s2))) \<le> 0
         then Some (ticketOK c i (showFee2User c s2))
         else pay_balance c i cc (showFee2User c s2)) = Some t"
    using assms unfolding use_redemption_def Let_def s1 [unfolded Let_def] Option.bind.bind_lunit
      s2_def [symmetric] by simp
  then show ?thesis using r k p w by (auto split: if_splits)
qed

lemma use_complimentary_keeps:
  assumes "use_complimentary c i cc tk s = Some t"
  shows "R (key s) (key t)"
proof -
  let ?s = "on_exit (\<lambda>x. x\<lparr>sRedeemNo := tk\<rparr>) s"
  let ?n = "on_exit (\<lambda>x. if sIUNo x = [] then x\<lparr>sIUNo := ''N/A''\<rparr> else x) (ShowLEDMsg (xMsg c MsgExit_Complimentary) ?s)"
  have k: "key ?s = key s" by (simp add: key_on_exit)
  have "key ?n = (if sIUNo (tExit ?s) = [] then (key ?s)\<lparr>k_iu := ''N/A''\<rparr> else key ?s)"
    by (simp add: key_def show_defs)
  then have n: "R (key s) (key ?n)" by (simp add: k same numbers)
  have r: "R (key s) (key (registered_ticket c i x y (on_exit (\<lambda>x. x\<lparr>sRedeemAmt := f x, iTransType := 10,
      sCardNo := sRedeemNo x\<rparr>) ?s)))" for x y f
    using registered_ticket_keeps [of "on_exit (\<lambda>x. x\<lparr>sRedeemAmt := f x, iTransType := 10,
      sCardNo := sRedeemNo x\<rparr>) ?s"] by (simp add: key_on_exit)
  have w: "R (key s) (key t)" if "cc True (SendMsg2Server a b (ShowLEDMsg m ?s)) = Some t" for a b m
    using switches [OF that] by (simp add: k)
  have o: "R (key s) (key (ticketOK c i ?s))" using ticketOK_keeps [of ?s] by (simp add: k)
  show ?thesis
    using assms r w o chain [OF n ticketOK_keeps]
    by (auto simp: use_complimentary_def Let_def split: if_splits)
qed

lemma ticketScan_keeps:
  assumes "ticketScan n c i tk s = Some t" and "cc = EnableCashcard n c i"
  shows "R (key s) (key t)"
proof (cases "sRedeemAmt (tExit s) > 0")
  case True
  with assms(1) show ?thesis by (auto simp: ticketScan_def ticket_used_already_keeps)
next
  case False
  with assms obtain s1 where s1: "cc False s = Some s1"
    by (auto simp: ticketScan_def bind_eq_Some_conv)
  have a: "R (key s) (key s1)" using s1 by (rule switches)
  have k: "R (key s) (key t)" if "R (key s1) (key t)" using a that by (rule chain)
  show ?thesis
  proof (cases "classify c tk")
    case WrongLength
    with assms(1) False s1 show ?thesis unfolding assms(2)
      by (auto simp: ticketScan_def assms(2) [symmetric] dest!: ticket_refused_keeps intro: k)
  next
    case (RedemptionOff u)
    with assms(1) False s1 show ?thesis unfolding assms(2)
      by (auto simp: ticketScan_def assms(2) [symmetric] dest!: ticket_refused_keeps intro: k)
  next
    case (Ticket r u)
    obtain code am mi where v: "isValidBarCodeTicket i r tk = (code, am, mi)" by (cases "isValidBarCodeTicket i r tk")
    have "(if code \<noteq> 1 then ticket_invalid c i cc r u code s1
           else if r then use_redemption c i cc u am mi s1 else use_complimentary c i cc u s1) = Some t"
      using assms(1) False s1 Ticket v unfolding ticketScan_def assms(2) [symmetric] by simp
    then have "R (key s1) (key t)"
      using ticket_invalid_keeps use_redemption_keeps use_complimentary_keeps
      by (auto split: if_splits)
    then show ?thesis by (rule k)
  qed
qed

end


section \<open>Every event\<close>

text \<open>Where no deduction may start, the station is busy, the vehicle is known and an event of the
  payment terminal carries a card number.\<close>

definition numbered :: "exit_event \<Rightarrow> bool" where
  "numbered e \<longleftrightarrow> (\<forall>m d. e = UptDetected m d \<longrightarrow> event_value d ''cardCan'' \<noteq> [])"

lemma numberedD [simp]: "numbered (UptDetected m d) \<longleftrightarrow> event_value d ''cardCan'' \<noteq> []"
  by (simp add: numbered_def)

context key_steps
begin

lemma loops_keep:
  assumes "exit_act n c i e s = Some t" and "cc = EnableCashcard n c i"
    and "e \<in> {LoopAOn, LoopAOff, LoopCOff, LoopATimeout, OperatorOpens, ReceiptButton}"
  shows "R (key s) (key t)"
  using assms(1,3) LoopACome_keeps [OF _ assms(2)] LoopAGone_keeps [OF _ assms(2)]
    LoopCGone_keeps [OF _ assms(2)] loopATimeoutHandler_keeps [OF _ assms(2)] operator_keeps same
  by (auto simp: key_fields) (metis key_fields(1))+

lemma payments_keep:
  assumes "exit_act n c i e s = Some t" and "cc = EnableCashcard n c i"
    and "\<exists>d tr m tk. e = LcscDeducted d \<or> e = LcscExpired \<or> e = LcscFailure \<or> e = UptPayment m d \<or>
      e = TicketScanned tk \<or> e = EntryTimeSent tk \<or> e = ObuTrans tr"
  shows "R (key s) (key t)"
  using assms(1,3) lcsc_deducted_keeps failed_card_keeps [OF _ assms(2)]
    RetryLCSCLastCommand_keeps [OF _ assms(2)] upt_payment_keeps [OF _ assms(2)]
    ticketScan_keeps [OF _ assms(2)] TimeForNoEntry_keeps [OF _ assms(2)]
    processEEPTransData_keeps [OF _ assms(2)]
  by auto

theorem event_keeps:
  assumes act: "exit_act n c i e s = Some t" and cc: "cc = EnableCashcard n c i"
    and busy: "allow \<or> k_status (key s) = Doingdeduction"
    and known: "allow \<or> k_iu (key s) \<noteq> [] \<and> numbered e"
    and still: "\<And>u v. key u = key s \<Longrightarrow> cc False u = Some v \<Longrightarrow> allow \<or> k_status (key v) = Doingdeduction"
  shows "R (key s) (key t)"
proof (cases e)
  case (Number sNo)
  with act show ?thesis
    using VehicleCome_at_keeps [OF busy, of c i sNo t] still [OF refl] by (auto simp: VehicleCome_def cc)
next
  case (ObuInfo ob)
  with act show ?thesis using ProcessOUBInformation_keeps [OF _ cc] busy by auto
next
  case (ChuData d)
  with act show ?thesis using processCHU_keeps [OF _ cc busy] by simp
next
  case (LcscBalance d)
  with act show ?thesis using lcsc_balance_keeps [OF _ cc] still [of "lcsc_ok s"] by auto
next
  case (UptDetected m d)
  with act show ?thesis using upt_detected_keeps [OF _ cc busy, of m d t] known by auto
next
  case (PlateRead p tr)
  have "R (key s) ((key s)\<lparr>k_plate := p\<rparr>)" by (rule plates) (use known in auto)
  with PlateRead act show ?thesis by (auto simp: key_ReceivedLPR same)
qed ((rule loops_keep [OF act cc], force) | (rule payments_keep [OF act cc], force))+

end

section \<open>A well-formed station\<close>

text \<open>An exit that is stored, and one whose deduction succeeded, is paid.\<close>

definition well_formed :: "exit_key \<Rightarrow> bool" where
  "well_formed k \<longleftrightarrow> (k_saved k \<longrightarrow> k_paid k) \<and> (k_status k = DeductionSuccessed \<longrightarrow> k_paid k)"

definition keeps_form :: "exit_key \<Rightarrow> exit_key \<Rightarrow> bool" where
  "keeps_form k l \<longleftrightarrow> (well_formed k \<longrightarrow> well_formed l)"

lemmas keeps_form_rules = keeps_form_def well_formed_def paid_key_def cleared_key_def

lemma form_switch: "EnableCashcard n c i b s = Some t \<Longrightarrow> keeps_form (key s) (key t)"
proof (induction n arbitrary: b s t)
  case 0
  then show ?case by (simp add: EnableCashcard.simps)
next
  case (Suc n)
  have l: "key_steps keeps_form (EnableCashcard n c i) True"
    by unfold_locales (use Suc.IH in \<open>auto simp: keeps_form_rules\<close>)
  have k: "key (s\<lparr>sEnableReader := b\<rparr>) = key s" by (simp add: key_fields)
  show ?case
    using Suc.prems key_steps.VehicleCome_at_keeps [OF l, of "s\<lparr>sEnableReader := b\<rparr>"]
    by (auto simp: EnableCashcard.simps Let_def k key_fields keeps_form_def split: if_splits)
qed

interpretation form: key_steps keeps_form "EnableCashcard n c i" True for n c i
  by unfold_locales (auto simp: form_switch, auto simp: keeps_form_rules)

section \<open>A busy station\<close>

text \<open>When the number of the vehicle is known, or no plate is, no plate is looked up, and switching the
  readers changes nothing else.\<close>

definition quiet :: "exit_key \<Rightarrow> bool" where
  "quiet k \<longleftrightarrow> k_iu k \<noteq> [] \<or> k_plate k = []"

definition sends_nothing :: "exit_key \<Rightarrow> exit_key \<Rightarrow> bool" where
  "sends_nothing k l \<longleftrightarrow> (quiet k \<longrightarrow> quiet l \<and> k_deducts l = k_deducts k)"

lemmas sends_nothing_rules = sends_nothing_def quiet_def paid_key_def cleared_key_def

lemma quiet_switch: "EnableCashcard n c i b s = Some t \<Longrightarrow> quiet (key s) \<Longrightarrow> key t = key s"
proof (cases n)
  case (Suc m)
  moreover have "plate_iu i (s\<lparr>sEnableReader := b\<rparr>) = []" if "quiet (key s)"
    using that by (auto simp: plate_iu_def Let_def quiet_def key_def)
  ultimately show "EnableCashcard n c i b s = Some t \<Longrightarrow> quiet (key s) \<Longrightarrow> key t = key s"
    by (auto simp: EnableCashcard.simps Let_def key_fields split: if_splits)
qed (simp add: EnableCashcard.simps)

interpretation busy: key_steps sends_nothing "EnableCashcard n c i" False for n c i
  by unfold_locales
    (auto simp: sends_nothing_def quiet_switch, auto simp: sends_nothing_rules)

end
