(* ===== verification/Exit_Rows.thy ===== *)
theory Exit_Rows
  imports Exit_Steps
begin

text \<open>
  What storing an exit writes: the row of the exit, which carries the settled amounts, at most once;
  and which functions store nothing and send nothing.
\<close>

section \<open>The record that is stored\<close>

text \<open>Storing rounds the amounts, cuts the parked time and marks the user of a ticket.\<close>

definition same_but_marks :: "exit_trans \<Rightarrow> exit_trans \<Rightarrow> bool" where
  "same_but_marks x y \<longleftrightarrow> (\<exists>p u. y = x\<lparr>lParkedTime := p, iUsedTicketBy := u\<rparr>)"

lemma marks_refl [simp]: "same_but_marks x x"
  unfolding same_but_marks_def by (rule exI [of _ "lParkedTime x"], rule exI [of _ "iUsedTicketBy x"]) simp

lemma marks_trans: "same_but_marks x y \<Longrightarrow> same_but_marks y z \<Longrightarrow> same_but_marks x z"
  unfolding same_but_marks_def by (elim exE, simp) (rule exI, rule exI, rule refl)

lemma marks_fields:
  assumes "same_but_marks x y"
  shows "sIUNo y = sIUNo x" "sCardNo y = sCardNo x" "sFee y = sFee x" "sPaidAmt y = sPaidAmt x"
    "sRedeemAmt y = sRedeemAmt x" "sGSTAmt y = sGSTAmt x" "sRebateAmt y = sRebateAmt x"
    "sOweAmt y = sOweAmt x" "iTransType y = iTransType x" "iStatus y = iStatus x"
    "sLPN0 y = sLPN0 x" "sLPN1 y = sLPN1 x" "bNoEntryRecord y = bNoEntryRecord x"
    "iCardType y = iCardType x" "iflag4Receipt y = iflag4Receipt x" "sExitTime y = sExitTime x"
    "giDeductionStatus y = giDeductionStatus x" "bPayByEZPay y = bPayByEZPay x"
    "bPayByAXS y = bPayByAXS x"
  using assms by (auto simp: same_but_marks_def)

definition whole_amounts :: "exit_trans \<Rightarrow> bool" where
  "whole_amounts x \<longleftrightarrow> whole_cents (sFee x) \<and> whole_cents (sPaidAmt x) \<and> whole_cents (sRedeemAmt x) \<and>
     whole_cents (sGSTAmt x)"

lemma whole_amounts_marks: "same_but_marks x y \<Longrightarrow> whole_amounts x \<Longrightarrow> whole_amounts y"
  by (simp add: whole_amounts_def marks_fields)

lemma rounded_exit_whole [simp]: "whole_amounts x \<Longrightarrow> rounded_exit x = x"
  by (simp add: rounded_exit_def whole_amounts_def)

text \<open>The rows of exits that one call stores.\<close>

definition central_up :: "xin \<Rightarrow> bool" where
  "central_up i \<longleftrightarrow> central_state (xdb i) = - 1 \<or> central_connects (xdb i)"

definition local_up :: "xin \<Rightarrow> bool" where
  "local_up i \<longleftrightarrow> local_state (xdb i) = 1 \<or> local_connects (xdb i)"

definition exit_table_of :: "xin \<Rightarrow> exit_table option" where
  "exit_table_of i =
     (if central_up i then if exit_insert_ok (xdb i) then Some Central_exit_trans_tmp else None
      else if local_up i \<and> local_insert_ok (xdb i) then Some Local_Exit_Trans else None)"

definition rows_of :: "xin \<Rightarrow> exit_trans \<Rightarrow> string \<Rightarrow> exit_effect list" where
  "rows_of i x k = (case exit_table_of i of None \<Rightarrow> [] | Some t \<Rightarrow> [InsertExit t x k])"

lemma insertexittrans_row:
  assumes "insertexittrans i k x s = (r, y, t)" and "whole_amounts x"
  shows "same_but_marks x y \<and> stores t = stores s @ rows_of i y k \<and>
    (r = iCentralSuccess \<longleftrightarrow> exit_table_of i = Some Central_exit_trans_tmp)"
proof -
  have m: "same_but_marks x (x\<lparr>lParkedTime := p\<rparr>)" for p
    unfolding same_but_marks_def by (rule exI [of _ p], rule exI [of _ "iUsedTicketBy x"]) simp
  show ?thesis
    using assms
    by (auto simp: insertexittrans_def Let_def emit_def rows_of_def exit_table_of_def central_up_def
        local_up_def m split: if_splits)
qed

lemma insert2movementtrans_row:
  assumes "insert2movementtrans i x s = (r, y, t)" and "whole_amounts x"
  shows "y = x \<and> stores t = stores s"
  using assms by (auto simp: insert2movementtrans_def Let_def emit_def split: if_splits)

lemma updatemovementtrans_row:
  assumes "updatemovementtrans i x s = (r, y, t)" and "whole_amounts x"
  shows "y = x \<and> stores t = stores s"
  using assms insert2movementtrans_row [OF _ assms(2)]
  by (auto simp: updatemovementtrans_def Let_def emit_def split: option.splits if_splits prod.splits)

lemma updateUsedTicket_row:
  assumes "updateUsedTicket i x s = (r, y, t)"
  shows "same_but_marks x y \<and> stores t = stores s"
proof -
  have "same_but_marks x (x\<lparr>iUsedTicketBy := u\<rparr>)" for u
    unfolding same_but_marks_def by (rule exI [of _ "lParkedTime x"], rule exI [of _ u]) simp
  with assms show ?thesis by (auto simp: updateUsedTicket_def Let_def emit_def split: if_splits)
qed

lemma store_rows_row:
  assumes "store_rows i s = (r, t)" and w: "whole_amounts (tExit s)"
  shows "same_but_marks (tExit s) (tExit t) \<and>
    (\<exists>y. same_but_marks (tExit s) y \<and> stores t = stores s @ rows_of i y (gsTransID s))"
proof -
  obtain r0 x0 s0 where 0: "insertexittrans i (gsTransID s) (tExit s) s = (r0, x0, s0)"
    by (metis prod_cases3)
  note i = insertexittrans_row [OF 0 w]
  have w0: "whole_amounts x0" using i w whole_amounts_marks by blast
  show ?thesis
  proof (cases "r0 = iCentralSuccess")
    case False
    with assms(1) 0 i show ?thesis by (auto simp: store_rows_def)
  next
    case True
    obtain r1 x1 s1 where 1: "(if bNoEntryRecord x0 = 0 then updatemovementtrans i x0 s0
        else insert2movementtrans i x0 s0) = (r1, x1, s1)"
      by (metis prod_cases3)
    have m: "x1 = x0" "stores s1 = stores s0"
      using 1 updatemovementtrans_row [OF _ w0] insert2movementtrans_row [OF _ w0]
      by (auto split: if_splits)
    have "same_but_marks x0 (tExit t) \<and> stores t = stores s0"
      using assms(1) 0 True 1 m updateUsedTicket_row [of i x0 s1]
      by (auto simp: store_rows_def split: if_splits prod.splits)
    with i show ?thesis using marks_trans by auto
  qed
qed

section \<open>Saving an exit\<close>

definition settled :: "exit_trans \<Rightarrow> exit_trans \<Rightarrow> bool" where
  "settled x y \<longleftrightarrow>
     sIUNo y = sIUNo x \<and> sCardNo y = sCardNo x \<and> sFee y = sFee x \<and> sRedeemAmt y = cut_redeem x \<and>
     sPaidAmt y = due x - cut_redeem x"

lemma settled_marks: "settled x y \<Longrightarrow> same_but_marks y z \<Longrightarrow> settled x z"
  by (simp add: settled_def marks_fields)

lemma PrintReceipt_fields:
  "sPaidAmt (tExit (PrintReceipt s)) = sPaidAmt (tExit s)" "settled x (tExit (PrintReceipt s)) = settled x (tExit s)"
  "stores (PrintReceipt s) = stores s" "gbsavedtrans (PrintReceipt s) = gbsavedtrans s"
  "gbPaid (tExit (PrintReceipt s)) = gbPaid (tExit s)" "iDB_error (PrintReceipt s) = iDB_error s"
  by (simp_all add: PrintReceipt_def show_defs settled_def)

lemma SaveExit_rows:
  assumes "sIUNo (tExit s) \<noteq> []" and w: "whole_exit (tExit s)"
  shows "settled (tExit s) (tExit (SaveExit c i s)) \<and> gbsavedtrans (SaveExit c i s) \<and>
    gbPaid (tExit (SaveExit c i s)) \<and>
    (\<exists>y. settled (tExit s) y \<and> stores (SaveExit c i s) = stores s @ rows_of i y (gsTransID s))"
proof -
  define x1 where "x1 = settle_amounts c (tExit s)"
  define x2 where "x2 = (if lParkedTime x1 \<le> 0 \<and> sEntryTime x1 \<noteq> []
      then x1\<lparr>lParkedTime := parked_time i (sEntryTime x1) (sExitTime x1)\<rparr> else x1)"
  define s0 where "s0 = s\<lparr>tExit := gst_of c x2\<rparr>"
  obtain r s1 where s1: "store_rows i s0 = (r, s1)" by fastforce
  have x1: "x1 = (tExit s)\<lparr>sRedeemAmt := cut_redeem (tExit s),
      sPaidAmt := due (tExit s) - cut_redeem (tExit s)\<rparr>"
    unfolding x1_def by (rule settle_amounts_whole) (rule w)
  have "whole_cents (due (tExit s))" "whole_cents (cut_redeem (tExit s))"
    using w by (auto simp: due_def cut_redeem_def whole_exit_def whole_cents_arith min_def)
  then have "whole_amounts (tExit s0)"
    using w by (auto simp: s0_def gst_of_def x2_def x1 whole_amounts_def whole_exit_def whole_cents_arith)
  note st = store_rows_row [OF s1 this]
  have se: "settled (tExit s) (tExit s0)" by (simp add: s0_def gst_of_def x2_def x1 settled_def)
  have e: "stores s0 = stores s" "gsTransID s0 = gsTransID s" by (simp_all add: s0_def)
  obtain y where y: "settled (tExit s) y" "stores s1 = stores s @ rows_of i y (gsTransID s)"
    using st se e settled_marks by metis
  have t: "settled (tExit s) (tExit s1)" using st se settled_marks by blast
  show ?thesis
    using assms(1) y t
    by (simp add: SaveExit_def Let_def x1_def [symmetric] x2_def [symmetric] s0_def [symmetric] s1
        PrintReceipt_fields)
      (auto simp: UpdateLocalEntry_def show_defs settled_def)
qed


section \<open>Closing an exit\<close>

fun is_barrier :: "exit_effect \<Rightarrow> bool" where
  "is_barrier (SetOpenBarrier n) = True"
| "is_barrier e = False"

text \<open>The small operations neither store nor move the barrier.  \<open>P\<close> stands for a kind of effects that
  does one of the two.\<close>

definition heavy :: "(exit_effect \<Rightarrow> bool) \<Rightarrow> bool" where
  "heavy P \<longleftrightarrow> (\<forall>e. P e \<longrightarrow> is_store e \<or> is_barrier e)"

lemma heavy_kinds [simp]: "heavy is_store" "heavy is_barrier"
  by (simp_all add: heavy_def)

definition effs :: "(exit_effect \<Rightarrow> bool) \<Rightarrow> exit_st \<Rightarrow> exit_effect list" where
  "effs P s = filter P (out s)"

lemma effs_emit: "heavy P \<Longrightarrow> \<not> is_store e \<Longrightarrow> \<not> is_barrier e \<Longrightarrow> effs P (emit e s) = effs P s"
  by (auto simp: effs_def emit_def heavy_def)

lemma effs_fields [simp]:
  "effs P (s\<lparr>gbUPOSStatus := u\<rparr>) = effs P s" "effs P (s\<lparr>fiLastEEPCmd := e\<rparr>) = effs P s"
  "effs P (s\<lparr>fiLastCHUCmd := n\<rparr>) = effs P s" "effs P (s\<lparr>loopATimerArmed := b\<rparr>) = effs P s"
  "effs P (s\<lparr>gbBarrierOpened := b\<rparr>) = effs P s" "effs P (s\<lparr>sEnableReader := b\<rparr>) = effs P s"
  "effs P (s\<lparr>iLCSC_error := n\<rparr>) = effs P s" "effs P (s\<lparr>gfLastCardBal := q\<rparr>) = effs P s"
  "effs P (on_exit f s) = effs P s" "effs P (set_deduction st s) = effs P s" "effs P (Clearme c s) = effs P s"
  "effs P (set_paid s) = effs P s"
  by (simp_all add: effs_def on_exit_def set_deduction_def Clearme_def set_paid_def)

lemma effs_show [simp]:
  assumes "heavy P"
  shows "effs P (ShowLEDMsg m s) = effs P s" "effs P (Show x s) = effs P s"
    "effs P (SendMsg2Server cd txt s) = effs P s"
  by (simp_all add: ShowLEDMsg_def Show_def SendMsg2Server_def effs_emit assms)

lemma effs_messages [simp]:
  assumes "heavy P"
  shows "effs P (SendMsg2OBU o' d l s) = effs P s" "effs P (EEPInq i d s) = effs P s"
    "effs P (CHUInq c i d s) = effs P s" "effs P (stopLoopAPeriodicTimer s) = effs P s"
    "effs P (PrintReceipt s) = effs P s"
  by (simp_all add: SendMsg2OBU_def EEPInq_def CHUInq_def SendMsg2CHU_def stopLoopAPeriodicTimer_def
      PrintReceipt_def effs_emit assms)

lemma effs_showFee2User [simp]: "heavy P \<Longrightarrow> effs P (showFee2User c s) = effs P s"
  by (simp add: showFee2User_def Let_def)

lemma effs_readers [simp]:
  assumes "heavy P"
  shows "effs P (EnableLCSC c b s) = effs P s" "effs P (EnableKDE c b s) = effs P s"
    "effs P (EnableUPOS c b s) = effs P s"
  by (simp_all add: EnableLCSC_def EnableKDE_def EnableUPOS_def effs_emit assms)

lemma effs_switch_readers [simp]: "heavy P \<Longrightarrow> effs P (switch_readers c b s) = effs P s"
  by (simp add: switch_readers_def effs_emit)

lemma effs_EndEEPprocess [simp]: "heavy P \<Longrightarrow> effs P (EndEEPprocess c i r s) = effs P s"
  by (simp add: EndEEPprocess_def Let_def effs_emit)

lemma stores_Openbarrier [simp]: "effs is_store (Openbarrier c i r s) = effs is_store s"
proof -
  have "effs is_store (emit (SetOpenBarrier n) u) = effs is_store u" for u n
    by (simp add: emit_def effs_def)
  then show ?thesis by (simp add: Openbarrier_def Let_def)
qed

text \<open>The barrier opens unless a card is in the reader or it is held open already.\<close>

definition may_open :: "exit_st \<Rightarrow> bool" where
  "may_open s \<longleftrightarrow> giCardIsIn s \<noteq> 1 \<and> giBarrierContinueOpened s \<noteq> 1"

definition pulse :: "exit_st \<Rightarrow> exit_effect list" where
  "pulse s = (if may_open s then [SetOpenBarrier 1, SetOpenBarrier 0] else [])"

lemma stop_fields [simp]:
  "giCardIsIn (stopLoopAPeriodicTimer s) = giCardIsIn s"
  "giBarrierContinueOpened (stopLoopAPeriodicTimer s) = giBarrierContinueOpened s"
  by (simp_all add: stopLoopAPeriodicTimer_def emit_def)

lemma moves_Openbarrier [simp]: "effs is_barrier (Openbarrier c i r s) = effs is_barrier s @ pulse s"
proof -
  have "effs is_barrier (emit (SetOpenBarrier n) u) = effs is_barrier u @ [SetOpenBarrier n]" for u n
    by (simp add: emit_def effs_def)
  then show ?thesis by (simp add: Openbarrier_def Let_def pulse_def may_open_def)
qed

lemma moves_rows:
  "insertexittrans i k x s = (r, y, t) \<Longrightarrow> effs is_barrier t = effs is_barrier s \<and> may_open t = may_open s"
  "insert2movementtrans i x s = (r, y, t) \<Longrightarrow> effs is_barrier t = effs is_barrier s \<and> may_open t = may_open s"
  "updateUsedTicket i x s = (r, y, t) \<Longrightarrow> effs is_barrier t = effs is_barrier s \<and> may_open t = may_open s"
  by (auto simp: insertexittrans_def insert2movementtrans_def updateUsedTicket_def Let_def emit_def
      effs_def may_open_def split: if_splits)

lemma moves_updatemovementtrans:
  "updatemovementtrans i x s = (r, y, t) \<Longrightarrow> effs is_barrier t = effs is_barrier s \<and> may_open t = may_open s"
proof -
  have "effs is_barrier (emit (UpdateMovement z) s) = effs is_barrier s" "may_open (emit e s) = may_open s" for z e
    by (simp_all add: emit_def effs_def may_open_def)
  then show "updatemovementtrans i x s = (r, y, t) \<Longrightarrow> effs is_barrier t = effs is_barrier s \<and> may_open t = may_open s"
    by (auto simp: updatemovementtrans_def Let_def split: if_splits option.splits prod.splits dest: moves_rows(2))
qed

lemma moves_store_rows:
  assumes "store_rows i s = (r, t)"
  shows "effs is_barrier t = effs is_barrier s \<and> may_open t = may_open s"
proof -
  have "effs is_barrier (u\<lparr>tExit := y\<rparr>) = effs is_barrier u" "may_open (u\<lparr>tExit := y\<rparr>) = may_open u" for u y
    by (simp_all add: effs_def may_open_def)
  then show ?thesis
    using assms by (auto simp: store_rows_def split: prod.splits if_splits
        dest!: moves_rows moves_updatemovementtrans)
qed

lemma moves_SaveExit [simp]:
  "effs is_barrier (SaveExit c i s) = effs is_barrier s" "may_open (SaveExit c i s) = may_open s"
proof -
  have p: "may_open (PrintReceipt u) = may_open u" "may_open (SendMsg2Server a b u) = may_open u"
    "may_open (on_exit f u) = may_open u" "may_open (UpdateLocalEntry a u) = may_open u" for u a b f
    by (simp_all add: PrintReceipt_def show_defs may_open_def UpdateLocalEntry_def)
  have q: "may_open (u\<lparr>gsLastIUNo := a, gsLastPaidTrans := a, lastTransTime := n\<rparr>) = may_open u"
    "may_open (u\<lparr>iDB_error := n\<rparr>) = may_open u" "may_open (u\<lparr>gbsavedtrans := b\<rparr>) = may_open u"
    "may_open (u\<lparr>gsLastCardNo := a, gbLastPaidStatus := b\<rparr>) = may_open u"
    "may_open (u\<lparr>tExit := x\<rparr>) = may_open u" for u a n b x
    by (simp_all add: may_open_def)
  have k: "effs P (u\<lparr>gsLastIUNo := a, gsLastPaidTrans := a, lastTransTime := n\<rparr>) = effs P u"
    "effs P (u\<lparr>iDB_error := n\<rparr>) = effs P u" "effs P (u\<lparr>gbsavedtrans := b\<rparr>) = effs P u"
    "effs P (u\<lparr>gsLastCardNo := a, gbLastPaidStatus := b\<rparr>) = effs P u"
    "effs P (u\<lparr>tExit := x\<rparr>) = effs P u" for u a n b x and P :: "exit_effect \<Rightarrow> bool"
    by (simp_all add: effs_def)
  have l: "effs is_barrier (UpdateLocalEntry a u) = effs is_barrier u" for a u
    by (simp add: UpdateLocalEntry_def effs_emit)
  show "effs is_barrier (SaveExit c i s) = effs is_barrier s" "may_open (SaveExit c i s) = may_open s"
    by (auto simp: SaveExit_def Let_def p q k l split: prod.split dest!: moves_store_rows)
qed

lemma pulse_SaveExit [simp]: "pulse (SaveExit c i s) = pulse s"
  by (simp add: pulse_def)


lemma close_marks_fields [simp]:
  "settled (close_marks t x) y = settled x y" "whole_exit (close_marks t x) = whole_exit x"
  "sIUNo (close_marks t x) = sIUNo x"
  by (cases t; simp add: close_marks_def settled_def cut_redeem_def due_def whole_exit_def)+

definition opens_at_end :: "TransType \<Rightarrow> bool" where
  "opens_at_end t \<longleftrightarrow> t \<noteq> UpdateCHUTrans \<and> t \<noteq> EZPayParking \<and> t \<noteq> AXSParking"

lemma CloseExitOperation_rows:
  assumes "sIUNo (tExit s) \<noteq> []" "whole_exit (tExit s)"
  shows "(\<exists>y. settled (tExit s) y \<and>
      effs is_store (CloseExitOperation c i t s) = effs is_store s @ rows_of i y (gsTransID s))"
    and "effs is_barrier (CloseExitOperation c i t s) =
      effs is_barrier s @ (if opens_at_end t then pulse s else [])"
proof -
  define s1 where "s1 = on_exit (close_marks t) s"
  define s2 where "s2 = (if fst (close_msg t (tExit s1)) \<noteq> [] then ShowLEDMsg (close_msg t (tExit s1)) s1 else s1)"
  have c: "CloseExitOperation c i t s =
      (if opens_at_end t then Openbarrier c i 0 (SaveExit c i s2) else SaveExit c i s2)"
    unfolding CloseExitOperation_def Let_def s1_def [symmetric] s2_def [symmetric] opens_at_end_def ..
  have 2: "tExit s2 = close_marks t (tExit s)" "gsTransID s2 = gsTransID s" "pulse s2 = pulse s"
    by (simp_all add: s2_def s1_def show_defs pulse_def may_open_def)
  have k: "effs P s2 = effs P s" if "heavy P" for P using that by (simp add: s2_def s1_def)
  obtain y where "settled (tExit s) y" "stores (SaveExit c i s2) = stores s2 @ rows_of i y (gsTransID s)"
    using SaveExit_rows [of s2 c i] assms by (auto simp: 2)
  then show "\<exists>y. settled (tExit s) y \<and>
      effs is_store (CloseExitOperation c i t s) = effs is_store s @ rows_of i y (gsTransID s)"
    using k [of is_store] by (auto simp: c effs_def [of is_store, symmetric] intro!: exI [of _ y])
  show "effs is_barrier (CloseExitOperation c i t s) =
      effs is_barrier s @ (if opens_at_end t then pulse s else [])"
    using k [of is_barrier] by (simp add: c 2)
qed

end
