(* ===== verification/Exit_Demo.thy ===== *)
theory Exit_Demo
  imports Exit_Rows Fee_Theorems
begin

text \<open>A concrete exit station, on which the theorems about the exit are applied.\<close>

definition demo_rows :: "string \<Rightarrow> entry_row list option" where
  "demo_rows iu = Some [\<lparr>er_entry_time = ''2023-11-14 20:33:20'', er_trans_type = Some 1,
     er_owe_amt = Some 0, er_station = Some 1\<rparr>]"

definition demo_xdb :: xdb where
  "demo_xdb =
     \<lparr>entry_rows_central = demo_rows, entry_rows_local = (\<lambda>iu. Some []), master_rows = (\<lambda>n. Some []),
      complimentary_rows = (\<lambda>n. Some []), ticket_rows = (\<lambda>b n. Some []),
      valid_complimentary = (\<lambda>a b. Some []), valid_redemption = (\<lambda>a b. Some []),
      holder_rows = (\<lambda>n. Some []), central_state = - 1, central_connects = True,
      exit_insert_ok = True, local_state = 1, local_connects = True, local_insert_ok = True,
      movement_update = Some 1, movement_insert_ok = True, ticket_update_ok = True,
      eep_update_tmp = Some 1, eep_update_exit = Some 1\<rparr>"

definition demo_in :: xin where
  "demo_in =
     \<lparr>wall = 1700000000, steady = 100, xdb = demo_xdb, fee_env = demo_env 0,
      type0 = \<lparr>tariff_type = 0, type_start = 0, type_end = 2000000000\<rparr>,
      type1 = \<lparr>tariff_type = 1, type_start = 2000000000, type_end = 3000000000\<rparr>, x_tariffs = [], holidays = [],
      blacklist = (\<lambda>n. - 1), vehicle_type = (\<lambda>n. 1), season = (\<lambda>n d. (0, d)), partial_msg = (\<lambda>n. []),
      ezpay = (\<lambda>n. 0), axs = (\<lambda>n. 0), iu_of_plate = (\<lambda>p. ''1234567890''), loopA_on = True,
      loopB_on = True, lorry_on = False, ticket_seen = False, unset = (0, 0)\<rparr>"

definition demo_cfg :: "int \<Rightarrow> xcfg" where
  "demo_cfg eps =
     \<lparr>iSID = 1, iAntID = 1, giEPS = eps, giSeasonCharge = 0, giNeedCard4Complimentary = 0,
      giExitTicketRedemption = 1, giMaxTransInterval = 3, giProcessReversedCMD = 0,
      giHasHolidayEve = 0, gfGSTRate = 9 / 100, gsDefaultIU = ''1096000001'', BlockIUPrefix = ''101'',
      gscarparkcode = ''CP'', LPRIP4Front = ''1.1.1.1'', giCommPortAntenna = 1, giCommPortLCSC = 1,
      giCommPortKDEReader = 0, giCommPortUPOS = 1, xMsg = (\<lambda>m. ([], []))\<rparr>"

definition demo_blank :: exit_trans where
  "demo_blank =
     \<lparr>xsid = [], sIUNo = [], sCardNo = [], iTransType = 0, iCardType = 0,
       iVehicleType = 0, iEntryID = 0, sEntryTime = [], sExitTime = [], lParkedTime = 0,
       sFee = 0, sPaidAmt = 0, sOweAmt = 0, sGSTAmt = 0, sReceiptNo = [], iflag4Receipt = 0,
       iStatus = 0, sRedeemAmt = 0, iRedeemTime = 0, sRedeemNo = [], sRebateAmt = 0,
       sCHUDebitCode = [], sTopupAmt = 0, uposbatchno = [], feefrom = [], lpn = [],
       bNoEntryRecord = - 1, sLPN0 = [], sLPN1 = [], iCardStatus = 1, iBackendAccount = 0,
       iBackendSetting = 0, iBFunctionStatus = 0, iOBUType = 0, sDSerialNo = [],
       iEEPTransRoute = 0, iEEPPaymentResult = 0, sEEPpaymentTime = [],
       giDeductionStatus = init, gbPaid = False, bPayByEZPay = False, bPayByAXS = False,
       VCC = [], iUsedTicketBy = 0\<rparr>"

definition demo_exit :: exit_st where
  "demo_exit =
     \<lparr>tExit = demo_blank, tExit1 = demo_blank, tSeason = \<lparr>date_from = [], date_to = [], season_rate = 0\<rparr>,
      gbLoopApresent = True, gbsavedtrans = False, gbBarrierOpened = False,
      giBarrierContinueOpened = 0, giShowType = 1, giCardIsIn = 0, sEnableReader = False,
      gbUPOSStatus = UposDisable, fiLastEEPCmd = EEP_idle, fiLastCHUCmd = 0, gsTransID = ''CP-1-1'',
      gsTailgateOBU = [], gsLastIUNo = [], gsLastPaidTrans = [], gbLastPaidStatus = False,
      gsLastCardNo = [], gfLastCardBal = 0, lastTransTime = 0, loopATimerArmed = True,
      giSystemOnline = 0, glNoofOfflineData = 0, iDB_error = 0, iPrinter_error = 0,
      iLCSC_error = 0, iReader_error = 0, iAntenna_error = 0, entry_sIUTKNo = [], out = []\<rparr>"

lemma demo_cfg_sel [simp]:
  "giEPS (demo_cfg eps) = eps" "giSeasonCharge (demo_cfg eps) = 0" "gsDefaultIU (demo_cfg eps) = ''1096000001''"
  "BlockIUPrefix (demo_cfg eps) = ''101''" "gfGSTRate (demo_cfg eps) = 9 / 100"
  "giMaxTransInterval (demo_cfg eps) = 3" "giNeedCard4Complimentary (demo_cfg eps) = 0"
  "giCommPortLCSC (demo_cfg eps) = 1" "giExitTicketRedemption (demo_cfg eps) = 1"
  by (simp_all add: demo_cfg_def)

lemma demo_fee: "CalFeeRAM2G_text demo_in ''2023-11-14 20:33:20'' (time_text demo_in) 0 = Some 2"
  by code_simp

end
