(* ===== verification/Exit_Theorems.thy ===== *)
theory Exit_Theorems
  imports Exit_Demo
begin

text \<open>
  The properties of the exit station: what a vehicle is charged and what is stored for it, that a busy
  station starts no second deduction, which calls return, and what goes wrong.
\<close>

section \<open>Closing an exit\<close>

text \<open>C4: A closed exit is stored at most once, in one table: in the central one when its server can be
  reached and takes the row, in the local one only when the server cannot be reached.  The row has
  the number and the card of the vehicle, and as paid what is owed (fee less rebate plus debts)
  less the redemption, which is cut to what is owed, so never less than nothing; what was really
  collected does not enter.  The barrier is pulsed afterwards unless the payment is of a kind for
  which it was opened before, a card is still in the reader, or it is held open.\<close>

theorem exit_recorded:
  assumes "sIUNo (tExit s) \<noteq> []" "whole_exit (tExit s)"
  shows "\<exists>y. settled (tExit s) y \<and> 0 \<le> sPaidAmt y \<and>
      effs is_store (CloseExitOperation c i t s) = effs is_store s @ rows_of i y (gsTransID s) \<and>
      effs is_barrier (CloseExitOperation c i t s) =
        effs is_barrier s @ (if opens_at_end t then pulse s else [])"
proof -
  obtain y where "settled (tExit s) y"
    "effs is_store (CloseExitOperation c i t s) = effs is_store s @ rows_of i y (gsTransID s)"
    using CloseExitOperation_rows(1) [OF assms] by blast
  then show ?thesis
    using CloseExitOperation_rows(2) [OF assms] paid_not_negative [of "tExit s"]
    by (auto simp: settled_def)
qed

definition demo_paid :: exit_st where
  "demo_paid = on_exit (\<lambda>x. x\<lparr>sIUNo := ''1234567890'', sFee := 2, sRedeemAmt := 3, sPaidAmt := 7\<rparr>) demo_exit"

theorem exit_recorded_witness:
  "\<exists>y. sPaidAmt y = 0 \<and> sRedeemAmt y = 2 \<and>
     effs is_store (CloseExitOperation (demo_cfg 0) demo_in FreeParking demo_paid) =
       [InsertExit Central_exit_trans_tmp y ''CP-1-1'']"
proof -
  have d: "sIUNo (tExit demo_paid) \<noteq> []" "cut_redeem (tExit demo_paid) = 2" "due (tExit demo_paid) = 2"
    "effs is_store demo_paid = []" "gsTransID demo_paid = ''CP-1-1''"
    by (simp_all add: demo_paid_def on_exit_def cut_redeem_def due_def demo_exit_def demo_blank_def effs_def)
  have w: "whole_exit (tExit demo_paid)"
    by (simp add: demo_paid_def on_exit_def demo_exit_def demo_blank_def whole_exit_def whole_cents_def)
  have "rows_of demo_in y k = [InsertExit Central_exit_trans_tmp y k]" for y k
    by (simp add: rows_of_def exit_table_of_def central_up_def demo_in_def demo_xdb_def)
  then show ?thesis
    using exit_recorded [OF d(1) w, of "demo_cfg 0" demo_in FreeParking] by (auto simp: d settled_def)
qed

section \<open>From the card to the row\<close>

definition on_central :: "xin \<Rightarrow> string \<Rightarrow> string \<Rightarrow> rat \<Rightarrow> bool" where
  "on_central i iu e owe \<longleftrightarrow>
     e \<noteq> [] \<and> (\<exists>r rs tt k. entry_rows_central (xdb i) iu = Some (r # rs) \<and> er_entry_time r = e \<and>
       er_trans_type r = Some tt \<and> er_owe_amt r = Some owe \<and> er_station r = Some k)"

definition no_tickets :: "xin \<Rightarrow> bool" where
  "no_tickets i \<longleftrightarrow>
     (\<forall>a b. valid_complimentary (xdb i) a b = Some [] \<and> valid_redemption (xdb i) a b = Some [])"

definition nothing_redeemed :: "exit_trans \<Rightarrow> bool" where
  "nothing_redeemed x \<longleftrightarrow> sRedeemAmt x = 0 \<and> sRebateAmt x = 0 \<and> iRedeemTime x = 0 \<and> sRedeemNo x = []"

lemma fetch_entry_row:
  assumes "on_central i iu e owe" "bNoEntryRecord x = - 1"
  shows "\<exists>tt k. fetch_entry i iu x =
    x\<lparr>sEntryTime := e, iTransType := tt, sOweAmt := owe, iEntryID := k, bNoEntryRecord := 0\<rparr>"
  using assms
  by (clarsimp simp: on_central_def fetch_entry_def FetchEntryinfo_def first_entry_def Let_def)
    (rule exI, rule exI, rule refl)

lemma look_for_no_ticket: "no_tickets i \<Longrightarrow> look_for_ticket i x = x"
  by (simp add: no_tickets_def look_for_ticket_def HasValidTicket_def)

definition ordinary :: "xcfg \<Rightarrow> xin \<Rightarrow> string \<Rightarrow> int \<Rightarrow> season_data \<Rightarrow> exit_st \<Rightarrow> bool" where
  "ordinary c i iu v d s \<longleftrightarrow>
     iu \<noteq> sIUNo (tExit s) \<and> blacklist i iu < 0 \<and> \<not> blocked c iu \<and>
     exit_vehicle c i iu (tExit s) = v \<and> v \<noteq> 9 \<and> season i iu (tSeason s) = (0, d) \<and>
     GetSeasonTransType ((v - 1) sdiv 3) (season_rate d) v \<noteq> 10"


lemma CheckSeason_none:
  assumes "season i iu (tSeason s) = (0, d)"
  shows "\<exists>u. CheckSeason c i iu s = (0, u) \<and> deducts u = deducts s \<and> gsTransID u = gsTransID s \<and>
    tExit u = (tExit s)\<lparr>iTransType := GetSeasonTransType (iVehicleType (tExit s)) (season_rate d) (iTransType (tExit s))\<rparr>"
  using assms by (simp add: CheckSeason_def FormatSeasonMsg_def Let_def show_defs)

lemma stay_fee_plain:
  assumes "CalFeeRAM2G_text i (sEntryTime (tExit s)) (sExitTime (tExit s)) (iVehicleType (tExit s)) = Some fee"
    and "no_tickets i"
  shows "stay_fee i 0 s = Some (0, on_exit (\<lambda>x. x\<lparr>sFee := fee\<rparr>) s)"
  using assms by (simp add: stay_fee_def Let_def CalFeeRAM_def set_fee_def look_for_no_ticket on_exit_def)

lemma owed_ordinary:
  assumes o: "ordinary c i iu v d s"
    and e: "on_central i iu e owe" "bNoEntryRecord (tExit s) = - 1"
    and f: "CalFeeRAM2G_text i e (time_text i) ((v - 1) sdiv 3) = Some fee" "no_tickets i"
    and n: "nothing_redeemed (tExit s)"
  shows "\<exists>t. owed c i cc iu s = Some (ToPay t) \<and> sIUNo (tExit t) = iu \<and> sFee (tExit t) = fee \<and>
    sOweAmt (tExit t) = owe \<and> nothing_redeemed (tExit t) \<and> deducts t = deducts s \<and>
    giDeductionStatus (tExit t) = giDeductionStatus (tExit s) \<and> gsTransID t = gsTransID s"
proof -
  define s4 where "s4 = looked_up c i iu (arrival c i iu s)"
  let ?x = "(tExit s)\<lparr>sIUNo := iu\<rparr>"
  have arr: "arrival c i iu s = on_exit (\<lambda>x. x\<lparr>sIUNo := iu\<rparr>) s"
    using o by (simp add: arrival_def ordinary_def)
  obtain tt k where fe: "fetch_entry i iu ?x =
      ?x\<lparr>sEntryTime := e, iTransType := tt, sOweAmt := owe, iEntryID := k, bNoEntryRecord := 0\<rparr>"
    using fetch_entry_row [OF e(1), of ?x] e(2) by auto
  have ev: "exit_vehicle c i iu (?x\<lparr>sEntryTime := e, iTransType := tt, sOweAmt := owe, iEntryID := k,
      bNoEntryRecord := 0\<rparr>) = v"
  proof -
    have "exit_vehicle c i iu (?x\<lparr>sEntryTime := e, iTransType := tt, sOweAmt := owe, iEntryID := k,
      bNoEntryRecord := 0\<rparr>) = exit_vehicle c i iu (tExit s)"
      by (simp add: exit_vehicle_def)
    then show ?thesis using o by (simp add: ordinary_def)
  qed
  have x4: "tExit s4 = ?x\<lparr>sEntryTime := e, iTransType := v, sOweAmt := owe, iEntryID := k, bNoEntryRecord := 0\<rparr>"
    by (simp add: s4_def looked_up_def arr on_exit_def fe ev)
  have k4: "deducts s4 = deducts s" "gsTransID s4 = gsTransID s" "tSeason s4 = tSeason s"
    by (simp_all add: s4_def looked_up_def arr on_exit_def)
  let ?s = "on_exit (\<lambda>x. x\<lparr>iVehicleType := (iTransType x - 1) sdiv 3\<rparr>) s4"
  obtain u where u: "CheckSeason c i iu ?s = (0, u)" "deducts u = deducts s" "gsTransID u = gsTransID s"
    "tExit u = (tExit ?s)\<lparr>iTransType := GetSeasonTransType ((v - 1) sdiv 3) (season_rate d) v\<rparr>"
    using CheckSeason_none [of i iu ?s d c] o k4 by (auto simp: on_exit_def x4 ordinary_def)
  let ?u = "on_exit (\<lambda>x. x\<lparr>sExitTime := time_text i,
                 lParkedTime := parked_time i (sEntryTime x) (time_text i)\<rparr>) u"
  have "stay_fee i 0 ?u = Some (0, on_exit (\<lambda>x. x\<lparr>sFee := fee\<rparr>) ?u)"
    by (rule stay_fee_plain) (use f in \<open>simp_all add: on_exit_def u x4\<close>)
  then have "with_entry_fee c i 0 u = Some (ToPay (on_exit (\<lambda>x. x\<lparr>sFee := fee\<rparr>) ?u))"
    using o by (simp add: with_entry_fee_def Let_def) (simp add: on_exit_def u x4 ordinary_def)
  moreover have "owed c i cc iu s = with_entry_fee c i 0 u"
    using o unfolding owed_split s4_def [symmetric] Let_def u(1)
    by (simp add: ordinary_def x4 u on_exit_def free_season_def)
  ultimately show ?thesis
    using n by (auto simp: on_exit_def u x4 nothing_redeemed_def)
qed

text \<open>A card of the reader or of the terminal pays what is shown.\<close>

definition cents :: "rat \<Rightarrow> int" where
  "cents a = to_long (a * 100)"

definition card_request :: "DeviceType \<Rightarrow> rat \<Rightarrow> exit_effect" where
  "card_request dev a = (if dev = UPOS then UptPay (cents a) else LcscDeduct (cents a))"

definition by_card :: "xcfg \<Rightarrow> xin \<Rightarrow> string \<Rightarrow> DeviceType \<Rightarrow> bool" where
  "by_card c i iu dev \<longleftrightarrow>
     (dev = LCSC \<or> dev = UPOS) \<and> (giEPS c = 3 \<or> length iu \<noteq> 10 \<or> ezpay i iu \<noteq> 1 \<and> axs i iu \<noteq> 1)"

lemma round_half_up_mono:
  assumes "x \<le> y"
  shows "round_half_up x \<le> round_half_up y"
proof (cases "x < 0 \<and> 0 \<le> y")
  case True
  then have "0 \<le> \<lfloor>1 / 2 - x\<rfloor>" "0 \<le> \<lfloor>y + 1 / 2\<rfloor>" by simp_all
  then have "- \<lfloor>1 / 2 - x\<rfloor> \<le> \<lfloor>y + 1 / 2\<rfloor>" by linarith
  with True show ?thesis by (simp add: round_half_up_def)
next
  case False
  have "\<lfloor>x + 1 / 2\<rfloor> \<le> \<lfloor>y + 1 / 2\<rfloor>" "\<lfloor>1 / 2 - y\<rfloor> \<le> \<lfloor>1 / 2 - x\<rfloor>"
    using assms by (auto intro!: floor_mono)
  with False assms show ?thesis by (auto simp: round_half_up_def)
qed

lemma whole_le_bal: "whole_cents x \<Longrightarrow> x \<le> y \<Longrightarrow> GfeeFormat x \<le> GfeeFormat y"
  using round_half_up_mono [of "x * 100" "y * 100"] by (simp only: GfeeFormat_def) (simp add: divide_right_mono)

lemma pay_card_sends:
  assumes "by_card c i (sIUNo (tExit s)) dev" and "sPaidAmt (tExit s) \<le> bal"
    and "whole_cents (sPaidAmt (tExit s))" and "giDeductionStatus (tExit s) \<noteq> Doingdeduction"
  shows "\<exists>t. pay c i cc dev n ct bal s = Some t \<and>
    deducts t = deducts s @ [card_request dev (sPaidAmt (tExit s))] \<and>
    giDeductionStatus (tExit t) = Doingdeduction \<and> gsTransID t = gsTransID s \<and>
    (\<exists>cd cy. tExit t = (tExit s)\<lparr>giDeductionStatus := Doingdeduction, sCardNo := cd, iCardType := cy\<rparr>)"
proof -
  have "pay c i cc dev n ct bal s = pay_by_card c cc dev ct bal s"
    using assms(1) by (auto simp: pay_def Let_def by_card_def)
  also have "\<dots> = Some (debitfromReader c (sIUNo (tExit s)) (sPaidAmt (tExit s)) dev ct bal s)"
    using whole_le_bal [OF assms(3,2)] by (simp add: pay_by_card_def)
  finally show ?thesis
    using assms(4) by (auto simp: debitfromReader_def Let_def begin_deduction_def set_deduction_def
        remember_card_def EnableLCSC_def show_defs card_request_def cents_def)
qed


lemma set_and_show:
  assumes "nothing_redeemed (tExit s)" "whole_cents (sFee (tExit s))" "whole_cents (sOweAmt (tExit s))"
    and "0 \<le> sFee (tExit s) + sOweAmt (tExit s)"
  shows "tExit (showFee2User c (set_paid s)) = (tExit s)\<lparr>sPaidAmt := sFee (tExit s) + sOweAmt (tExit s)\<rparr>"
    and "deducts (showFee2User c (set_paid s)) = deducts s"
    and "gsTransID (showFee2User c (set_paid s)) = gsTransID s"
proof -
  have w: "whole_cents (sFee (tExit s) + sOweAmt (tExit s))" using assms by (simp add: whole_cents_arith)
  have u: "a - r - z + w = a + w" if "r = 0" "z = 0" for a r z w :: rat using that by simp
  show "tExit (showFee2User c (set_paid s)) = (tExit s)\<lparr>sPaidAmt := sFee (tExit s) + sOweAmt (tExit s)\<rparr>"
    using assms w
    by (simp add: showFee2User_def set_paid_def Let_def show_defs SendMsg2OBU_def still_due_def
        nothing_redeemed_def)
  show "deducts (showFee2User c (set_paid s)) = deducts s" "gsTransID (showFee2User c (set_paid s)) = gsTransID s"
    by (simp_all add: showFee2User_def set_paid_def Let_def show_defs SendMsg2OBU_def)
qed

lemma PBSExit_asks:
  assumes o: "ordinary c i iu v d s"
    and e: "on_central i iu e owe" "bNoEntryRecord (tExit s) = - 1"
    and f: "CalFeeRAM2G_text i e (time_text i) ((v - 1) sdiv 3) = Some fee" "no_tickets i"
    and n: "nothing_redeemed (tExit s)"
    and a: "whole_cents fee" "whole_cents owe" "0 < fee + owe"
    and p: "by_card c i iu dev" "fee + owe \<le> bal" "giDeductionStatus (tExit s) \<noteq> Doingdeduction"
  shows "\<exists>t. PBSExit c i cc iu dev cn ct bal s = Some t \<and> deducts t = deducts s @ [card_request dev (fee + owe)] \<and>
    giDeductionStatus (tExit t) = Doingdeduction \<and> sIUNo (tExit t) = iu \<and> sFee (tExit t) = fee \<and>
    sOweAmt (tExit t) = owe \<and> nothing_redeemed (tExit t) \<and> gsTransID t = gsTransID s"
proof -
  obtain t where t: "owed c i cc iu s = Some (ToPay t)" "sIUNo (tExit t) = iu" "sFee (tExit t) = fee"
    "sOweAmt (tExit t) = owe" "nothing_redeemed (tExit t)" "deducts t = deducts s"
    "giDeductionStatus (tExit t) = giDeductionStatus (tExit s)" "gsTransID t = gsTransID s"
    using owed_ordinary [OF o e f n] by blast
  define u where "u = showFee2User c (set_paid t)"
  have u: "tExit u = (tExit t)\<lparr>sPaidAmt := fee + owe\<rparr>" "deducts u = deducts s" "gsTransID u = gsTransID s"
    using set_and_show [of t c] a t by (simp_all add: u_def)
  have r: "redeem_minutes i t = Some t" "\<not> complimentary_ticket (tExit u)" "iu \<noteq> sIUNo (tExit s)"
    using t(5) o by (simp_all add: redeem_minutes_def complimentary_ticket_def nothing_redeemed_def u ordinary_def)
  have "PBSExit c i cc iu dev cn ct bal s = pay c i cc dev cn ct bal u"
    using r t(1) a(3) by (simp add: PBSExit_def Let_def u_def [symmetric] u)
  moreover obtain w cd cy where w: "pay c i cc dev cn ct bal u = Some w"
    "deducts w = deducts u @ [card_request dev (fee + owe)]" "gsTransID w = gsTransID u"
    "tExit w = (tExit u)\<lparr>giDeductionStatus := Doingdeduction, sCardNo := cd, iCardType := cy\<rparr>"
    using pay_card_sends [of c i u dev bal cc cn ct] p a t by (auto simp: u whole_cents_arith)
  ultimately show ?thesis using t u by (simp add: w nothing_redeemed_def)
qed

lemma lcsc_confirmation:
  assumes "stof_opt (event_value data ''BalanceAfterTrans'') = Some b"
    and "sIUNo (tExit s) \<noteq> []" "whole_exit (tExit s)"
  shows "\<exists>t y. lcsc_deducted c i data s = Some t \<and>
    settled ((tExit s)\<lparr>sCardNo := event_value data ''CAN''\<rparr>) y \<and>
    effs is_store t = effs is_store s @ rows_of i y (gsTransID s) \<and>
    effs is_barrier t = effs is_barrier s @ pulse s"
proof -
  define x1 where "x1 = (tExit s)\<lparr>gbPaid := True, sCardNo := event_value data ''CAN'', iCardType := 1,
    giDeductionStatus := DeductionSuccessed\<rparr>"
  define s1 where "s1 = (lcsc_ok s)\<lparr>tExit := x1, gsLastPaidTrans := sIUNo (tExit s), gbLastPaidStatus := True,
     gsLastCardNo := event_value data ''CAN'', gfLastCardBal := GfeeFormat (fee_read (b / 100))\<rparr>"
  have d: "lcsc_deducted c i data s = Some (CloseExitOperation c i DeductionOK s1)"
    using assms(1) by (simp add: lcsc_deducted_def DebitOK_def Let_def s1_def x1_def)
      (simp add: lcsc_ok_def show_defs)
  have s: "sIUNo (tExit s1) \<noteq> []" "whole_exit (tExit s1)"
    using assms(2,3) by (simp_all add: s1_def x1_def whole_exit_def)
  have k: "settled (tExit s1) y = settled ((tExit s)\<lparr>sCardNo := event_value data ''CAN''\<rparr>) y" for y
    by (simp add: s1_def x1_def settled_def cut_redeem_def due_def)
  have e: "gsTransID s1 = gsTransID s" "pulse s1 = pulse s" "effs is_store s1 = effs is_store s"
    "effs is_barrier s1 = effs is_barrier s"
    by (simp_all add: s1_def lcsc_ok_def show_defs pulse_def may_open_def effs_def)
  show ?thesis
    using CloseExitOperation_rows [OF s, of c i DeductionOK] by (auto simp: d k e opens_at_end_def)
qed




section \<open>One deduction at a time\<close>

text \<open>C2: While a deduction is under way for a vehicle whose number is known, no event sends another
  one to any of the four payment devices: not a card, a ticket, a unit, an answer, the loops, the
  plate or the operator, in whatever order; a report of the payment terminal is taken to carry a card number.\<close>

theorem exit_no_second_deduction:
  assumes "exit_act n c i e s = Some t"
    and "giDeductionStatus (tExit s) = Doingdeduction" and "sIUNo (tExit s) \<noteq> []" and "numbered e"
  shows "deducts t = deducts s"
proof -
  have q: "quiet (key s)" using assms(3) by (simp add: quiet_def key_def)
  have "sends_nothing (key s) (key t)"
  proof (rule busy.event_keeps [OF assms(1) refl])
    show "False \<or> k_status (key s) = Doingdeduction" using assms(2) by (simp add: k_status_key)
    show "False \<or> k_iu (key s) \<noteq> [] \<and> numbered e" using assms(3,4) by (simp add: key_def)
    show "False \<or> k_status (key v) = Doingdeduction" if "key u = key s" "EnableCashcard n c i False u = Some v" for u v
      using quiet_switch [OF that(2)] that(1) q assms(2) by (simp add: k_status_key)
  qed
  with q have "k_deducts (key t) = k_deducts (key s)" by (simp add: sends_nothing_def)
  then show ?thesis by (simp add: key_def)
qed

definition demo_busy :: exit_st where
  "demo_busy = on_exit (\<lambda>x. x\<lparr>sIUNo := ''1234567890'', giDeductionStatus := Doingdeduction\<rparr>) demo_exit"

theorem exit_no_second_deduction_witness:
  "\<exists>t. exit_act 1 (demo_cfg 0) demo_in OperatorOpens demo_busy = Some t \<and> deducts t = []"
  using exit_no_second_deduction [of 1 "demo_cfg 0" demo_in OperatorOpens demo_busy]
  by (simp add: demo_busy_def on_exit_def demo_exit_def numbered_def)

section \<open>Runs\<close>

text \<open>A run: events with what the station reads when each is handled.\<close>

fun exit_run :: "nat \<Rightarrow> xcfg \<Rightarrow> (xin \<times> exit_event) list \<Rightarrow> exit_st \<Rightarrow> exit_st option" where
  "exit_run n c [] s = Some s"
| "exit_run n c ((i, e) # es) s = Option.bind (exit_act n c i e s) (exit_run n c es)"

lemma event_form: "exit_act n c i e s = Some t \<Longrightarrow> keeps_form (key s) (key t)"
  by (rule form.event_keeps [OF _ refl]) simp_all



lemma readers_quiet:
  assumes "quiet (key s)"
  shows "EnableCashcard (Suc n) c i b s =
    Some (if b = sEnableReader s then s else switch_readers c b (s\<lparr>sEnableReader := b\<rparr>))"
proof -
  have "plate_iu i (s\<lparr>sEnableReader := b\<rparr>) = []"
    using assms by (auto simp: plate_iu_def Let_def quiet_def key_def)
  then show ?thesis by (auto simp: EnableCashcard.simps Let_def)
qed




section \<open>Calls that do not return\<close>

definition stuck_plate :: "xcfg \<Rightarrow> xin \<Rightarrow> exit_st \<Rightarrow> bool" where
  "stuck_plate c i s \<longleftrightarrow>
     plate_iu i s \<noteq> [] \<and> plate_iu i s \<noteq> gsDefaultIU c \<and> giDeductionStatus (tExit s) = WaitingCard \<and>
     iCardStatus (tExit s) \<noteq> 0 \<and> \<not> gbPaid (tExit s)"

lemma stuck_plate_cong:
  "tExit t = tExit s \<Longrightarrow> gsTransID t = gsTransID s \<Longrightarrow> stuck_plate c i t = stuck_plate c i s"
  by (simp add: stuck_plate_def plate_iu_def)

lemma stuck_plate_same [simp]:
  "stuck_plate c i (s\<lparr>sEnableReader := b\<rparr>) = stuck_plate c i s" "stuck_plate c i (Show m s) = stuck_plate c i s"
  by (simp_all add: stuck_plate_def plate_iu_def show_defs Let_def)

text \<open>C36: Switching the readers never ends when a card is waited for, no valid card was seen, the number
  of the vehicle is not known, and a season is found for its plate: the switch handles the number of
  the plate, which switches the readers off and on again, and so on; no depth of the calls is
  enough.\<close>

theorem exit_switch_never_returns:
  assumes "stuck_plate c i s" and "b \<noteq> sEnableReader s"
  shows "EnableCashcard n c i b s = None"
  using assms
proof (induction n arbitrary: b s)
  case (Suc n)
  let ?s = "s\<lparr>sEnableReader := b\<rparr>" and ?iu = "plate_iu i s"
  have p: "plate_iu i ?s = ?iu" "length ?iu = 10" "?iu \<noteq> []"
    using Suc.prems(1) by (auto simp: plate_iu_def stuck_plate_def Let_def split: if_splits)
  have e: "EnableCashcard (Suc n) c i b s =
      Option.bind (EnableCashcard n c i False ?s) (CheckIUorCardStatus c i (EnableCashcard n c i) ?iu Ant [] 0 0)"
    using Suc.prems p by (simp add: EnableCashcard.simps VehicleCome_at_def Let_def stuck_plate_def)
  show ?case
  proof (cases b)
    case True
    with Suc.prems(1) Suc.IH [of ?s False] show ?thesis unfolding e by simp
  next
    case False
    have "CheckIUorCardStatus c i (EnableCashcard n c i) ?iu Ant [] 0 0 ?s = None"
      using Suc.prems(1) Suc.IH [of "Show m ?s" True for m] False
      by (simp add: CheckIUorCardStatus_def after_failure_def balance_changed_def card_failed_def Let_def
          stuck_plate_def [of c i s]) (simp add: show_defs)
    then show ?thesis unfolding e by (cases n) (simp_all add: EnableCashcard.simps False)
  qed
qed (simp add: EnableCashcard.simps)

definition demo_events :: "(xin \<times> exit_event) list" where
  "demo_events =
     [(demo_in, LoopAOn), (demo_in, LcscFailure), (demo_in, PlateRead ''SGX1234A'' (trans_id (demo_cfg 0) demo_in))]"

theorem exit_switch_never_returns_witness:
  "\<exists>t. exit_run 1 (demo_cfg 0) demo_events demo_exit = Some t \<and>
     (\<forall>n. exit_run n (demo_cfg 0) [(demo_in, LoopAOff)] t = None)"
proof -
  have "map_option (\<lambda>t. (stuck_plate (demo_cfg 0) demo_in t, sEnableReader t, bPayByEZPay (tExit t), bPayByAXS (tExit t)))
      (exit_run 1 (demo_cfg 0) demo_events demo_exit) = Some (True, True, False, False)"
    by code_simp
  then obtain t where t: "exit_run 1 (demo_cfg 0) demo_events demo_exit = Some t"
    "stuck_plate (demo_cfg 0) demo_in t" "sEnableReader t" "\<not> bPayByEZPay (tExit t)" "\<not> bPayByAXS (tExit t)"
    by auto
  define u where "u = emit (LcdBacklight 0) (stopLoopAPeriodicTimer (t\<lparr>gbLoopApresent := False\<rparr>))"
  define v where "v = (if sIUNo (tExit u) = [] then emit AntennaStopRead u else u)"
  have s: "stuck_plate (demo_cfg 0) demo_in v" "sEnableReader v" "\<not> bPayByEZPay (tExit v)" "\<not> bPayByAXS (tExit v)"
    using t stuck_plate_cong [of v t] by (simp_all add: v_def u_def stopLoopAPeriodicTimer_def emit_def)
  have "EnableCashcard n (demo_cfg 0) demo_in False v = None" for n
    using exit_switch_never_returns [OF s(1), of False n] s(2) by simp
  then have "LoopAGone n (demo_cfg 0) demo_in (t\<lparr>gbLoopApresent := False\<rparr>) = None" for n
    using s(3,4) by (simp add: LoopAGone_def Let_def u_def [symmetric] v_def [symmetric])
  then show ?thesis using t(1) by (intro exI [of _ t]) simp
qed

section \<open>The on-board unit\<close>

text \<open>After the answer that a deduction is not known or was stopped (results 5 and 9) the station
  still counts it as under way, so from then on everything the unit reports is ignored: no
  transaction is asked for and no deduction is started, until another event ends the deduction.\<close>

theorem exit_obu_ignored:
  assumes "giDeductionStatus (tExit s) = Doingdeduction" and "sIUNo (tExit s) \<noteq> []"
    and "tr_result tr = 5 \<or> tr_result tr = 9"
  shows "\<exists>t. processEEPTransData (Suc n) c i tr s = Some t \<and> giDeductionStatus (tExit t) = Doingdeduction \<and>
    (\<forall>m j ob. ProcessOUBInformation m c j ob t = Some t)"
proof -
  have q: "quiet (key s)" using assms(2) by (simp add: quiet_def key_def)
  have "\<exists>t. processEEPTransData (Suc n) c i tr s = Some t \<and> key t = key s"
    using assms(3) readers_quiet [OF q, of n c i True]
    by (auto simp: processEEPTransData_def key_fields key_on_exit)
  then obtain t where t: "processEEPTransData (Suc n) c i tr s = Some t" "key t = key s" by blast
  from arg_cong [OF t(2), of k_status] have "giDeductionStatus (tExit t) = Doingdeduction"
    using assms(1) by (simp add: k_status_key)
  with t(1) show ?thesis by (simp add: ProcessOUBInformation_def)
qed

definition demo_answer :: "nat \<Rightarrow> obu_trans" where
  "demo_answer label =
     \<lparr>tr_label = label, tr_serial = 1, tr_result = 5, tr_can = no_can, tr_fee = 200, tr_last_auto_load = 0,
      tr_auto_load = 0, tr_route = 0, tr_fep_time = 0, tr_bep_time = [], tr_fep_violation = 0,
      tr_bep_violation = 0, tr_balance_after = 800\<rparr>"

theorem exit_obu_ignored_witness:
  "\<exists>t. processEEPTransData (Suc 0) (demo_cfg 3) demo_in (demo_answer 7) demo_busy = Some t \<and>
     (\<forall>m j ob. ProcessOUBInformation m (demo_cfg 3) j ob t = Some t)"
  using exit_obu_ignored [of demo_busy "demo_answer 7" 0 "demo_cfg 3" demo_in]
  by (auto simp: demo_busy_def on_exit_def demo_exit_def demo_answer_def)

end
