(* ===== verification/Exit_Outcomes.thy ===== *)
theory Exit_Outcomes
  imports Exit_Theorems
begin

text \<open>
  More properties of the exit: payments that are not recognised, the faults of the CHU, tickets, and
  vehicles that pay by a registered account.
\<close>

section \<open>The label of a unit\<close>

lemma hex_nat_length_le: "n < 16 ^ Suc k \<Longrightarrow> length (hex_nat n) \<le> Suc k"
proof (induction k arbitrary: n)
  case 0
  then show ?case by (simp add: hex_nat.simps [of n])
next
  case (Suc k)
  have "n div 16 < 16 ^ Suc k" using Suc.prems by (simp add: div_less_iff_less_mult mult.commute)
  from Suc.IH [OF this] show ?case by (subst hex_nat.simps) simp
qed

text \<open>C37: A payment of a unit whose label has less than ten hexadecimal digits is not recognised: the
  vehicle is known by the label without leading zeros, the payment comes with ten places, so the two
  never agree.  Nothing is stored, the barrier stays closed and the station stays busy.\<close>

theorem exit_obu_unrecognised:
  assumes "sIUNo (tExit s) = longToHex (tr_label tr)" and "tr_label tr < 16 ^ 9"
    and "tr_result tr = 1 \<or> tr_result tr = 2 \<or> tr_result tr = 8"
  shows "\<exists>t. processEEPTransData n c i tr s = Some t \<and> tExit t = tExit s \<and>
    effs is_store t = effs is_store s \<and> effs is_barrier t = effs is_barrier s"
proof -
  have "length (longToHex (tr_label tr)) \<le> 9"
    using hex_nat_length_le [of "tr_label tr" 8] assms(2) by (simp add: longToHex_def)
  moreover have "10 \<le> length (FnDecimalIntToHexString (tr_label tr) 5)"
    by (simp add: FnDecimalIntToHexString_def)
  ultimately have "FnDecimalIntToHexString (tr_label tr) 5 \<noteq> sIUNo (tExit s)"
    using assms(1) by auto
  moreover have "tExit (UpdateEEPExitTrans i a b cd f g r k s) = tExit s \<and>
      effs is_store (UpdateEEPExitTrans i a b cd f g r k s) = effs is_store s \<and>
      effs is_barrier (UpdateEEPExitTrans i a b cd f g r k s) = effs is_barrier s" for a b cd f g r k
    by (simp add: UpdateEEPExitTrans_def Let_def effs_emit split: option.split) (simp add: emit_def)
  ultimately show ?thesis using assms(3) by (auto simp: processEEPTransData_def obu_deducted_def)
qed

theorem exit_obu_unrecognised_witness:
  "\<exists>t. processEEPTransData 1 (demo_cfg 3) demo_in ((demo_answer 0x12)\<lparr>tr_result := 1\<rparr>)
      (on_exit (\<lambda>x. x\<lparr>sIUNo := ''12''\<rparr>) demo_busy) = Some t \<and> effs is_store t = []"
proof -
  let ?s = "on_exit (\<lambda>x. x\<lparr>sIUNo := ''12''\<rparr>) demo_busy" and ?tr = "(demo_answer 0x12)\<lparr>tr_result := 1\<rparr>"
  have l: "longToHex 0x12 = ''12''" by code_simp
  have "sIUNo (tExit ?s) = longToHex (tr_label ?tr)" "effs is_store ?s = []"
    by (simp_all add: l demo_answer_def on_exit_def effs_def demo_busy_def demo_exit_def)
  with exit_obu_unrecognised [of ?s ?tr 1 "demo_cfg 3" demo_in] show ?thesis
    by (auto simp: demo_answer_def)
qed

section \<open>Faults of the CHU\<close>

text \<open>C38: The codes of a failed deduction have eight digits, so their part from the sixth on has three:
  no code is ever taken for a reversed command or for one without balance by that part, and the
  only ones that mean a fault of the unit or a low balance are those that the other tests single out.\<close>

theorem exit_chu_fault:
  assumes "length code = 8"
  shows "chu_fault_of code = Some
    (if code = ''00000001'' then NoCardInUnit
     else if last code = CHR ''8'' then LowBalance
     else if take 4 (drop 1 code) = ''0004'' then NoBalance
     else if take 4 (drop 1 code) > ''0400'' then IuProblem
     else OtherFault)"
proof -
  have r: "take 8 (drop 5 code) = drop 5 code" "length (drop 5 code) = 3" "drop 5 code \<noteq> []"
    using assms by simp_all
  have l: "drop (length (drop 5 code) - 1) (drop 5 code) = [last code]"
  proof -
    have "code = butlast code @ [last code]" using assms by (cases "code = []") auto
    then have "drop 7 code = drop 7 (butlast code @ [last code])" by simp
    then show ?thesis using assms by simp
  qed
  have n: "drop 5 code \<noteq> w" if "length w = 4" for w :: string using r(2) that by auto
  show ?thesis
    using assms r l n by (simp add: chu_fault_of_def substr_def)
qed

theorem exit_chu_fault_witness:
  "chu_fault_of ''00000004'' = Some OtherFault \<and> chu_fault_of ''00000010'' = Some OtherFault"
  using exit_chu_fault [of "''00000004''"] exit_chu_fault [of "''00000010''"] by simp_all


section \<open>Tickets\<close>

text \<open>A ticket that is looked at switches the readers off first.\<close>

definition readers_off :: "xcfg \<Rightarrow> exit_st \<Rightarrow> exit_st" where
  "readers_off c s =
     (if sEnableReader s then switch_readers c False (s\<lparr>sEnableReader := False\<rparr>) else s)"

lemma switch_off:
  "sIUNo (tExit s) \<noteq> [] \<Longrightarrow> EnableCashcard (Suc n) c i False s = Some (readers_off c s)"
  using readers_quiet [of s n c i False] by (simp add: quiet_def readers_off_def) (simp add: key_def)

lemma readers_fields [simp]:
  "tExit (switch_readers c b s) = tExit s" "gsTransID (switch_readers c b s) = gsTransID s"
  "may_open (switch_readers c b s) = may_open s" "gbsavedtrans (switch_readers c b s) = gbsavedtrans s"
  by (simp_all add: switch_readers_def EnableLCSC_def EnableKDE_def EnableUPOS_def emit_def may_open_def)

lemma readers_off_may_open [simp]: "may_open (readers_off c s) = may_open s"
  by (simp add: readers_off_def) (simp add: may_open_def)

lemma readers_off_same [simp]:
  "tExit (readers_off c s) = tExit s" "gsTransID (readers_off c s) = gsTransID s"
  "heavy P \<Longrightarrow> effs P (readers_off c s) = effs P s" "pulse (readers_off c s) = pulse s"
  "gbsavedtrans (readers_off c s) = gbsavedtrans s"
  by (simp_all add: pulse_def) (simp_all add: readers_off_def)

text \<open>A number that is settled whatever is done about it: nothing stored, no move of the barrier, no fee
  and no redemption changed.\<close>

definition untouched :: "exit_st \<Rightarrow> exit_st \<Rightarrow> bool" where
  "untouched s t \<longleftrightarrow>
     effs is_store t = effs is_store s \<and> effs is_barrier t = effs is_barrier s \<and>
     sIUNo (tExit t) = sIUNo (tExit s) \<and> sFee (tExit t) = sFee (tExit s) \<and>
     sRedeemAmt (tExit t) = sRedeemAmt (tExit s) \<and> gbPaid (tExit t) = gbPaid (tExit s)"

lemma untouched_trans: "untouched s t \<Longrightarrow> untouched t u \<Longrightarrow> untouched s u"
  by (simp add: untouched_def)

lemma untouched_refl [simp]: "untouched s s"
  by (simp add: untouched_def)

lemma untouched_small [simp]:
  "untouched s (Show m u) = untouched s u" "untouched s (ShowLEDMsg p u) = untouched s u"
  "untouched s (SendMsg2Server cd txt u) = untouched s u" "untouched s (SendMsg2OBU o' d l u) = untouched s u"
  "untouched s (showFee2User c u) = untouched s u" "untouched s (readers_off c u) = untouched s u"
  "untouched s (inquire_again c i u) = untouched s u"
  "untouched s (switch_readers c b (u\<lparr>sEnableReader := b\<rparr>)) = untouched s u"
  by (simp_all add: untouched_def inquire_again_def)
    (simp_all add: show_defs SendMsg2OBU_def showFee2User_def Let_def EEPInq_def CHUInq_def SendMsg2CHU_def)

lemma switch_untouched:
  assumes "sIUNo (tExit s) \<noteq> []"
  shows "\<exists>t. EnableCashcard (Suc n) c i b s = Some t \<and> untouched s t"
  using readers_quiet [of s n c i b] assms by (auto simp: quiet_def) (simp_all add: key_def)

lemma ticket_refused_untouched:
  assumes "sIUNo (tExit s) \<noteq> []"
  shows "\<exists>t. ticket_refused c i (EnableCashcard (Suc n) c i) s = Some t \<and> untouched s t"
proof -
  define s2 where "s2 = (if bPayByEZPay (tExit (showFee2User c s))
    then ShowLEDMsg (''You may scan^Compl Ticket'', []) (showFee2User c s) else showFee2User c s)"
  have u: "untouched s s2" by (simp add: s2_def)
  with assms have "sIUNo (tExit s2) \<noteq> []" by (simp add: untouched_def)
  from switch_untouched [OF this, of n c i True] obtain t where
    t: "EnableCashcard (Suc n) c i True s2 = Some t" "untouched s2 t" by blast
  show ?thesis
    using t untouched_trans [OF u t(2)] by (simp add: ticket_refused_def Let_def s2_def [symmetric])
qed




lemma ticketOK_rows:
  assumes "sIUNo (tExit s) \<noteq> []" "whole_exit (tExit s)"
  shows "\<exists>y. settled ((tExit s)\<lparr>sCardNo := (if complimentary_ticket (tExit s) then sRedeemNo (tExit s)
        else sCardNo (tExit s))\<rparr>) y \<and>
      effs is_store (ticketOK c i s) = effs is_store s @ rows_of i y (gsTransID s) \<and>
      effs is_barrier (ticketOK c i s) = effs is_barrier s @ pulse s"
proof -
  define f where "f x = (if complimentary_ticket x
      then x\<lparr>sPaidAmt := 0, iTransType := 10, sCardNo := sRedeemNo x\<rparr> else x\<lparr>sPaidAmt := 0\<rparr>)" for x
  have t: "ticketOK c i s = CloseExitOperation c i FreeParking (on_exit f s)"
    unfolding ticketOK_def f_def ..
  have x: "tExit (on_exit f s) = f (tExit s)" "gsTransID (on_exit f s) = gsTransID s" "pulse (on_exit f s) = pulse s"
    by (simp_all add: on_exit_def pulse_def may_open_def)
  have s: "sIUNo (tExit (on_exit f s)) \<noteq> []" "whole_exit (tExit (on_exit f s))"
    using assms by (simp_all add: x f_def whole_exit_def)
  have k: "settled (f (tExit s)) y = settled ((tExit s)\<lparr>sCardNo := (if complimentary_ticket (tExit s)
      then sRedeemNo (tExit s) else sCardNo (tExit s))\<rparr>) y" for y
    by (simp add: f_def settled_def cut_redeem_def due_def)
  show ?thesis
    using CloseExitOperation_rows [OF s, of c i FreeParking]
    by (auto simp: x k t [symmetric] opens_at_end_def)
qed


definition demo_ticket_in :: xin where
  "demo_ticket_in = demo_in\<lparr>xdb := demo_xdb\<lparr>ticket_rows := (\<lambda>b t. Some [\<lparr>tr_valid_from = 1600000000,
     tr_valid_to = 1800000000, tr_used = [], tr_redeem_amt = Some 1, tr_redeem_time = Some 0\<rparr>])\<rparr>\<rparr>"

lemma demo_ticket:
  "fst (isValidBarCodeTicket demo_ticket_in False tk) = 1" "isValidBarCodeTicket demo_ticket_in True tk = (1, 1, 0)"
  by (simp_all add: isValidBarCodeTicket_def demo_ticket_in_def demo_in_def)



lemma showFee2User_paid:
  assumes "whole_cents (still_due (tExit s))"
  shows "tExit (showFee2User c s) = (tExit s)\<lparr>sPaidAmt := max 0 (still_due (tExit s))\<rparr>"
    "gsTransID (showFee2User c s) = gsTransID s" "may_open (showFee2User c s) = may_open s"
  using assms
  by (auto simp: showFee2User_def Let_def show_defs SendMsg2OBU_def max_def may_open_def)

lemma switch_known:
  assumes "sIUNo (tExit s) \<noteq> []"
  shows "\<exists>t. EnableCashcard (Suc n) c i b s = Some t \<and> untouched s t \<and> tExit t = tExit s"
  using readers_quiet [of s n c i b] assms by (auto simp: quiet_def) (simp_all add: key_def)

lemma pay_balance_known:
  assumes "sIUNo (tExit s) \<noteq> []"
  shows "\<exists>t. pay_balance c i (EnableCashcard (Suc n) c i) s = Some t \<and> untouched s t \<and> tExit t = tExit s"
proof -
  define u where "u = (if giEPS c = 3
      then SendMsg2OBU (sIUNo (tExit s)) 0
             (if iOBUType (tExit s) = 0
              then [''Ticket Accepted.'', ''Fee Paid:'' @ money (sRedeemAmt (tExit s)), ''Present Payment'']
              else [''Fee Paid'', money (sRedeemAmt (tExit s))]) s
      else s)"
  have u: "untouched s u" "tExit u = tExit s"
    by (simp_all add: u_def) (simp add: SendMsg2OBU_def emit_def)
  from switch_known [of u n c i True] assms u(2) obtain t where
    t: "EnableCashcard (Suc n) c i True u = Some t" "untouched u t" "tExit t = tExit u" by auto
  have x: "tExit (inquire_again c i (Show m t)) = tExit t" for m
    by (simp add: inquire_again_def EEPInq_def CHUInq_def SendMsg2CHU_def show_defs)
  show ?thesis
    using t u untouched_trans [OF u(1) t(2)]
    by (simp add: pay_balance_def Let_def u_def [symmetric] x)
qed



section \<open>Accounts\<close>

text \<open>C17: A vehicle that pays by EZPay or AXS, for which the barrier was opened before, is stored when it
  leaves the loop, once: if nothing was redeemed and it has not been stored, one exit is stored and
  marked; otherwise nothing is.\<close>

theorem exit_account_stored:
  assumes "sIUNo (tExit s) \<noteq> []" "whole_exit (tExit s)"
  shows "\<exists>t. exit_act (Suc n) c i LoopAOff s = Some t \<and> effs is_barrier t = effs is_barrier s \<and>
    (if registered (tExit s) \<and> sRedeemAmt (tExit s) = 0 \<and> \<not> gbsavedtrans s
     then gbsavedtrans t \<and> (\<exists>y. settled (tExit s) y \<and>
       effs is_store t = effs is_store s @ rows_of i y (gsTransID s))
     else effs is_store t = effs is_store s)"
proof -
  let ?cc = "EnableCashcard (Suc n) c i"
  define s2 where "s2 = emit (LcdBacklight 0) (stopLoopAPeriodicTimer (s\<lparr>gbLoopApresent := False\<rparr>))"
  have x2: "tExit s2 = tExit s" "gsTransID s2 = gsTransID s" "gbsavedtrans s2 = gbsavedtrans s"
    by (simp_all add: s2_def stopLoopAPeriodicTimer_def emit_def)
  have e2: "effs P s2 = effs P s" if "heavy P" for P
    using that by (simp add: s2_def effs_emit) (simp add: effs_def)
  define e where "e = (if sRedeemAmt (tExit s) = 0 \<and> \<not> gbsavedtrans s
    then if bPayByEZPay (tExit s) then Some EZPayParking
         else if bPayByAXS (tExit s) then Some AXSParking else None else None)"
  have eq: "exit_act (Suc n) c i LoopAOff s =
      Option.bind (case e of None \<Rightarrow> Some s2
                   | Some tt \<Rightarrow> map_option (CloseExitOperation c i tt) (?cc False s2))
        (\<lambda>s3. Option.bind (?cc False s3)
           (\<lambda>s4. Some (if giEPS c = 3 then emit EepGetOBUInfoStop s4 else s4)))"
    using assms(1) by (simp add: LoopAGone_def Let_def e_def s2_def [symmetric] x2)
  have fin: "\<exists>t. Option.bind (?cc False s3) (\<lambda>s4. Some (if giEPS c = 3 then emit EepGetOBUInfoStop s4 else s4)) = Some t \<and>
      gbsavedtrans t = gbsavedtrans s3 \<and> (\<forall>P. heavy P \<longrightarrow> effs P t = effs P s3)" if "quiet (key s3)" for s3
    using readers_quiet [OF that, of n c i False] by (simp add: effs_emit) (simp add: emit_def)
  show ?thesis
  proof (cases e)
    case None
    then have "\<not> (registered (tExit s) \<and> sRedeemAmt (tExit s) = 0 \<and> \<not> gbsavedtrans s)"
      by (auto simp: e_def registered_def split: if_splits)
    moreover have "quiet (key s2)" using assms(1) by (simp add: quiet_def key_def x2)
    ultimately show ?thesis using fin [of s2] None unfolding eq by (auto simp: e2)
  next
    case (Some tt)
    then have r: "registered (tExit s) \<and> sRedeemAmt (tExit s) = 0 \<and> \<not> gbsavedtrans s"
      and tt: "\<not> opens_at_end tt" by (auto simp: e_def registered_def opens_at_end_def split: if_splits)
    define s3 where "s3 = CloseExitOperation c i tt (readers_off c s2)"
    have o: "?cc False s2 = Some (readers_off c s2)" by (rule switch_off) (simp add: x2 assms(1))
    have c: "sIUNo (tExit (readers_off c s2)) \<noteq> []" "whole_exit (tExit (readers_off c s2))"
      using assms by (simp_all add: x2)
    obtain y where y: "settled (tExit s) y" "effs is_store s3 = effs is_store s @ rows_of i y (gsTransID s)"
      using CloseExitOperation_rows(1) [OF c, of c i tt] by (auto simp: s3_def x2 e2)
    have b: "effs is_barrier s3 = effs is_barrier s"
      using CloseExitOperation_rows(2) [OF c, of c i tt] tt by (simp add: s3_def e2)
    have k: "key s3 = paid_key (key (readers_off c s2))"
    proof -
      define m where "m = close_msg tt (tExit (on_exit (close_marks tt) (readers_off c s2)))"
      have "s3 = SaveExit c i (if fst m \<noteq> [] then ShowLEDMsg m (on_exit (close_marks tt) (readers_off c s2))
          else on_exit (close_marks tt) (readers_off c s2))"
        unfolding s3_def CloseExitOperation_def Let_def m_def opens_at_end_def [symmetric]
        by (simp only: tt if_False)
      then show ?thesis by (simp add: key_SaveExit key_on_exit)
    qed
    have "sIUNo (tExit (readers_off c s2)) \<noteq> []" by (rule c)
    then have "quiet (key s3)" "k_saved (key s3)" unfolding k by (simp_all add: quiet_def paid_key_def key_def)
    then have q: "quiet (key s3)" "gbsavedtrans s3" by (simp_all add: key_def)
    have "(case e of None \<Rightarrow> Some s2 | Some tt \<Rightarrow> map_option (CloseExitOperation c i tt) (?cc False s2)) = Some s3"
      by (simp add: Some o s3_def)
    with fin [OF q(1)] q(2) show ?thesis unfolding eq using r y b by auto
  qed
qed

theorem exit_account_stored_witness:
  "\<exists>t y. exit_act (Suc 0) (demo_cfg 0) demo_in LoopAOff (on_exit (\<lambda>x. x\<lparr>sRedeemAmt := 0, bPayByEZPay := True\<rparr>) demo_paid) = Some t \<and>
     gbsavedtrans t \<and> sPaidAmt y = 2 \<and> effs is_store t = rows_of demo_in y ''CP-1-1''"
proof -
  let ?s = "on_exit (\<lambda>x. x\<lparr>sRedeemAmt := 0, bPayByEZPay := True\<rparr>) demo_paid"
  have s: "sIUNo (tExit ?s) \<noteq> []" "whole_exit (tExit ?s)"
    "registered (tExit ?s) \<and> sRedeemAmt (tExit ?s) = 0 \<and> \<not> gbsavedtrans ?s"
    "due (tExit ?s) - cut_redeem (tExit ?s) = 2" "effs is_store ?s = []" "gsTransID ?s = ''CP-1-1''"
    by (simp_all add: on_exit_def demo_paid_def effs_def demo_exit_def demo_blank_def due_def registered_def
        whole_exit_def whole_cents_def cut_redeem_def)
  show ?thesis
    using exit_account_stored [OF s(1,2), of 0 "demo_cfg 0" demo_in] s(3-6) by (auto simp: settled_def)
qed

end
