(* ===== verification/Spec2Isabelle.thy ===== *)
theory Spec2Isabelle
  imports Ksm_Correct Dio Lcsc_Correct Lane_Theorems Fee_Theorems Ant_Theorems Exit_Outcomes
begin

text \<open>Header to come.\<close>

end
